(* ===== verification/Token_Prelude.thy ===== *)
theory Token_Prelude
  imports Main "HOL-Library.Word" "HOL-Library.Sublist"
begin

section \<open>Shared types, results and lemma collections\<close>

text \<open>
  What every component of the model shares: the types that stand for Rust's machine and
  standard-library types, the operators on \<open>Result\<close> and \<open>Option\<close> that the source chains
  with \<open>?\<close>, \<open>map\<close>, \<open>map_err\<close>, \<open>or\<close> and \<open>unwrap_or\<close>, and the lemma collections the
  component proofs draw on.

  A Rust \<open>str\<close>/\<open>String\<close> is a sequence of UTF-8 bytes and is modelled as a \<open>string\<close> (one
  \<open>char\<close> per byte). \<open>std::time::Instant\<close> is a number of nanoseconds on the monotonic
  clock and \<open>std::time::Duration\<close> a number of nanoseconds; the subtraction of \<open>nat\<close> stops at 0
  exactly as \<open>Instant::duration_since\<close> and \<open>Instant::elapsed\<close> saturate at zero.
\<close>

type_synonym instant = nat
type_synonym duration = nat
type_synonym u64 = "64 word"
type_synonym i64 = "64 word"
type_synonym bytes = "8 word list"

text \<open>\<open>Result<T, E>\<close> is the sum \<open>E + T\<close>; \<open>Ok\<close> and \<open>Err\<close> are its two injections.\<close>

abbreviation Ok :: "'a \<Rightarrow> 'e + 'a" where
  "Ok \<equiv> Inr"

abbreviation Err :: "'e \<Rightarrow> 'e + 'a" where
  "Err \<equiv> Inl"

text \<open>\<open>Duration::from_secs\<close>.\<close>

definition from_secs :: "nat \<Rightarrow> duration" where
  "from_secs s = s * 1000000000"

text \<open>\<open>str::as_bytes\<close>.\<close>

definition as_bytes :: "string \<Rightarrow> bytes" where
  "as_bytes s = map of_char s"

section \<open>Results\<close>

named_theorems result_iff \<open>when a chained result is Ok or Err\<close>

text \<open>The \<open>?\<close> operator: go on with the value, or return the error at once.\<close>

definition and_then :: "'e + 'a \<Rightarrow> ('a \<Rightarrow> 'e + 'b) \<Rightarrow> 'e + 'b" where
  "and_then r f = (case r of Inl e \<Rightarrow> Inl e | Inr x \<Rightarrow> f x)"

definition map_err :: "('e \<Rightarrow> 'f) \<Rightarrow> 'e + 'a \<Rightarrow> 'f + 'a" where
  "map_err f r = (case r of Inl e \<Rightarrow> Inl (f e) | Inr x \<Rightarrow> Inr x)"

definition map_ok :: "('a \<Rightarrow> 'b) \<Rightarrow> 'e + 'a \<Rightarrow> 'e + 'b" where
  "map_ok f r = (case r of Inl e \<Rightarrow> Inl e | Inr x \<Rightarrow> Inr (f x))"

definition ok_or :: "'e \<Rightarrow> 'a option \<Rightarrow> 'e + 'a" where
  "ok_or e m = (case m of None \<Rightarrow> Inl e | Some x \<Rightarrow> Inr x)"

definition is_ok :: "'e + 'a \<Rightarrow> bool" where
  "is_ok r = (case r of Inl _ \<Rightarrow> False | Inr _ \<Rightarrow> True)"

lemma and_then_simps [simp]:
  "and_then (Inl e) f = Inl e"
  "and_then (Inr x) f = f x"
  by (simp_all add: and_then_def)

lemma map_err_simps [simp]:
  "map_err g (Inl e) = Inl (g e)"
  "map_err g (Inr x) = Inr x"
  by (simp_all add: map_err_def)

lemma map_ok_simps [simp]:
  "map_ok g (Inl e) = Inl e"
  "map_ok g (Inr x) = Inr (g x)"
  by (simp_all add: map_ok_def)

lemma ok_or_simps [simp]:
  "ok_or e None = Inl e"
  "ok_or e (Some x) = Inr x"
  by (simp_all add: ok_or_def)

lemma is_ok_simps [simp]:
  "is_ok (Inl e) = False"
  "is_ok (Inr x) = True"
  by (simp_all add: is_ok_def)

lemma and_then_Ok_iff [result_iff]: "and_then r f = Inr y \<longleftrightarrow> (\<exists>x. r = Inr x \<and> f x = Inr y)"
  by (cases r) auto

lemma and_then_Err_iff [result_iff]:
  "and_then r f = Inl e \<longleftrightarrow> r = Inl e \<or> (\<exists>x. r = Inr x \<and> f x = Inl e)"
  by (cases r) auto

lemma map_err_Ok_iff [result_iff]: "map_err g r = Inr y \<longleftrightarrow> r = Inr y"
  by (cases r) auto

lemma map_err_Err_iff [result_iff]: "map_err g r = Inl e \<longleftrightarrow> (\<exists>e0. r = Inl e0 \<and> e = g e0)"
  by (cases r) auto

lemma map_ok_Ok_iff [result_iff]: "map_ok g r = Inr y \<longleftrightarrow> (\<exists>x. r = Inr x \<and> y = g x)"
  by (cases r) auto

lemma map_ok_Err_iff [result_iff]: "map_ok g r = Inl e \<longleftrightarrow> r = Inl e"
  by (cases r) auto

lemma ok_or_Ok_iff [result_iff]: "ok_or e m = Inr x \<longleftrightarrow> m = Some x"
  by (cases m) auto

lemma ok_or_Err_iff [result_iff]: "ok_or e m = Inl e' \<longleftrightarrow> m = None \<and> e' = e"
  by (cases m) auto

lemma is_ok_iff: "is_ok r \<longleftrightarrow> (\<exists>x. r = Inr x)"
  by (cases r) auto

section \<open>Options\<close>

definition unwrap_or :: "'a \<Rightarrow> 'a option \<Rightarrow> 'a" where
  "unwrap_or d m = (case m of None \<Rightarrow> d | Some x \<Rightarrow> x)"

text \<open>\<open>Option::or\<close>: the first option if it holds a value, else the second.\<close>

definition opt_or :: "'a option \<Rightarrow> 'a option \<Rightarrow> 'a option" where
  "opt_or a b = (case a of None \<Rightarrow> b | Some x \<Rightarrow> Some x)"

lemma unwrap_or_simps [simp]:
  "unwrap_or d None = d"
  "unwrap_or d (Some x) = x"
  by (simp_all add: unwrap_or_def)

lemma opt_or_simps [simp]:
  "opt_or None b = b"
  "opt_or (Some x) b = Some x"
  by (simp_all add: opt_or_def)

lemma opt_or_None_right [simp]: "opt_or a None = a"
  by (cases a) auto

section \<open>Lists and maps\<close>

text \<open>\<open>slice::first\<close>, and \<open>Iterator::next\<close> on a fresh iterator.\<close>

definition first :: "'a list \<Rightarrow> 'a option" where
  "first xs = (case xs of [] \<Rightarrow> None | x # _ \<Rightarrow> Some x)"

lemma first_simps [simp]:
  "first [] = None"
  "first (x # xs) = Some x"
  by (simp_all add: first_def)

lemma first_in_set: "first xs = Some x \<Longrightarrow> x \<in> set xs"
  by (cases xs) auto

lemma find_append: "find P (xs @ ys) = (case find P xs of None \<Rightarrow> find P ys | Some x \<Rightarrow> Some x)"
  by (induction xs) auto

lemma find_SomeD: "find P xs = Some x \<Longrightarrow> x \<in> set xs \<and> P x"
  by (induction xs) (auto split: if_splits)

lemma card_dom_update_le:
  assumes "finite (dom m)"
  shows "card (dom (m(k \<mapsto> v))) \<le> Suc (card (dom m))"
  using assms by (simp add: card_insert_if)

lemma finite_dom_restrict [intro]: "finite (dom m) \<Longrightarrow> finite (dom (m |` A))"
  by simp

end
