(* ===== verification/Jwt_Algorithm.thy ===== *)
theory Jwt_Algorithm
  imports Token_Prelude
begin

section \<open>Algorithms (src/service.rs, JwtAlgorithm)\<close>

text \<open>
  The enum \<open>JwtAlgorithm\<close>, its conversion into the algorithm type of the \<open>jsonwebtoken\<close>
  crate and the name that \<open>Debug\<close> prints for it. The crate's own enum is given by the
  variants the conversion names.
\<close>

datatype jwt_algorithm =
  HS256 | HS384 | HS512 | ES256 | ES384 | RS256 | RS384 | RS512 | PS256 | PS384 | PS512 | EdDSA

datatype lib_algorithm =
    LibHS256 | LibHS384 | LibHS512 | LibES256 | LibES384
  | LibRS256 | LibRS384 | LibRS512 | LibPS256 | LibPS384 | LibPS512 | LibEdDSA

text \<open>\<open>impl From<JwtAlgorithm> for jsonwebtoken::Algorithm\<close>.\<close>

fun to_lib_algorithm :: "jwt_algorithm \<Rightarrow> lib_algorithm" where
  "to_lib_algorithm HS256 = LibHS256"
| "to_lib_algorithm HS384 = LibHS384"
| "to_lib_algorithm HS512 = LibHS512"
| "to_lib_algorithm ES256 = LibES256"
| "to_lib_algorithm ES384 = LibES384"
| "to_lib_algorithm RS256 = LibRS256"
| "to_lib_algorithm RS384 = LibRS384"
| "to_lib_algorithm RS512 = LibRS512"
| "to_lib_algorithm PS256 = LibPS256"
| "to_lib_algorithm PS384 = LibPS384"
| "to_lib_algorithm PS512 = LibPS512"
| "to_lib_algorithm EdDSA = LibEdDSA"

text \<open>\<open>JwtConfig::config_alg_name\<close>, on the algorithm of the configuration.\<close>

fun alg_name :: "jwt_algorithm \<Rightarrow> string" where
  "alg_name HS256 = ''HS256''"
| "alg_name HS384 = ''HS384''"
| "alg_name HS512 = ''HS512''"
| "alg_name ES256 = ''ES256''"
| "alg_name ES384 = ''ES384''"
| "alg_name RS256 = ''RS256''"
| "alg_name RS384 = ''RS384''"
| "alg_name RS512 = ''RS512''"
| "alg_name PS256 = ''PS256''"
| "alg_name PS384 = ''PS384''"
| "alg_name PS512 = ''PS512''"
| "alg_name EdDSA = ''EdDSA''"

text \<open>
  The enum is finite, which the \<open>enum\<close> instance says; equality of values and of names is then
  decided by the simplifier case by case.
\<close>

instantiation jwt_algorithm :: enum
begin

definition enum_jwt_algorithm :: "jwt_algorithm list" where
  "enum_jwt_algorithm =
     [HS256, HS384, HS512, ES256, ES384, RS256, RS384, RS512, PS256, PS384, PS512, EdDSA]"

definition enum_all_jwt_algorithm :: "(jwt_algorithm \<Rightarrow> bool) \<Rightarrow> bool" where
  "enum_all_jwt_algorithm P = list_all P Enum.enum"

definition enum_ex_jwt_algorithm :: "(jwt_algorithm \<Rightarrow> bool) \<Rightarrow> bool" where
  "enum_ex_jwt_algorithm P = list_ex P Enum.enum"

instance
proof
  show univ: "(UNIV :: jwt_algorithm set) = set Enum.enum"
    unfolding enum_jwt_algorithm_def by (auto intro: jwt_algorithm.exhaust)
  show "distinct (Enum.enum :: jwt_algorithm list)"
    by (simp add: enum_jwt_algorithm_def)
  fix P :: "jwt_algorithm \<Rightarrow> bool"
  show "Enum.enum_all P = Ball UNIV P"
    by (simp only: univ enum_all_jwt_algorithm_def list_all_iff)
  show "Enum.enum_ex P = Bex UNIV P"
    by (simp only: univ enum_ex_jwt_algorithm_def list_ex_iff)
qed

end

section \<open>Families\<close>

text \<open>
  The groups of algorithms that the key loaders' \<open>match\<close> arms distinguish: HMAC, RSA
  (PKCS#1 and PSS), ECDSA and EdDSA.
\<close>

datatype key_family = Hmac | Rsa | Ec | Ed

fun family :: "jwt_algorithm \<Rightarrow> key_family" where
  "family HS256 = Hmac"
| "family HS384 = Hmac"
| "family HS512 = Hmac"
| "family RS256 = Rsa"
| "family RS384 = Rsa"
| "family RS512 = Rsa"
| "family PS256 = Rsa"
| "family PS384 = Rsa"
| "family PS512 = Rsa"
| "family ES256 = Ec"
| "family ES384 = Ec"
| "family EdDSA = Ed"

lemma to_lib_algorithm_inj: "to_lib_algorithm a = to_lib_algorithm b \<Longrightarrow> a = b"
  by (cases a; cases b) simp_all

lemma to_lib_algorithm_surj: "\<exists>a. to_lib_algorithm a = l"
  by (cases l) (blast intro: to_lib_algorithm.simps)+

lemma alg_name_inj: "alg_name a = alg_name b \<Longrightarrow> a = b"
  by (cases a; cases b) simp_all

end
