(* ===== verification/Jwt_Config.thy ===== *)
theory Jwt_Config
  imports Jwt_Algorithm
begin

section \<open>Configuration (src/service.rs, RotationKey and JwtConfig)\<close>

text \<open>
  The records \<open>RotationKey\<close> and \<open>JwtConfig\<close>, with all features compiled in (the fields
  \<open>key_id\<close> and \<open>rotation_keys\<close> exist under the feature \<open>rotation\<close>), their constructors and
  builder methods, and the manual \<open>Debug\<close> implementations. The interface of a builder method,
  a setter of one field, is the locale \<open>config_knob\<close>; every builder is an interpretation.
\<close>

subsection \<open>Constants\<close>

definition DEFAULT_LEEWAY_SECS :: u64 where
  "DEFAULT_LEEWAY_SECS = 60"

definition DEFAULT_REQUIRED_CLAIMS :: "string list" where
  "DEFAULT_REQUIRED_CLAIMS = [''exp'', ''iss'']"

definition DEFAULT_REVOCATION_MAX_ENTRIES :: nat where
  "DEFAULT_REVOCATION_MAX_ENTRIES = 100000"

subsection \<open>Rotation keys\<close>

record rotation_key =
  rk_secret :: string
  rk_key_id :: "string option"
  rk_public_key :: "string option"
  rk_der_public_key :: "bytes option"

definition rotation_key_new :: "string \<Rightarrow> string option \<Rightarrow> rotation_key" where
  "rotation_key_new secret key_id =
     \<lparr>rk_secret = secret, rk_key_id = key_id, rk_public_key = None, rk_der_public_key = None\<rparr>"

subsection \<open>The configuration record\<close>

record jwt_config =
  algorithm :: jwt_algorithm
  secret :: string
  der_private_key :: "bytes option"
  public_key :: "string option"
  der_public_key :: "bytes option"
  issuer :: "string option"
  audience :: "string option"
  audiences :: "string list"
  leeway :: "u64 option"
  required_claims :: "string list"
  validate_exp :: bool
  validate_nbf :: bool
  access_token_ttl :: i64
  refresh_token_ttl :: i64
  key_id :: "string option"
  rotation_keys :: "rotation_key list"

definition config_alg_name :: "jwt_config \<Rightarrow> string" where
  "config_alg_name cfg = alg_name (algorithm cfg)"

definition default_required_claims :: "string list" where
  "default_required_claims = map (\<lambda>c. c) DEFAULT_REQUIRED_CLAIMS"

text \<open>\<open>impl Default for JwtConfig\<close>.\<close>

definition default_config :: jwt_config where
  "default_config =
     \<lparr>algorithm = HS256, secret = [], der_private_key = None, public_key = None,
      der_public_key = None, issuer = None, audience = None, audiences = [], leeway = None,
      required_claims = default_required_claims, validate_exp = True, validate_nbf = False,
      access_token_ttl = 3600, refresh_token_ttl = 604800, key_id = None, rotation_keys = []\<rparr>"

definition with_rotation_keys :: "jwt_algorithm \<Rightarrow> rotation_key list \<Rightarrow> jwt_config" where
  "with_rotation_keys alg keys =
     (let primary = unwrap_or
            \<lparr>rk_secret = [], rk_key_id = None, rk_public_key = None, rk_der_public_key = None\<rparr>
            (first keys)
      in \<lparr>algorithm = alg, secret = rk_secret primary, der_private_key = None, public_key = None,
          der_public_key = None, issuer = None, audience = None, audiences = [], leeway = None,
          required_claims = default_required_claims, validate_exp = True, validate_nbf = False,
          access_token_ttl = 3600, refresh_token_ttl = 604800, key_id = rk_key_id primary,
          rotation_keys = keys\<rparr>)"

definition with_rotation_secrets :: "jwt_algorithm \<Rightarrow> string list \<Rightarrow> jwt_config" where
  "with_rotation_secrets alg secrets =
     with_rotation_keys alg (map (\<lambda>secret. rotation_key_new secret None) secrets)"

definition from_ec_pem :: "jwt_algorithm \<Rightarrow> string \<Rightarrow> jwt_config" where
  "from_ec_pem alg pem = default_config\<lparr>algorithm := alg, secret := pem\<rparr>"

definition from_ed_pem :: "string \<Rightarrow> jwt_config" where
  "from_ed_pem pem = default_config\<lparr>algorithm := EdDSA, secret := pem\<rparr>"

definition from_ed_der :: "bytes \<Rightarrow> jwt_config" where
  "from_ed_der der = default_config\<lparr>algorithm := EdDSA, der_private_key := Some der\<rparr>"

subsection \<open>Builder methods\<close>

definition with_public_key :: "string \<Rightarrow> jwt_config \<Rightarrow> jwt_config" where
  "with_public_key pem self = self\<lparr>public_key := Some pem\<rparr>"

definition with_der_public_key :: "bytes \<Rightarrow> jwt_config \<Rightarrow> jwt_config" where
  "with_der_public_key der self = self\<lparr>der_public_key := Some der\<rparr>"

definition with_leeway :: "u64 \<Rightarrow> jwt_config \<Rightarrow> jwt_config" where
  "with_leeway seconds self = self\<lparr>leeway := Some seconds\<rparr>"

definition with_audiences :: "string list \<Rightarrow> jwt_config \<Rightarrow> jwt_config" where
  "with_audiences auds self = self\<lparr>audiences := auds\<rparr>"

definition with_required_claims :: "string list \<Rightarrow> jwt_config \<Rightarrow> jwt_config" where
  "with_required_claims claims self = self\<lparr>required_claims := claims\<rparr>"

definition with_validate_exp :: "bool \<Rightarrow> jwt_config \<Rightarrow> jwt_config" where
  "with_validate_exp validate self = self\<lparr>validate_exp := validate\<rparr>"

definition with_validate_nbf :: "bool \<Rightarrow> jwt_config \<Rightarrow> jwt_config" where
  "with_validate_nbf validate self = self\<lparr>validate_nbf := validate\<rparr>"

lemmas builder_defs =
  with_public_key_def with_der_public_key_def with_leeway_def with_audiences_def
  with_required_claims_def with_validate_exp_def with_validate_nbf_def

subsection \<open>Debug output\<close>

text \<open>
  The values that \<open>debug_struct\<close> and \<open>field\<close> of the standard library build before they are
  laid out as text: every leaf is a string, a flag, a number or an absent option.
\<close>

datatype dbg =
    DbgStr string
  | DbgBool bool
  | DbgInt int
  | DbgNone
  | DbgSome dbg
  | DbgList "dbg list"
  | DbgStruct string "(string \<times> dbg) list"

definition dbg_option :: "('a \<Rightarrow> dbg) \<Rightarrow> 'a option \<Rightarrow> dbg" where
  "dbg_option f m = (case m of None \<Rightarrow> DbgNone | Some x \<Rightarrow> DbgSome (f x))"

definition rotation_key_fmt :: "rotation_key \<Rightarrow> dbg" where
  "rotation_key_fmt self = DbgStruct ''RotationKey''
     [(''key_id'', dbg_option DbgStr (rk_key_id self)),
      (''secret'', DbgStr ''<redacted>''),
      (''public_key'', dbg_option DbgStr (map_option (\<lambda>_. ''<pem>'') (rk_public_key self))),
      (''der_public_key'', DbgBool (rk_der_public_key self \<noteq> None))]"

definition jwt_config_fmt :: "jwt_config \<Rightarrow> dbg" where
  "jwt_config_fmt self = DbgStruct ''JwtConfig''
     ([(''algorithm'', DbgStr (config_alg_name self)),
       (''secret'', DbgStr ''<redacted>''),
       (''der_private_key'',
          dbg_option DbgStr (map_option (\<lambda>_. ''<redacted>'') (der_private_key self))),
       (''public_key'', dbg_option DbgStr (map_option (\<lambda>_. ''<pem>'') (public_key self))),
       (''der_public_key'', DbgBool (der_public_key self \<noteq> None)),
       (''issuer'', dbg_option DbgStr (issuer self)),
       (''audience'', dbg_option DbgStr (audience self)),
       (''audiences'', DbgList (map DbgStr (audiences self))),
       (''leeway'', dbg_option (\<lambda>n. DbgInt (uint n)) (leeway self)),
       (''required_claims'', DbgList (map DbgStr (required_claims self))),
       (''validate_exp'', DbgBool (validate_exp self)),
       (''validate_nbf'', DbgBool (validate_nbf self)),
       (''access_token_ttl'', DbgInt (sint (access_token_ttl self))),
       (''refresh_token_ttl'', DbgInt (sint (refresh_token_ttl self)))]
      @ [(''key_id'', dbg_option DbgStr (key_id self)),
         (''rotation_keys'', DbgInt (int (length (rotation_keys self))))])"

text \<open>The strings a debug value shows as field values.\<close>

fun dbg_strings :: "dbg \<Rightarrow> string set" where
  "dbg_strings (DbgStr s) = {s}"
| "dbg_strings (DbgBool _) = {}"
| "dbg_strings (DbgInt _) = {}"
| "dbg_strings DbgNone = {}"
| "dbg_strings (DbgSome d) = dbg_strings d"
| "dbg_strings (DbgList ds) = (\<Union>d \<in> set ds. dbg_strings d)"
| "dbg_strings (DbgStruct _ fs) = (\<Union>f \<in> set fs. dbg_strings (snd f))"

lemma dbg_strings_option [simp]:
  "dbg_strings (dbg_option DbgStr m) = set_option m"
  "dbg_strings (dbg_option (\<lambda>n. DbgInt (g n)) k) = {}"
  by (cases m, simp_all add: dbg_option_def) (cases k, simp_all)

section \<open>The interface of a builder method\<close>

text \<open>
  A builder writes one field: what is read back is the value written (through an embedding
  such as \<open>Some\<close>), a second call overrides the first, and writing what is already there
  changes nothing.
\<close>

locale config_knob =
  fixes get :: "jwt_config \<Rightarrow> 'b"
    and put :: "'a \<Rightarrow> jwt_config \<Rightarrow> jwt_config"
    and embed :: "'a \<Rightarrow> 'b"
  assumes get_put: "get (put v c) = embed v"
    and put_put: "put v (put w c) = put v c"
    and put_get: "get c = embed v \<Longrightarrow> put v c = c"
begin

lemma put_idem: "put v (put v c) = put v c"
  by (rule put_put)

lemma put_noop_iff: "put v c = c \<longleftrightarrow> get c = embed v"
  using get_put put_get by metis

lemma fold_put_last: "fold put (vs @ [v]) c = put v c"
proof (induction vs arbitrary: c)
  case Nil
  then show ?case by simp
next
  case (Cons w ws)
  then show ?case by (simp add: put_put)
qed

end

interpretation public_key_knob: config_knob public_key with_public_key Some
  by unfold_locales (auto simp: builder_defs)

interpretation der_public_key_knob: config_knob der_public_key with_der_public_key Some
  by unfold_locales (auto simp: builder_defs)

interpretation leeway_knob: config_knob leeway with_leeway Some
  by unfold_locales (auto simp: builder_defs)

interpretation audiences_knob: config_knob audiences with_audiences "\<lambda>x. x"
  by unfold_locales (auto simp: builder_defs)

interpretation required_claims_knob: config_knob required_claims with_required_claims "\<lambda>x. x"
  by unfold_locales (auto simp: builder_defs)

interpretation validate_exp_knob: config_knob validate_exp with_validate_exp "\<lambda>x. x"
  by unfold_locales (auto simp: builder_defs)

interpretation validate_nbf_knob: config_knob validate_nbf with_validate_nbf "\<lambda>x. x"
  by unfold_locales (auto simp: builder_defs)

lemma jwt_config_eqI:
  fixes c d :: jwt_config
  assumes "algorithm c = algorithm d" "secret c = secret d" "der_private_key c = der_private_key d"
    "public_key c = public_key d" "der_public_key c = der_public_key d" "issuer c = issuer d"
    "audience c = audience d" "audiences c = audiences d" "leeway c = leeway d"
    "required_claims c = required_claims d" "validate_exp c = validate_exp d"
    "validate_nbf c = validate_nbf d" "access_token_ttl c = access_token_ttl d"
    "refresh_token_ttl c = refresh_token_ttl d" "key_id c = key_id d"
    "rotation_keys c = rotation_keys d"
  shows "c = d"
  using assms by (cases c; cases d) simp

lemma with_rotation_keys_Cons [simp]:
  "secret (with_rotation_keys alg (k # ks)) = rk_secret k"
  "key_id (with_rotation_keys alg (k # ks)) = rk_key_id k"
  by (simp_all add: with_rotation_keys_def Let_def)

lemma with_rotation_keys_Nil [simp]:
  "secret (with_rotation_keys alg []) = []"
  "key_id (with_rotation_keys alg []) = None"
  by (simp_all add: with_rotation_keys_def Let_def)

lemma with_rotation_keys_rest [simp]:
  "algorithm (with_rotation_keys alg ks) = alg"
  "rotation_keys (with_rotation_keys alg ks) = ks"
  "public_key (with_rotation_keys alg ks) = None"
  "der_public_key (with_rotation_keys alg ks) = None"
  "der_private_key (with_rotation_keys alg ks) = None"
  "issuer (with_rotation_keys alg ks) = None"
  "audience (with_rotation_keys alg ks) = None"
  "audiences (with_rotation_keys alg ks) = []"
  "leeway (with_rotation_keys alg ks) = None"
  "required_claims (with_rotation_keys alg ks) = [''exp'', ''iss'']"
  "validate_exp (with_rotation_keys alg ks) = True"
  "validate_nbf (with_rotation_keys alg ks) = False"
  by (simp_all add: with_rotation_keys_def Let_def default_required_claims_def
      DEFAULT_REQUIRED_CLAIMS_def)

lemma default_config_simps [simp]:
  "algorithm default_config = HS256"
  "secret default_config = []"
  "issuer default_config = None"
  "audience default_config = None"
  "audiences default_config = []"
  "leeway default_config = None"
  "required_claims default_config = [''exp'', ''iss'']"
  "validate_exp default_config = True"
  "validate_nbf default_config = False"
  "key_id default_config = None"
  "rotation_keys default_config = []"
  "public_key default_config = None"
  "der_public_key default_config = None"
  "der_private_key default_config = None"
  by (simp_all add: default_config_def default_required_claims_def DEFAULT_REQUIRED_CLAIMS_def)

section \<open>Properties\<close>

text \<open>
  The \<open>Debug\<close> output of a configuration is independent of every secret: replacing the
  signing secret, the private DER bytes and all the material inside the public keys and the
  rotation keys leaves it unchanged, and every string it shows is a fixed marker, the algorithm
  name, or one of the non-secret fields.
\<close>

theorem jwt_config_debug_redacts:
  "jwt_config_fmt (c\<lparr>secret := s, der_private_key := map_option f (der_private_key c),
       public_key := map_option g (public_key c), der_public_key := map_option h (der_public_key c),
       rotation_keys := map r (rotation_keys c)\<rparr>) = jwt_config_fmt c
   \<and> dbg_strings (jwt_config_fmt c) \<subseteq>
       {''<redacted>'', ''<pem>'', alg_name (algorithm c)} \<union> set_option (issuer c)
       \<union> set_option (audience c) \<union> set (audiences c) \<union> set (required_claims c)
       \<union> set_option (key_id c)"
  by (auto simp: jwt_config_fmt_def config_alg_name_def option.map_comp comp_def option.set_map)

end
