(* ===== verification/Jwt_Library.thy ===== *)
theory Jwt_Library
  imports Jwt_Config
begin

section \<open>The libraries the service is built on\<close>

text \<open>
  The crates \<open>jsonwebtoken\<close>, \<open>chrono\<close> and \<open>uuid\<close> are not part of the repository. Their
  functions are the fields of the records below, arguments of every definition that calls
  them, and nothing is assumed of them here. An error of a library is the text its
  \<open>Display\<close> gives, which is all the source reads of it.

  \<open>'ek\<close> and \<open>'dk\<close> are the crate's encoding and decoding keys, \<open>'c\<close> the claims type that a call
  of \<open>encode\<close> or \<open>decode\<close> is instantiated with.
\<close>

text \<open>The fields of \<open>jsonwebtoken::Header\<close> that the source reads or writes.\<close>

record header =
  h_alg :: lib_algorithm
  h_kid :: "string option"

text \<open>
  The public fields of \<open>jsonwebtoken::Validation\<close> that the source sets, directly or through
  the setters of the crate.
\<close>

record validation =
  v_algorithms :: "lib_algorithm list"
  v_leeway :: u64
  v_validate_exp :: bool
  v_validate_nbf :: bool
  v_required_spec_claims :: "string set"
  v_iss :: "string set option"
  v_aud :: "string set option"

record ('ek, 'dk, 'c) jwt_lib =
  ek_from_secret :: "bytes \<Rightarrow> 'ek"
  ek_from_rsa_pem :: "bytes \<Rightarrow> string + 'ek"
  ek_from_ec_der :: "bytes \<Rightarrow> 'ek"
  ek_from_ec_pem :: "bytes \<Rightarrow> string + 'ek"
  ek_from_ed_der :: "bytes \<Rightarrow> 'ek"
  ek_from_ed_pem :: "bytes \<Rightarrow> string + 'ek"
  dk_from_secret :: "bytes \<Rightarrow> 'dk"
  dk_from_rsa_der :: "bytes \<Rightarrow> 'dk"
  dk_from_rsa_pem :: "bytes \<Rightarrow> string + 'dk"
  dk_from_ec_der :: "bytes \<Rightarrow> 'dk"
  dk_from_ec_pem :: "bytes \<Rightarrow> string + 'dk"
  dk_from_ed_der :: "bytes \<Rightarrow> 'dk"
  dk_from_ed_pem :: "bytes \<Rightarrow> string + 'dk"
  header_new :: "lib_algorithm \<Rightarrow> header"
  validation_new :: "lib_algorithm \<Rightarrow> validation"
  set_required_spec_claims :: "string list \<Rightarrow> validation \<Rightarrow> validation"
  set_issuer :: "string list \<Rightarrow> validation \<Rightarrow> validation"
  set_audience :: "string list \<Rightarrow> validation \<Rightarrow> validation"
  lib_encode :: "header \<Rightarrow> 'c \<Rightarrow> 'ek \<Rightarrow> string + string"
  lib_decode :: "string \<Rightarrow> 'dk \<Rightarrow> validation \<Rightarrow> string + 'c"
  lib_decode_header :: "string \<Rightarrow> string + header"

text \<open>
  \<open>chrono\<close>: \<open>add_seconds t n\<close> is \<open>t + Duration::seconds(n)\<close>, which panics when \<open>n\<close> or the sum is
  out of the crate's range (\<open>None\<close>); \<open>timestamp\<close> and \<open>from_timestamp\<close> are the conversions to and
  from whole seconds that \<open>chrono::serde::ts_seconds_option\<close> uses (\<open>None\<close>: out of range).
\<close>

record 'dt chrono_lib =
  add_seconds :: "'dt \<Rightarrow> i64 \<Rightarrow> 'dt option"
  timestamp :: "'dt \<Rightarrow> int"
  from_timestamp :: "int \<Rightarrow> 'dt option"

section \<open>Documented behaviour, as named hypotheses\<close>

text \<open>
  What the crate documents of \<open>Header::new\<close>, \<open>Validation::new\<close> and the three setters. These
  are hypotheses of the theorems that name them, never facts of the development.
\<close>

definition constructors_documented :: "('ek, 'dk, 'c) jwt_lib \<Rightarrow> bool" where
  "constructors_documented L \<longleftrightarrow>
     (\<forall>a. h_alg (header_new L a) = a \<and> h_kid (header_new L a) = None)
   \<and> (\<forall>a. v_algorithms (validation_new L a) = [a]
          \<and> v_iss (validation_new L a) = None \<and> v_aud (validation_new L a) = None)
   \<and> (\<forall>cs v. set_required_spec_claims L cs v = v\<lparr>v_required_spec_claims := set cs\<rparr>)
   \<and> (\<forall>is v. set_issuer L is v = v\<lparr>v_iss := Some (set is)\<rparr>)
   \<and> (\<forall>as v. set_audience L as v = v\<lparr>v_aud := Some (set as)\<rparr>)"

lemma constructors_documentedD:
  assumes "constructors_documented L"
  shows "h_alg (header_new L a) = a"
    and "h_kid (header_new L a) = None"
    and "v_algorithms (validation_new L a) = [a]"
    and "v_iss (validation_new L a) = None"
    and "v_aud (validation_new L a) = None"
    and "set_required_spec_claims L cs v = v\<lparr>v_required_spec_claims := set cs\<rparr>"
    and "set_issuer L is v = v\<lparr>v_iss := Some (set is)\<rparr>"
    and "set_audience L as v = v\<lparr>v_aud := Some (set as)\<rparr>"
  using assms by (simp_all add: constructors_documented_def)

text \<open>
  What a token says: the algorithm of its header and the registered claims of its payload, as far
  as they can be read: \<open>tf_present\<close> holds the names of the claims that are there in the form the
  crate parses, \<open>iss\<close> and \<open>aud\<close> are sets because both may be a text or an array of texts.
\<close>

record token_facts =
  tf_alg :: lib_algorithm
  tf_present :: "string set"
  tf_exp :: "nat option"
  tf_nbf :: "nat option"
  tf_iss :: "string set option"
  tf_aud :: "string set option"

text \<open>
  The names that the crate documents for \<open>required_spec_claims\<close>; any other name is ignored.
\<close>

definition spec_claims :: "string set" where
  "spec_claims = {''exp'', ''nbf'', ''aud'', ''iss'', ''sub''}"

lemma spec_claims_iff [simp]:
  "x \<in> spec_claims \<longleftrightarrow> x = ''exp'' \<or> x = ''nbf'' \<or> x = ''aud'' \<or> x = ''iss'' \<or> x = ''sub''"
  by (simp add: spec_claims_def)

text \<open>
  The checks the crate documents for a \<open>Validation\<close>: the algorithm is one of
  \<open>algorithms\<close>, the required claims among the five are present, \<open>exp\<close> and \<open>nbf\<close> are checked against
  the clock with the leeway when their flag is set, and one of the values of \<open>iss\<close> and of \<open>aud\<close>,
  where present, is an accepted one when these are given.
\<close>

definition passes :: "nat \<Rightarrow> validation \<Rightarrow> token_facts \<Rightarrow> bool" where
  "passes now v f \<longleftrightarrow>
     tf_alg f \<in> set (v_algorithms v)
   \<and> v_required_spec_claims v \<inter> spec_claims \<subseteq> tf_present f
   \<and> (v_validate_exp v \<longrightarrow> (\<forall>e. tf_exp f = Some e \<longrightarrow> now \<le> e + unat (v_leeway v)))
   \<and> (v_validate_nbf v \<longrightarrow> (\<forall>n. tf_nbf f = Some n \<longrightarrow> n \<le> now + unat (v_leeway v)))
   \<and> (\<forall>S I. v_iss v = Some S \<longrightarrow> tf_iss f = Some I \<longrightarrow> I \<inter> S \<noteq> {})
   \<and> (\<forall>S A. v_aud v = Some S \<longrightarrow> tf_aud f = Some A \<longrightarrow> A \<inter> S \<noteq> {})"

text \<open>
  \<open>decode\<close> accepts a token only if it passes the validation at the clock's reading \<open>now\<close>;
  \<open>facts\<close> is what the tokens say.
\<close>

definition decode_enforces ::
    "('ek, 'dk, 'c) jwt_lib \<Rightarrow> nat \<Rightarrow> (string \<Rightarrow> token_facts) \<Rightarrow> bool" where
  "decode_enforces L now facts \<longleftrightarrow>
     (\<forall>tok k v c. lib_decode L tok k v = Ok c \<longrightarrow> passes now v (facts tok))"

lemma decode_enforcesD:
  "decode_enforces L now facts \<Longrightarrow> lib_decode L tok k v = Ok c \<Longrightarrow> passes now v (facts tok)"
  by (auto simp: decode_enforces_def)

text \<open>
  When \<open>decode\<close> is sure to accept a token under the right key: a token that carries \<open>aud\<close> must
  in addition be given accepted values to compare with.
\<close>

definition surely_passes :: "nat \<Rightarrow> validation \<Rightarrow> token_facts \<Rightarrow> bool" where
  "surely_passes now v f \<longleftrightarrow> passes now v f \<and> (v_aud v = None \<longrightarrow> tf_aud f = None)"

text \<open>
  A token that \<open>encode\<close> produced carries the header it was given, and \<open>decode\<close> returns the
  encoded claims under a key that matches the encoding key whenever the token surely passes the
  validation; \<open>matches ek dk\<close> says that \<open>dk\<close> verifies what \<open>ek\<close> signs. This is said of a
  claims type whose serialization loses nothing; \<open>standard_payload\<close> in the theory
  \<open>Token_Lifecycle\<close> is the version for \<open>StandardClaims\<close>, which cuts times to seconds.
\<close>

definition encode_decodes ::
    "('ek, 'dk, 'c) jwt_lib \<Rightarrow> ('ek \<Rightarrow> 'dk \<Rightarrow> bool) \<Rightarrow> nat \<Rightarrow> (string \<Rightarrow> token_facts) \<Rightarrow> bool" where
  "encode_decodes L matches now facts \<longleftrightarrow>
     (\<forall>h c ek tok. lib_encode L h c ek = Ok tok \<longrightarrow>
        lib_decode_header L tok = Ok h
      \<and> (\<forall>dk v. matches ek dk \<longrightarrow> surely_passes now v (facts tok) \<longrightarrow> lib_decode L tok dk v = Ok c))"

lemma encode_decodesD:
  assumes "encode_decodes L matches now facts" "lib_encode L h c ek = Ok tok"
  shows "lib_decode_header L tok = Ok h"
    and "matches ek dk \<Longrightarrow> surely_passes now v (facts tok) \<Longrightarrow> lib_decode L tok dk v = Ok c"
  using assms unfolding encode_decodes_def by blast+

end
