(* ===== verification/Jwt_Error.thy ===== *)
theory Jwt_Error
  imports Token_Prelude
begin

section \<open>The error type (src/error.rs)\<close>

text \<open>
  \<open>JwtError\<close> with the source's variants, and the \<open>Display\<close> text its \<open>#[error("...")]\<close>
  attributes give. Errors of the libraries below appear in it as the text the source takes from
  them with \<open>to_string\<close>.
\<close>

datatype jwt_error =
    EncodingFailed
  | DecodingFailed string
  | Expired
  | InvalidSignature
  | Revoked
  | InvalidSecret string
  | KeyLoading string
  | Jwks string
  | AlgorithmMismatch (token_alg: string) (key_alg: string)

fun display :: "jwt_error \<Rightarrow> string" where
  "display EncodingFailed = ''failed to encode JWT''"
| "display (DecodingFailed m) = ''failed to decode JWT: '' @ m"
| "display Expired = ''token has expired''"
| "display InvalidSignature = ''invalid signature''"
| "display Revoked = ''token has been revoked''"
| "display (InvalidSecret m) = ''invalid secret or key: '' @ m"
| "display (KeyLoading m) = ''failed to load signing key: '' @ m"
| "display (Jwks m) = ''JWKS error: '' @ m"
| "display (AlgorithmMismatch t k) =
     ''algorithm mismatch: token header `'' @ t @ ''` vs key `'' @ k @ ''`''"

text \<open>\<open>key_load_error\<close> of src/service.rs.\<close>

definition key_load_error :: "string \<Rightarrow> jwt_error" where
  "key_load_error e = KeyLoading e"

end
