(* ===== verification/Jwt_Keys.thy ===== *)
theory Jwt_Keys
  imports Jwt_Library Jwt_Error
begin

section \<open>Loading keys (src/service.rs)\<close>

text \<open>
  \<open>encoding_key_for\<close> and \<open>decoding_key_for\<close> with the arms of their \<open>match\<close> in the source's
  order, and the candidate list \<open>decoding_keys\<close> of the feature \<open>rotation\<close>: the primary key,
  then every rotation key, stopping at the first that cannot be loaded.
\<close>

definition encoding_key_for ::
    "('ek, 'dk, 'c) jwt_lib \<Rightarrow> jwt_algorithm \<Rightarrow> string \<Rightarrow> bytes option \<Rightarrow> jwt_error + 'ek" where
  "encoding_key_for L alg sec der =
     (if alg \<in> {HS256, HS384, HS512} then Ok (ek_from_secret L (as_bytes sec))
      else if alg \<in> {RS256, RS384, RS512, PS256, PS384, PS512} then
        map_err key_load_error (ek_from_rsa_pem L (as_bytes sec))
      else if alg \<in> {ES256, ES384} then
        (case der of
           Some d \<Rightarrow> Ok (ek_from_ec_der L d)
         | None \<Rightarrow> map_err key_load_error (ek_from_ec_pem L (as_bytes sec)))
      else
        (case der of
           Some d \<Rightarrow> Ok (ek_from_ed_der L d)
         | None \<Rightarrow> map_err key_load_error (ek_from_ed_pem L (as_bytes sec))))"

definition decoding_key_for ::
    "('ek, 'dk, 'c) jwt_lib \<Rightarrow> jwt_algorithm \<Rightarrow> string option \<Rightarrow> bytes option \<Rightarrow> string
      \<Rightarrow> jwt_error + 'dk" where
  "decoding_key_for L alg public_pem public_der sec =
     (if alg \<in> {HS256, HS384, HS512} then Ok (dk_from_secret L (as_bytes sec))
      else if alg \<in> {RS256, RS384, RS512, PS256, PS384, PS512} then
        (case public_der of
           Some der \<Rightarrow> Ok (dk_from_rsa_der L der)
         | None \<Rightarrow> map_err key_load_error
             (dk_from_rsa_pem L (as_bytes (unwrap_or sec public_pem))))
      else if alg \<in> {ES256, ES384} then
        (case public_der of
           Some der \<Rightarrow> Ok (dk_from_ec_der L der)
         | None \<Rightarrow> map_err key_load_error
             (dk_from_ec_pem L (as_bytes (unwrap_or sec public_pem))))
      else
        (case public_der of
           Some der \<Rightarrow> Ok (dk_from_ed_der L der)
         | None \<Rightarrow> map_err key_load_error
             (dk_from_ed_pem L (as_bytes (unwrap_or sec public_pem)))))"

definition encoding_key :: "('ek, 'dk, 'c) jwt_lib \<Rightarrow> jwt_config \<Rightarrow> jwt_error + 'ek" where
  "encoding_key L cfg = encoding_key_for L (algorithm cfg) (secret cfg) (der_private_key cfg)"

text \<open>\<open>JwtService::decoding_key\<close>, compiled without the feature \<open>rotation\<close>.\<close>

definition decoding_key :: "('ek, 'dk, 'c) jwt_lib \<Rightarrow> jwt_config \<Rightarrow> jwt_error + 'dk" where
  "decoding_key L cfg =
     decoding_key_for L (algorithm cfg) (public_key cfg) (der_public_key cfg) (secret cfg)"

text \<open>The key of one rotation entry, its public material falling back to the configuration's.\<close>

definition rotation_entry_key ::
    "('ek, 'dk, 'c) jwt_lib \<Rightarrow> jwt_config \<Rightarrow> rotation_key \<Rightarrow> jwt_error + 'dk" where
  "rotation_entry_key L cfg entry =
     decoding_key_for L (algorithm cfg)
       (opt_or (rk_public_key entry) (public_key cfg))
       (opt_or (rk_der_public_key entry) (der_public_key cfg))
       (rk_secret entry)"

text \<open>The loop over the rotation keys: \<open>keys\<close> is the vector pushed to so far.\<close>

fun push_rotation_keys ::
    "('ek, 'dk, 'c) jwt_lib \<Rightarrow> jwt_config \<Rightarrow> (string option \<times> 'dk) list \<Rightarrow> rotation_key list
      \<Rightarrow> jwt_error + (string option \<times> 'dk) list" where
  "push_rotation_keys L cfg keys [] = Ok keys"
| "push_rotation_keys L cfg keys (entry # rest) =
     and_then (rotation_entry_key L cfg entry)
       (\<lambda>key. push_rotation_keys L cfg (keys @ [(rk_key_id entry, key)]) rest)"

definition decoding_keys ::
    "('ek, 'dk, 'c) jwt_lib \<Rightarrow> jwt_config \<Rightarrow> jwt_error + (string option \<times> 'dk) list" where
  "decoding_keys L cfg =
     and_then (decoding_key_for L (algorithm cfg) (public_key cfg) (der_public_key cfg) (secret cfg))
       (\<lambda>key. push_rotation_keys L cfg [(key_id cfg, key)] (rotation_keys cfg))"

section \<open>Lemmas\<close>

lemma family_sets:
  "alg \<in> {HS256, HS384, HS512} \<longleftrightarrow> family alg = Hmac"
  "alg \<in> {RS256, RS384, RS512, PS256, PS384, PS512} \<longleftrightarrow> family alg = Rsa"
  "alg \<in> {ES256, ES384} \<longleftrightarrow> family alg = Ec"
  by (cases alg; simp)+

lemma encoding_key_for_family:
  "encoding_key_for L alg sec der =
     (case family alg of
        Hmac \<Rightarrow> Ok (ek_from_secret L (as_bytes sec))
      | Rsa \<Rightarrow> map_err KeyLoading (ek_from_rsa_pem L (as_bytes sec))
      | Ec \<Rightarrow> (case der of Some d \<Rightarrow> Ok (ek_from_ec_der L d)
               | None \<Rightarrow> map_err KeyLoading (ek_from_ec_pem L (as_bytes sec)))
      | Ed \<Rightarrow> (case der of Some d \<Rightarrow> Ok (ek_from_ed_der L d)
               | None \<Rightarrow> map_err KeyLoading (ek_from_ed_pem L (as_bytes sec))))"
  unfolding encoding_key_for_def family_sets
  by (cases "family alg") (auto simp: key_load_error_def[abs_def] split: option.splits)

lemma decoding_key_for_family:
  "decoding_key_for L alg pem der sec =
     (case family alg of
        Hmac \<Rightarrow> Ok (dk_from_secret L (as_bytes sec))
      | Rsa \<Rightarrow> (case der of Some d \<Rightarrow> Ok (dk_from_rsa_der L d)
               | None \<Rightarrow> map_err KeyLoading (dk_from_rsa_pem L (as_bytes (unwrap_or sec pem))))
      | Ec \<Rightarrow> (case der of Some d \<Rightarrow> Ok (dk_from_ec_der L d)
               | None \<Rightarrow> map_err KeyLoading (dk_from_ec_pem L (as_bytes (unwrap_or sec pem))))
      | Ed \<Rightarrow> (case der of Some d \<Rightarrow> Ok (dk_from_ed_der L d)
               | None \<Rightarrow> map_err KeyLoading (dk_from_ed_pem L (as_bytes (unwrap_or sec pem)))))"
  unfolding decoding_key_for_def family_sets
  by (cases "family alg") (auto simp: key_load_error_def[abs_def] split: option.splits)

lemma encoding_key_for_error:
  "encoding_key_for L alg sec der = Err e \<Longrightarrow> \<exists>m. e = KeyLoading m"
  by (auto simp: encoding_key_for_family result_iff split: key_family.splits option.splits)

lemma decoding_key_for_error:
  "decoding_key_for L alg pem der sec = Err e \<Longrightarrow> \<exists>m. e = KeyLoading m"
  by (auto simp: decoding_key_for_family result_iff split: key_family.splits option.splits)

text \<open>The loop as a map: every entry loads, and the keys come in the entries' order.\<close>

fun collect :: "('a \<Rightarrow> 'e + 'b) \<Rightarrow> 'a list \<Rightarrow> 'e + 'b list" where
  "collect f [] = Ok []"
| "collect f (x # xs) = and_then (f x) (\<lambda>y. map_ok ((#) y) (collect f xs))"

lemma collect_Ok_iff: "collect f xs = Ok ys \<longleftrightarrow> list_all2 (\<lambda>x y. f x = Ok y) xs ys"
proof (induction xs arbitrary: ys)
  case Nil
  then show ?case by auto
next
  case (Cons x xs)
  then show ?case by (cases ys) (auto simp: result_iff)
qed

lemma collect_Err:
  "collect f xs = Err e \<longleftrightarrow> (\<exists>x. find (\<lambda>x. \<not> is_ok (f x)) xs = Some x \<and> f x = Err e)"
proof (induction xs)
  case Nil
  then show ?case by simp
next
  case (Cons y ys)
  then show ?case by (cases "f y") (auto simp: result_iff)
qed

lemma push_rotation_keys_collect:
  "push_rotation_keys L cfg keys entries =
     map_ok ((@) keys)
       (collect (\<lambda>e. map_ok (Pair (rk_key_id e)) (rotation_entry_key L cfg e)) entries)"
proof (induction entries arbitrary: keys)
  case Nil
  then show ?case by simp
next
  case (Cons e es)
  show ?case
  proof (cases "rotation_entry_key L cfg e")
    case (Inl err)
    then show ?thesis by simp
  next
    case (Inr k)
    then show ?thesis
      by (cases "collect (\<lambda>e. map_ok (Pair (rk_key_id e)) (rotation_entry_key L cfg e)) es")
        (simp_all add: Cons.IH)
  qed
qed

lemma decoding_keys_Ok_iff:
  "decoding_keys L cfg = Ok cands \<longleftrightarrow>
     (\<exists>k0 ks. decoding_key L cfg = Ok k0 \<and> cands = (key_id cfg, k0) # ks
        \<and> list_all2 (\<lambda>e c. fst c = rk_key_id e \<and> rotation_entry_key L cfg e = Ok (snd c))
            (rotation_keys cfg) ks)"
proof -
  have "(\<lambda>e c. map_ok (Pair (rk_key_id e)) (rotation_entry_key L cfg e) = Ok c)
      = (\<lambda>e c. fst c = rk_key_id e \<and> rotation_entry_key L cfg e = Ok (snd c))"
    by (auto simp: fun_eq_iff result_iff)
  then show ?thesis
    by (auto simp: decoding_keys_def decoding_key_def push_rotation_keys_collect result_iff
        collect_Ok_iff)
qed

lemma decoding_keys_error:
  assumes "decoding_keys L cfg = Err e"
  shows "\<exists>m. e = KeyLoading m"
  using assms
  by (auto simp: decoding_keys_def push_rotation_keys_collect result_iff collect_Err
      rotation_entry_key_def dest: decoding_key_for_error)

end
