(* ===== verification/Jwt_Claims.thy ===== *)
theory Jwt_Claims
  imports Jwt_Library "HOL-Library.Monad_Syntax" "HOL-Library.AList"
begin

section \<open>Standard claims (src/claims.rs)\<close>

text \<open>
  The struct \<open>StandardClaims\<close> and the JSON object that its serde attributes give it: absent
  options and an empty permission list are skipped, \<open>exp\<close> and \<open>iat\<close> are whole seconds, and the
  entries of \<open>extra\<close> are flattened into the same object. An object is the list of its members in
  textual order, duplicates included, because that is what a deserializer reads; the map
  \<open>extra\<close> is the list of its entries in iteration order. \<open>'dt\<close> is \<open>DateTime<Utc>\<close>.
\<close>

datatype json =
    JNull
  | JBool bool
  | JInt int
  | JFloat "64 word"
  | JStr string
  | JArr "json list"
  | JObj "(string \<times> json) list"

record 'dt standard_claims =
  sub :: "string option"
  iss :: "string option"
  aud :: "string option"
  exp :: "'dt option"
  iat :: "'dt option"
  jti :: "string option"
  role :: "string option"
  permissions :: "string list"
  extra :: "(string \<times> json) list"

text \<open>\<open>StandardClaims::default()\<close>.\<close>

definition default_claims :: "'dt standard_claims" where
  "default_claims =
     \<lparr>sub = None, iss = None, aud = None, exp = None, iat = None, jti = None, role = None,
      permissions = [], extra = []\<rparr>"

definition field_names :: "string list" where
  "field_names = [''sub'', ''iss'', ''aud'', ''exp'', ''iat'', ''jti'', ''role'', ''permissions'']"

subsection \<open>Serialization\<close>

definition ser_option :: "string \<Rightarrow> ('a \<Rightarrow> json) \<Rightarrow> 'a option \<Rightarrow> (string \<times> json) list" where
  "ser_option name f m = (case m of None \<Rightarrow> [] | Some x \<Rightarrow> [(name, f x)])"

definition ser_nonempty :: "string \<Rightarrow> string list \<Rightarrow> (string \<times> json) list" where
  "ser_nonempty name xs = (if xs = [] then [] else [(name, JArr (map JStr xs))])"

definition serialize_claims :: "'dt chrono_lib \<Rightarrow> 'dt standard_claims \<Rightarrow> (string \<times> json) list" where
  "serialize_claims C c =
     ser_option ''sub'' JStr (sub c) @
     ser_option ''iss'' JStr (iss c) @
     ser_option ''aud'' JStr (aud c) @
     ser_option ''exp'' (\<lambda>t. JInt (timestamp C t)) (exp c) @
     ser_option ''iat'' (\<lambda>t. JInt (timestamp C t)) (iat c) @
     ser_option ''jti'' JStr (jti c) @
     ser_option ''role'' JStr (role c) @
     ser_nonempty ''permissions'' (permissions c) @
     extra c"

subsection \<open>Deserialization\<close>

text \<open>
  A missing member and \<open>null\<close> are both \<open>None\<close> for an option; a missing permission list is
  empty. A member of the wrong type, a time out of range or a second member for a declared
  field is an error (\<open>None\<close>).
\<close>

fun de_string :: "json option \<Rightarrow> string option option" where
  "de_string None = Some None"
| "de_string (Some JNull) = Some None"
| "de_string (Some (JStr s)) = Some (Some s)"
| "de_string (Some _) = None"

fun de_time :: "'dt chrono_lib \<Rightarrow> json option \<Rightarrow> 'dt option option" where
  "de_time C None = Some None"
| "de_time C (Some JNull) = Some None"
| "de_time C (Some (JInt n)) = map_option Some (from_timestamp C n)"
| "de_time C (Some _) = None"

fun de_strings :: "json list \<Rightarrow> string list option" where
  "de_strings [] = Some []"
| "de_strings (JStr s # js) = map_option ((#) s) (de_strings js)"
| "de_strings (_ # js) = None"

fun de_permissions :: "json option \<Rightarrow> string list option" where
  "de_permissions None = Some []"
| "de_permissions (Some (JArr js)) = de_strings js"
| "de_permissions (Some _) = None"

text \<open>The undeclared members go into the map \<open>extra\<close>, where a later entry replaces an earlier one.\<close>

definition collect_map :: "(string \<times> json) list \<Rightarrow> (string \<times> json) list" where
  "collect_map es = fold (\<lambda>kv m. AList.update (fst kv) (snd kv) m) es []"

definition deserialize_claims ::
    "'dt chrono_lib \<Rightarrow> (string \<times> json) list \<Rightarrow> 'dt standard_claims option" where
  "deserialize_claims C es =
     (if distinct (filter (\<lambda>k. k \<in> set field_names) (map fst es)) then
        do {
          s \<leftarrow> de_string (map_of es ''sub'');
          i \<leftarrow> de_string (map_of es ''iss'');
          a \<leftarrow> de_string (map_of es ''aud'');
          e \<leftarrow> de_time C (map_of es ''exp'');
          t \<leftarrow> de_time C (map_of es ''iat'');
          j \<leftarrow> de_string (map_of es ''jti'');
          r \<leftarrow> de_string (map_of es ''role'');
          p \<leftarrow> de_permissions (map_of es ''permissions'');
          Some \<lparr>sub = s, iss = i, aud = a, exp = e, iat = t, jti = j, role = r, permissions = p,
                extra = collect_map (filter (\<lambda>kv. fst kv \<notin> set field_names) es)\<rparr>
        }
      else None)"

section \<open>Lemmas\<close>

lemma de_strings_map [simp]: "de_strings (map JStr xs) = Some xs"
  by (induction xs) auto

lemma update_new_key: "k \<notin> fst ` set ps \<Longrightarrow> AList.update k v ps = ps @ [(k, v)]"
  by (induction ps) auto

lemma collect_map_distinct:
  assumes "distinct (map fst es)"
  shows "collect_map es = es"
proof -
  have "distinct (map fst (acc @ es)) \<Longrightarrow>
      fold (\<lambda>kv m. AList.update (fst kv) (snd kv) m) es acc = acc @ es" for acc
  proof (induction es arbitrary: acc)
    case Nil
    then show ?case by simp
  next
    case (Cons e es)
    then have "AList.update (fst e) (snd e) acc = acc @ [e]"
      by (simp add: update_new_key)
    with Cons show ?case by simp
  qed
  from this [of "[]"] assms show ?thesis by (simp add: collect_map_def)
qed

lemma map_fst_ser_option: "map fst (ser_option n f m) = (if m = None then [] else [n])"
  by (cases m) (auto simp: ser_option_def)

lemma map_fst_ser_nonempty: "map fst (ser_nonempty n xs) = (if xs = [] then [] else [n])"
  by (auto simp: ser_nonempty_def)

lemma ser_option_no_null [simp]:
  "(\<And>x. f x \<noteq> JNull) \<Longrightarrow> JNull \<notin> snd ` set (ser_option n f m)"
  by (cases m) (simp_all add: ser_option_def eq_commute [of JNull])

lemma ser_nonempty_no_null [simp]: "JNull \<notin> snd ` set (ser_nonempty n xs)"
  by (simp add: ser_nonempty_def)

lemma map_of_ser_option [simp]:
  "map_of (ser_option n f m) k = (if k = n then map_option f m else None)"
  by (cases m) (auto simp: ser_option_def)

lemma map_of_ser_nonempty [simp]:
  "map_of (ser_nonempty n xs) k =
     (if k = n \<and> xs \<noteq> [] then Some (JArr (map JStr xs)) else None)"
  by (auto simp: ser_nonempty_def)

text \<open>No key of \<open>extra\<close> is a declared field name, and the keys of the map are distinct.\<close>

definition extra_ok :: "'dt standard_claims \<Rightarrow> bool" where
  "extra_ok c \<longleftrightarrow> distinct (map fst (extra c)) \<and> (\<forall>k \<in> fst ` set (extra c). k \<notin> set field_names)"

lemma extra_ok_lookup:
  "extra_ok c \<Longrightarrow> k \<in> set field_names \<Longrightarrow> map_of (extra c) k = None"
  by (auto simp: extra_ok_def map_of_eq_None_iff)

lemma extra_ok_filters:
  assumes "extra_ok c"
  shows "filter (\<lambda>kv. fst kv \<notin> set field_names) (extra c) = extra c"
    and "filter (\<lambda>k. k \<in> set field_names) (map fst (extra c)) = []"
  using assms by (auto simp: extra_ok_def filter_empty_conv intro!: filter_True)

text \<open>The standard members of the object, without the flattened map.\<close>

definition std_members :: "'dt chrono_lib \<Rightarrow> 'dt standard_claims \<Rightarrow> (string \<times> json) list" where
  "std_members C c = serialize_claims C (c\<lparr>extra := []\<rparr>)"

lemma serialize_split: "serialize_claims C c = std_members C c @ extra c"
  by (simp add: serialize_claims_def std_members_def)

lemma std_members_keys:
  "map fst (std_members C c) =
     (if sub c = None then [] else [''sub'']) @ (if iss c = None then [] else [''iss'']) @
     (if aud c = None then [] else [''aud'']) @ (if exp c = None then [] else [''exp'']) @
     (if iat c = None then [] else [''iat'']) @ (if jti c = None then [] else [''jti'']) @
     (if role c = None then [] else [''role'']) @
     (if permissions c = [] then [] else [''permissions''])"
  by (simp add: std_members_def serialize_claims_def map_fst_ser_option map_fst_ser_nonempty)

lemma set_if_member: "set (if b then [] else [x]) = {k. k = x \<and> \<not> b}"
  by auto

lemma std_members_distinct: "distinct (map fst (std_members C c))"
  by (simp add: std_members_keys)

lemma std_members_declared: "set (map fst (std_members C c)) \<subseteq> set field_names"
  unfolding std_members_keys set_append set_if_member field_names_def by auto

lemma std_members_filters:
  "filter (\<lambda>k. k \<in> set field_names) (map fst (std_members C c)) = map fst (std_members C c)"
  "filter (\<lambda>kv. fst kv \<notin> set field_names) (std_members C c) = []"
  using std_members_declared [of C c] by (auto simp: filter_empty_conv intro!: filter_True)

lemma std_members_lookup:
  "map_of (std_members C c) ''sub'' = map_option JStr (sub c)"
  "map_of (std_members C c) ''iss'' = map_option JStr (iss c)"
  "map_of (std_members C c) ''aud'' = map_option JStr (aud c)"
  "map_of (std_members C c) ''exp'' = map_option (\<lambda>t. JInt (timestamp C t)) (exp c)"
  "map_of (std_members C c) ''iat'' = map_option (\<lambda>t. JInt (timestamp C t)) (iat c)"
  "map_of (std_members C c) ''jti'' = map_option JStr (jti c)"
  "map_of (std_members C c) ''role'' = map_option JStr (role c)"
  "map_of (std_members C c) ''permissions'' =
     (if permissions c = [] then None else Some (JArr (map JStr (permissions c))))"
  by (simp_all add: std_members_def serialize_claims_def map_add_def split: option.splits)

lemma map_of_serialize:
  assumes "extra_ok c" "k \<in> set field_names"
  shows "map_of (serialize_claims C c) k = map_of (std_members C c) k"
  using extra_ok_lookup [OF assms] by (simp add: serialize_split map_add_def split: option.split)

lemma de_string_map [simp]: "de_string (map_option JStr m) = Some m"
  by (cases m) auto

lemma de_time_map:
  "\<forall>t. m = Some t \<longrightarrow> from_timestamp C (timestamp C t) = Some (trunc t) \<Longrightarrow>
   de_time C (map_option (\<lambda>t. JInt (timestamp C t)) m) = Some (map_option trunc m)"
  by (cases m) auto

lemma roundtrip:
  assumes "extra_ok c"
    and "\<And>t. from_timestamp C (timestamp C t) = Some (trunc t)"
  shows "deserialize_claims C (serialize_claims C c) =
     Some (c\<lparr>exp := map_option trunc (exp c), iat := map_option trunc (iat c)\<rparr>)"
proof -
  have look: "\<And>k. k \<in> set field_names \<Longrightarrow>
      map_of (serialize_claims C c) k = map_of (std_members C c) k"
    using assms(1) by (rule map_of_serialize)
  have dist: "distinct (filter (\<lambda>k. k \<in> set field_names) (map fst (serialize_claims C c)))"
    unfolding serialize_split map_append filter_append std_members_filters
      extra_ok_filters [OF assms(1)]
    using std_members_distinct by simp
  have rest: "collect_map (filter (\<lambda>kv. fst kv \<notin> set field_names) (serialize_claims C c)) = extra c"
    using assms(1) by (simp add: serialize_split std_members_filters extra_ok_filters
        collect_map_distinct extra_ok_def)
  show ?thesis
    unfolding deserialize_claims_def
    using dist rest
    by (simp add: look field_names_def std_members_lookup de_time_map [where trunc = trunc]
        assms(2))
qed

section \<open>Properties\<close>

text \<open>
  C27. Claims whose \<open>extra\<close> map does not use a declared field name survive serialization: reading
  the object back gives the same claims, with \<open>exp\<close> and \<open>iat\<close> cut to whole seconds.
  \<open>trunc\<close> is what the time library returns for a time's own timestamp.
\<close>

theorem claims_roundtrip:
  assumes "extra_ok c"
    and "\<And>t. from_timestamp C (timestamp C t) = Some (trunc t)"
  shows "deserialize_claims C (serialize_claims C c) =
     Some (c\<lparr>exp := map_option trunc (exp c), iat := map_option trunc (iat c)\<rparr>)"
  using assms by (rule roundtrip)

text \<open>A concrete clock for the witnesses: times are seconds with a fraction in thousandths.\<close>

definition milli_chrono :: "int chrono_lib" where
  "milli_chrono = \<lparr>add_seconds = (\<lambda>t n. Some (t + 1000 * sint n)), timestamp = (\<lambda>t. t div 1000),
     from_timestamp = (\<lambda>n. Some (1000 * n))\<rparr>"

lemma milli_chrono_simps [simp]:
  "add_seconds milli_chrono t n = Some (t + 1000 * sint n)"
  "timestamp milli_chrono t = t div 1000"
  "from_timestamp milli_chrono m = Some (1000 * m)"
  by (simp_all add: milli_chrono_def)

definition sample_claims :: "int standard_claims" where
  "sample_claims = default_claims\<lparr>sub := Some ''u'', exp := Some 7500, permissions := [''read''],
     extra := [(''tenant'', JInt 3)]\<rparr>"

theorem claims_roundtrip_witness:
  "deserialize_claims milli_chrono (serialize_claims milli_chrono sample_claims) =
     Some (sample_claims\<lparr>exp := Some 7000\<rparr>)"
proof -
  have ok: "extra_ok sample_claims"
    by (simp add: extra_ok_def sample_claims_def default_claims_def field_names_def)
  have tr: "\<And>t. from_timestamp milli_chrono (timestamp milli_chrono t) = Some (1000 * (t div 1000))"
    by simp
  show ?thesis
    using claims_roundtrip [OF ok tr] by (simp add: sample_claims_def default_claims_def)
qed

text \<open>
  The object holds exactly one member for every field that is set, none for an unset one,
  and no member is \<open>null\<close>; the flattened map follows it unchanged.
\<close>

theorem claims_skip_unset:
  "serialize_claims C c = std_members C c @ extra c
   \<and> distinct (map fst (std_members C c))
   \<and> JNull \<notin> snd ` set (std_members C c)
   \<and> set (map fst (std_members C c)) =
       {k. k = ''sub'' \<and> sub c \<noteq> None \<or> k = ''iss'' \<and> iss c \<noteq> None \<or> k = ''aud'' \<and> aud c \<noteq> None
         \<or> k = ''exp'' \<and> exp c \<noteq> None \<or> k = ''iat'' \<and> iat c \<noteq> None \<or> k = ''jti'' \<and> jti c \<noteq> None
         \<or> k = ''role'' \<and> role c \<noteq> None \<or> k = ''permissions'' \<and> permissions c \<noteq> []}"
proof (intro conjI)
  show "serialize_claims C c = std_members C c @ extra c" by (rule serialize_split)
  show "distinct (map fst (std_members C c))" by (rule std_members_distinct)
  show "JNull \<notin> snd ` set (std_members C c)"
    by (simp add: std_members_def serialize_claims_def image_Un)
next
  show "set (map fst (std_members C c)) =
      {k. k = ''sub'' \<and> sub c \<noteq> None \<or> k = ''iss'' \<and> iss c \<noteq> None \<or> k = ''aud'' \<and> aud c \<noteq> None
        \<or> k = ''exp'' \<and> exp c \<noteq> None \<or> k = ''iat'' \<and> iat c \<noteq> None \<or> k = ''jti'' \<and> jti c \<noteq> None
        \<or> k = ''role'' \<and> role c \<noteq> None \<or> k = ''permissions'' \<and> permissions c \<noteq> []}"
    unfolding std_members_keys set_append set_if_member Collect_disj_eq Un_assoc by (rule refl)
qed

text \<open>
  An \<open>extra\<close> entry named like a declared field breaks the round trip: when the field is set,
  the object has that member twice and cannot be read back at all.
\<close>

theorem claims_extra_collision:
  assumes "k \<in> set (map fst (std_members C c))" and "k \<in> fst ` set (extra c)"
  shows "deserialize_claims C (serialize_claims C c) = None"
proof -
  have "k \<in> set field_names" using assms(1) std_members_declared by blast
  with assms(2) have "k \<in> set (filter (\<lambda>k. k \<in> set field_names) (map fst (extra c)))" by auto
  with assms(1) have "\<not> distinct (filter (\<lambda>k. k \<in> set field_names) (map fst (serialize_claims C c)))"
    unfolding serialize_split map_append filter_append std_members_filters by auto
  then show ?thesis by (simp add: deserialize_claims_def)
qed

theorem claims_extra_collision_witness:
  "deserialize_claims milli_chrono
     (serialize_claims milli_chrono (sample_claims\<lparr>extra := [(''exp'', JInt 99)]\<rparr>)) = None"
proof -
  have "''exp'' \<in> set (map fst (std_members milli_chrono (sample_claims\<lparr>extra := [(''exp'', JInt 99)]\<rparr>)))"
    by (simp add: std_members_keys sample_claims_def)
  then show ?thesis by (rule claims_extra_collision) (simp add: sample_claims_def)
qed

end
