(* ===== verification/Jwt_Service.thy ===== *)
theory Jwt_Service
  imports Jwt_Keys Jwt_Claims
begin

section \<open>Encoding and decoding (src/service.rs, JwtService)\<close>

text \<open>
  \<open>encode\<close>, \<open>build_validation\<close>, \<open>decode\<close> and the stamping of standard claims, each with and
  without the feature \<open>rotation\<close> where the source compiles two bodies, and
  \<open>decode_with_rotation\<close>. The operations read only the configuration of the service, which is
  therefore their argument; the revocation store joins in the theory \<open>Decode_Standard\<close>.
\<close>

subsection \<open>Encoding\<close>

text \<open>\<open>JwtService::encode\<close> with the feature \<open>rotation\<close>: the header carries the current \<open>kid\<close>.\<close>

definition encode :: "('ek, 'dk, 'c) jwt_lib \<Rightarrow> jwt_config \<Rightarrow> 'c \<Rightarrow> jwt_error + string" where
  "encode L cfg claims =
     (let h = (header_new L (to_lib_algorithm (algorithm cfg)))\<lparr>h_kid := key_id cfg\<rparr>
      in and_then (encoding_key L cfg)
           (\<lambda>key. map_err (\<lambda>_. EncodingFailed) (lib_encode L h claims key)))"

text \<open>The body compiled without the feature.\<close>

definition encode_plain :: "('ek, 'dk, 'c) jwt_lib \<Rightarrow> jwt_config \<Rightarrow> 'c \<Rightarrow> jwt_error + string" where
  "encode_plain L cfg claims =
     (let h = header_new L (to_lib_algorithm (algorithm cfg))
      in and_then (encoding_key L cfg)
           (\<lambda>key. map_err (\<lambda>_. EncodingFailed) (lib_encode L h claims key)))"

subsection \<open>Validation\<close>

text \<open>The configured audiences with the single-audience field pushed at the end if it is new.\<close>

definition merged_audiences :: "jwt_config \<Rightarrow> string list" where
  "merged_audiences cfg =
     (case audience cfg of
        Some a \<Rightarrow> if a \<notin> set (audiences cfg) then audiences cfg @ [a] else audiences cfg
      | None \<Rightarrow> audiences cfg)"

definition build_validation :: "('ek, 'dk, 'c) jwt_lib \<Rightarrow> jwt_config \<Rightarrow> validation" where
  "build_validation L cfg =
     (let v = validation_new L (to_lib_algorithm (algorithm cfg));
          v = v\<lparr>v_leeway := unwrap_or DEFAULT_LEEWAY_SECS (leeway cfg)\<rparr>;
          v = v\<lparr>v_validate_exp := validate_exp cfg\<rparr>;
          v = v\<lparr>v_validate_nbf := validate_nbf cfg\<rparr>;
          v = set_required_spec_claims L (required_claims cfg) v;
          v = (case issuer cfg of Some i \<Rightarrow> set_issuer L [i] v | None \<Rightarrow> v);
          auds = merged_audiences cfg
      in if auds \<noteq> [] then set_audience L auds v else v)"

subsection \<open>Decoding\<close>

definition unknown_kid_error :: "string \<Rightarrow> jwt_error" where
  "unknown_kid_error kid = DecodingFailed (''token references unknown key id `'' @ kid @ ''`'')"

text \<open>The \<open>for\<close> loop over the candidates for tokens without a \<open>kid\<close>.\<close>

fun try_keys :: "('ek, 'dk, 'c) jwt_lib \<Rightarrow> string \<Rightarrow> validation \<Rightarrow> jwt_error
    \<Rightarrow> (string option \<times> 'dk) list \<Rightarrow> jwt_error + 'c" where
  "try_keys L token v last_err [] = Err last_err"
| "try_keys L token v last_err ((kid, key) # rest) =
     (case lib_decode L token key v of
        Inr claims \<Rightarrow> Ok claims
      | Inl e \<Rightarrow> try_keys L token v (DecodingFailed e) rest)"

definition decode_with_rotation ::
    "('ek, 'dk, 'c) jwt_lib \<Rightarrow> jwt_config \<Rightarrow> string \<Rightarrow> validation \<Rightarrow> jwt_error + 'c" where
  "decode_with_rotation L cfg token v =
     and_then (decoding_keys L cfg) (\<lambda>candidates.
       case (case lib_decode_header L token of Inr h \<Rightarrow> h_kid h | Inl _ \<Rightarrow> None) of
         Some kid \<Rightarrow>
           (case find (\<lambda>c. fst c = Some kid) candidates of
              Some c \<Rightarrow> map_err DecodingFailed (lib_decode L token (snd c) v)
            | None \<Rightarrow> Err (unknown_kid_error kid))
       | None \<Rightarrow> try_keys L token v (DecodingFailed ''no keys configured'') candidates)"

text \<open>\<open>JwtService::decode\<close> with and without the feature \<open>rotation\<close>.\<close>

definition decode :: "('ek, 'dk, 'c) jwt_lib \<Rightarrow> jwt_config \<Rightarrow> string \<Rightarrow> jwt_error + 'c" where
  "decode L cfg token = decode_with_rotation L cfg token (build_validation L cfg)"

definition decode_plain :: "('ek, 'dk, 'c) jwt_lib \<Rightarrow> jwt_config \<Rightarrow> string \<Rightarrow> jwt_error + 'c" where
  "decode_plain L cfg token =
     and_then (decoding_key L cfg)
       (\<lambda>key. map_err DecodingFailed (lib_decode L token key (build_validation L cfg)))"

text \<open>\<open>JwtService::validate\<close>: decoding into standard claims, no revocation.\<close>

definition validate ::
    "('ek, 'dk, 'dt standard_claims) jwt_lib \<Rightarrow> jwt_config \<Rightarrow> string
      \<Rightarrow> jwt_error + 'dt standard_claims" where
  "validate L cfg token = decode L cfg token"

subsection \<open>Stamping standard claims\<close>

text \<open>
  \<open>stamped_standard\<close>: \<open>now\<close> is what \<open>Utc::now()\<close> returned and \<open>uuid\<close> the text of the fresh
  UUID. The result is \<open>None\<close> when the time library panics, which only the computation of a
  missing \<open>exp\<close> can cause.
\<close>

definition stamped_standard ::
    "'dt chrono_lib \<Rightarrow> 'dt \<Rightarrow> string \<Rightarrow> jwt_config \<Rightarrow> 'dt standard_claims \<Rightarrow> i64
      \<Rightarrow> 'dt standard_claims option" where
  "stamped_standard C now uuid cfg claims ttl_secs =
     (let c = (if iat claims = None then claims\<lparr>iat := Some now\<rparr> else claims)
      in case (if exp c = None
               then map_option (\<lambda>t. c\<lparr>exp := Some t\<rparr>) (add_seconds C now ttl_secs)
               else Some c) of
           None \<Rightarrow> None
         | Some c \<Rightarrow>
             (let c = (if iss c = None then c\<lparr>iss := issuer cfg\<rparr> else c);
                  c = (if aud c = None then c\<lparr>aud := first (merged_audiences cfg)\<rparr> else c)
              in Some (if jti c = None then c\<lparr>jti := Some uuid\<rparr> else c)))"

definition encode_standard ::
    "('ek, 'dk, 'dt standard_claims) jwt_lib \<Rightarrow> 'dt chrono_lib \<Rightarrow> 'dt \<Rightarrow> string \<Rightarrow> jwt_config
      \<Rightarrow> 'dt standard_claims \<Rightarrow> (jwt_error + string) option" where
  "encode_standard L C now uuid cfg claims =
     map_option (encode L cfg) (stamped_standard C now uuid cfg claims (access_token_ttl cfg))"

definition encode_refresh_standard ::
    "('ek, 'dk, 'dt standard_claims) jwt_lib \<Rightarrow> 'dt chrono_lib \<Rightarrow> 'dt \<Rightarrow> string \<Rightarrow> jwt_config
      \<Rightarrow> 'dt standard_claims \<Rightarrow> (jwt_error + string) option" where
  "encode_refresh_standard L C now uuid cfg claims =
     map_option (encode L cfg) (stamped_standard C now uuid cfg claims (refresh_token_ttl cfg))"

section \<open>Lemmas\<close>

subsection \<open>Audiences and validation\<close>

lemma set_merged_audiences [simp]:
  "set (merged_audiences cfg) = set (audiences cfg) \<union> set_option (audience cfg)"
  by (auto simp: merged_audiences_def split: option.splits)

lemma distinct_merged_audiences:
  "distinct (audiences cfg) \<Longrightarrow> distinct (merged_audiences cfg)"
  by (auto simp: merged_audiences_def split: option.splits)

lemma merged_audiences_Nil_iff [simp]:
  "merged_audiences cfg = [] \<longleftrightarrow> audiences cfg = [] \<and> audience cfg = None"
  by (auto simp: merged_audiences_def split: option.splits)

lemma build_validation_fields:
  assumes "constructors_documented L"
  shows "v_algorithms (build_validation L cfg) = [to_lib_algorithm (algorithm cfg)]"
    and "v_leeway (build_validation L cfg) = unwrap_or 60 (leeway cfg)"
    and "v_validate_exp (build_validation L cfg) = validate_exp cfg"
    and "v_validate_nbf (build_validation L cfg) = validate_nbf cfg"
    and "v_required_spec_claims (build_validation L cfg) = set (required_claims cfg)"
    and "v_iss (build_validation L cfg) = map_option (\<lambda>i. {i}) (issuer cfg)"
    and "v_aud (build_validation L cfg) =
      (if merged_audiences cfg = [] then None else Some (set (merged_audiences cfg)))"
  using constructors_documentedD [OF assms]
  by (auto simp: build_validation_def Let_def DEFAULT_LEEWAY_SECS_def split: option.splits)

text \<open>
  The policy of a configuration, stated on the configuration itself: what a token must say to
  be accepted at time \<open>now\<close>. Of the required claims only the registered ones count, because the
  library ignores any other name.
\<close>

definition meets_policy :: "jwt_config \<Rightarrow> nat \<Rightarrow> token_facts \<Rightarrow> bool" where
  "meets_policy cfg now f \<longleftrightarrow>
     tf_alg f = to_lib_algorithm (algorithm cfg)
   \<and> set (required_claims cfg) \<inter> spec_claims \<subseteq> tf_present f
   \<and> (validate_exp cfg \<longrightarrow>
        (\<forall>e. tf_exp f = Some e \<longrightarrow> now \<le> e + unat (unwrap_or 60 (leeway cfg))))
   \<and> (validate_nbf cfg \<longrightarrow>
        (\<forall>n. tf_nbf f = Some n \<longrightarrow> n \<le> now + unat (unwrap_or 60 (leeway cfg))))
   \<and> (\<forall>i I. issuer cfg = Some i \<longrightarrow> tf_iss f = Some I \<longrightarrow> i \<in> I)
   \<and> ((audiences cfg \<noteq> [] \<or> audience cfg \<noteq> None) \<longrightarrow>
        (\<forall>A. tf_aud f = Some A \<longrightarrow> A \<inter> (set (audiences cfg) \<union> set_option (audience cfg)) \<noteq> {}))"

lemma passes_build_validation:
  assumes "constructors_documented L"
  shows "passes now (build_validation L cfg) f \<longleftrightarrow> meets_policy cfg now f"
  unfolding passes_def meets_policy_def build_validation_fields [OF assms]
  by (cases "issuer cfg"; cases "merged_audiences cfg = []"; auto)

text \<open>A token that says \<open>aud\<close> is sure to be accepted only when audiences are configured.\<close>

definition surely_meets_policy :: "jwt_config \<Rightarrow> nat \<Rightarrow> token_facts \<Rightarrow> bool" where
  "surely_meets_policy cfg now f \<longleftrightarrow>
     meets_policy cfg now f \<and> (audiences cfg = [] \<and> audience cfg = None \<longrightarrow> tf_aud f = None)"

lemma surely_passes_build_validation:
  assumes "constructors_documented L"
  shows "surely_passes now (build_validation L cfg) f \<longleftrightarrow> surely_meets_policy cfg now f"
  by (auto simp: surely_passes_def surely_meets_policy_def passes_build_validation [OF assms]
      build_validation_fields [OF assms])

subsection \<open>Trying every key\<close>

lemma try_keys_Ok_iff:
  "try_keys L tok v e0 cands = Ok c \<longleftrightarrow>
     (\<exists>k. find (\<lambda>k. is_ok (lib_decode L tok (snd k) v)) cands = Some k \<and> lib_decode L tok (snd k) v = Ok c)"
proof (induction cands arbitrary: e0)
  case Nil
  then show ?case by simp
next
  case (Cons k ks)
  then show ?case
    by (cases k; cases "lib_decode L tok (snd k) v") auto
qed

lemma try_keys_Err_iff:
  "try_keys L tok v e0 cands = Err e \<longleftrightarrow>
     (\<forall>k \<in> set cands. \<not> is_ok (lib_decode L tok (snd k) v))
   \<and> (if cands = [] then e = e0
      else \<exists>m. lib_decode L tok (snd (last cands)) v = Err m \<and> e = DecodingFailed m)"
proof (induction cands arbitrary: e0)
  case Nil
  then show ?case by auto
next
  case (Cons k ks)
  then show ?case
    by (cases k; cases "lib_decode L tok (snd k) v") auto
qed

lemma try_keys_cong_dup:
  "try_keys L tok v e0 (k # k # ks) = try_keys L tok v e0 (k # ks)"
  by (cases k) (auto split: sum.splits)

subsection \<open>The branches of decode_with_rotation\<close>

definition token_kid :: "('ek, 'dk, 'c) jwt_lib \<Rightarrow> string \<Rightarrow> string option" where
  "token_kid L tok = (case lib_decode_header L tok of Inr h \<Rightarrow> h_kid h | Inl _ \<Rightarrow> None)"

lemma decode_with_rotation_alt:
  "decode_with_rotation L cfg tok v =
     and_then (decoding_keys L cfg) (\<lambda>cands.
       case token_kid L tok of
         Some kid \<Rightarrow> (case find (\<lambda>c. fst c = Some kid) cands of
            Some c \<Rightarrow> map_err DecodingFailed (lib_decode L tok (snd c) v)
          | None \<Rightarrow> Err (unknown_kid_error kid))
       | None \<Rightarrow> try_keys L tok v (DecodingFailed ''no keys configured'') cands)"
  by (simp add: decode_with_rotation_def token_kid_def)

lemma decoding_keys_nonempty: "decoding_keys L cfg = Ok cands \<Longrightarrow> cands \<noteq> []"
  by (auto simp: decoding_keys_Ok_iff)

lemma decode_with_rotation_Ok:
  assumes "decode_with_rotation L cfg tok v = Ok c"
  obtains cands k where "decoding_keys L cfg = Ok cands" "k \<in> set cands"
    "lib_decode L tok (snd k) v = Ok c" "token_kid L tok \<noteq> None \<longrightarrow> fst k = token_kid L tok"
proof -
  from assms obtain cands where cands: "decoding_keys L cfg = Ok cands"
    by (auto simp: decode_with_rotation_alt result_iff)
  have "\<exists>k \<in> set cands. lib_decode L tok (snd k) v = Ok c
      \<and> (token_kid L tok \<noteq> None \<longrightarrow> fst k = token_kid L tok)"
  proof (cases "token_kid L tok")
    case None
    with assms cands have "try_keys L tok v (DecodingFailed ''no keys configured'') cands = Ok c"
      by (simp add: decode_with_rotation_alt)
    with None show ?thesis by (force simp: try_keys_Ok_iff dest!: find_SomeD)
  next
    case (Some kid)
    with assms cands show ?thesis
      by (auto simp: decode_with_rotation_alt result_iff dest!: find_SomeD split: option.splits)
  qed
  with cands that show ?thesis by blast
qed

lemma decode_with_rotation_error:
  assumes "decode_with_rotation L cfg tok v = Err e"
  shows "(\<exists>m. e = DecodingFailed m) \<or> (\<exists>m. e = KeyLoading m)"
proof (cases "decoding_keys L cfg")
  case (Inl e')
  with assms decoding_keys_error [OF Inl] show ?thesis
    by (auto simp: decode_with_rotation_alt)
next
  case (Inr cands)
  with assms show ?thesis
    by (auto simp: decode_with_rotation_alt result_iff try_keys_Err_iff unknown_kid_error_def
        split: option.splits if_splits)
qed

text \<open>A token with the key id of the primary key is decoded under the primary key.\<close>

lemma decode_primary:
  assumes "decoding_keys L cfg = Ok cands" "token_kid L tok = key_id cfg"
    and "\<And>k. decoding_key L cfg = Ok k \<Longrightarrow> lib_decode L tok k (build_validation L cfg) = Ok c"
  shows "decode L cfg tok = Ok c"
proof -
  from assms(1) obtain k0 ks where cands: "cands = (key_id cfg, k0) # ks" "decoding_key L cfg = Ok k0"
    by (auto simp: decoding_keys_Ok_iff)
  with assms show ?thesis
    by (simp add: decode_def decode_with_rotation_alt split: option.split)
qed

text \<open>What \<open>encode\<close> asks of the library.\<close>

lemma encode_OkD:
  assumes "encode L cfg c = Ok tok"
  obtains ek where "encoding_key L cfg = Ok ek"
    "lib_encode L ((header_new L (to_lib_algorithm (algorithm cfg)))\<lparr>h_kid := key_id cfg\<rparr>) c ek = Ok tok"
  using assms by (auto simp: encode_def Let_def result_iff)

subsection \<open>Stamping\<close>

lemma stamped_standard_alt:
  "stamped_standard C now uuid cfg c ttl =
     map_option (\<lambda>e. c\<lparr>iat := opt_or (iat c) (Some now), exp := Some e,
         iss := opt_or (iss c) (issuer cfg), aud := opt_or (aud c) (first (merged_audiences cfg)),
         jti := opt_or (jti c) (Some uuid)\<rparr>)
       (opt_or (exp c) (add_seconds C now ttl))"
proof (cases c)
  case (fields s i a e t j r p x)
  then show ?thesis
    by (cases e; cases t; cases i; cases a; cases j)
      (simp_all add: stamped_standard_def Let_def split: option.split)
qed

lemma stamped_standard_Some:
  assumes "stamped_standard C now uuid cfg c ttl = Some d"
  shows "sub d = sub c" "role d = role c" "permissions d = permissions c" "extra d = extra c"
    "iat d = opt_or (iat c) (Some now)" "exp d = opt_or (exp c) (add_seconds C now ttl)"
    "iss d = opt_or (iss c) (issuer cfg)"
    "aud d = opt_or (aud c) (first (merged_audiences cfg))" "jti d = opt_or (jti c) (Some uuid)"
  using assms by (auto simp: stamped_standard_alt)

lemma stamped_standard_None_iff:
  "stamped_standard C now uuid cfg c ttl = None \<longleftrightarrow> exp c = None \<and> add_seconds C now ttl = None"
  by (cases "exp c") (simp_all add: stamped_standard_alt)

end
