(* ===== verification/Service_Properties.thy ===== *)
theory Service_Properties
  imports Jwt_Service
begin

section \<open>Properties of the service\<close>

text \<open>
  The theorems about encoding, validation and decoding. Hypotheses about the libraries are the
  named predicates of the theory \<open>Jwt_Library\<close>; the witnesses instantiate the library by the
  concrete table below.
\<close>

subsection \<open>A concrete library for the witnesses\<close>

text \<open>
  Keys are the bytes they were made from, and \<open>encode\<close> writes exactly one token text, \<open>tok\<close>,
  for the claims \<open>claim\<close>; it is verified under the key \<open>good\<close> at clock reading 100 and says
  \<open>facts\<close>. Everything else is rejected.
\<close>

definition table_lib ::
    "header \<Rightarrow> 'c \<Rightarrow> bytes \<Rightarrow> token_facts \<Rightarrow> (bytes, bytes, 'c) jwt_lib" where
  "table_lib hdr claim good facts =
     \<lparr>ek_from_secret = (\<lambda>b. b), ek_from_rsa_pem = (\<lambda>b. Ok b), ek_from_ec_der = (\<lambda>b. b),
      ek_from_ec_pem = (\<lambda>b. Ok b), ek_from_ed_der = (\<lambda>b. b), ek_from_ed_pem = (\<lambda>b. Ok b),
      dk_from_secret = (\<lambda>b. b), dk_from_rsa_der = (\<lambda>b. b), dk_from_rsa_pem = (\<lambda>b. Ok b),
      dk_from_ec_der = (\<lambda>b. b), dk_from_ec_pem = (\<lambda>b. Ok b), dk_from_ed_der = (\<lambda>b. b),
      dk_from_ed_pem = (\<lambda>b. Ok b),
      header_new = (\<lambda>a. \<lparr>h_alg = a, h_kid = None\<rparr>),
      validation_new = (\<lambda>a. \<lparr>v_algorithms = [a], v_leeway = 60, v_validate_exp = True,
          v_validate_nbf = False, v_required_spec_claims = {''exp''}, v_iss = None, v_aud = None\<rparr>),
      set_required_spec_claims = (\<lambda>cs v. v\<lparr>v_required_spec_claims := set cs\<rparr>),
      set_issuer = (\<lambda>xs v. v\<lparr>v_iss := Some (set xs)\<rparr>),
      set_audience = (\<lambda>xs v. v\<lparr>v_aud := Some (set xs)\<rparr>),
      lib_encode = (\<lambda>h c k. if h = hdr \<and> c = claim \<and> k = good then Ok ''tok'' else Err ''encode''),
      lib_decode = (\<lambda>t k v. if t = ''tok'' \<and> k = good \<and> passes 100 v facts then Ok claim
                           else Err ''invalid''),
      lib_decode_header = (\<lambda>t. if t = ''tok'' then Ok hdr else Err ''header'')\<rparr>"

lemma table_lib_constructors: "constructors_documented (table_lib hdr claim good facts)"
  by (simp add: constructors_documented_def table_lib_def)

lemma table_lib_enforces: "decode_enforces (table_lib hdr claim good facts) 100 (\<lambda>_. facts)"
  by (auto simp: decode_enforces_def table_lib_def split: if_splits)

lemma surely_passesD: "surely_passes now v f \<Longrightarrow> passes now v f"
  by (simp add: surely_passes_def)

lemma table_lib_encode_decodes:
  "encode_decodes (table_lib hdr claim good facts) (=) 100 (\<lambda>_. facts)"
  by (auto simp: encode_decodes_def table_lib_def dest: surely_passesD split: if_splits)

lemmas table_lib_facts = table_lib_constructors table_lib_enforces table_lib_encode_decodes

definition sample_facts :: token_facts where
  "sample_facts = \<lparr>tf_alg = LibHS256, tf_present = {''exp'', ''iss'', ''aud''}, tf_exp = Some 90,
     tf_nbf = None, tf_iss = Some {''me''}, tf_aud = Some {''you''}\<rparr>"

definition sample_config :: jwt_config where
  "sample_config = default_config\<lparr>secret := ''s'', issuer := Some ''me'', audience := Some ''you''\<rparr>"

definition sample_lib :: "(bytes, bytes, nat) jwt_lib" where
  "sample_lib = table_lib \<lparr>h_alg = LibHS256, h_kid = None\<rparr> 7 (as_bytes ''s'') sample_facts"

lemma sample_policy: "meets_policy sample_config 100 sample_facts"
  by (simp add: meets_policy_def sample_config_def sample_facts_def)

lemma sample_surely_policy: "surely_meets_policy sample_config 100 sample_facts"
  using sample_policy by (simp add: surely_meets_policy_def sample_config_def)

lemma sample_lib_documented:
  "constructors_documented sample_lib"
  "decode_enforces sample_lib 100 (\<lambda>_. sample_facts)"
  "encode_decodes sample_lib (=) 100 (\<lambda>_. sample_facts)"
  by (simp_all add: sample_lib_def table_lib_facts)

lemma sample_encode: "encode sample_lib sample_config 7 = Ok ''tok''"
  by (simp add: encode_def encoding_key_def encoding_key_for_family sample_lib_def table_lib_def
      sample_config_def)

lemma sample_decode: "decode sample_lib sample_config ''tok'' = Ok 7"
proof -
  have "passes 100 (build_validation sample_lib sample_config) sample_facts"
    using sample_policy passes_build_validation [OF sample_lib_documented(1)] by blast
  then show ?thesis
    by (simp add: decode_def decode_with_rotation_def decoding_keys_def decoding_key_for_family
        sample_lib_def table_lib_def sample_config_def)
qed

lemma sample_decode_plain: "decode_plain sample_lib sample_config ''tok'' = Ok 7"
proof -
  have "passes 100 (build_validation sample_lib sample_config) sample_facts"
    using sample_policy passes_build_validation [OF sample_lib_documented(1)] by blast
  then show ?thesis
    by (simp add: decode_plain_def decoding_key_def decoding_key_for_family
        sample_lib_def table_lib_def sample_config_def)
qed

subsection \<open>The policy of a configuration is enforced\<close>

text \<open>
  C1. A token that \<open>decode\<close> accepts meets the configuration's policy: it names the configured
  algorithm and no other, carries every claim of \<open>required_claims\<close> that is one of the five registered
  ones the library checks (any other name has no effect, which is a finding), is not past its \<open>exp\<close> by more than the
  leeway (60 seconds unless configured), and names, if it names any, the configured issuer
  and one of the configured audiences. The body without the feature \<open>rotation\<close> enforces the same.
\<close>

theorem decode_enforces_policy:
  assumes "constructors_documented L" and "decode_enforces L now facts"
    and "decode L cfg tok = Ok c \<or> decode_plain L cfg tok = Ok c"
  shows "meets_policy cfg now (facts tok)"
proof -
  from assms(3) obtain k where "lib_decode L tok k (build_validation L cfg) = Ok c"
    by (auto simp: decode_def decode_plain_def result_iff elim: decode_with_rotation_Ok)
  then have "passes now (build_validation L cfg) (facts tok)"
    using assms(2) by (rule decode_enforcesD [rotated])
  then show ?thesis using passes_build_validation [OF assms(1)] by blast
qed

theorem decode_enforces_policy_witness: "meets_policy sample_config 100 sample_facts"
  by (rule decode_enforces_policy [where L = sample_lib and tok = "''tok''" and c = 7])
    (simp_all add: sample_lib_documented sample_decode)

text \<open>
  C11. The validation built from a configuration lets through exactly the tokens that the
  configuration describes: those with its algorithm that carry the registered ones among its required
  claims, are in time within the leeway (60 seconds unless configured) as far as the two flags ask
  for it, and name, if they name any, the configured issuer and one of the audiences of both
  audience fields. Nothing that the library sets by default is left in force.
\<close>

theorem build_validation_complete:
  assumes "constructors_documented L"
  shows "passes now (build_validation L cfg) f \<longleftrightarrow>
     tf_alg f = to_lib_algorithm (algorithm cfg)
   \<and> (\<forall>name \<in> set (required_claims cfg).
        name \<in> {''exp'', ''nbf'', ''aud'', ''iss'', ''sub''} \<longrightarrow> name \<in> tf_present f)
   \<and> (case tf_exp f of Some e \<Rightarrow> validate_exp cfg \<longrightarrow>
        now \<le> e + (case leeway cfg of None \<Rightarrow> 60 | Some l \<Rightarrow> unat l) | None \<Rightarrow> True)
   \<and> (case tf_nbf f of Some n \<Rightarrow> validate_nbf cfg \<longrightarrow>
        n \<le> now + (case leeway cfg of None \<Rightarrow> 60 | Some l \<Rightarrow> unat l) | None \<Rightarrow> True)
   \<and> (case (issuer cfg, tf_iss f) of (Some i, Some I) \<Rightarrow> i \<in> I | _ \<Rightarrow> True)
   \<and> (case tf_aud f of None \<Rightarrow> True | Some A \<Rightarrow>
        audiences cfg = [] \<and> audience cfg = None
        \<or> (\<exists>a\<in>A. a \<in> set (audiences cfg) \<or> audience cfg = Some a))"
proof -
  have "unat (unwrap_or 60 (leeway cfg)) = (case leeway cfg of None \<Rightarrow> 60 | Some l \<Rightarrow> unat l)"
    by (cases "leeway cfg") simp_all
  moreover have "set (required_claims cfg) \<inter> spec_claims \<subseteq> tf_present f \<longleftrightarrow>
      (\<forall>name \<in> set (required_claims cfg). name \<in> spec_claims \<longrightarrow> name \<in> tf_present f)"
    by blast
  moreover have "((audiences cfg \<noteq> [] \<or> audience cfg \<noteq> None) \<longrightarrow>
        A \<inter> (set (audiences cfg) \<union> set_option (audience cfg)) \<noteq> {}) \<longleftrightarrow>
      audiences cfg = [] \<and> audience cfg = None \<or> (\<exists>a\<in>A. a \<in> set (audiences cfg) \<or> audience cfg = Some a)" for A
    by (cases "audience cfg") auto
  ultimately show ?thesis
    unfolding passes_build_validation [OF assms] meets_policy_def spec_claims_def
    by (cases "tf_exp f"; cases "tf_nbf f"; cases "issuer cfg"; cases "tf_iss f"; cases "tf_aud f"; simp)
qed

theorem build_validation_complete_witness:
  "passes 150 (build_validation sample_lib sample_config) sample_facts
   \<and> \<not> passes 151 (build_validation sample_lib sample_config) sample_facts
   \<and> \<not> passes 150 (build_validation sample_lib sample_config) (sample_facts\<lparr>tf_aud := Some {''other''}\<rparr>)"
  unfolding build_validation_complete [OF sample_lib_documented(1)]
  by (simp add: sample_config_def sample_facts_def default_config_def default_required_claims_def
      DEFAULT_REQUIRED_CLAIMS_def)

subsection \<open>Required claims that are not required\<close>

text \<open>
  What the crate documents of \<open>required_spec_claims\<close>: of two validations that differ only in names
  outside the five, \<open>decode\<close> makes no difference.
\<close>

definition other_names_ignored :: "('ek, 'dk, 'c) jwt_lib \<Rightarrow> bool" where
  "other_names_ignored L \<longleftrightarrow>
     (\<forall>tok k v S. S \<inter> spec_claims = v_required_spec_claims v \<inter> spec_claims \<longrightarrow>
        lib_decode L tok k (v\<lparr>v_required_spec_claims := S\<rparr>) = lib_decode L tok k v)"

lemma other_names_ignoredD:
  assumes "other_names_ignored L" "v' = v\<lparr>v_required_spec_claims := S\<rparr>"
    and "S \<inter> spec_claims = v_required_spec_claims v \<inter> spec_claims"
  shows "lib_decode L tok k v' = lib_decode L tok k v"
  using assms unfolding other_names_ignored_def by blast

lemma try_keys_cong:
  assumes "\<And>k. lib_decode L tok k v' = lib_decode L tok k v"
  shows "try_keys L tok v' e keys = try_keys L tok v e keys"
  by (induction keys arbitrary: e) (auto simp: assms split: sum.split)

lemma required_claims_validation:
  assumes "constructors_documented L"
  shows "build_validation L (with_required_claims ns cfg)
    = (build_validation L (with_required_claims ms cfg))\<lparr>v_required_spec_claims := set ns\<rparr>"
proof -
  have "merged_audiences (with_required_claims ns cfg) = merged_audiences (with_required_claims ms cfg)"
    by (simp add: merged_audiences_def with_required_claims_def split: option.split)
  then show ?thesis
    using constructors_documentedD(6-8) [OF assms]
    by (simp add: build_validation_def Let_def) (simp add: with_required_claims_def split: option.split)
qed

text \<open>
  C25. Not every claim name in \<open>required_claims\<close> is required: a configuration that also requires
  names outside the five registered ones that the library knows, such as \<open>jti\<close> or \<open>role\<close>, treats every
  token as the configuration without these names does, so a token without them is accepted.
\<close>

theorem custom_required_claims_ignored:
  assumes "constructors_documented L" "other_names_ignored L"
  shows "decode L (with_required_claims names cfg) tok
    = decode L (with_required_claims
        (filter (\<lambda>n. n \<in> {''exp'', ''nbf'', ''aud'', ''iss'', ''sub''}) names) cfg) tok"
proof -
  let ?c = "with_required_claims names cfg"
  let ?d = "with_required_claims (filter (\<lambda>n. n \<in> {''exp'', ''nbf'', ''aud'', ''iss'', ''sub''}) names) cfg"
  have "build_validation L ?c = (build_validation L ?d)\<lparr>v_required_spec_claims := set names\<rparr>"
    by (rule required_claims_validation [OF assms(1)])
  moreover have "set names \<inter> spec_claims = v_required_spec_claims (build_validation L ?d) \<inter> spec_claims"
    by (auto simp: build_validation_fields(5) [OF assms(1)] with_required_claims_def)
  ultimately have same: "lib_decode L tok k (build_validation L ?c) = lib_decode L tok k (build_validation L ?d)" for k
    by (rule other_names_ignoredD [OF assms(2)])
  have "decoding_keys L ?c = decoding_keys L ?d"
    by (simp add: decoding_keys_def with_required_claims_def push_rotation_keys_collect rotation_entry_key_def)
  then show ?thesis
    unfolding decode_def decode_with_rotation_def same try_keys_cong [OF same] by simp
qed

lemma table_lib_ignores: "other_names_ignored (table_lib hdr claim good facts)"
  by (simp add: other_names_ignored_def table_lib_def passes_def)

theorem custom_required_claims_ignored_witness:
  "decode sample_lib (with_required_claims [''exp'', ''jti'', ''role''] sample_config) ''tok'' = Ok 7
   \<and> ''jti'' \<notin> tf_present sample_facts"
proof
  have "meets_policy (with_required_claims [''exp''] sample_config) 100 sample_facts"
    using sample_policy by (auto simp: meets_policy_def with_required_claims_def sample_facts_def)
  then have "passes 100 (build_validation sample_lib (with_required_claims [''exp''] sample_config)) sample_facts"
    using passes_build_validation [OF sample_lib_documented(1)] by blast
  then have "decode sample_lib (with_required_claims [''exp''] sample_config) ''tok'' = Ok 7"
    by (simp add: decode_def decode_with_rotation_def decoding_keys_def decoding_key_for_family
        sample_lib_def table_lib_def sample_config_def with_required_claims_def)
  moreover have "other_names_ignored sample_lib" by (simp add: sample_lib_def table_lib_ignores)
  ultimately show "decode sample_lib (with_required_claims [''exp'', ''jti'', ''role''] sample_config) ''tok'' = Ok 7"
    using custom_required_claims_ignored [OF sample_lib_documented(1), of "[''exp'', ''jti'', ''role'']" sample_config "''tok''"]
    by simp
qed (simp add: sample_facts_def)

subsection \<open>Key material\<close>

text \<open>
  Key material is kept apart: an HMAC algorithm verifies with the secret alone, whatever
  public key is configured, and signs ignoring the private DER bytes, so a published key can
  never become an HMAC secret; an asymmetric algorithm with any public material configured
  never reads the secret for verification, and DER bytes take precedence over PEM text.
\<close>

theorem key_material_separated:
  "(if family alg = Hmac
    then decoding_key_for L alg pem der sec = decoding_key_for L alg pem' der' sec
       \<and> encoding_key_for L alg sec priv = encoding_key_for L alg sec priv'
    else decoding_key_for L alg (Some p) der sec = decoding_key_for L alg (Some p) der sec'
       \<and> decoding_key_for L alg pem (Some d) sec = decoding_key_for L alg pem' (Some d) sec'
       \<and> is_ok (decoding_key_for L alg pem (Some d) sec))"
  by (cases "family alg"; cases der) (auto simp: decoding_key_for_family encoding_key_for_family)

subsection \<open>Errors\<close>

text \<open>
  \<open>decode\<close> and \<open>validate\<close> answer with \<open>DecodingFailed\<close> or \<open>KeyLoading\<close> only, and \<open>encode\<close> with
  \<open>EncodingFailed\<close> or \<open>KeyLoading\<close> only: an expired token or a forged signature is never
  reported as \<open>Expired\<close> or \<open>InvalidSignature\<close>.
\<close>

theorem service_errors:
  "(case decode L cfg tok of Inl e \<Rightarrow> \<exists>m. e = DecodingFailed m \<or> e = KeyLoading m | Inr _ \<Rightarrow> True)
   \<and> (case decode_plain L cfg tok of Inl e \<Rightarrow> \<exists>m. e = DecodingFailed m \<or> e = KeyLoading m | Inr _ \<Rightarrow> True)
   \<and> (case encode L cfg c of Inl e \<Rightarrow> e = EncodingFailed \<or> (\<exists>m. e = KeyLoading m) | Inr _ \<Rightarrow> True)"
proof (intro conjI)
  show "case decode L cfg tok of Inl e \<Rightarrow> \<exists>m. e = DecodingFailed m \<or> e = KeyLoading m | Inr _ \<Rightarrow> True"
    by (auto simp: decode_def dest: decode_with_rotation_error split: sum.split)
  show "case decode_plain L cfg tok of Inl e \<Rightarrow> \<exists>m. e = DecodingFailed m \<or> e = KeyLoading m | Inr _ \<Rightarrow> True"
    by (auto simp: decode_plain_def decoding_key_def result_iff
        dest: decoding_key_for_error split: sum.split)
  show "case encode L cfg c of Inl e \<Rightarrow> e = EncodingFailed \<or> (\<exists>m. e = KeyLoading m) | Inr _ \<Rightarrow> True"
    by (auto simp: encode_def encoding_key_def Let_def result_iff
        dest: encoding_key_for_error split: sum.split)
qed

subsection \<open>Stamping\<close>

text \<open>
  The two standard encoders fill in exactly the missing bookkeeping claims: \<open>iat\<close> is the
  present, \<open>exp\<close> the present plus the access or the refresh lifetime, \<open>iss\<close> the configured
  issuer, \<open>aud\<close> the first configured audience, \<open>jti\<close> the fresh id. Claims that are set are kept,
  nothing else changes, and the only panic is that of the time arithmetic for a missing \<open>exp\<close>.
\<close>

theorem standard_encoders_stamp:
  "let stamp = (\<lambda>e. c\<lparr>iat := opt_or (iat c) (Some now), exp := Some e,
          iss := opt_or (iss c) (issuer cfg), aud := opt_or (aud c) (first (merged_audiences cfg)),
          jti := opt_or (jti c) (Some uuid)\<rparr>)
   in encode_standard L C now uuid cfg c =
        map_option (\<lambda>e. encode L cfg (stamp e)) (opt_or (exp c) (add_seconds C now (access_token_ttl cfg)))
    \<and> encode_refresh_standard L C now uuid cfg c =
        map_option (\<lambda>e. encode L cfg (stamp e)) (opt_or (exp c) (add_seconds C now (refresh_token_ttl cfg)))"
  by (simp add: encode_standard_def encode_refresh_standard_def stamped_standard_alt
      option.map_comp comp_def)

text \<open>
  Stamping is idempotent: stamped claims are not changed by stamping them again, at any
  later time, with any other id and any lifetime.
\<close>

theorem stamping_idempotent:
  assumes "stamped_standard C now uuid cfg c ttl = Some d"
  shows "stamped_standard C now' uuid' cfg d ttl' = Some d"
proof -
  from assms obtain e where d: "d = c\<lparr>iat := opt_or (iat c) (Some now), exp := Some e,
      iss := opt_or (iss c) (issuer cfg), aud := opt_or (aud c) (first (merged_audiences cfg)),
      jti := opt_or (jti c) (Some uuid)\<rparr>"
    by (auto simp: stamped_standard_alt)
  have idem: "opt_or (opt_or a b) b = opt_or a b" "opt_or (opt_or a (Some x)) y = opt_or a (Some x)"
    for a b :: "'z option" and x y
    by (cases a; simp; cases b; simp) (cases a; simp)
  show ?thesis by (simp add: d stamped_standard_alt idem)
qed

theorem stamping_idempotent_witness:
  "stamped_standard milli_chrono 9000 ''id2'' sample_config
     (default_claims\<lparr>iat := Some 5000, exp := Some 3605000, iss := Some ''me'', aud := Some ''you'',
        jti := Some ''id1''\<rparr>) 60
   = Some (default_claims\<lparr>iat := Some 5000, exp := Some 3605000, iss := Some ''me'',
        aud := Some ''you'', jti := Some ''id1''\<rparr>)"
proof (rule stamping_idempotent)
  show "stamped_standard milli_chrono 5000 ''id1'' sample_config default_claims 3600
      = Some (default_claims\<lparr>iat := Some 5000, exp := Some 3605000, iss := Some ''me'',
          aud := Some ''you'', jti := Some ''id1''\<rparr>)"
    by (simp add: stamped_standard_alt default_claims_def sample_config_def merged_audiences_def)
qed

text \<open>
  That the payload of an encoded token carries no claim beside the serialized ones; what the
  library documents of \<open>encode\<close>.
\<close>

definition payload_serialized ::
    "('ek, 'dk, 'dt standard_claims) jwt_lib \<Rightarrow> 'dt chrono_lib \<Rightarrow> (string \<Rightarrow> token_facts) \<Rightarrow> bool" where
  "payload_serialized L C facts \<longleftrightarrow>
     (\<forall>h c ek tok. lib_encode L h c ek = Ok tok \<longrightarrow>
        tf_present (facts tok) \<subseteq> fst ` set (serialize_claims C c))"

text \<open>
  A service without a configured issuer rejects the tokens it mints: \<open>encode_standard\<close>
  leaves \<open>iss\<close> unset, and \<open>decode\<close> requires it. The default configuration is such a service.
\<close>

theorem default_service_rejects_own_tokens:
  assumes "constructors_documented L" and enf: "decode_enforces L now facts"
    and "payload_serialized L C facts"
    and "issuer cfg = None" and "''iss'' \<in> set (required_claims cfg)"
    and "iss c = None" and "''iss'' \<notin> fst ` set (extra c)"
    and "encode_standard L C utc uuid cfg c = Some (Ok tok)"
  shows "\<not> is_ok (decode L cfg tok)"
proof
  assume "is_ok (decode L cfg tok)"
  then obtain d where "decode L cfg tok = Ok d" by (auto simp: is_ok_iff)
  then obtain k where "lib_decode L tok k (build_validation L cfg) = Ok d"
    by (auto simp: decode_def elim: decode_with_rotation_Ok)
  then have "passes now (build_validation L cfg) (facts tok)"
    by (rule decode_enforcesD [OF enf])
  then have present: "''iss'' \<in> tf_present (facts tok)"
    using assms(5) by (auto simp: passes_build_validation [OF assms(1)] meets_policy_def spec_claims_def)
  from assms(8) obtain s where s: "stamped_standard C utc uuid cfg c (access_token_ttl cfg) = Some s"
      "encode L cfg s = Ok tok"
    by (auto simp: encode_standard_def)
  obtain h ek where "lib_encode L h s ek = Ok tok"
    using s(2) by (auto simp: encode_def Let_def result_iff)
  then have "tf_present (facts tok) \<subseteq> fst ` set (serialize_claims C s)"
    using assms(3) unfolding payload_serialized_def by blast
  moreover have "iss s = None" "extra s = extra c"
    using stamped_standard_Some [OF s(1)] assms(4,6) by simp_all
  ultimately show False
    using present assms(7)
    by (auto simp: serialize_claims_def ser_option_def ser_nonempty_def split: option.splits if_splits)
qed

definition quickstart_claims :: "int standard_claims" where
  "quickstart_claims = default_claims\<lparr>sub := Some ''user-123'', role := Some ''admin''\<rparr>"

definition quickstart_stamped :: "int standard_claims" where
  "quickstart_stamped = quickstart_claims\<lparr>iat := Some 5000, exp := Some 3605000, jti := Some ''id''\<rparr>"

definition quickstart_facts :: token_facts where
  "quickstart_facts = \<lparr>tf_alg = LibHS256, tf_present = {''sub'', ''exp''},
     tf_exp = Some 3605, tf_nbf = None, tf_iss = None, tf_aud = None\<rparr>"

definition quickstart_lib :: "(bytes, bytes, int standard_claims) jwt_lib" where
  "quickstart_lib = table_lib \<lparr>h_alg = LibHS256, h_kid = None\<rparr> quickstart_stamped
     (as_bytes ''my-secret-key'') quickstart_facts"

lemma quickstart_payload: "payload_serialized quickstart_lib milli_chrono (\<lambda>_. quickstart_facts)"
proof -
  have "tf_present quickstart_facts \<subseteq> fst ` set (serialize_claims milli_chrono quickstart_stamped)"
    by (simp add: serialize_claims_def ser_option_def ser_nonempty_def quickstart_stamped_def
        quickstart_claims_def default_claims_def quickstart_facts_def insert_commute)
  moreover have "c = quickstart_stamped" if "lib_encode quickstart_lib h c ek = Ok tok" for h c ek tok
    using that unfolding quickstart_lib_def table_lib_def by (simp split: if_splits)
  ultimately show ?thesis unfolding payload_serialized_def by metis
qed

theorem default_service_rejects_own_tokens_witness:
  "encode_standard quickstart_lib milli_chrono 5000 ''id''
     (default_config\<lparr>secret := ''my-secret-key''\<rparr>) quickstart_claims = Some (Ok ''tok'')
   \<and> \<not> is_ok (decode quickstart_lib (default_config\<lparr>secret := ''my-secret-key''\<rparr>) ''tok'')"
proof -
  let ?cfg = "default_config\<lparr>secret := ''my-secret-key''\<rparr>"
  have enc: "encode_standard quickstart_lib milli_chrono 5000 ''id'' ?cfg quickstart_claims
      = Some (Ok ''tok'')"
    by (simp add: encode_standard_def stamped_standard_alt encode_def encoding_key_def
        encoding_key_for_family quickstart_lib_def table_lib_def quickstart_stamped_def
        quickstart_claims_def default_claims_def default_config_def merged_audiences_def)
  have "constructors_documented quickstart_lib"
    "decode_enforces quickstart_lib 100 (\<lambda>_. quickstart_facts)"
    by (simp_all add: quickstart_lib_def table_lib_facts)
  then have "\<not> is_ok (decode quickstart_lib ?cfg ''tok'')"
    using enc quickstart_payload
    by (intro default_service_rejects_own_tokens)
      (simp_all add: quickstart_claims_def default_claims_def)
  with enc show ?thesis by blast
qed

end
