(* ===== verification/Rotation_Properties.thy ===== *)
theory Rotation_Properties
  imports Service_Properties
begin

section \<open>Key selection and rotation\<close>

text \<open>
  The theorems about \<open>decode_with_rotation\<close>: which configured key decides about a token, what
  happens with ids that name no key, with tokens that carry none and with keys that do not
  load, and that tokens outlive a rotation of the signing key.
\<close>

subsection \<open>Which key verifies a token\<close>

text \<open>
  The key ring of a configuration: the configured keys with their ids, primary first, whether
  or not they load.
\<close>

definition ring_ids :: "jwt_config \<Rightarrow> string option list" where
  "ring_ids cfg = key_id cfg # map rk_key_id (rotation_keys cfg)"

lemma candidates_ids: "decoding_keys L cfg = Ok cands \<Longrightarrow> map fst cands = ring_ids cfg"
proof -
  assume "decoding_keys L cfg = Ok cands"
  then obtain k0 ks where c: "cands = (key_id cfg, k0) # ks" and
    ks: "list_all2 (\<lambda>e c. fst c = rk_key_id e \<and> rotation_entry_key L cfg e = Ok (snd c))
          (rotation_keys cfg) ks"
    by (auto simp: decoding_keys_Ok_iff)
  from ks have "map fst ks = map rk_key_id (rotation_keys cfg)"
    by (induction rule: list_all2_induct) auto
  with c show ?thesis by (simp add: ring_ids_def)
qed

lemma find_None_ids:
  "find (\<lambda>c. fst c = Some kid) cands = None \<longleftrightarrow> Some kid \<notin> set (map fst cands)"
  by (force simp: find_None_iff)

lemma find_rotation_entry:
  assumes "list_all2 (\<lambda>e c. fst c = rk_key_id e \<and> rotation_entry_key L cfg e = Ok (snd c)) es ks"
  shows "(find (\<lambda>e. rk_key_id e = Some kid) es = None \<longrightarrow> find (\<lambda>c. fst c = Some kid) ks = None)
    \<and> (\<forall>e. find (\<lambda>e. rk_key_id e = Some kid) es = Some e \<longrightarrow>
        (\<exists>k. rotation_entry_key L cfg e = Ok k \<and> find (\<lambda>c. fst c = Some kid) ks = Some (Some kid, k)))"
  using assms
proof (induction rule: list_all2_induct)
  case Nil
  then show ?case by simp
next
  case (Cons e es c ks)
  then show ?case by (cases c) auto
qed

text \<open>
  C2. A token that names a key id is accepted only under the key that this id selects: the
  primary key if the id is the configuration's, else the first rotation key with this id. No
  other configured key can make it valid.
\<close>

theorem decode_pinned_to_kid:
  assumes "token_kid L tok = Some kid" and "decode L cfg tok = Ok c"
  shows "\<exists>k. lib_decode L tok k (build_validation L cfg) = Ok c \<and>
    (if key_id cfg = Some kid then decoding_key L cfg = Ok k
     else \<exists>e. find (\<lambda>e. rk_key_id e = Some kid) (rotation_keys cfg) = Some e
            \<and> rotation_entry_key L cfg e = Ok k)"
proof -
  from assms obtain cands where cands: "decoding_keys L cfg = Ok cands"
    by (auto simp: decode_def decode_with_rotation_alt result_iff)
  then obtain k0 ks where split: "decoding_key L cfg = Ok k0" "cands = (key_id cfg, k0) # ks"
    "list_all2 (\<lambda>e c. fst c = rk_key_id e \<and> rotation_entry_key L cfg e = Ok (snd c))
       (rotation_keys cfg) ks"
    by (auto simp: decoding_keys_Ok_iff)
  from assms cands obtain p where p: "find (\<lambda>c. fst c = Some kid) cands = Some p"
    "lib_decode L tok (snd p) (build_validation L cfg) = Ok c"
    by (auto simp: decode_def decode_with_rotation_alt result_iff split: option.splits)
  show ?thesis
  proof (cases "key_id cfg = Some kid")
    case True
    with p split show ?thesis by auto
  next
    case False
    with p split find_rotation_entry [OF split(3), of kid] show ?thesis
      by (cases "find (\<lambda>e. rk_key_id e = Some kid) (rotation_keys cfg)") auto
  qed
qed

definition rotated_config :: jwt_config where
  "rotated_config = with_rotation_keys HS256
     [rotation_key_new ''new'' (Some ''k2''), rotation_key_new ''old'' (Some ''k1'')]"

definition rotated_facts :: token_facts where
  "rotated_facts = \<lparr>tf_alg = LibHS256, tf_present = {''exp'', ''iss''}, tf_exp = Some 90,
     tf_nbf = None, tf_iss = Some {''me''}, tf_aud = None\<rparr>"

definition rotated_lib :: "(bytes, bytes, nat) jwt_lib" where
  "rotated_lib = table_lib \<lparr>h_alg = LibHS256, h_kid = Some ''k1''\<rparr> 7 (as_bytes ''old'') rotated_facts"

lemma rotated_lib_documented:
  "constructors_documented rotated_lib"
  "decode_enforces rotated_lib 100 (\<lambda>_. rotated_facts)"
  "encode_decodes rotated_lib (=) 100 (\<lambda>_. rotated_facts)"
  by (simp_all add: rotated_lib_def table_lib_facts)

lemma rotated_policy: "meets_policy rotated_config 100 rotated_facts"
  by (simp add: meets_policy_def rotated_config_def rotated_facts_def)

lemma rotated_surely_policy: "surely_meets_policy rotated_config 100 rotated_facts"
  using rotated_policy by (simp add: surely_meets_policy_def rotated_facts_def)

lemma rotated_kid: "token_kid rotated_lib ''tok'' = Some ''k1''"
  by (simp add: token_kid_def rotated_lib_def table_lib_def)

lemma rotated_decode: "decode rotated_lib rotated_config ''tok'' = Ok 7"
proof -
  have "passes 100 (build_validation rotated_lib rotated_config) rotated_facts"
    using rotated_policy passes_build_validation [OF rotated_lib_documented(1)] by blast
  then show ?thesis
    by (simp add: decode_def decode_with_rotation_def decoding_keys_def decoding_key_for_family
        rotation_entry_key_def rotated_lib_def table_lib_def rotated_config_def
        rotation_key_new_def as_bytes_def)
qed

theorem decode_pinned_to_kid_witness:
  "\<exists>k. lib_decode rotated_lib ''tok'' k (build_validation rotated_lib rotated_config) = Ok 7
     \<and> rotation_entry_key rotated_lib rotated_config (rotation_key_new ''old'' (Some ''k1'')) = Ok k"
  using decode_pinned_to_kid [OF rotated_kid rotated_decode]
  by (simp add: rotated_config_def rotation_key_new_def)

text \<open>
  A token that names an id of no configured key is never accepted and never reaches
  verification: once the keys load, the answer is the fixed error that quotes the id.
\<close>

theorem decode_unknown_kid:
  assumes "token_kid L tok = Some kid" and "Some kid \<notin> set (ring_ids cfg)"
  shows "\<not> is_ok (decode L cfg tok)
    \<and> (is_ok (decoding_keys L cfg) \<longrightarrow> decode L cfg tok = Err (unknown_kid_error kid))"
proof -
  have "find (\<lambda>c. fst c = Some kid) cands = None" if "decoding_keys L cfg = Ok cands" for cands
    using that assms(2) by (simp add: find_None_ids candidates_ids del: set_map)
  then show ?thesis
    using assms(1)
    by (cases "decoding_keys L cfg") (auto simp: decode_def decode_with_rotation_alt)
qed

theorem decode_unknown_kid_witness:
  "decode rotated_lib (with_rotation_secrets HS256 [''new'', ''old'']) ''tok'' =
     Err (DecodingFailed ''token references unknown key id `k1`'')"
proof -
  let ?cfg = "with_rotation_secrets HS256 [''new'', ''old'']"
  have "is_ok (decoding_keys rotated_lib ?cfg)"
    by (simp add: decoding_keys_def decoding_key_for_family rotation_entry_key_def
        with_rotation_secrets_def)
  moreover have "Some ''k1'' \<notin> set (ring_ids ?cfg)"
    by (simp add: ring_ids_def with_rotation_secrets_def rotation_key_new_def)
  ultimately show ?thesis
    using decode_unknown_kid [OF rotated_kid] by (simp add: unknown_kid_error_def)
qed

lemma is_ok_try_keys:
  "is_ok (try_keys L tok v e0 cands) \<longleftrightarrow> (\<exists>k \<in> set cands. is_ok (lib_decode L tok (snd k) v))"
proof (induction cands arbitrary: e0)
  case Nil
  then show ?case by simp
next
  case (Cons k ks)
  then show ?case by (cases k; cases "lib_decode L tok (snd k) v") auto
qed

text \<open>
  A token without a readable key id is a legacy token: once all keys load it is accepted
  exactly when some configured key verifies it, primary first; when it is rejected the reported
  error is the one of the last key, and never the initial \<open>no keys configured\<close>.
\<close>

theorem decode_legacy:
  assumes "token_kid L tok = None" and "decoding_keys L cfg = Ok cands"
  shows "(is_ok (decode L cfg tok) \<longleftrightarrow>
      (\<exists>k \<in> snd ` set cands. is_ok (lib_decode L tok k (build_validation L cfg))))
    \<and> (\<forall>e. decode L cfg tok = Err e \<longrightarrow>
      (\<exists>m. lib_decode L tok (snd (last cands)) (build_validation L cfg) = Err m
         \<and> e = DecodingFailed m))"
proof -
  have "decode L cfg tok = try_keys L tok (build_validation L cfg)
      (DecodingFailed ''no keys configured'') cands"
    using assms by (simp add: decode_def decode_with_rotation_alt)
  then show ?thesis
    using decoding_keys_nonempty [OF assms(2)] by (auto simp: is_ok_try_keys try_keys_Err_iff)
qed

definition legacy_lib :: "(bytes, bytes, nat) jwt_lib" where
  "legacy_lib = table_lib \<lparr>h_alg = LibHS256, h_kid = None\<rparr> 7 (as_bytes ''old'') rotated_facts"

lemma legacy_lib_documented:
  "constructors_documented legacy_lib"
  "decode_enforces legacy_lib 100 (\<lambda>_. rotated_facts)"
  "encode_decodes legacy_lib (=) 100 (\<lambda>_. rotated_facts)"
  by (simp_all add: legacy_lib_def table_lib_facts)

theorem decode_legacy_witness:
  "is_ok (decode legacy_lib rotated_config ''tok'')
   \<and> \<not> is_ok (decode legacy_lib rotated_config ''other'')"
proof -
  let ?v = "build_validation legacy_lib rotated_config"
  have cands: "decoding_keys legacy_lib rotated_config =
      Ok [(Some ''k2'', as_bytes ''new''), (Some ''k2'', as_bytes ''new''), (Some ''k1'', as_bytes ''old'')]"
    by (simp add: decoding_keys_def decoding_key_for_family rotation_entry_key_def
        rotated_config_def rotation_key_new_def legacy_lib_def table_lib_def)
  have "passes 100 ?v rotated_facts"
    using rotated_policy passes_build_validation [OF legacy_lib_documented(1)] by blast
  then have ok: "lib_decode legacy_lib ''tok'' (as_bytes ''old'') ?v = Ok 7"
    by (simp add: legacy_lib_def table_lib_def)
  have kid: "token_kid legacy_lib ''tok'' = None" "token_kid legacy_lib ''other'' = None"
    by (simp_all add: token_kid_def legacy_lib_def table_lib_def)
  have bad: "lib_decode legacy_lib ''other'' k ?v = Err ''invalid''" for k
    by (simp add: legacy_lib_def table_lib_def)
  from decode_legacy [OF kid(1) cands] decode_legacy [OF kid(2) cands]
  show ?thesis by (simp add: ok bad)
qed

text \<open>
  One rotation key that cannot be loaded disables decoding altogether: every token, also
  one that names the primary key, is answered with the same key-loading error.
\<close>

theorem bad_rotation_key_blocks_all:
  assumes "e \<in> set (rotation_keys cfg)" and "\<not> is_ok (rotation_entry_key L cfg e)"
  shows "\<exists>m. \<forall>tok. decode L cfg tok = Err (KeyLoading m)"
proof (cases "decoding_keys L cfg")
  case (Inl err)
  with decoding_keys_error [OF Inl] show ?thesis by (auto simp: decode_def decode_with_rotation_alt)
next
  case (Inr cands)
  then obtain ks where "list_all2 (\<lambda>e c. fst c = rk_key_id e \<and> rotation_entry_key L cfg e = Ok (snd c))
      (rotation_keys cfg) ks"
    by (auto simp: decoding_keys_Ok_iff)
  then have "\<forall>e \<in> set (rotation_keys cfg). is_ok (rotation_entry_key L cfg e)"
    by (induction rule: list_all2_induct) auto
  with assms show ?thesis by blast
qed

definition rsa_lib :: "(bytes, bytes, nat) jwt_lib" where
  "rsa_lib = (table_lib \<lparr>h_alg = LibRS256, h_kid = Some ''k1''\<rparr> 7 [] rotated_facts)
     \<lparr>dk_from_rsa_pem := (\<lambda>b. if b = as_bytes ''private'' then Err ''InvalidKeyFormat'' else Ok b)\<rparr>"

theorem bad_rotation_key_blocks_all_witness:
  "\<exists>m. \<forall>tok. decode rsa_lib
     (default_config\<lparr>algorithm := RS256, secret := ''public'',
        rotation_keys := [rotation_key_new ''private'' None]\<rparr>) tok
     = Err (KeyLoading m)"
  by (rule bad_rotation_key_blocks_all [where e = "rotation_key_new ''private'' None"])
    (simp_all add: rotation_entry_key_def decoding_key_for_family rotation_key_new_def rsa_lib_def)

subsection \<open>with_rotation_keys against its specification\<close>

text \<open>
  The documented contract of \<open>with_rotation_keys\<close>, on the given keys alone: all are loaded in
  order; a token naming an id is verified only under the first key with that id; a token without
  an id is verified under the first key that accepts it.
\<close>

definition key_ring_spec ::
    "('ek, 'dk, 'c) jwt_lib \<Rightarrow> jwt_config \<Rightarrow> rotation_key list \<Rightarrow> string \<Rightarrow> jwt_error + 'c" where
  "key_ring_spec L cfg keys tok =
     and_then (collect (\<lambda>e. map_ok (Pair (rk_key_id e)) (rotation_entry_key L cfg e)) keys) (\<lambda>ring.
       case token_kid L tok of
         Some kid \<Rightarrow> (case find (\<lambda>c. fst c = Some kid) ring of
            Some c \<Rightarrow> map_err DecodingFailed (lib_decode L tok (snd c) (build_validation L cfg))
          | None \<Rightarrow> Err (unknown_kid_error kid))
       | None \<Rightarrow> try_keys L tok (build_validation L cfg) (DecodingFailed ''no keys configured'') ring)"

lemma with_rotation_keys_primary:
  assumes "rk_public_key k = None" "rk_der_public_key k = None"
  shows "decoding_key_for L alg None None (rk_secret k)
    = rotation_entry_key L (with_rotation_keys alg (k # ks)) k"
  using assms by (simp add: rotation_entry_key_def)

lemma with_rotation_keys_contract:
  assumes "rk_public_key k = None" and "rk_der_public_key k = None"
  shows "decode L (with_rotation_keys alg (k # ks)) tok
    = key_ring_spec L (with_rotation_keys alg (k # ks)) (k # ks) tok"
proof -
  let ?cfg = "with_rotation_keys alg (k # ks)"
  let ?load = "\<lambda>e. map_ok (Pair (rk_key_id e)) (rotation_entry_key L ?cfg e)"
  have keys: "decoding_keys L ?cfg = and_then (rotation_entry_key L ?cfg k)
      (\<lambda>key. map_ok ((@) [(rk_key_id k, key)]) (collect ?load (k # ks)))"
    by (simp add: decoding_keys_def push_rotation_keys_collect
        with_rotation_keys_primary [OF assms, of L alg ks] del: collect.simps)
  show ?thesis
  proof (cases "rotation_entry_key L ?cfg k")
    case (Inl e)
    then show ?thesis
      unfolding decode_def decode_with_rotation_alt key_ring_spec_def keys by simp
  next
    case k: (Inr key)
    show ?thesis
    proof (cases "collect ?load ks")
      case (Inl e)
      with k show ?thesis
        unfolding decode_def decode_with_rotation_alt key_ring_spec_def keys by simp
    next
      case (Inr ring)
      with k show ?thesis
        unfolding decode_def decode_with_rotation_alt key_ring_spec_def keys
        by (auto split: option.split sum.split)
    qed
  qed
qed

text \<open>
  C29. What the configuration built by \<open>with_rotation_keys\<close> decodes, for every token and every library:
  the contract, but on the given keys with one more in front, the first key without the public
  material it may carry. When the first key carries none, as every HMAC key, the extra key makes no
  difference and the contract on the given keys is met; when it carries some, the extra key is the
  one that fails to load or verifies under the wrong key (a finding).
\<close>

theorem with_rotation_keys_refines:
  "decode L (with_rotation_keys alg (k # ks)) tok
     = key_ring_spec L (with_rotation_keys alg (k # ks))
         (k\<lparr>rk_public_key := None, rk_der_public_key := None\<rparr> # k # ks) tok
   \<and> (rk_public_key k = None \<and> rk_der_public_key k = None \<longrightarrow>
      decode L (with_rotation_keys alg (k # ks)) tok
        = key_ring_spec L (with_rotation_keys alg (k # ks)) (k # ks) tok)"
proof
  let ?cfg = "with_rotation_keys alg (k # ks)"
  let ?bare = "k\<lparr>rk_public_key := None, rk_der_public_key := None\<rparr>"
  let ?load = "\<lambda>e. map_ok (Pair (rk_key_id e)) (rotation_entry_key L ?cfg e)"
  have "rotation_entry_key L ?cfg ?bare = decoding_key_for L alg None None (rk_secret k)"
    by (simp add: rotation_entry_key_def)
  then have "decoding_keys L ?cfg = and_then (rotation_entry_key L ?cfg ?bare)
      (\<lambda>key. map_ok ((@) [(rk_key_id k, key)]) (collect ?load (k # ks)))"
    by (simp add: decoding_keys_def push_rotation_keys_collect del: collect.simps)
  also have "\<dots> = collect ?load (?bare # k # ks)"
    by (cases "rotation_entry_key L ?cfg ?bare"; cases "collect ?load (k # ks)")
      (simp_all del: collect.simps add: collect.simps(2) [of _ ?bare])
  finally show "decode L ?cfg tok = key_ring_spec L ?cfg (?bare # k # ks) tok"
    by (simp only: decode_def decode_with_rotation_alt key_ring_spec_def)
qed (simp add: with_rotation_keys_contract)

theorem with_rotation_keys_refines_witness:
  "key_ring_spec rotated_lib rotated_config (rotation_keys rotated_config) ''tok'' = Ok 7"
  using rotated_decode
    with_rotation_keys_refines [of rotated_lib HS256 "rotation_key_new ''new'' (Some ''k2'')"
      "[rotation_key_new ''old'' (Some ''k1'')]" "''tok''", THEN conjunct2]
  by (simp add: rotated_config_def rotation_key_new_def)

text \<open>
  The public key that the first rotation key carries is lost by \<open>with_rotation_keys\<close>: for an
  asymmetric algorithm the primary entry is loaded from the secret, so when the library refuses
  the private key as a public one, every token is answered with a key-loading error although
  every given key brings a public key that loads.
\<close>

theorem with_rotation_keys_drops_public_key:
  assumes "family alg = Rsa" and "dk_from_rsa_pem L (as_bytes (rk_secret k)) = Err m"
  shows "decode L (with_rotation_keys alg (k # ks)) tok = Err (KeyLoading m)"
  using assms
  by (simp add: decode_def decode_with_rotation_alt decoding_keys_def decoding_key_for_family)

theorem with_rotation_keys_drops_public_key_witness:
  "decode rsa_lib (with_rotation_keys RS256
     [(rotation_key_new ''private'' (Some ''k1''))\<lparr>rk_public_key := Some ''public''\<rparr>]) ''tok''
     = Err (KeyLoading ''InvalidKeyFormat'')
   \<and> is_ok (rotation_entry_key rsa_lib (with_rotation_keys RS256 [])
       ((rotation_key_new ''private'' (Some ''k1''))\<lparr>rk_public_key := Some ''public''\<rparr>))"
proof
  show "decode rsa_lib (with_rotation_keys RS256
     [(rotation_key_new ''private'' (Some ''k1''))\<lparr>rk_public_key := Some ''public''\<rparr>]) ''tok''
     = Err (KeyLoading ''InvalidKeyFormat'')"
    by (rule with_rotation_keys_drops_public_key) (simp_all add: rotation_key_new_def rsa_lib_def)
qed (simp add: rotation_entry_key_def decoding_key_for_family rotation_key_new_def rsa_lib_def
    as_bytes_def)

subsection \<open>Round trips and rotation\<close>

lemma encode_token_kid:
  assumes "encode_decodes L matches now facts" "encode L cfg c = Ok tok"
  shows "token_kid L tok = key_id cfg"
  using assms(2) by (rule encode_OkD) (simp add: token_kid_def encode_decodesD [OF assms(1)])

text \<open>The candidates of an HMAC configuration always load.\<close>

lemma hmac_candidates:
  assumes "family (algorithm cfg) = Hmac"
  shows "decoding_keys L cfg =
     Ok ((key_id cfg, dk_from_secret L (as_bytes (secret cfg))) #
         map (\<lambda>e. (rk_key_id e, dk_from_secret L (as_bytes (rk_secret e)))) (rotation_keys cfg))"
  using assms
  by (auto simp: decoding_keys_Ok_iff decoding_key_def rotation_entry_key_def
      decoding_key_for_family list_all2_map2 list_all2_same)

lemma find_map_pair:
  "find (\<lambda>c. fst c = k) (map (\<lambda>e. (f e, g e)) es) =
     map_option (\<lambda>e. (f e, g e)) (find (\<lambda>e. f e = k) es)"
  by (induction es) auto

text \<open>
  C8. What a service encodes it decodes, under three conditions: its own two keys belong together,
  all its keys load, and the token surely meets the policy (a service without an issuer, for one, requires
  an \<open>iss\<close> that it does not write). Then \<open>decode\<close> returns the encoded claims, with or without a
  key id, however many rotation keys are configured beside the primary.
\<close>

theorem encode_decode_roundtrip:
  assumes "constructors_documented L" and enc_dec: "encode_decodes L matches now facts"
    and enc: "encode L cfg c = Ok tok"
    and pair: "\<And>ek dk. encoding_key L cfg = Ok ek \<Longrightarrow> decoding_key L cfg = Ok dk \<Longrightarrow> matches ek dk"
    and load: "decoding_keys L cfg = Ok cands"
    and policy: "surely_meets_policy cfg now (facts tok)"
  shows "decode L cfg tok = Ok c"
proof -
  obtain ek where ek: "encoding_key L cfg = Ok ek" "lib_encode L
      ((header_new L (to_lib_algorithm (algorithm cfg)))\<lparr>h_kid := key_id cfg\<rparr>) c ek = Ok tok"
    using enc by (rule encode_OkD)
  have pass: "surely_passes now (build_validation L cfg) (facts tok)"
    using policy surely_passes_build_validation [OF assms(1)] by blast
  show ?thesis
    using load encode_token_kid [OF enc_dec enc]
    by (rule decode_primary) (use encode_decodesD(2) [OF enc_dec ek(2) _ pass] pair [OF ek(1)] in blast)
qed

theorem encode_decode_roundtrip_witness: "decode sample_lib sample_config ''tok'' = Ok 7"
proof (rule encode_decode_roundtrip [OF sample_lib_documented(1,3) sample_encode])
  show "decoding_keys sample_lib sample_config = Ok [(None, as_bytes ''s'')]"
    by (simp add: hmac_candidates sample_config_def) (simp add: sample_lib_def table_lib_def)
  show "surely_meets_policy sample_config 100 sample_facts" by (rule sample_surely_policy)
qed (simp add: encoding_key_def encoding_key_for_family decoding_key_def decoding_key_for_family
    sample_lib_def table_lib_def sample_config_def)

text \<open>
  C9. HMAC tokens outlive a rotation: a token that an HMAC service with a key id minted, and that meets
  the policy of the new service, is decoded to the same claims by every service built with \<open>with_rotation_keys\<close> from keys among which the
  first one with that id holds the old secret, whatever key now signs.
\<close>

theorem rotation_keeps_tokens:
  assumes "constructors_documented L" and enc_dec: "encode_decodes L matches now facts"
    and hmac: "\<And>b. matches (ek_from_secret L b) (dk_from_secret L b)"
    and fam: "family (algorithm old) = Hmac"
    and enc: "encode L old c = Ok tok" and kid: "key_id old = Some kid"
    and entry: "find (\<lambda>e. rk_key_id e = Some kid) keys = Some e" "rk_secret e = secret old"
    and policy: "surely_meets_policy (with_rotation_keys (algorithm old) keys) now (facts tok)"
  shows "decode L (with_rotation_keys (algorithm old) keys) tok = Ok c"
proof -
  let ?new = "with_rotation_keys (algorithm old) keys"
  obtain ek where ek: "encoding_key L old = Ok ek" "lib_encode L
      ((header_new L (to_lib_algorithm (algorithm old)))\<lparr>h_kid := key_id old\<rparr>) c ek = Ok tok"
    using enc by (rule encode_OkD)
  have ek_eq: "ek = ek_from_secret L (as_bytes (secret old))"
    using ek(1) fam by (simp add: encoding_key_def encoding_key_for_family)
  have "surely_passes now (build_validation L ?new) (facts tok)"
    using policy surely_passes_build_validation [OF assms(1)] by blast
  then have dec: "lib_decode L tok (dk_from_secret L (as_bytes (secret old)))
      (build_validation L ?new) = Ok c"
    using encode_decodesD(2) [OF enc_dec ek(2)] hmac by (simp add: ek_eq)
  obtain k ks where keys: "keys = k # ks" using entry(1) by (cases keys) auto
  have "find (\<lambda>c. fst c = Some kid) ((key_id ?new, dk_from_secret L (as_bytes (secret ?new))) #
      map (\<lambda>e. (rk_key_id e, dk_from_secret L (as_bytes (rk_secret e)))) (rotation_keys ?new))
      = Some (Some kid, dk_from_secret L (as_bytes (secret old)))"
    using entry find_SomeD [OF entry(1)] by (auto simp: keys find_map_pair split: if_splits)
  then show ?thesis
    using dec kid encode_token_kid [OF enc_dec enc] fam
    by (simp add: decode_def decode_with_rotation_alt hmac_candidates del: find.simps)
qed

theorem rotation_keeps_tokens_witness: "decode rotated_lib rotated_config ''tok'' = Ok 7"
proof -
  let ?old = "default_config\<lparr>secret := ''old'', key_id := Some ''k1''\<rparr>"
  have enc: "encode rotated_lib ?old 7 = Ok ''tok''"
    by (simp add: encode_def encoding_key_def encoding_key_for_family rotated_lib_def table_lib_def)
  have "decode rotated_lib (with_rotation_keys (algorithm ?old)
      [rotation_key_new ''new'' (Some ''k2''), rotation_key_new ''old'' (Some ''k1'')]) ''tok'' = Ok 7"
  proof (rule rotation_keeps_tokens [where e = "rotation_key_new ''old'' (Some ''k1'')" and kid = "''k1''",
        OF rotated_lib_documented(1,3) _ _ enc])
    show "surely_meets_policy (with_rotation_keys (algorithm ?old)
        [rotation_key_new ''new'' (Some ''k2''), rotation_key_new ''old'' (Some ''k1'')]) 100 rotated_facts"
      using rotated_surely_policy by (simp add: rotated_config_def)
  qed (simp_all add: rotated_lib_def table_lib_def rotation_key_new_def)
  then show ?thesis by (simp add: rotated_config_def)
qed

text \<open>
  Tokens minted before key ids were in use outlive a rotation too: a service built with
  \<open>with_rotation_secrets\<close> accepts them as long as the old secret is among the listed ones.
\<close>

theorem rotation_secrets_keep_tokens:
  assumes "constructors_documented L" and enc_dec: "encode_decodes L matches now facts"
    and hmac: "\<And>b. matches (ek_from_secret L b) (dk_from_secret L b)"
    and fam: "family (algorithm old) = Hmac"
    and enc: "encode L old c = Ok tok" and kid: "key_id old = None"
    and entry: "secret old \<in> set secrets"
    and policy: "surely_meets_policy (with_rotation_secrets (algorithm old) secrets) now (facts tok)"
  shows "is_ok (decode L (with_rotation_secrets (algorithm old) secrets) tok)"
proof -
  let ?new = "with_rotation_secrets (algorithm old) secrets"
  obtain ek where ek: "encoding_key L old = Ok ek" "lib_encode L
      ((header_new L (to_lib_algorithm (algorithm old)))\<lparr>h_kid := key_id old\<rparr>) c ek = Ok tok"
    using enc by (rule encode_OkD)
  have ek_eq: "ek = ek_from_secret L (as_bytes (secret old))"
    using ek(1) fam by (simp add: encoding_key_def encoding_key_for_family)
  have "surely_passes now (build_validation L ?new) (facts tok)"
    using policy surely_passes_build_validation [OF assms(1)] by blast
  then have dec: "lib_decode L tok (dk_from_secret L (as_bytes (secret old)))
      (build_validation L ?new) = Ok c"
    using encode_decodesD(2) [OF enc_dec ek(2)] hmac by (simp add: ek_eq)
  have "\<exists>k \<in> set (rotation_keys ?new). rk_secret k = secret old"
    using entry by (auto simp: with_rotation_secrets_def rotation_key_new_def)
  then show ?thesis
    using dec kid encode_token_kid [OF enc_dec enc] fam
    by (auto simp: decode_def decode_with_rotation_alt hmac_candidates is_ok_try_keys
        with_rotation_secrets_def simp del: try_keys.simps) (metis is_ok_simps(2))
qed

theorem rotation_secrets_keep_tokens_witness:
  "is_ok (decode legacy_lib (with_rotation_secrets HS256 [''new'', ''old'']) ''tok'')"
proof -
  let ?old = "default_config\<lparr>secret := ''old''\<rparr>"
  have enc: "encode legacy_lib ?old 7 = Ok ''tok''"
    by (simp add: encode_def encoding_key_def encoding_key_for_family legacy_lib_def table_lib_def)
  have "is_ok (decode legacy_lib (with_rotation_secrets (algorithm ?old) [''new'', ''old'']) ''tok'')"
  proof (rule rotation_secrets_keep_tokens [OF legacy_lib_documented(1,3) _ _ enc])
    show "surely_meets_policy (with_rotation_secrets (algorithm ?old) [''new'', ''old'']) 100 rotated_facts"
      using rotated_surely_policy by (simp add: rotated_config_def surely_meets_policy_def with_rotation_secrets_def meets_policy_def)
  qed (simp_all add: legacy_lib_def table_lib_def)
  then show ?thesis by simp
qed

end
