(* ===== verification/Revocation_Store.thy ===== *)
theory Revocation_Store
  imports Token_Prelude
begin

section \<open>The revocation interface (src/revocation.rs, TokenRevocationStore)\<close>

text \<open>
  The trait \<open>TokenRevocationStore\<close> as a locale. \<open>revoke t1 t2 jti s\<close> starts at clock reading
  \<open>t1\<close>, records the revocation at reading \<open>t2\<close> and returns the answer and the new state;
  \<open>is_revoked t jti s\<close> answers at reading \<open>t\<close>. \<open>lifetime\<close> is how long an entry lasts (\<open>None\<close>:
  for ever) and \<open>invar\<close> what an implementation keeps true of its state. The laws are what the
  decoder needs of a store: a revocation is visible as long as it lasts, and revoking one id
  never makes another one revoked.
\<close>

definition alive :: "duration option \<Rightarrow> instant \<Rightarrow> instant \<Rightarrow> bool" where
  "alive ttl inserted now = (case ttl of Some d \<Rightarrow> now - inserted < d | None \<Rightarrow> True)"

lemma alive_simps [simp]:
  "alive None i t"
  "alive (Some d) i t \<longleftrightarrow> t - i < d"
  by (simp_all add: alive_def)

lemma alive_mono: "alive ttl i t \<Longrightarrow> t' \<le> t \<Longrightarrow> alive ttl i t'"
  by (cases ttl) auto

lemma alive_antimono: "alive ttl i t \<Longrightarrow> i \<le> i' \<Longrightarrow> alive ttl i' t"
  by (cases ttl) auto

locale revocation_store =
  fixes revoke :: "instant \<Rightarrow> instant \<Rightarrow> string \<Rightarrow> 's \<Rightarrow> ('e + unit) \<times> 's"
    and is_revoked :: "instant \<Rightarrow> string \<Rightarrow> 's \<Rightarrow> 'e + bool"
    and lifetime :: "'s \<Rightarrow> duration option"
    and invar :: "'s \<Rightarrow> bool"
  assumes invar_revoke: "invar s \<Longrightarrow> invar (snd (revoke t1 t2 j s))"
    and lifetime_revoke: "lifetime (snd (revoke t1 t2 j s)) = lifetime s"
    and revoked_visible: "invar s \<Longrightarrow> revoke t1 t2 j s = (Ok (), s') \<Longrightarrow>
      alive (lifetime s) t2 t \<Longrightarrow> is_revoked t j s' = Ok True"
    and revoke_local: "invar s \<Longrightarrow> k \<noteq> j \<Longrightarrow>
      is_revoked t k (snd (revoke t1 t2 j s)) = Ok True \<Longrightarrow> is_revoked t k s = Ok True"
begin

text \<open>A run of revocations, each with its two clock readings.\<close>

definition revoke_all :: "(instant \<times> instant \<times> string) list \<Rightarrow> 's \<Rightarrow> 's" where
  "revoke_all rs s = fold (\<lambda>(t1, t2, j) s. snd (revoke t1 t2 j s)) rs s"

lemma revoke_all_Cons: "revoke_all ((t1, t2, j) # rs) s = revoke_all rs (snd (revoke t1 t2 j s))"
  by (simp add: revoke_all_def)

lemma invar_revoke_all: "invar s \<Longrightarrow> invar (revoke_all rs s)"
proof (induction rs arbitrary: s)
  case Nil
  then show ?case by (simp add: revoke_all_def)
next
  case (Cons r rs)
  then show ?case by (cases r) (simp add: revoke_all_Cons invar_revoke)
qed

lemma lifetime_revoke_all: "lifetime (revoke_all rs s) = lifetime s"
proof (induction rs arbitrary: s)
  case Nil
  then show ?case by (simp add: revoke_all_def)
next
  case (Cons r rs)
  then show ?case by (cases r) (simp add: revoke_all_Cons lifetime_revoke)
qed

lemma only_revoked_are_revoked:
  assumes "invar s" "is_revoked t k (revoke_all rs s) = Ok True" "k \<notin> (\<lambda>(_, _, j). j) ` set rs"
  shows "is_revoked t k s = Ok True"
  using assms
proof (induction rs arbitrary: s)
  case Nil
  then show ?case by (simp add: revoke_all_def)
next
  case (Cons r rs)
  obtain t1 t2 j where r: "r = (t1, t2, j)" by (cases r)
  let ?s = "snd (revoke t1 t2 j s)"
  have "is_revoked t k ?s = Ok True"
  proof (rule Cons.IH)
    show "invar ?s" using Cons.prems(1) by (rule invar_revoke)
    show "is_revoked t k (revoke_all rs ?s) = Ok True"
      using Cons.prems(2) by (simp only: r revoke_all_Cons)
    show "k \<notin> (\<lambda>(_, _, j). j) ` set rs" using Cons.prems(3) by simp
  qed
  moreover have "k \<noteq> j" using Cons.prems(3) by (simp add: r)
  ultimately show ?case using Cons.prems(1) revoke_local by blast
qed

end

text \<open>
  A store with a capacity: what is stored at a time, and how much it may be. The law is what the
  documentation of the in-memory store promises.
\<close>

locale bounded_revocation_store = revocation_store revoke is_revoked lifetime invar
  for revoke :: "instant \<Rightarrow> instant \<Rightarrow> string \<Rightarrow> 's \<Rightarrow> ('e + unit) \<times> 's"
    and is_revoked :: "instant \<Rightarrow> string \<Rightarrow> 's \<Rightarrow> 'e + bool"
    and lifetime :: "'s \<Rightarrow> duration option"
    and invar :: "'s \<Rightarrow> bool" +
  fixes stored :: "'s \<Rightarrow> string set"
    and capacity :: "'s \<Rightarrow> nat"
  assumes stored_finite: "invar s \<Longrightarrow> finite (stored s)"
    and stored_le: "invar s \<Longrightarrow> card (stored s) \<le> capacity s"
    and capacity_revoke: "capacity (snd (revoke t1 t2 j s)) = capacity s"
    and revoked_stored: "invar s \<Longrightarrow> is_revoked t j s = Ok True \<Longrightarrow> j \<in> stored s"
begin

lemma capacity_revoke_all: "capacity (revoke_all rs s) = capacity s"
proof (induction rs arbitrary: s)
  case Nil
  then show ?case by (simp add: revoke_all_def)
next
  case (Cons r rs)
  then show ?case by (cases r) (simp add: revoke_all_Cons capacity_revoke)
qed

text \<open>No more ids than the capacity are ever reported as revoked at once.\<close>

lemma revoked_bounded:
  assumes "invar s"
  shows "card {j. is_revoked t j (revoke_all rs s) = Ok True} \<le> capacity s"
proof -
  let ?s = "revoke_all rs s"
  have inv: "invar ?s" using assms by (rule invar_revoke_all)
  then have "card {j. is_revoked t j ?s = Ok True} \<le> card (stored ?s)"
    using revoked_stored stored_finite by (intro card_mono) auto
  also have "\<dots> \<le> capacity s" using stored_le [OF inv] by (simp add: capacity_revoke_all)
  finally show ?thesis .
qed

end

end
