(* ===== verification/In_Memory_Store.thy ===== *)
theory In_Memory_Store
  imports Revocation_Store "HOL-Library.AList"
begin

section \<open>The in-memory store (src/revocation.rs, InMemoryRevocationStore)\<close>

text \<open>
  The state behind the lock, \<open>InMemoryInner\<close>: the hash map \<open>entries\<close> as its list of entries
  with distinct keys (only lookups, insertion, removal, retention and the length are used, none
  of which depends on the order), and the queue \<open>order\<close>. Each function takes the readings of
  the clock it makes. The critical sections run one after the other here; their interleavings
  are the subject of the theory \<open>Concurrent_Revocation\<close>.
\<close>

definition DEFAULT_MAX_ENTRIES :: nat where
  "DEFAULT_MAX_ENTRIES = 100000"

record in_memory_inner =
  entries :: "(string \<times> instant) list"
  order :: "string list"

record in_memory_store =
  inner :: in_memory_inner
  max_entries :: nat
  ttl :: "duration option"

definition contains_key :: "string \<Rightarrow> (string \<times> instant) list \<Rightarrow> bool" where
  "contains_key k es = (map_of es k \<noteq> None)"

subsection \<open>InMemoryInner\<close>

definition sweep_expired :: "instant \<Rightarrow> duration option \<Rightarrow> in_memory_inner \<Rightarrow> in_memory_inner" where
  "sweep_expired now ttl_opt self =
     (case ttl_opt of
        None \<Rightarrow> self
      | Some d \<Rightarrow>
          (let es = filter (\<lambda>(_, inserted). now - inserted < d) (entries self)
           in self\<lparr>entries := es, order := filter (\<lambda>jti. contains_key jti es) (order self)\<rparr>))"

text \<open>The \<open>while\<close> loop of \<open>evict_oldest_to\<close>, which also stops when the queue is empty.\<close>

fun evict_loop :: "nat \<Rightarrow> (string \<times> instant) list \<Rightarrow> string list
    \<Rightarrow> (string \<times> instant) list \<times> string list" where
  "evict_loop m es [] = (es, [])"
| "evict_loop m es (oldest # rest) =
     (if length es \<ge> m then evict_loop m (AList.delete oldest es) rest else (es, oldest # rest))"

definition evict_oldest_to :: "nat \<Rightarrow> in_memory_inner \<Rightarrow> in_memory_inner" where
  "evict_oldest_to m self =
     (let (es, os) = evict_loop m (entries self) (order self)
      in self\<lparr>entries := es, order := os\<rparr>)"

subsection \<open>InMemoryRevocationStore\<close>

definition with_limits :: "nat \<Rightarrow> duration option \<Rightarrow> in_memory_store" where
  "with_limits m ttl_opt =
     \<lparr>inner = \<lparr>entries = [], order = []\<rparr>, max_entries = max m 1, ttl = ttl_opt\<rparr>"

definition store_new :: in_memory_store where
  "store_new = with_limits DEFAULT_MAX_ENTRIES None"

text \<open>\<open>len\<close> sweeps under the write lock and returns the number of entries left.\<close>

definition store_len :: "instant \<Rightarrow> in_memory_store \<Rightarrow> nat \<times> in_memory_store" where
  "store_len now self =
     (let i = sweep_expired now (ttl self) (inner self)
      in (length (entries i), self\<lparr>inner := i\<rparr>))"

definition store_is_empty :: "instant \<Rightarrow> in_memory_store \<Rightarrow> bool \<times> in_memory_store" where
  "store_is_empty now self = (let (n, s) = store_len now self in (n = 0, s))"

definition make_room :: "instant \<Rightarrow> in_memory_store \<Rightarrow> in_memory_store" where
  "make_room now self =
     self\<lparr>inner := evict_oldest_to (max_entries self) (sweep_expired now (ttl self) (inner self))\<rparr>"

text \<open>The second critical section of \<open>revoke\<close>.\<close>

definition insert_entry :: "instant \<Rightarrow> string \<Rightarrow> in_memory_store \<Rightarrow> in_memory_store" where
  "insert_entry now jti self =
     self\<lparr>inner := (inner self)\<lparr>entries := AList.update jti now (entries (inner self)),
        order := order (inner self) @ [jti]\<rparr>\<rparr>"

definition store_revoke :: "instant \<Rightarrow> instant \<Rightarrow> string \<Rightarrow> in_memory_store
    \<Rightarrow> (string + unit) \<times> in_memory_store" where
  "store_revoke t1 t2 jti self = (Ok (), insert_entry t2 jti (make_room t1 self))"

definition store_is_revoked :: "instant \<Rightarrow> string \<Rightarrow> in_memory_store \<Rightarrow> string + bool" where
  "store_is_revoked now jti self =
     Ok (case map_of (entries (inner self)) jti of
           None \<Rightarrow> False
         | Some inserted \<Rightarrow> (case ttl self of Some d \<Rightarrow> now - inserted < d | None \<Rightarrow> True))"

section \<open>Lemmas\<close>

lemma contains_key_iff: "contains_key k es \<longleftrightarrow> k \<in> fst ` set es"
  by (simp add: contains_key_def map_of_eq_None_iff)

lemma sweep_entries:
  "entries (sweep_expired now d self) = filter (\<lambda>e. alive d (snd e) now) (entries self)"
  by (cases d) (simp_all add: sweep_expired_def Let_def case_prod_unfold)

lemma sweep_order:
  "order (sweep_expired now d self) =
     (case d of None \<Rightarrow> order self
      | Some _ \<Rightarrow> filter (\<lambda>j. contains_key j (entries (sweep_expired now d self))) (order self))"
  by (cases d) (simp_all add: sweep_expired_def Let_def)

lemma make_room_simps [simp]:
  "max_entries (make_room t s) = max_entries s"
  "ttl (make_room t s) = ttl s"
  by (simp_all add: make_room_def)

lemma insert_entry_simps [simp]:
  "max_entries (insert_entry t j s) = max_entries s"
  "ttl (insert_entry t j s) = ttl s"
  "entries (inner (insert_entry t j s)) = AList.update j t (entries (inner s))"
  "order (inner (insert_entry t j s)) = order (inner s) @ [j]"
  by (simp_all add: insert_entry_def)

lemma store_is_revoked_alive:
  "store_is_revoked now jti s =
     Ok (\<exists>i. map_of (entries (inner s)) jti = Some i \<and> alive (ttl s) i now)"
  by (auto simp: store_is_revoked_def alive_def split: option.splits)

subsection \<open>The invariant of the state\<close>

text \<open>
  The keys of the hash map are distinct and every one of them is somewhere in the queue; this
  is what makes the eviction loop reach its bound.
\<close>

definition inner_ok :: "in_memory_inner \<Rightarrow> bool" where
  "inner_ok i \<longleftrightarrow> distinct (map fst (entries i)) \<and> fst ` set (entries i) \<subseteq> set (order i)"

definition store_ok :: "in_memory_store \<Rightarrow> bool" where
  "store_ok s \<longleftrightarrow> inner_ok (inner s) \<and> 1 \<le> max_entries s \<and> length (entries (inner s)) \<le> max_entries s"

lemma distinct_map_fst_filter: "distinct (map fst es) \<Longrightarrow> distinct (map fst (filter P es))"
  by (induction es) auto

lemma map_of_filter_Some:
  "distinct (map fst es) \<Longrightarrow>
     map_of (filter P es) k = Some i \<longleftrightarrow> map_of es k = Some i \<and> P (k, i)"
proof (induction es)
  case Nil
  then show ?case by simp
next
  case (Cons e es)
  have "map_of (filter P es) (fst e) = None"
    using Cons.prems by (force simp: map_of_eq_None_iff)
  with Cons show ?case by (cases e) auto
qed

lemma sweep_ok: "inner_ok i \<Longrightarrow> inner_ok (sweep_expired now d i)"
  by (cases d) (auto simp: inner_ok_def sweep_entries sweep_order contains_key_iff
      distinct_map_fst_filter)

lemma evict_loop_spec:
  assumes "distinct (map fst es)" "fst ` set es \<subseteq> set os" "1 \<le> m" "evict_loop m es os = (es', os')"
  shows "distinct (map fst es') \<and> fst ` set es' \<subseteq> set os' \<and> length es' < m
    \<and> (\<exists>us. os = us @ os' \<and> map_of es' = (map_of es) |` (- set us))"
  using assms
proof (induction m es os rule: evict_loop.induct)
  case (1 m es)
  then show ?case by (auto intro!: exI [of _ "[]"])
next
  case (2 m es oldest rest)
  show ?case
  proof (cases "m \<le> length es")
    case False
    with "2.prems" show ?thesis by (auto intro!: exI [of _ "[]"])
  next
    case True
    have d: "distinct (map fst (AList.delete oldest es))"
      using "2.prems"(1) by (rule distinct_delete)
    have s: "fst ` set (AList.delete oldest es) \<subseteq> set rest"
      using "2.prems"(2) by (auto simp: AList.delete_eq)
    from True "2.prems"(4) have e: "evict_loop m (AList.delete oldest es) rest = (es', os')" by simp
    from "2.IH" [OF True d s "2.prems"(3) e] obtain us where us:
      "distinct (map fst es')" "fst ` set es' \<subseteq> set os'" "length es' < m" "rest = us @ os'"
      "map_of es' = (map_of (AList.delete oldest es)) |` (- set us)"
      by blast
    then have "map_of es' = (map_of es) |` (- set (oldest # us))"
      by (auto simp: delete_conv' restrict_map_def fun_eq_iff)
    with us show ?thesis
      by (auto simp: restrict_map_def split: if_splits intro!: exI [of _ "oldest # us"])
  qed
qed

lemma evict_ok:
  assumes "inner_ok i" "1 \<le> m"
  shows "inner_ok (evict_oldest_to m i)" and "length (entries (evict_oldest_to m i)) < m"
proof -
  obtain es os where e: "evict_loop m (entries i) (order i) = (es, os)" by force
  from assms(1) have i: "distinct (map fst (entries i))" "fst ` set (entries i) \<subseteq> set (order i)"
    by (simp_all add: inner_ok_def)
  from evict_loop_spec [OF i assms(2) e] e
  show "inner_ok (evict_oldest_to m i)" "length (entries (evict_oldest_to m i)) < m"
    by (simp_all add: inner_ok_def evict_oldest_to_def)
qed

lemma evict_subset:
  assumes "inner_ok i" "1 \<le> m" "map_of (entries (evict_oldest_to m i)) k = Some t"
  shows "map_of (entries i) k = Some t"
proof -
  obtain es os where e: "evict_loop m (entries i) (order i) = (es, os)" by force
  from assms(1) have i: "distinct (map fst (entries i))" "fst ` set (entries i) \<subseteq> set (order i)"
    by (simp_all add: inner_ok_def)
  from e assms(3) have "map_of es k = Some t" by (simp add: evict_oldest_to_def)
  moreover from evict_loop_spec [OF i assms(2) e] obtain us
    where "map_of es = (map_of (entries i)) |` (- set us)" by blast
  ultimately show ?thesis by (simp add: restrict_map_def split: if_splits)
qed

lemma length_update_le: "length (AList.update k v es) \<le> Suc (length es)"
  by (induction es) auto

lemma make_room_ok:
  assumes "inner_ok (inner s)" "1 \<le> max_entries s"
  shows "inner_ok (inner (make_room t s))" "length (entries (inner (make_room t s))) < max_entries s"
  using assms evict_ok [OF sweep_ok, of "inner s" "max_entries s"] by (simp_all add: make_room_def)

lemma insert_entry_inner_ok: "inner_ok (inner s) \<Longrightarrow> inner_ok (inner (insert_entry t j s))"
  by (auto simp: inner_ok_def distinct_update dom_update simp del: set_map)

lemma revoke_ok:
  assumes "store_ok s"
  shows "store_ok (insert_entry t2 j (make_room t1 s))"
proof -
  from assms have i: "inner_ok (inner s)" "1 \<le> max_entries s" by (simp_all add: store_ok_def)
  note room = make_room_ok [OF i, of t1]
  have "length (entries (inner (insert_entry t2 j (make_room t1 s)))) \<le> max_entries s"
    using room(2) length_update_le [of j t2 "entries (inner (make_room t1 s))"] by simp
  then show ?thesis using i room(1) by (simp add: store_ok_def insert_entry_inner_ok)
qed

lemma make_room_lookup:
  assumes "inner_ok (inner s)" "1 \<le> max_entries s" "map_of (entries (inner (make_room t s))) k = Some i"
  shows "map_of (entries (inner s)) k = Some i"
proof -
  have "map_of (entries (sweep_expired t (ttl s) (inner s))) k = Some i"
    using assms evict_subset [OF sweep_ok [OF assms(1)] assms(2)] by (simp add: make_room_def)
  then show ?thesis
    using assms(1) by (simp add: sweep_entries inner_ok_def map_of_filter_Some)
qed

section \<open>The store provides the interface\<close>

interpretation mem: revocation_store store_revoke store_is_revoked ttl store_ok
proof
  show "store_ok (snd (store_revoke t1 t2 j s))" if "store_ok s" for t1 t2 j s
    using that by (simp add: store_revoke_def revoke_ok)
  show "ttl (snd (store_revoke t1 t2 j s)) = ttl s" for t1 t2 j s
    by (simp add: store_revoke_def)
  show "store_is_revoked t j s' = Ok True"
    if "store_revoke t1 t2 j s = (Ok (), s')" "alive (ttl s) t2 t" for t1 t2 j s s' t
    using that by (auto simp: store_revoke_def store_is_revoked_alive update_conv)
  show "store_is_revoked t k s = Ok True"
    if "store_ok s" "k \<noteq> j" "store_is_revoked t k (snd (store_revoke t1 t2 j s)) = Ok True"
    for t1 t2 j k s t
    using that by (auto simp: store_revoke_def store_is_revoked_alive update_conv store_ok_def
        dest: make_room_lookup)
qed

interpretation mem: bounded_revocation_store store_revoke store_is_revoked ttl store_ok
  "\<lambda>s. fst ` set (entries (inner s))" max_entries
proof
  show "finite (fst ` set (entries (inner s)))" for s :: in_memory_store by simp
  show "card (fst ` set (entries (inner s))) \<le> max_entries s" if "store_ok s" for s
    using that card_length [of "map fst (entries (inner s))"] by (simp add: store_ok_def)
  show "max_entries (snd (store_revoke t1 t2 j s)) = max_entries s" for t1 t2 j s
    by (simp add: store_revoke_def)
  show "j \<in> fst ` set (entries (inner s))" if "store_is_revoked t j s = Ok True" for t j s
    using that by (force simp: store_is_revoked_alive dest: map_of_SomeD)
qed

end
