(* ===== verification/Store_Properties.thy ===== *)
theory Store_Properties
  imports In_Memory_Store
begin

section \<open>Properties of the in-memory store, its operations run one after the other\<close>

text \<open>
  A history is a list of calls of \<open>revoke\<close>, each with its two clock readings and the id. The
  first theorems hold for every history; the refinement to a bounded queue holds for histories
  without repeated ids, and the last theorems show what a repeated id does.
\<close>

type_synonym history = "(instant \<times> instant \<times> string) list"

abbreviation revoked_ids :: "history \<Rightarrow> string list" where
  "revoked_ids rs \<equiv> map (\<lambda>(_, _, j). j) rs"

definition after :: "history \<Rightarrow> in_memory_store \<Rightarrow> in_memory_store" where
  "after rs s = fold (\<lambda>(t1, t2, j) s. snd (store_revoke t1 t2 j s)) rs s"

lemma after_eq: "after rs s = mem.revoke_all rs s"
  by (simp add: after_def mem.revoke_all_def)

lemma after_simps [simp]:
  "after [] s = s"
  "after ((t1, t2, j) # rs) s = after rs (snd (store_revoke t1 t2 j s))"
  "after (rs @ rs') s = after rs' (after rs s)"
  by (simp_all add: after_def)

lemma with_limits_ok: "store_ok (with_limits m d)"
  by (simp add: store_ok_def inner_ok_def with_limits_def)

lemma after_ok: "store_ok (after rs (with_limits m d))"
  by (simp add: after_eq mem.invar_revoke_all with_limits_ok)

lemma after_max [simp]: "max_entries (after rs s) = max_entries s"
  by (induction rs arbitrary: s) (auto simp: store_revoke_def)

lemma after_ttl [simp]: "ttl (after rs s) = ttl s"
  by (simp add: after_eq mem.lifetime_revoke_all)

lemma with_limits_simps [simp]:
  "max_entries (with_limits m d) = max m 1"
  "ttl (with_limits m d) = d"
  "inner (with_limits m d) = \<lparr>entries = [], order = []\<rparr>"
  by (simp_all add: with_limits_def)

text \<open>
  C6. The store is bounded: after any history of revocations, repeated ids included, it holds
  at most its capacity of entries (at least 1), one per id, no more ids than that are reported as
  revoked, and every entry is in the queue, so the eviction loop never gives up before it has made
  room.
\<close>

theorem store_bounded:
  "let s = after rs (with_limits m d)
   in length (entries (inner s)) \<le> max m 1
    \<and> distinct (map fst (entries (inner s)))
    \<and> card {j. store_is_revoked t j s = Ok True} \<le> max m 1
    \<and> fst ` set (entries (inner s)) \<subseteq> set (order (inner s))
    \<and> length (entries (inner (make_room t s))) < max m 1"
proof -
  have "card {j. store_is_revoked t j (after rs (with_limits m d)) = Ok True} \<le> max m 1"
    using mem.revoked_bounded [OF with_limits_ok, of t rs m d] by (simp add: after_eq)
  then show ?thesis
    using after_ok [of rs m d] make_room_ok(2) [of "after rs (with_limits m d)" t]
    by (simp add: Let_def store_ok_def inner_ok_def)
qed

text \<open>
  A revocation is visible from the moment \<open>revoke\<close> returns until its lifetime ends, whatever
  was revoked before, and an id that was never revoked is never reported as revoked.
\<close>

theorem store_answers:
  "(\<forall>t. alive d t2 t \<longrightarrow> store_is_revoked t j (after (rs @ [(t1, t2, j)]) (with_limits m d)) = Ok True)
   \<and> (\<forall>t k. k \<notin> set (revoked_ids rs) \<longrightarrow> store_is_revoked t k (after rs (with_limits m d)) = Ok False)"
proof (intro conjI allI impI)
  fix t assume "alive d t2 t"
  then show "store_is_revoked t j (after (rs @ [(t1, t2, j)]) (with_limits m d)) = Ok True"
    using mem.revoked_visible [OF after_ok [of rs m d], of t1 t2 j]
    by (simp add: store_revoke_def)
next
  fix t k assume "k \<notin> set (revoked_ids rs)"
  then have "store_is_revoked t k (after rs (with_limits m d)) \<noteq> Ok True"
    using mem.only_revoked_are_revoked [OF with_limits_ok, of t k rs m d]
    by (auto simp: after_eq store_is_revoked_def)
  then show "store_is_revoked t k (after rs (with_limits m d)) = Ok False"
    by (simp add: store_is_revoked_alive)
qed

text \<open>A history in which a revocation stays visible, and one in which it has expired.\<close>

theorem store_answers_witness:
  "store_is_revoked 9 ''a'' (after [(1, 2, ''b''), (3, 4, ''a'')] (with_limits 5 (Some 10))) = Ok True
   \<and> store_is_revoked 9 ''c'' (after [(1, 2, ''b'')] (with_limits 5 (Some 10))) = Ok False"
  using store_answers [of "Some 10" 4 "''a''" "[(1, 2, ''b'')]" 3 5] by simp

text \<open>
  The sweep is invisible: \<open>len\<close> drops exactly the entries whose lifetime is over and counts
  the others, and no later question gets a different answer because of it.
\<close>

theorem store_len_sweeps:
  assumes "store_ok s" and "t0 \<le> t"
  shows "fst (store_len t0 s) = card {k. store_is_revoked t0 k s = Ok True}
    \<and> store_is_revoked t k (snd (store_len t0 s)) = store_is_revoked t k s"
proof
  let ?es = "entries (inner s)"
  have dist: "distinct (map fst ?es)" using assms(1) by (simp add: store_ok_def inner_ok_def)
  let ?live = "filter (\<lambda>e. alive (ttl s) (snd e) t0) ?es"
  have "{k. store_is_revoked t0 k s = Ok True} = fst ` set ?live"
    using dist by (force simp: store_is_revoked_alive dest: map_of_SomeD)
  also have "card \<dots> = length ?live"
    using distinct_card [OF distinct_map_fst_filter [OF dist]] by simp
  finally show "fst (store_len t0 s) = card {k. store_is_revoked t0 k s = Ok True}"
    by (simp add: store_len_def Let_def sweep_entries)
  show "store_is_revoked t k (snd (store_len t0 s)) = store_is_revoked t k s"
    using dist alive_mono [OF _ assms(2)]
    by (auto simp: store_is_revoked_alive store_len_def Let_def sweep_entries map_of_filter_Some)
qed

theorem store_len_sweeps_witness:
  "store_is_revoked 9 ''a'' (snd (store_len 8 (after [(1, 2, ''a'')] (with_limits 5 (Some 10)))))
     = store_is_revoked 9 ''a'' (after [(1, 2, ''a'')] (with_limits 5 (Some 10)))"
  using store_len_sweeps [OF after_ok, of 8 9 "[(1, 2, ''a'')]" 5 "Some 10" "''a''"] by simp

subsection \<open>Histories without repeated ids: a bounded queue\<close>

text \<open>
  The abstract store is a queue of ids with their times: a revocation drops what has expired,
  then the oldest entries until there is room, and joins at the end.
\<close>

type_synonym revocation_queue = "(string \<times> instant) list"

definition queue_revoke ::
    "nat \<Rightarrow> duration option \<Rightarrow> instant \<times> instant \<times> string \<Rightarrow> revocation_queue \<Rightarrow> revocation_queue" where
  "queue_revoke m d = (\<lambda>(t1, t2, j) q.
     let live = filter (\<lambda>e. alive d (snd e) t1) q
     in drop (Suc (length live) - m) live @ [(j, t2)])"

definition queue_after :: "nat \<Rightarrow> duration option \<Rightarrow> history \<Rightarrow> revocation_queue" where
  "queue_after m d rs = fold (queue_revoke m d) rs []"

lemma queue_after_snoc [simp]:
  "queue_after m d [] = []"
  "queue_after m d (rs @ [r]) = queue_revoke m d r (queue_after m d rs)"
  by (simp_all add: queue_after_def)

definition represents :: "in_memory_inner \<Rightarrow> revocation_queue \<Rightarrow> bool" where
  "represents i q \<longleftrightarrow> distinct (map fst q) \<and> entries i = q \<and> order i = map fst q"

lemma update_fresh: "k \<notin> fst ` set q \<Longrightarrow> AList.update k v q = q @ [(k, v)]"
  by (induction q) auto

lemma delete_head: "distinct (map fst ((k, v) # q)) \<Longrightarrow> AList.delete k ((k, v) # q) = q"
  by (force simp: AList.delete_eq intro!: filter_True)

lemma evict_loop_queue:
  "distinct (map fst q) \<Longrightarrow> 1 \<le> m \<Longrightarrow>
     evict_loop m q (map fst q) =
       (drop (Suc (length q) - m) q, map fst (drop (Suc (length q) - m) q))"
proof (induction q)
  case Nil
  then show ?case by simp
next
  case (Cons e q)
  obtain k v where e: "e = (k, v)" by (cases e)
  have del: "AList.delete k ((k, v) # q) = q"
    using Cons.prems(1) e by (metis delete_head)
  show ?case
  proof (cases "m \<le> length (e # q)")
    case True
    then have "Suc (length (e # q)) - m = Suc (Suc (length q) - m)" by simp
    with True Cons e del show ?thesis by simp
  next
    case False
    then show ?thesis by (simp add: e)
  qed
qed

lemma filter_order:
  "distinct (map fst q) \<Longrightarrow>
     filter (\<lambda>j. contains_key j (filter P q)) (map fst q) = map fst (filter P q)"
proof -
  assume d: "distinct (map fst q)"
  have "filter (\<lambda>j. contains_key j (filter P q)) (map fst q) = map fst (filter (\<lambda>e. contains_key (fst e) (filter P q)) q)"
    by (simp add: filter_map o_def)
  also have "filter (\<lambda>e. contains_key (fst e) (filter P q)) q = filter P q"
    using d by (auto simp: contains_key_iff inj_on_def distinct_map intro!: filter_cong)
  finally show ?thesis .
qed

lemma represents_sweep:
  "represents i q \<Longrightarrow> represents (sweep_expired t d i) (filter (\<lambda>e. alive d (snd e) t) q)"
  by (cases d) (auto simp: represents_def sweep_entries sweep_order filter_order
      distinct_map_fst_filter)

lemma represents_revoke:
  assumes "represents (inner s) q" "1 \<le> max_entries s" "j \<notin> fst ` set q"
  shows "represents (inner (snd (store_revoke t1 t2 j s)))
    (queue_revoke (max_entries s) (ttl s) (t1, t2, j) q)"
proof -
  let ?live = "filter (\<lambda>e. alive (ttl s) (snd e) t1) q"
  let ?kept = "drop (Suc (length ?live) - max_entries s) ?live"
  have live: "represents (sweep_expired t1 (ttl s) (inner s)) ?live"
    using assms(1) by (rule represents_sweep)
  have kept: "represents (inner (make_room t1 s)) ?kept"
    using live evict_loop_queue [of ?live "max_entries s"] assms(2)
    by (simp add: represents_def make_room_def evict_oldest_to_def drop_map [symmetric]
        distinct_drop)
  have "j \<notin> fst ` set ?kept"
    using assms(3) by (force dest: in_set_dropD)
  with kept show ?thesis
    by (auto simp: represents_def store_revoke_def queue_revoke_def Let_def update_fresh)
qed


lemma queue_after_ids: "fst ` set (queue_after m d rs) \<subseteq> set (revoked_ids rs)"
proof (induction rs rule: rev_induct)
  case Nil
  then show ?case by simp
next
  case (snoc r rs)
  obtain t1 t2 j where r: "r = (t1, t2, j)" by (cases r)
  have "set (queue_after m d (rs @ [r])) \<subseteq> insert (j, t2) (set (queue_after m d rs))"
    by (auto simp: r queue_revoke_def Let_def dest: in_set_dropD)
  then have "fst ` set (queue_after m d (rs @ [r])) \<subseteq> insert j (fst ` set (queue_after m d rs))"
    by force
  then show ?case using snoc unfolding r by (simp del: queue_after_snoc) blast
qed

lemma represents_after:
  "distinct (revoked_ids rs) \<Longrightarrow>
     represents (inner (after rs (with_limits m d))) (queue_after (max m 1) d rs)"
proof (induction rs rule: rev_induct)
  case Nil
  then show ?case by (simp add: represents_def)
next
  case (snoc r rs)
  obtain t1 t2 j where r: "r = (t1, t2, j)" by (cases r)
  have "j \<notin> fst ` set (queue_after (max m 1) d rs)"
    using snoc.prems queue_after_ids [of "max m 1" d rs] unfolding r by auto
  moreover have "represents (inner (after rs (with_limits m d))) (queue_after (max m 1) d rs)"
    using snoc by simp
  ultimately have "represents (inner (snd (store_revoke t1 t2 j (after rs (with_limits m d)))))
      (queue_revoke (max_entries (after rs (with_limits m d))) (ttl (after rs (with_limits m d)))
        (t1, t2, j) (queue_after (max m 1) d rs))"
    by (intro represents_revoke) simp_all
  then show ?case by (simp only: r after_simps queue_after_snoc after_max after_ttl with_limits_simps)
qed

lemma queue_after_forever:
  "1 \<le> m \<Longrightarrow> map fst (queue_after m None rs) = drop (length rs - m) (revoked_ids rs)"
proof (induction rs rule: rev_induct)
  case Nil
  then show ?case by simp
next
  case (snoc r rs)
  obtain t1 t2 j where r: "r = (t1, t2, j)" by (cases r)
  let ?q = "queue_after m None rs"
  have "length (map fst ?q) = length (drop (length rs - m) (revoked_ids rs))"
    using snoc by simp
  then have len: "length ?q = min (length rs) m" by simp
  have "map fst (queue_revoke m None r ?q) =
      drop (Suc (length ?q) - m) (map fst ?q) @ [j]"
    by (simp add: r queue_revoke_def Let_def drop_map)
  also have "drop (Suc (length ?q) - m) (map fst ?q)
      = drop (Suc (length rs) - m) (revoked_ids rs)"
    using snoc len by (cases "length rs < m") (auto simp: Suc_diff_le min_def)
  finally show ?case using snoc.prems by (simp add: r)
qed

lemma max_Suc_1: "max (Suc n) 1 = Suc n"
  by simp

text \<open>
  C5. The store refines the bounded queue: after a history without repeated ids its queue and its
  map are exactly those of \<open>queue_after\<close>, which drops expired entries first, evicts in the order
  of arrival and only as many entries as are needed, and appends the new one.
\<close>

theorem store_refines_queue:
  assumes "distinct (revoked_ids rs)"
  shows "let i = inner (after rs (with_limits m d)); q = queue_after (max m 1) d rs
    in map_of (entries i) = map_of q \<and> order i = map fst q \<and> length q \<le> max m 1"
  using represents_after [OF assms, of m d] after_ok [of rs m d]
  by (simp add: represents_def Let_def store_ok_def)

theorem store_refines_queue_witness:
  "let i = inner (after [(1, 1, ''a''), (2, 2, ''b''), (3, 3, ''c'')] (with_limits 2 None));
       q = queue_after 2 None [(1, 1, ''a''), (2, 2, ''b''), (3, 3, ''c'')]
   in map_of (entries i) = map_of q \<and> order i = map fst q \<and> length q \<le> 2"
  using store_refines_queue [of "[(1, 1, ''a''), (2, 2, ''b''), (3, 3, ''c'')]" 2 None]
  by (simp add: max_def)

lemma remembers_newest:
  assumes "distinct (revoked_ids rs)"
  shows "store_is_revoked t j (after rs (with_limits m None)) =
    Ok (j \<in> set (drop (length rs - max m 1) (revoked_ids rs)))"
proof -
  let ?q = "queue_after (max m 1) None rs"
  have r: "entries (inner (after rs (with_limits m None))) = ?q"
    using represents_after [OF assms, of m None] by (simp add: represents_def)
  have "(\<exists>i. map_of ?q j = Some i) \<longleftrightarrow> j \<in> set (map fst ?q)"
    using map_of_eq_None_iff [of ?q j] by (cases "map_of ?q j") auto
  also have "\<dots> \<longleftrightarrow> j \<in> set (drop (length rs - max m 1) (revoked_ids rs))"
    by (subst queue_after_forever) auto
  finally show ?thesis by (simp add: store_is_revoked_alive r)
qed

text \<open>
  Without a lifetime the store remembers exactly the most recent \<open>max_entries\<close> of the ids
  revoked, as long as no id is revoked twice: nothing younger is ever lost.
\<close>

theorem store_remembers_newest:
  assumes "distinct (revoked_ids rs)"
  shows "store_is_revoked t j (after rs (with_limits m None)) =
    Ok (j \<in> set (drop (length rs - max m 1) (revoked_ids rs)))"
  using assms by (rule remembers_newest)

theorem store_remembers_newest_witness:
  "store_is_revoked 9 ''a'' (after [(1, 1, ''a''), (2, 2, ''b''), (3, 3, ''c'')] (with_limits 2 None)) = Ok False
   \<and> store_is_revoked 9 ''b'' (after [(1, 1, ''a''), (2, 2, ''b''), (3, 3, ''c'')] (with_limits 2 None)) = Ok True"
  using store_remembers_newest [of "[(1, 1, ''a''), (2, 2, ''b''), (3, 3, ''c'')]" 9 "''a''" 2]
    store_remembers_newest [of "[(1, 1, ''a''), (2, 2, ''b''), (3, 3, ''c'')]" 9 "''b''" 2]
  by simp

subsection \<open>Repeated ids\<close>

lemma revoke_at_front:
  assumes "represents (inner s) ((x, i) # q)" "ttl s = None" "Suc (length q) = max_entries s"
  shows "entries (inner (make_room t s)) = q" and "order (inner (make_room t s)) = map fst q"
proof -
  have ev: "evict_loop (max_entries s) ((x, i) # q) (map fst ((x, i) # q)) = (q, map fst q)"
    using evict_loop_queue [of "(x, i) # q" "max_entries s"] assms
    by (simp add: represents_def Suc_diff_le)
  from assms ev show "entries (inner (make_room t s)) = q" "order (inner (make_room t s)) = map fst q"
    by (simp_all add: represents_def make_room_def evict_oldest_to_def sweep_expired_def)
qed

text \<open>
  Revoking an id again is not idempotent: in a full store it evicts the oldest other id,
  although no room is needed, and that token becomes valid again.
\<close>

theorem revoking_again_evicts:
  assumes "distinct (x # map (\<lambda>(_, _, j). j) rs)" "j \<in> set (revoked_ids rs)" "m = Suc (length rs)"
  shows "store_is_revoked t x (after ((t1, t2, x) # rs) (with_limits m None)) = Ok True
    \<and> store_is_revoked t j (after ((t1, t2, x) # rs) (with_limits m None)) = Ok True
    \<and> store_is_revoked t x (after ((t1, t2, x) # rs @ [(t3, t4, j)]) (with_limits m None)) = Ok False"
proof -
  let ?rs = "(t1, t2, x) # rs"
  define s where "s = after ?rs (with_limits m None)"
  let ?q = "queue_after m None ?rs"
  have tt: "ttl s = None" by (simp only: s_def after_ttl with_limits_simps)
  have d: "distinct (revoked_ids ?rs)" using assms(1) by simp
  have rep: "represents (inner s) ?q"
    using represents_after [OF d, of m None] assms(3) unfolding s_def by (simp only: max_Suc_1)
  have ids: "map fst ?q = x # revoked_ids rs"
    using queue_after_forever [of m ?rs] assms(3) by simp
  then obtain i q where q: "?q = (x, i) # q" "map fst q = revoked_ids rs"
    by (cases ?q) auto
  have len: "Suc (length q) = m"
    using arg_cong [OF q(2), of length] assms(3) by simp
  have ent: "entries (inner s) = (x, i) # q" using rep q(1) by (simp add: represents_def)
  have nj: "x \<noteq> j" "x \<notin> fst ` set q"
    using assms(1,2) q(2) by (auto simp flip: set_map)
  have j: "j \<in> fst ` set q" using assms(2) q(2) by (simp flip: set_map)
  have room: "entries (inner (make_room t3 s)) = q"
  proof (rule revoke_at_front(1))
    show "represents (inner s) ((x, i) # q)" using rep q(1) by simp
    show "ttl s = None" by (rule tt)
    show "Suc (length q) = max_entries s"
      using len assms(3) by (simp only: s_def after_max with_limits_simps max_Suc_1)
  qed
  have "store_is_revoked t x (snd (store_revoke t3 t4 j s)) = Ok False"
    using nj map_of_eq_None_iff [of q x]
    by (simp add: store_is_revoked_alive store_revoke_def room update_conv)
  moreover have "store_is_revoked t x s = Ok True"
    using ent tt by (simp add: store_is_revoked_alive)
  moreover have "store_is_revoked t j s = Ok True"
    using ent nj(1) j tt map_of_eq_None_iff [of q j]
    by (cases "map_of q j") (auto simp: store_is_revoked_alive)
  ultimately show ?thesis by (simp add: s_def)
qed

theorem revoking_again_evicts_witness:
  "store_is_revoked 9 ''a'' (after [(1, 1, ''a''), (2, 2, ''b'')] (with_limits 2 None)) = Ok True
   \<and> store_is_revoked 9 ''a'' (after [(1, 1, ''a''), (2, 2, ''b''), (3, 3, ''b'')] (with_limits 2 None)) = Ok False"
  using revoking_again_evicts [of "''a''" "[(2, 2, ''b'')]" "''b''" 2 9 1 1 3 3] by simp

text \<open>
  Each revocation of an id that is already in the store leaves one more entry in the queue:
  with no lifetime and room left, the queue grows with every call while the map holds one entry.
\<close>

theorem queue_grows_without_bound:
  "let i = inner (after (replicate n (t1, t2, j)) (with_limits (Suc (Suc m)) None))
   in length (order i) = n \<and> length (entries i) = min n 1"
proof -
  let ?w = "with_limits (Suc (Suc m)) None"
  have room: "make_room t1 s = s" if "length (entries (inner s)) \<le> 1" "max_entries s = Suc (Suc m)" "ttl s = None" for s
    using that by (cases "order (inner s)") (simp_all add: make_room_def evict_oldest_to_def sweep_expired_def)
  have "order (inner (after (replicate n (t1, t2, j)) ?w)) = replicate n j
      \<and> entries (inner (after (replicate n (t1, t2, j)) ?w)) = (if n = 0 then [] else [(j, t2)])"
  proof (induction n)
    case 0
    then show ?case by simp
  next
    case (Suc n)
    let ?s = "after (replicate n (t1, t2, j)) ?w"
    have "make_room t1 ?s = ?s"
      using Suc by (intro room) (auto simp only: after_max after_ttl with_limits_simps split: if_splits, simp_all)
    then have "after (replicate (Suc n) (t1, t2, j)) ?w = insert_entry t2 j ?s"
      by (simp only: replicate_Suc replicate_append_same [symmetric] after_simps store_revoke_def snd_conv)
    with Suc show ?case by (simp add: replicate_append_same)
  qed
  then show ?thesis by (simp add: Let_def)
qed

text \<open>
  A renewed revocation keeps its old place in the queue: \<open>a\<close> was revoked
  again after \<open>b\<close>, and yet \<open>a\<close> is the one dropped when the store of three is full.
\<close>

theorem renewed_revocation_evicted_first:
  assumes "distinct [a, b, c, e]"
  shows "let s = after [(1, 1, a), (2, 2, b), (3, 3, a), (4, 4, c), (5, 5, e)] (with_limits 3 None)
    in store_is_revoked 6 a s = Ok False \<and> store_is_revoked 6 b s = Ok True"
  using assms not_sym [of a b]
  by (simp add: Let_def store_revoke_def make_room_def insert_entry_def sweep_expired_def
      evict_oldest_to_def with_limits_def store_is_revoked_def)

theorem renewed_revocation_evicted_first_witness:
  "let s = after [(1, 1, ''a''), (2, 2, ''b''), (3, 3, ''a''), (4, 4, ''c''), (5, 5, ''e'')] (with_limits 3 None)
    in store_is_revoked 6 ''a'' s = Ok False \<and> store_is_revoked 6 ''b'' s = Ok True"
  by (rule renewed_revocation_evicted_first) simp

end
