(* ===== verification/Concurrent_Revocation.thy ===== *)
theory Concurrent_Revocation
  imports In_Memory_Store
begin

section \<open>Concurrent revocations (src/revocation.rs)\<close>

text \<open>
  \<open>InMemoryRevocationStore::revoke\<close> takes the write lock twice: once in \<open>make_room\<close>, and again,
  after the lock was released, to insert the entry. Between the two, other tasks run. The state
  here is the store with, for every task that is between its two critical sections, the id it is
  revoking; a step is one critical section of one of \<open>N\<close> tasks. A task whose future is dropped
  while it waits for the lock never inserts (\<open>cancel\<close>). \<open>is_revoked\<close> holds the lock for
  reading and changes nothing. The clock may show any reading at any step.
\<close>

record shared_state =
  store :: in_memory_store
  pending :: "nat \<Rightarrow> string option"

inductive revoke_step :: "nat \<Rightarrow> shared_state \<Rightarrow> shared_state \<Rightarrow> bool" for N where
  room: "t < N \<Longrightarrow> pending s t = None \<Longrightarrow>
    revoke_step N s (s\<lparr>store := make_room now (store s), pending := (pending s)(t := Some j)\<rparr>)"
| insert: "pending s t = Some j \<Longrightarrow>
    revoke_step N s (s\<lparr>store := insert_entry now j (store s), pending := (pending s)(t := None)\<rparr>)"
| cancel: "pending s t = Some j \<Longrightarrow> revoke_step N s (s\<lparr>pending := (pending s)(t := None)\<rparr>)"
| sweep: "revoke_step N s (s\<lparr>store := snd (store_len now (store s))\<rparr>)"

definition initial :: "nat \<Rightarrow> duration option \<Rightarrow> shared_state" where
  "initial m d = \<lparr>store = with_limits m d, pending = (\<lambda>_. None)\<rparr>"

inductive reachable :: "nat \<Rightarrow> nat \<Rightarrow> duration option \<Rightarrow> shared_state \<Rightarrow> bool" for N m d where
  start: "reachable N m d (initial m d)"
| step: "reachable N m d s \<Longrightarrow> revoke_step N s s' \<Longrightarrow> reachable N m d s'"

text \<open>
  The steps that do not evict, everything but \<open>make_room\<close>, at clock readings from \<open>lo\<close> to
  \<open>hi\<close>.
\<close>

inductive quiet_step :: "instant \<Rightarrow> instant \<Rightarrow> shared_state \<Rightarrow> shared_state \<Rightarrow> bool" for lo hi where
  quiet_insert: "pending s t = Some j \<Longrightarrow> lo \<le> now \<Longrightarrow>
    quiet_step lo hi s (s\<lparr>store := insert_entry now j (store s), pending := (pending s)(t := None)\<rparr>)"
| quiet_cancel: "pending s t = Some j \<Longrightarrow> quiet_step lo hi s (s\<lparr>pending := (pending s)(t := None)\<rparr>)"
| quiet_sweep: "now \<le> hi \<Longrightarrow> quiet_step lo hi s (s\<lparr>store := snd (store_len now (store s))\<rparr>)"

inductive_cases quiet_stepE: "quiet_step lo hi s s'"

section \<open>The invariant\<close>

definition shared_ok :: "nat \<Rightarrow> nat \<Rightarrow> duration option \<Rightarrow> shared_state \<Rightarrow> bool" where
  "shared_ok N m d s \<longleftrightarrow>
     inner_ok (inner (store s)) \<and> max_entries (store s) = max m 1 \<and> ttl (store s) = d
   \<and> dom (pending s) \<subseteq> {..<N}
   \<and> length (entries (inner (store s))) + card (dom (pending s)) \<le> max m 1 - 1 + N"

lemma store_len_snd:
  "inner (snd (store_len t s)) = sweep_expired t (ttl s) (inner s)"
  "max_entries (snd (store_len t s)) = max_entries s"
  "ttl (snd (store_len t s)) = ttl s"
  by (simp_all add: store_len_def Let_def)

lemma card_dom_le:
  fixes p :: "nat \<Rightarrow> 'a option"
  shows "dom p \<subseteq> {..<N} \<Longrightarrow> card (dom p) \<le> N"
  using card_mono [of "{..<N}" "dom p"] by simp

lemma card_dom_clear:
  fixes p :: "nat \<Rightarrow> 'a option"
  assumes "dom p \<subseteq> {..<N}" "p t = Some j"
  shows "Suc (card (dom (p(t := None)))) = card (dom p)"
proof -
  have "finite (dom p)" using assms(1) finite_subset by blast
  then show ?thesis using assms(2) card_Suc_Diff1 [of "dom p" t] by (auto simp: domI)
qed

lemma dom_clear: "dom p \<subseteq> A \<Longrightarrow> dom (p(t := None)) \<subseteq> A"
  by (auto split: if_splits)

lemma shared_ok_initial: "shared_ok N m d (initial m d)"
  by (simp add: shared_ok_def initial_def with_limits_def inner_ok_def)

lemma shared_ok_step:
  assumes "shared_ok N m d s" "revoke_step N s s'"
  shows "shared_ok N m d s'"
  using assms(2,1)
proof (induction rule: revoke_step.induct)
  case (room t s j now)
  let ?p = "(pending s)(t := Some j)"
  have dom: "dom ?p \<subseteq> {..<N}" using room.hyps room.prems by (auto simp: shared_ok_def)
  have ok: "inner_ok (inner (store s))" "1 \<le> max_entries (store s)"
    using room.prems by (auto simp: shared_ok_def)
  show ?case
    using make_room_ok [OF ok, of now] room.prems card_dom_le [OF dom] dom
    unfolding shared_ok_def by (simp del: dom_fun_upd)
next
  case (insert s t j now)
  have "Suc (card (dom ((pending s)(t := None)))) = card (dom (pending s))"
    using insert by (intro card_dom_clear) (auto simp: shared_ok_def)
  moreover have "length (entries (inner (insert_entry now j (store s)))) \<le> Suc (length (entries (inner (store s))))"
    using length_update_le by simp
  ultimately show ?case
    using insert_entry_inner_ok [of "store s" now j] insert.prems
    unfolding shared_ok_def by (simp add: dom_clear del: dom_fun_upd insert_entry_simps(3,4))
next
  case (cancel s t j)
  have "Suc (card (dom ((pending s)(t := None)))) = card (dom (pending s))"
    using cancel by (intro card_dom_clear) (auto simp: shared_ok_def)
  then show ?case
    using cancel.prems unfolding shared_ok_def by (simp add: dom_clear del: dom_fun_upd)
next
  case (sweep s now)
  have "length (entries (sweep_expired now d (inner (store s)))) \<le> length (entries (inner (store s)))"
    by (simp add: sweep_entries)
  then show ?case
    using sweep.prems unfolding shared_ok_def by (auto simp: store_len_snd sweep_ok)
qed

lemma reachable_ok: "reachable N m d s \<Longrightarrow> shared_ok N m d s"
  by (induction rule: reachable.induct) (auto intro: shared_ok_initial shared_ok_step)

section \<open>Theorems\<close>

text \<open>
  C7. The documented bound is exceeded by concurrent revocations, but only by as many entries as
  there are other tasks: with \<open>N\<close> tasks the store holds at most \<open>max_entries - 1 + N\<close> entries in
  every reachable state, its queue still covers the map, and the next \<open>make_room\<close> of any task
  brings it below \<open>max_entries\<close> again.
\<close>

theorem concurrent_store_bounded:
  assumes "reachable N m d s"
  shows "length (entries (inner (store s))) \<le> max m 1 - 1 + N
    \<and> fst ` set (entries (inner (store s))) \<subseteq> set (order (inner (store s)))
    \<and> length (entries (inner (make_room now (store s)))) < max m 1"
proof -
  have ok: "shared_ok N m d s" using assms by (rule reachable_ok)
  then have "length (entries (inner (make_room now (store s)))) < max_entries (store s)"
    by (intro make_room_ok(2)) (auto simp: shared_ok_def)
  with ok show ?thesis by (auto simp: shared_ok_def inner_ok_def)
qed

subsection \<open>The bound is reached\<close>

lemma make_room_idle:
  assumes "ttl s = None" "length (entries (inner s)) < max_entries s"
  shows "make_room now s = s"
  using assms by (cases "order (inner s)") (simp_all add: make_room_def evict_oldest_to_def sweep_expired_def)

text \<open>One task revoking \<open>k\<close> different ids, one after the other.\<close>

definition keys_upto :: "nat \<Rightarrow> string set" where
  "keys_upto k = (\<lambda>i. replicate i CHR ''a'') ` {..<k}"

lemma keys_upto_simps [simp]:
  "keys_upto 0 = {}"
  "keys_upto (Suc k) = insert (replicate k CHR ''a'') (keys_upto k)"
  by (simp_all add: keys_upto_def lessThan_Suc)

lemma length_keys_upto:
  assumes "inner_ok i" "fst ` set (entries i) = keys_upto k"
  shows "length (entries i) = k"
proof -
  have "inj_on (\<lambda>i. replicate i CHR ''a'') {..<k}" by (rule inj_onI) (metis length_replicate)
  then have "card (keys_upto k) = k" by (simp add: keys_upto_def card_image)
  then show ?thesis
    using assms distinct_card [of "map fst (entries i)"] by (simp add: inner_ok_def)
qed

lemma fill:
  assumes "0 < N" "k \<le> max m 1 - 1"
  shows "\<exists>s. reachable N m None s \<and> pending s = (\<lambda>_. None)
    \<and> fst ` set (entries (inner (store s))) = keys_upto k"
  using assms(2)
proof (induction k)
  case 0
  show ?case
    by (rule exI [of _ "initial m None"])
      (simp add: start, simp add: initial_def with_limits_def)
next
  case (Suc k)
  from Suc.prems have "k \<le> max m 1 - 1" by simp
  from Suc.IH [OF this] obtain s where s: "reachable N m None s" "pending s = (\<lambda>_. None)"
    "fst ` set (entries (inner (store s))) = keys_upto k"
    by blast
  have ok: "shared_ok N m None s" using s(1) by (rule reachable_ok)
  have "length (entries (inner (store s))) = k"
    using ok s(3) by (intro length_keys_upto) (simp_all add: shared_ok_def)
  then have room: "make_room 0 (store s) = store s"
    using Suc.prems ok by (intro make_room_idle) (auto simp: shared_ok_def)
  let ?j = "replicate k CHR ''a''"
  let ?s1 = "s\<lparr>store := make_room 0 (store s), pending := (pending s)(0 := Some ?j)\<rparr>"
  let ?s2 = "?s1\<lparr>store := insert_entry 0 ?j (store ?s1), pending := (pending ?s1)(0 := None)\<rparr>"
  have "reachable N m None ?s1"
    by (rule reachable.step [OF s(1)], rule revoke_step.room) (simp_all add: assms(1) s(2))
  moreover have "revoke_step N ?s1 ?s2" by (rule revoke_step.insert) simp
  ultimately have "reachable N m None ?s2" by (rule reachable.step)
  moreover have "pending ?s2 = (\<lambda>_. None)" by (simp add: s(2))
  moreover have "fst ` set (entries (inner (store ?s2))) = keys_upto (Suc k)"
    by (simp add: room dom_update s(3))
  ultimately show ?case by blast
qed

text \<open>Then \<open>N\<close> tasks find room for one entry each, and only then insert.\<close>

lemma all_find_room:
  assumes "reachable N m None s" "pending s = (\<lambda>_. None)" "n \<le> N"
    "length (entries (inner (store s))) < max m 1"
  shows "reachable N m None (s\<lparr>pending := (\<lambda>t. if t < n then Some (js t) else None)\<rparr>)"
  using assms(3)
proof (induction n)
  case 0
  have "s\<lparr>pending := (\<lambda>_. None)\<rparr> = s" using assms(2) by simp
  with assms(1) show ?case by simp
next
  case (Suc n)
  let ?p = "\<lambda>n t. if t < n then Some (js t) else None"
  have "shared_ok N m None s" using assms(1) by (rule reachable_ok)
  then have room: "make_room 0 (store s) = store s"
    using assms(4) by (intro make_room_idle) (auto simp: shared_ok_def)
  have "reachable N m None (s\<lparr>pending := ?p n\<rparr>)" using Suc by simp
  moreover have "revoke_step N (s\<lparr>pending := ?p n\<rparr>)
      (s\<lparr>pending := ?p n\<rparr>\<lparr>store := make_room 0 (store (s\<lparr>pending := ?p n\<rparr>)),
        pending := (pending (s\<lparr>pending := ?p n\<rparr>))(n := Some (js n))\<rparr>)"
    by (rule revoke_step.room) (use Suc.prems in simp_all)
  moreover have "(?p n)(n := Some (js n)) = ?p (Suc n)" by (auto simp: fun_eq_iff)
  ultimately show ?case
    by (auto simp: room dest: reachable.step)
qed

lemma all_insert:
  assumes "reachable N m None s" "fst ` set (entries (inner (store s))) = keys_upto k"
    "pending s = (\<lambda>t. if t < N then Some (replicate (k + t) CHR ''a'') else None)" "n \<le> N"
  shows "\<exists>s. reachable N m None s \<and> fst ` set (entries (inner (store s))) = keys_upto (k + n)
    \<and> pending s = (\<lambda>t. if n \<le> t \<and> t < N then Some (replicate (k + t) CHR ''a'') else None)"
  using assms(4)
proof (induction n)
  case 0
  show ?case by (rule exI [of _ s]) (simp add: assms)
next
  case (Suc n)
  let ?p = "\<lambda>n t. if n \<le> t \<and> t < N then Some (replicate (k + t) CHR ''a'') else None"
  from Suc.prems have "n \<le> N" by simp
  from Suc.IH [OF this] obtain s where s: "reachable N m None s"
    "fst ` set (entries (inner (store s))) = keys_upto (k + n)" "pending s = ?p n"
    by blast
  let ?j = "replicate (k + n) CHR ''a''"
  let ?s = "s\<lparr>store := insert_entry 0 ?j (store s), pending := (pending s)(n := None)\<rparr>"
  have "revoke_step N s ?s" by (rule revoke_step.insert) (use s(3) Suc.prems in simp)
  with s(1) have "reachable N m None ?s" by (rule reachable.step)
  moreover have "fst ` set (entries (inner (store ?s))) = keys_upto (k + Suc n)"
    by (simp add: dom_update s(2))
  moreover have "pending ?s = ?p (Suc n)" by (auto simp: s(3) fun_eq_iff)
  ultimately show ?case by blast
qed

text \<open>
  C28. The bound for concurrent revocations is exact: \<open>N\<close> tasks can fill the store with
  \<open>max_entries - 1 + N\<close> entries, when all of them make room before the first one inserts.
\<close>

theorem concurrent_bound_reached:
  assumes "0 < N"
  shows "\<exists>s. reachable N m None s \<and> length (entries (inner (store s))) = max m 1 - 1 + N"
proof -
  let ?k = "max m 1 - 1"
  from fill [OF assms order.refl, of m] obtain s where s: "reachable N m None s"
    "pending s = (\<lambda>_. None)" "fst ` set (entries (inner (store s))) = keys_upto ?k"
    by blast
  have "shared_ok N m None s" using s(1) by (rule reachable_ok)
  with s(3) have "length (entries (inner (store s))) = ?k"
    by (intro length_keys_upto) (simp_all add: shared_ok_def)
  then have room: "length (entries (inner (store s))) < max m 1" by simp
  let ?p = "\<lambda>t. if t < N then Some (replicate (?k + t) CHR ''a'') else None"
  have r: "reachable N m None (s\<lparr>pending := ?p\<rparr>)"
    by (rule all_find_room [OF s(1,2) order.refl room])
  have "\<exists>s'. reachable N m None s' \<and> fst ` set (entries (inner (store s'))) = keys_upto (?k + N)"
    using all_insert [OF r, of ?k N] s(3) by simp blast
  then obtain s' where s': "reachable N m None s'"
    "fst ` set (entries (inner (store s'))) = keys_upto (?k + N)"
    by blast
  have "shared_ok N m None s'" using s'(1) by (rule reachable_ok)
  with s'(2) have "length (entries (inner (store s'))) = ?k + N"
    by (intro length_keys_upto) (simp_all add: shared_ok_def)
  with s'(1) show ?thesis by blast
qed

theorem concurrent_bound_reached_witness:
  "\<exists>s. reachable 3 5 None s \<and> length (entries (inner (store s))) = 7"
  using concurrent_bound_reached [of 3 5] by simp

text \<open>Two tasks and a store of capacity one.\<close>

definition overfull :: shared_state where
  "overfull =
     (let w = with_limits 1 None
      in \<lparr>store = insert_entry 4 ''b'' (insert_entry 3 ''a'' (make_room 2 (make_room 1 w))),
          pending = (\<lambda>_. None)\<rparr>)"

lemma overfull_reachable: "reachable 2 1 None overfull"
proof -
  let ?s0 = "initial 1 None"
  let ?s1 = "?s0\<lparr>store := make_room 1 (store ?s0), pending := (pending ?s0)(0 := Some ''a'')\<rparr>"
  let ?s2 = "?s1\<lparr>store := make_room 2 (store ?s1), pending := (pending ?s1)(1 := Some ''b'')\<rparr>"
  let ?s3 = "?s2\<lparr>store := insert_entry 3 ''a'' (store ?s2), pending := (pending ?s2)(0 := None)\<rparr>"
  let ?s4 = "?s3\<lparr>store := insert_entry 4 ''b'' (store ?s3), pending := (pending ?s3)(1 := None)\<rparr>"
  have "reachable 2 1 None ?s0" by (rule reachable.start)
  moreover have "revoke_step 2 ?s0 ?s1" by (rule room) (simp_all add: initial_def)
  moreover have "revoke_step 2 ?s1 ?s2" by (rule room) (simp_all add: initial_def)
  moreover have "revoke_step 2 ?s2 ?s3" by (rule insert) simp
  moreover have "revoke_step 2 ?s3 ?s4" by (rule insert) simp
  ultimately have "reachable 2 1 None ?s4" by (meson reachable.step)
  moreover have "?s4 = overfull" by (simp add: overfull_def initial_def fun_eq_iff Let_def)
  ultimately show ?thesis by simp
qed

theorem concurrent_store_bounded_witness:
  "length (entries (inner (store overfull))) = 2 \<and> length (entries (inner (store overfull))) \<le> 1 - 1 + 2"
proof
  show "length (entries (inner (store overfull))) = 2"
    by (simp add: overfull_def Let_def make_room_def evict_oldest_to_def sweep_expired_def
        with_limits_def insert_entry_def)
  show "length (entries (inner (store overfull))) \<le> 1 - 1 + 2"
    using concurrent_store_bounded [OF overfull_reachable, of 5] by simp
qed

subsection \<open>Visibility\<close>

definition recorded :: "instant \<Rightarrow> string \<Rightarrow> shared_state \<Rightarrow> bool" where
  "recorded lo j s \<longleftrightarrow> distinct (map fst (entries (inner (store s))))
     \<and> (\<exists>i. map_of (entries (inner (store s))) j = Some i \<and> lo \<le> i)"

lemma recorded_quiet:
  assumes "quiet_step lo hi s s'" "recorded lo j s" "alive (ttl (store s)) lo hi"
  shows "recorded lo j s' \<and> ttl (store s') = ttl (store s)"
  using assms(1)
proof (elim quiet_stepE, goal_cases)
  case (3 now)
  obtain i where i: "map_of (entries (inner (store s))) j = Some i" "lo \<le> i"
    using assms(2) by (auto simp: recorded_def)
  have "alive (ttl (store s)) i now"
    using alive_antimono [OF alive_mono [OF assms(3)] i(2)] 3 by simp
  with i 3 assms(2) show ?thesis
    by (auto simp: recorded_def store_len_snd sweep_entries map_of_filter_Some
        distinct_map_fst_filter)
qed (use assms(2) in \<open>auto simp: recorded_def update_conv distinct_update\<close>)

text \<open>
  A concurrent revocation is visible once its insertion is done: as long as no task makes room,
  whatever else the tasks do, the id is reported as revoked until its lifetime is over.
\<close>

theorem concurrent_revocation_visible:
  assumes "reachable N m d s" "pending s t = Some j" "lo \<le> now" "alive d lo hi"
    "(quiet_step lo hi)\<^sup>*\<^sup>*
       (s\<lparr>store := insert_entry now j (store s), pending := (pending s)(t := None)\<rparr>) s'"
  shows "store_is_revoked hi j (store s') = Ok True"
proof -
  have ok: "shared_ok N m d s" using assms(1) by (rule reachable_ok)
  have "recorded lo j s' \<and> ttl (store s') = d"
    using assms(5)
  proof (induction rule: rtranclp_induct)
    case base
    then show ?case
      using ok assms(3) by (simp add: recorded_def shared_ok_def inner_ok_def update_conv distinct_update)
  next
    case (step y z)
    then show ?case using recorded_quiet assms(4) by metis
  qed
  then show ?thesis
    using alive_antimono [OF assms(4)] by (auto simp: recorded_def store_is_revoked_alive)
qed

theorem concurrent_revocation_visible_witness:
  "store_is_revoked 9 ''a''
     (insert_entry 3 ''a'' (make_room 1 (with_limits 1 (Some 10)))) = Ok True"
proof -
  let ?s0 = "initial 1 (Some 10)"
  let ?s = "?s0\<lparr>store := make_room 1 (store ?s0), pending := (pending ?s0)(0 := Some ''a'')\<rparr>"
  have r: "reachable 1 1 (Some 10) ?s"
    by (rule reachable.step [OF reachable.start], rule room) (simp_all add: initial_def)
  have "store_is_revoked 9 ''a'' (store
      (?s\<lparr>store := insert_entry 3 ''a'' (store ?s), pending := (pending ?s)(0 := None)\<rparr>)) = Ok True"
    by (rule concurrent_revocation_visible [OF r, of 0 "''a''" 3 3 9]) simp_all
  then show ?thesis by (simp add: initial_def)
qed

end
