(* ===== verification/Decode_Standard.thy ===== *)
theory Decode_Standard
  imports Jwt_Service In_Memory_Store
begin

section \<open>Decoding with the revocation check (src/service.rs, JwtService::decode_standard)\<close>

text \<open>
  The service as the source has it: a configuration and an optional revocation store. The store
  is a trait object, here the record of its two operations on a state \<open>'s\<close>; the service holds
  the operations and the state is passed along. A store error of any kind is a value of \<open>'e\<close>.
\<close>

record ('s, 'e) store_ops =
  op_revoke :: "string \<Rightarrow> 's \<Rightarrow> ('e + unit) \<times> 's"
  op_is_revoked :: "string \<Rightarrow> 's \<Rightarrow> ('e + bool) \<times> 's"

record ('s, 'e) jwt_service =
  config :: jwt_config
  revocation :: "('s, 'e) store_ops option"

definition service_new :: "jwt_config \<Rightarrow> ('s, 'e) jwt_service" where
  "service_new cfg = \<lparr>config = cfg, revocation = None\<rparr>"

definition with_revocation :: "('s, 'e) store_ops \<Rightarrow> ('s, 'e) jwt_service \<Rightarrow> ('s, 'e) jwt_service" where
  "with_revocation st self = self\<lparr>revocation := Some st\<rparr>"

definition decode_standard ::
    "('ek, 'dk, 'dt standard_claims) jwt_lib \<Rightarrow> ('s, 'e) jwt_service \<Rightarrow> string \<Rightarrow> 's
      \<Rightarrow> (jwt_error + 'dt standard_claims) \<times> 's" where
  "decode_standard L self token s =
     (case decode L (config self) token of
        Inl e \<Rightarrow> (Err e, s)
      | Inr claims \<Rightarrow>
          (case (revocation self, jti claims) of
             (Some st, Some j) \<Rightarrow>
               (case op_is_revoked st j s of
                  (Inl _, s') \<Rightarrow> (Err Revoked, s')
                | (Inr revoked, s') \<Rightarrow> (if revoked then Err Revoked else Ok claims, s'))
           | _ \<Rightarrow> (Ok claims, s)))"

text \<open>The in-memory store as a trait object, its operations at given readings of the clock.\<close>

definition mem_ops :: "instant \<Rightarrow> instant \<Rightarrow> instant \<Rightarrow> (in_memory_store, string) store_ops" where
  "mem_ops t1 t2 t = \<lparr>op_revoke = store_revoke t1 t2, op_is_revoked = (\<lambda>j s. (store_is_revoked t j s, s))\<rparr>"

section \<open>Lemmas\<close>

lemma service_simps [simp]:
  "config (service_new cfg) = cfg"
  "revocation (service_new cfg) = None"
  "config (with_revocation st self) = config self"
  "revocation (with_revocation st self) = Some st"
  by (simp_all add: service_new_def with_revocation_def)

lemma mem_ops_simps [simp]:
  "op_revoke (mem_ops t1 t2 t) = store_revoke t1 t2"
  "op_is_revoked (mem_ops t1 t2 t) = (\<lambda>j s. (store_is_revoked t j s, s))"
  by (simp_all add: mem_ops_def)

lemma decode_standard_no_store: "revocation self = None \<Longrightarrow>
    decode_standard L self token s = (validate L (config self) token, s)"
  by (simp add: decode_standard_def validate_def split: sum.split)

lemma decode_standard_Ok_iff:
  "decode_standard L self token s = (Ok c, s') \<longleftrightarrow>
     validate L (config self) token = Ok c
     \<and> (case (revocation self, jti c) of
          (Some st, Some j) \<Rightarrow> op_is_revoked st j s = (Ok False, s')
        | _ \<Rightarrow> s' = s)"
  by (auto simp: decode_standard_def validate_def split: sum.splits option.splits prod.splits if_splits)

text \<open>What the service gets out of any store that keeps the laws of the interface.\<close>

context revocation_store
begin

lemma revoked_token_rejected:
  assumes "invar s" "revoke t1 t2 j s = (Ok (), s')" "alive (lifetime s) t2 t"
    and "revocation self = Some st" "op_is_revoked st = (\<lambda>j s. (is_revoked t j s, s))"
    and "validate L (config self) token = Ok c" "jti c = Some j"
  shows "decode_standard L self token s' = (Err Revoked, s')"
  using revoked_visible [OF assms(1-3)] assms(4-7)
  by (simp add: decode_standard_def validate_def)

lemma other_tokens_unaffected:
  assumes "invar s" "j \<notin> (\<lambda>(_, _, j). j) ` set rs"
    and "\<And>e. is_revoked t j (revoke_all rs s) \<noteq> Inl e" "is_revoked t j s = Ok False"
    and "revocation self = Some st" "op_is_revoked st = (\<lambda>j s. (is_revoked t j s, s))"
    and "validate L (config self) token = Ok c" "jti c = Some j"
  shows "fst (decode_standard L self token (revoke_all rs s)) = Ok c"
proof -
  have "is_revoked t j (revoke_all rs s) \<noteq> Ok True"
    using only_revoked_are_revoked [OF assms(1) _ assms(2)] assms(4) by auto
  with assms(3) have "is_revoked t j (revoke_all rs s) = Ok False"
    by (cases "is_revoked t j (revoke_all rs s)") auto
  with assms(5-8) show ?thesis by (simp add: decode_standard_def validate_def)
qed

end

end
