(* ===== verification/Token_Lifecycle.thy ===== *)
theory Token_Lifecycle
  imports Store_Properties Decode_Standard Rotation_Properties
begin

section \<open>Tokens and the revocation store together\<close>

text \<open>
  Theorems about \<open>decode_standard\<close> and about the life of a token that crosses the components:
  minted by \<open>encode_standard\<close>, accepted by \<open>decode_standard\<close>, revoked in the in-memory store.
\<close>

subsection \<open>A concrete token for the witnesses\<close>

definition life_config :: jwt_config where
  "life_config = default_config\<lparr>secret := ''k'', issuer := Some ''me''\<rparr>"

definition life_claims :: "int standard_claims" where
  "life_claims = default_claims\<lparr>sub := Some ''user-123''\<rparr>"

definition life_stamped :: "int standard_claims" where
  "life_stamped = life_claims\<lparr>iat := Some 5000, exp := Some 3605000, iss := Some ''me'', jti := Some ''id''\<rparr>"

definition life_facts :: token_facts where
  "life_facts = \<lparr>tf_alg = LibHS256, tf_present = {''sub'', ''iss'', ''exp''},
     tf_exp = Some 3605, tf_nbf = None, tf_iss = Some {''me''}, tf_aud = None\<rparr>"

definition life_lib :: "(bytes, bytes, int standard_claims) jwt_lib" where
  "life_lib = table_lib \<lparr>h_alg = LibHS256, h_kid = None\<rparr> life_stamped (as_bytes ''k'') life_facts"

lemma life_policy: "surely_meets_policy life_config 100 life_facts"
  by (simp add: surely_meets_policy_def meets_policy_def life_config_def life_facts_def)

lemma life_documented: "constructors_documented life_lib"
  by (simp add: life_lib_def table_lib_facts)

lemma life_keys: "decoding_keys life_lib life_config = Ok [(None, as_bytes ''k'')]"
  by (simp add: hmac_candidates life_config_def) (simp add: life_lib_def table_lib_def)

lemma life_jti: "jti life_stamped = Some ''id''"
  by (simp add: life_stamped_def)

lemma life_validate: "validate life_lib life_config ''tok'' = Ok life_stamped"
proof -
  have "passes 100 (build_validation life_lib life_config) life_facts"
    using life_policy passes_build_validation [OF life_documented]
    by (simp add: surely_meets_policy_def)
  then have "decode life_lib life_config ''tok'' = Ok life_stamped"
    by (intro decode_primary [OF life_keys])
      (auto simp: token_kid_def decoding_key_def decoding_key_for_family life_lib_def table_lib_def
        life_config_def)
  then show ?thesis by (simp add: validate_def)
qed

lemma life_stamp: "stamped_standard milli_chrono 5000 ''id'' life_config life_claims
    (access_token_ttl life_config) = Some life_stamped"
  by (simp add: stamped_standard_alt life_config_def life_stamped_def life_claims_def
      default_claims_def default_config_def merged_audiences_def)

lemma life_encode: "encode_standard life_lib milli_chrono 5000 ''id'' life_config life_claims = Some (Ok ''tok'')"
  by (simp add: encode_standard_def life_stamp)
    (simp add: encode_def encoding_key_def encoding_key_for_family life_lib_def table_lib_def
      life_config_def default_config_def)

text \<open>A token without a \<open>jti\<close>.\<close>

definition sample_claims_lib :: "(bytes, bytes, int standard_claims) jwt_lib" where
  "sample_claims_lib = table_lib \<lparr>h_alg = LibHS256, h_kid = None\<rparr> sample_claims (as_bytes ''s'') sample_facts"

lemma sample_claims_validate: "validate sample_claims_lib sample_config ''tok'' = Ok sample_claims"
proof -
  have doc: "constructors_documented sample_claims_lib"
    by (simp add: sample_claims_lib_def table_lib_facts)
  have "passes 100 (build_validation sample_claims_lib sample_config) sample_facts"
    using sample_policy passes_build_validation [OF doc] by blast
  then have "decode sample_claims_lib sample_config ''tok'' = Ok sample_claims"
    by (simp add: decode_def decode_with_rotation_def decoding_keys_def decoding_key_for_family
        sample_claims_lib_def table_lib_def sample_config_def)
  then show ?thesis by (simp add: validate_def)
qed

subsection \<open>The check itself\<close>

text \<open>
  \<open>decode_standard\<close> accepts a token exactly when \<open>validate\<close> does and the attached store, if
  there is one and the token has a \<open>jti\<close>, answers that the token is not revoked. Any other answer
  of the store, a failure included, rejects the token with \<open>Revoked\<close>; the other errors are those
  of \<open>validate\<close>.
\<close>

theorem decode_standard_fails_closed:
  "fst (decode_standard L self token s) =
     and_then (validate L (config self) token) (\<lambda>c.
       case (revocation self, jti c) of
         (Some st, Some j) \<Rightarrow> if fst (op_is_revoked st j s) = Ok False then Ok c else Err Revoked
       | _ \<Rightarrow> Ok c)"
  by (auto simp: decode_standard_def validate_def and_then_def
      split: sum.splits option.splits prod.splits)

text \<open>The two instances of the interface lemmas that the theorems rest on.\<close>

lemma revoked_rejected:
  assumes "validate L cfg token = Ok c" "jti c = Some j" "alive d t2 t"
  shows "let s = after (rs @ [(t1, t2, j)]) (with_limits m d)
    in decode_standard L (with_revocation (mem_ops a b t) (service_new cfg)) token s = (Err Revoked, s)"
proof -
  have "decode_standard L (with_revocation (mem_ops a b t) (service_new cfg)) token
      (snd (store_revoke t1 t2 j (after rs (with_limits m d))))
    = (Err Revoked, snd (store_revoke t1 t2 j (after rs (with_limits m d))))"
    by (rule mem.revoked_token_rejected [where s = "after rs (with_limits m d)" and ?t1.0 = t1 and
          ?t2.0 = t2 and t = t and st = "mem_ops a b t" and c = c and j = j])
      (use assms after_ok in \<open>simp_all add: store_revoke_def\<close>)
  then show ?thesis by (simp add: Let_def)
qed

lemma other_accepted:
  assumes "validate L cfg token = Ok c" "jti c = Some j" "j \<notin> set (revoked_ids rs)"
  shows "fst (decode_standard L (with_revocation (mem_ops a b t) (service_new cfg)) token
    (after rs (with_limits m d))) = Ok c"
  unfolding after_eq
  by (rule mem.other_tokens_unaffected [where st = "mem_ops a b t" and t = t and c = c and j = j])
    (use assms with_limits_ok in \<open>simp_all add: store_is_revoked_alive\<close>)

text \<open>
  A revoked token is rejected: whatever was revoked before and whatever else the token is good
  for, from the return of \<open>revoke\<close> until the end of the lifetime \<open>decode_standard\<close> answers
  \<open>Revoked\<close>, and the question leaves the store as it is.
\<close>

theorem revoked_token_stays_rejected:
  assumes "validate L cfg token = Ok c" "jti c = Some j" "alive d t2 t"
  shows "let s = after (rs @ [(t1, t2, j)]) (with_limits m d)
    in decode_standard L (with_revocation (mem_ops a b t) (service_new cfg)) token s = (Err Revoked, s)"
  using assms by (rule revoked_rejected)

theorem revoked_token_stays_rejected_witness:
  "fst (decode_standard life_lib (with_revocation (mem_ops 0 0 9) (service_new life_config)) ''tok''
     (after [(1, 1, ''x''), (2, 3, ''id'')] (with_limits 1 (Some 10)))) = Err Revoked"
  using revoked_token_stays_rejected [OF life_validate life_jti, of "Some 10" 3 9 "[(1, 1, ''x'')]" 2 1 0 0]
  by (simp add: Let_def)

text \<open>
  Revocation is precise: as long as its own \<open>jti\<close> is not revoked, a valid token is accepted,
  whatever other tokens are revoked.
\<close>

theorem other_tokens_stay_accepted:
  assumes "validate L cfg token = Ok c" "jti c = Some j" "j \<notin> set (revoked_ids rs)"
  shows "fst (decode_standard L (with_revocation (mem_ops a b t) (service_new cfg)) token
    (after rs (with_limits m d))) = Ok c"
  using assms by (rule other_accepted)

theorem other_tokens_stay_accepted_witness:
  "fst (decode_standard life_lib (with_revocation (mem_ops 0 0 9) (service_new life_config)) ''tok''
     (after [(1, 1, ''x''), (2, 3, ''y'')] (with_limits 1 None))) = Ok life_stamped"
  by (rule other_tokens_stay_accepted [OF life_validate life_jti]) simp

text \<open>
  A token without a \<open>jti\<close> cannot be revoked: it is accepted whenever it is valid, whatever the
  store says.
\<close>

theorem token_without_jti_not_revocable:
  assumes "validate L (config self) token = Ok c" "jti c = None"
  shows "decode_standard L self token s = (Ok c, s)"
  using assms by (simp add: decode_standard_def validate_def split: option.split)

theorem token_without_jti_not_revocable_witness:
  "decode_standard sample_claims_lib (with_revocation (mem_ops 0 0 9) (service_new sample_config)) ''tok''
     (after [(1, 1, ''x'')] (with_limits 1 None))
   = (Ok sample_claims, after [(1, 1, ''x'')] (with_limits 1 None))"
  by (rule token_without_jti_not_revocable)
    (simp_all add: sample_claims_validate sample_claims_def default_claims_def)

text \<open>
  C35. A revocation without a lifetime is forgotten after \<open>max_entries\<close> more: revoking that many
  other ids makes the revoked token valid again.
\<close>

theorem revocation_forgotten_after_flood:
  assumes "validate L cfg token = Ok c" "jti c = Some j"
    and "distinct (j # map (\<lambda>(_, _, j). j) rs)" "max m 1 \<le> length rs"
  shows "fst (decode_standard L (with_revocation (mem_ops a b t) (service_new cfg)) token
    (after ((t1, t2, j) # rs) (with_limits m None))) = Ok c"
proof -
  let ?rs = "(t1, t2, j) # rs"
  have "j \<notin> set (drop (length ?rs - max m 1) (revoked_ids ?rs))"
    using assms(3,4) by (auto simp: Suc_diff_le dest: in_set_dropD)
  then have "store_is_revoked t j (after ?rs (with_limits m None)) = Ok False"
    using remembers_newest [of ?rs t j m] assms(3) by (simp del: after_simps)
  then show ?thesis
    using assms(1,2) by (simp add: decode_standard_def validate_def del: after_simps)
qed

theorem revocation_forgotten_after_flood_witness:
  "fst (decode_standard life_lib (with_revocation (mem_ops 0 0 9) (service_new life_config)) ''tok''
     (after [(1, 1, ''id''), (2, 2, ''a''), (3, 3, ''b'')] (with_limits 2 None))) = Ok life_stamped"
  by (rule revocation_forgotten_after_flood [OF life_validate life_jti]) simp_all

subsection \<open>From minting to revocation\<close>

text \<open>
  What the library documents for \<open>StandardClaims\<close>: an encoded token carries its header and the
  serialized claims, and \<open>decode\<close> under a matching key deserializes them when the token surely
  passes the validation.
\<close>

definition standard_payload ::
    "('ek, 'dk, 'dt standard_claims) jwt_lib \<Rightarrow> 'dt chrono_lib \<Rightarrow> ('ek \<Rightarrow> 'dk \<Rightarrow> bool) \<Rightarrow> nat
      \<Rightarrow> (string \<Rightarrow> token_facts) \<Rightarrow> bool" where
  "standard_payload L C matches now facts \<longleftrightarrow>
     (\<forall>h c ek tok. lib_encode L h c ek = Ok tok \<longrightarrow>
        lib_decode_header L tok = Ok h
      \<and> (\<forall>dk v c'. matches ek dk \<longrightarrow> surely_passes now v (facts tok) \<longrightarrow>
           deserialize_claims C (serialize_claims C c) = Some c' \<longrightarrow> lib_decode L tok dk v = Ok c'))"

lemma standard_payloadD:
  assumes "standard_payload L C matches now facts" "lib_encode L h c ek = Ok tok"
  shows "lib_decode_header L tok = Ok h"
    and "matches ek dk \<Longrightarrow> surely_passes now v (facts tok) \<Longrightarrow>
      deserialize_claims C (serialize_claims C c) = Some c' \<Longrightarrow> lib_decode L tok dk v = Ok c'"
  using assms unfolding standard_payload_def by blast+

lemma standard_encode_decode:
  assumes "constructors_documented L" and lib: "standard_payload L C matches now facts"
    and enc: "encode L cfg c = Ok tok"
    and pair: "\<And>ek dk. encoding_key L cfg = Ok ek \<Longrightarrow> decoding_key L cfg = Ok dk \<Longrightarrow> matches ek dk"
    and load: "decoding_keys L cfg = Ok cands"
    and policy: "surely_meets_policy cfg now (facts tok)"
    and c': "deserialize_claims C (serialize_claims C c) = Some c'"
  shows "validate L cfg tok = Ok c'"
proof -
  obtain ek where ek: "encoding_key L cfg = Ok ek" "lib_encode L
      ((header_new L (to_lib_algorithm (algorithm cfg)))\<lparr>h_kid := key_id cfg\<rparr>) c ek = Ok tok"
    using enc by (rule encode_OkD)
  have pass: "surely_passes now (build_validation L cfg) (facts tok)"
    using policy surely_passes_build_validation [OF assms(1)] by blast
  have "token_kid L tok = key_id cfg"
    by (simp add: token_kid_def standard_payloadD(1) [OF lib ek(2)])
  with load have "decode L cfg tok = Ok c'"
    by (rule decode_primary) (use standard_payloadD(2) [OF lib ek(2) _ pass c'] pair [OF ek(1)] in blast)
  then show ?thesis by (simp add: validate_def)
qed

lemma life_payload: "standard_payload life_lib milli_chrono (=) 100 (\<lambda>_. life_facts)"
proof -
  have "deserialize_claims milli_chrono (serialize_claims milli_chrono life_stamped) = Some life_stamped"
    using roundtrip [of life_stamped milli_chrono "\<lambda>t. 1000 * (t div 1000)"]
    by (simp add: extra_ok_def life_stamped_def life_claims_def default_claims_def)
  then show ?thesis
    unfolding standard_payload_def life_lib_def table_lib_def
    by (auto dest: surely_passesD split: if_splits)
qed

end
