(* ===== verification/Store_Termination.thy ===== *)
theory Store_Termination
  imports In_Memory_Store "HOL-Library.While_Combinator"
begin

section \<open>The eviction loop as a loop (src/revocation.rs, evict_oldest_to)\<close>

text \<open>
  The \<open>while\<close> loop of \<open>InMemoryInner::evict_oldest_to\<close> written with the loop combinator, which may
  fail to return: the state is the inner state together with a flag that the \<open>break\<close> clears. The
  loop returns from every state, also from those that break the invariant of the store and for a
  bound of zero, and its result is that of the structural definition in \<open>In_Memory_Store\<close>.
\<close>

definition evict_cond :: "nat \<Rightarrow> in_memory_inner \<times> bool \<Rightarrow> bool" where
  "evict_cond m st = (case st of (self, running) \<Rightarrow> running \<and> length (entries self) \<ge> m)"

text \<open>The body: \<open>let Some(oldest) = self.order.pop_front() else { break }\<close>, then the removal.\<close>

definition evict_body :: "in_memory_inner \<times> bool \<Rightarrow> in_memory_inner \<times> bool" where
  "evict_body st =
     (case st of (self, running) \<Rightarrow>
        (case order self of
           [] \<Rightarrow> (self, False)
         | oldest # rest \<Rightarrow>
             (self\<lparr>entries := AList.delete oldest (entries self), order := rest\<rparr>, running)))"

definition evict_while :: "nat \<Rightarrow> in_memory_inner \<Rightarrow> (in_memory_inner \<times> bool) option" where
  "evict_while m self = while_option (evict_cond m) evict_body (self, True)"

text \<open>What a run of the loop leaves: the structural loop, and whether it was left through \<open>break\<close>.\<close>

definition evict_result :: "nat \<Rightarrow> in_memory_inner \<Rightarrow> in_memory_inner \<times> bool" where
  "evict_result m self =
     (let i = evict_oldest_to m self in (i, length (entries i) < m))"

lemma evict_oldest_to_unfold:
  "evict_oldest_to m self =
     (if length (entries self) \<ge> m then
        (case order self of
           [] \<Rightarrow> self
         | oldest # rest \<Rightarrow>
             evict_oldest_to m (self\<lparr>entries := AList.delete oldest (entries self), order := rest\<rparr>))
      else self)"
  by (cases "order self") (auto simp: evict_oldest_to_def split: prod.splits)

lemma evict_iterations:
  "\<exists>k \<le> Suc (length (order self)).
     (evict_body ^^ k) (self, True) = evict_result m self
   \<and> (\<forall>j < k. evict_cond m ((evict_body ^^ j) (self, True)))"
proof (induction "length (order self)" arbitrary: self rule: less_induct)
  case less
  show ?case
  proof (cases "length (entries self) \<ge> m")
    case False
    then have "(evict_body ^^ 0) (self, True) = evict_result m self"
      by (simp add: evict_result_def evict_oldest_to_unfold [of m self] Let_def)
    then show ?thesis by (intro exI [of _ 0]) simp
  next
    case True
    show ?thesis
    proof (cases "order self")
      case Nil
      with True have "(evict_body ^^ 1) (self, True) = evict_result m self"
        by (simp add: evict_result_def evict_oldest_to_unfold [of m self] evict_body_def Let_def)
      with True show ?thesis by (intro exI [of _ 1]) (simp add: evict_cond_def)
    next
      case (Cons oldest rest)
      let ?next = "self\<lparr>entries := AList.delete oldest (entries self), order := rest\<rparr>"
      have body: "evict_body (self, True) = (?next, True)"
        using Cons by (simp add: evict_body_def)
      obtain k where k: "k \<le> Suc (length rest)"
          "(evict_body ^^ k) (?next, True) = evict_result m ?next"
          "\<forall>j < k. evict_cond m ((evict_body ^^ j) (?next, True))"
        using less [of ?next] Cons by auto
      have "evict_result m ?next = evict_result m self"
        using True Cons by (simp add: evict_result_def evict_oldest_to_unfold [of m self])
      moreover have "evict_cond m ((evict_body ^^ j) (self, True))" if "j < Suc k" for j
        using that k(3) True body by (cases j) (auto simp: evict_cond_def funpow_swap1 simp flip: funpow_Suc_right)
      ultimately show ?thesis
        using k body Cons
        by (intro exI [of _ "Suc k"]) (simp add: funpow_swap1)
    qed
  qed
qed

section \<open>The loop returns\<close>

text \<open>
  C31. The eviction loop returns from every state, for every bound: after at most one iteration more
  than the queue is long it has removed what the structural definition removes, and it is left
  through its condition exactly when fewer than \<open>m\<close> entries remain, through \<open>break\<close> otherwise.
\<close>

theorem eviction_loop_returns:
  "evict_while m self =
     Some (evict_oldest_to m self, length (entries (evict_oldest_to m self)) < m)
   \<and> (\<exists>k \<le> Suc (length (order self)). \<not> evict_cond m ((evict_body ^^ k) (self, True)))"
proof -
  obtain k where k: "k \<le> Suc (length (order self))" "(evict_body ^^ k) (self, True) = evict_result m self"
      "\<forall>j < k. evict_cond m ((evict_body ^^ j) (self, True))"
    using evict_iterations [of self m] by blast
  have stop: "\<not> evict_cond m ((evict_body ^^ k) (self, True))"
    by (simp add: k(2) evict_result_def evict_cond_def Let_def)
  have "(LEAST j. \<not> evict_cond m ((evict_body ^^ j) (self, True))) = k"
    using stop k(3) by (intro Least_equality) (auto simp: linorder_not_less [symmetric])
  moreover have "\<exists>j. \<not> evict_cond m ((evict_body ^^ j) (self, True))" using stop by blast
  ultimately have "evict_while m self = Some (evict_result m self)"
    by (simp add: evict_while_def while_option_def k(2))
  then show ?thesis using k(1) stop by (auto simp: evict_result_def Let_def)
qed

end
