(* ===== verification/Redis_Store.thy ===== *)
theory Redis_Store
  imports Token_Lifecycle
begin

section \<open>The Redis store (src/revocation.rs, RedisRevocationStore)\<close>

text \<open>
  The crate \<open>redis\<close> and the server behind it are parameters: opening a client, connecting, and
  running a command whose reply is read as \<open>()\<close> or as \<open>bool\<close>. Connecting and running a command
  act on the outside world \<open>'w\<close>, which is passed along; nothing is assumed of them here. An error
  that the source boxes keeps its value.
\<close>

datatype redis_arg = ArgStr string | ArgU64 u64

record redis_cmd =
  cmd_name :: string
  cmd_args :: "redis_arg list"

record ('cl, 'conn, 'e, 'w) redis_lib =
  client_open :: "string \<Rightarrow> 'e + 'cl"
  get_connection :: "'cl \<Rightarrow> 'w \<Rightarrow> ('e + 'conn) \<times> 'w"
  query_unit :: "'conn \<Rightarrow> redis_cmd \<Rightarrow> 'w \<Rightarrow> ('e + unit) \<times> 'w"
  query_bool :: "'conn \<Rightarrow> redis_cmd \<Rightarrow> 'w \<Rightarrow> ('e + bool) \<times> 'w"

record ('cl, 'conn) redis_store =
  rs_client :: 'cl
  rs_connection :: "'conn option"
  rs_ttl :: u64

text \<open>\<open>RedisRevocationStore::new\<close>: no connection is made.\<close>

definition redis_new ::
    "('cl, 'conn, 'e, 'w) redis_lib \<Rightarrow> string \<Rightarrow> u64 \<Rightarrow> 'e + ('cl, 'conn) redis_store" where
  "redis_new R url t =
     map_ok (\<lambda>client. \<lparr>rs_client = client, rs_connection = None, rs_ttl = t\<rparr>) (client_open R url)"

text \<open>
  \<open>connection\<close>: first the check under the read lock, then, under the write lock, the check
  again on the state found there and only then a new connection, which is cached.
\<close>

definition connection_locked ::
    "('cl, 'conn, 'e, 'w) redis_lib \<Rightarrow> ('cl, 'conn) redis_store \<Rightarrow> 'w
      \<Rightarrow> ('e + 'conn) \<times> ('cl, 'conn) redis_store \<times> 'w" where
  "connection_locked R self w =
     (case rs_connection self of
        Some conn \<Rightarrow> (Ok conn, self, w)
      | None \<Rightarrow>
          (case get_connection R (rs_client self) w of
             (Inl e, w') \<Rightarrow> (Err e, self, w')
           | (Inr conn, w') \<Rightarrow> (Ok conn, self\<lparr>rs_connection := Some conn\<rparr>, w')))"

definition connection ::
    "('cl, 'conn, 'e, 'w) redis_lib \<Rightarrow> ('cl, 'conn) redis_store \<Rightarrow> 'w
      \<Rightarrow> ('e + 'conn) \<times> ('cl, 'conn) redis_store \<times> 'w" where
  "connection R self w =
     (case rs_connection self of
        Some conn \<Rightarrow> (Ok conn, self, w)
      | None \<Rightarrow> connection_locked R self w)"

definition reset_connection :: "('cl, 'conn) redis_store \<Rightarrow> ('cl, 'conn) redis_store" where
  "reset_connection self = self\<lparr>rs_connection := None\<rparr>"

text \<open>
  The body that \<open>revoke\<close> and \<open>is_revoked\<close> have in common: run the command \<open>q\<close>, and if it fails
  drop the cached connection, connect again and run it once more.
\<close>

definition with_retry ::
    "('cl, 'conn, 'e, 'w) redis_lib \<Rightarrow> ('conn \<Rightarrow> 'w \<Rightarrow> ('e + 'a) \<times> 'w) \<Rightarrow> ('cl, 'conn) redis_store \<Rightarrow> 'w
      \<Rightarrow> ('e + 'a) \<times> ('cl, 'conn) redis_store \<times> 'w" where
  "with_retry R q self w =
     (case connection R self w of
        (Inl e, self, w) \<Rightarrow> (Err e, self, w)
      | (Inr conn, self, w) \<Rightarrow>
          (case q conn w of
             (Inr x, w) \<Rightarrow> (Ok x, self, w)
           | (Inl _, w) \<Rightarrow>
               (case connection R (reset_connection self) w of
                  (Inl e, self, w) \<Rightarrow> (Err e, self, w)
                | (Inr conn, self, w) \<Rightarrow> (case q conn w of (r, w) \<Rightarrow> (r, self, w)))))"

definition setex_cmd :: "string \<Rightarrow> u64 \<Rightarrow> redis_cmd" where
  "setex_cmd j t = \<lparr>cmd_name = ''SETEX'', cmd_args = [ArgStr j, ArgU64 t, ArgStr ''1'']\<rparr>"

definition exists_cmd :: "string \<Rightarrow> redis_cmd" where
  "exists_cmd j = \<lparr>cmd_name = ''EXISTS'', cmd_args = [ArgStr j]\<rparr>"

definition redis_revoke ::
    "('cl, 'conn, 'e, 'w) redis_lib \<Rightarrow> string \<Rightarrow> ('cl, 'conn) redis_store \<Rightarrow> 'w
      \<Rightarrow> ('e + unit) \<times> ('cl, 'conn) redis_store \<times> 'w" where
  "redis_revoke R j self w =
     with_retry R (\<lambda>conn. query_unit R conn (setex_cmd j (rs_ttl self))) self w"

definition redis_is_revoked ::
    "('cl, 'conn, 'e, 'w) redis_lib \<Rightarrow> string \<Rightarrow> ('cl, 'conn) redis_store \<Rightarrow> 'w
      \<Rightarrow> ('e + bool) \<times> ('cl, 'conn) redis_store \<times> 'w" where
  "redis_is_revoked R j self w =
     with_retry R (\<lambda>conn. query_bool R conn (exists_cmd j)) self w"

text \<open>The store as the trait object that the service holds; its state is the store and the world.\<close>

definition redis_ops ::
    "('cl, 'conn, 'e, 'w) redis_lib \<Rightarrow> (('cl, 'conn) redis_store \<times> 'w, 'e) store_ops" where
  "redis_ops R =
     \<lparr>op_revoke = (\<lambda>j (self, w). redis_revoke R j self w),
      op_is_revoked = (\<lambda>j (self, w). redis_is_revoked R j self w)\<rparr>"

section \<open>Lemmas\<close>

text \<open>The three ways a retried command goes.\<close>

lemma connection_alt:
  "connection R self w =
     (case rs_connection self of
        Some conn \<Rightarrow> (Ok conn, self, w)
      | None \<Rightarrow>
          (case get_connection R (rs_client self) w of
             (Inl e, w') \<Rightarrow> (Err e, self, w')
           | (Inr conn, w') \<Rightarrow> (Ok conn, self\<lparr>rs_connection := Some conn\<rparr>, w')))"
  by (simp add: connection_def connection_locked_def split: option.split)

lemma reset_connection_simps [simp]:
  "rs_connection (reset_connection self) = None"
  "rs_client (reset_connection self) = rs_client self"
  "rs_ttl (reset_connection self) = rs_ttl self"
  by (simp_all add: reset_connection_def)

text \<open>
  What a whole operation does to the world. \<open>P i\<close> is a predicate of the world after at most \<open>i\<close>
  calls of the library; an operation makes at most four, two connections and two queries. \<open>Q\<close>
  describes the value of a successful query, with the world after it.
\<close>

lemma with_retry_world:
  fixes P :: "nat \<Rightarrow> 'w \<Rightarrow> bool"
  assumes mono: "\<And>i w. P i w \<Longrightarrow> P (Suc i) w"
    and conn: "\<And>i cl w. P i w \<Longrightarrow> P (Suc i) (snd (get_connection R cl w))"
    and query: "\<And>i c w r w'. P i w \<Longrightarrow> q c w = (r, w') \<Longrightarrow> P (Suc i) w' \<and> (\<forall>x. r = Ok x \<longrightarrow> Q x w')"
    and "P 0 w" "with_retry R q self w = (r, self', w')"
  shows "P 4 w' \<and> (\<forall>x. r = Ok x \<longrightarrow> Q x w')"
proof -
  have c: "P (Suc i) w1" if "connection R s w0 = (r1, s1, w1)" "P i w0" for i s w0 r1 s1 w1
    using that conn [of i w0 "rs_client s"] mono [of i w0]
    by (auto simp: connection_alt split: option.splits prod.splits sum.splits)
  have "P i w \<Longrightarrow> P (i + k) w" for i k w
    by (induction k) (auto dest: mono)
  then have up: "P i w \<Longrightarrow> i \<le> 4 \<Longrightarrow> P 4 w" for i w
    by (metis le_add_diff_inverse)
  obtain r1 s1 w1 where 1: "connection R self w = (r1, s1, w1)" by (metis prod_cases3)
  note p1 = c [OF 1 assms(4)]
  show ?thesis
  proof (cases r1)
    case (Inl e)
    with 1 up [OF p1] assms(5) show ?thesis by (auto simp: with_retry_def)
  next
    case (Inr c1)
    obtain r2 w2 where 2: "q c1 w1 = (r2, w2)" by fastforce
    note p2 = query [OF p1 2]
    show ?thesis
    proof (cases r2)
      case (Inr x)
      with 1 2 \<open>r1 = Inr c1\<close> p2 up [of 2 w2] assms(5) show ?thesis
        by (auto simp: with_retry_def eval_nat_numeral)
    next
      case (Inl e)
      obtain r3 s3 w3 where 3: "connection R (reset_connection s1) w2 = (r3, s3, w3)"
        by (metis prod_cases3)
      have p3: "P 3 w3" using c [OF 3] p2 by (simp add: eval_nat_numeral)
      have "with_retry R q self w = (case r3 of Inl e \<Rightarrow> (Err e, s3, w3)
          | Inr conn \<Rightarrow> (case q conn w3 of (r, w) \<Rightarrow> (r, s3, w)))"
        using 1 2 3 Inl \<open>r1 = Inr c1\<close> by (simp add: with_retry_def split: sum.split)
      then show ?thesis
        using assms(5) up [OF p3] query [OF p3]
        by (cases r3) (auto split: prod.splits simp: eval_nat_numeral)
    qed
  qed
qed

lemma with_retry_cache:
  assumes "with_retry R q self w = (r, self', w')"
  shows "rs_client self' = rs_client self \<and> rs_ttl self' = rs_ttl self
    \<and> (is_ok r \<longrightarrow> rs_connection self' \<noteq> None)"
  using assms
  by (auto simp: with_retry_def connection_alt is_ok_def
      split: option.splits prod.splits sum.splits)

section \<open>The server\<close>

text \<open>
  What is relied on of the server, in terms of its clock in seconds and of the time at which a stored
  key expires (\<open>None\<close>: not stored). \<open>lasts\<close> says that a key is stored until a time at least, as long
  as that time has not come.
\<close>

definition lasts ::
    "('w \<Rightarrow> nat) \<Rightarrow> ('w \<Rightarrow> string \<Rightarrow> nat option) \<Rightarrow> nat \<Rightarrow> 'w \<Rightarrow> string \<Rightarrow> bool" where
  "lasts clock expiry d w k \<longleftrightarrow> (clock w < d \<longrightarrow> (\<exists>e. expiry w k = Some e \<and> d \<le> e))"

text \<open>Time passes, and no key is lost before it expires.\<close>

definition keeps :: "('w \<Rightarrow> nat) \<Rightarrow> ('w \<Rightarrow> string \<Rightarrow> nat option) \<Rightarrow> 'w \<Rightarrow> 'w \<Rightarrow> bool" where
  "keeps clock expiry w w' \<longleftrightarrow>
     clock w \<le> clock w' \<and> (\<forall>k d. lasts clock expiry d w k \<longrightarrow> lasts clock expiry d w' k)"

text \<open>
  Documented of Redis: connecting and \<open>EXISTS\<close> lose no key; \<open>EXISTS\<close> does not deny a key that is stored
  when it is sent and has not expired when it is answered; \<open>SETEX\<close> stores its key for the seconds it is
  given from some moment between the request and the reply on, in place of the expiry the key had, and
  loses no other. A \<open>SETEX\<close> whose reply is an error may have been run or not.
\<close>

definition redis_documented ::
    "('cl, 'conn, 'e, 'w) redis_lib \<Rightarrow> ('w \<Rightarrow> nat) \<Rightarrow> ('w \<Rightarrow> string \<Rightarrow> nat option) \<Rightarrow> bool" where
  "redis_documented R clock expiry \<longleftrightarrow>
     (\<forall>cl w. keeps clock expiry w (snd (get_connection R cl w)))
   \<and> (\<forall>c j w. keeps clock expiry w (snd (query_bool R c (exists_cmd j) w)))
   \<and> (\<forall>c j w w' e. query_bool R c (exists_cmd j) w = (Ok False, w') \<longrightarrow> expiry w j = Some e \<longrightarrow> e \<le> clock w')
   \<and> (\<forall>c j t w. clock w \<le> clock (snd (query_unit R c (setex_cmd j t) w)))
   \<and> (\<forall>c j t w k d. lasts clock expiry d w k \<longrightarrow> (k = j \<longrightarrow> d \<le> clock w + unat t) \<longrightarrow>
        lasts clock expiry d (snd (query_unit R c (setex_cmd j t) w)) k)
   \<and> (\<forall>c j t w w'. query_unit R c (setex_cmd j t) w = (Ok (), w') \<longrightarrow>
        (\<exists>e. expiry w' j = Some e \<and> clock w + unat t \<le> e \<and> e \<le> clock w' + unat t))"

lemma redis_documentedD:
  assumes "redis_documented R clock expiry"
  shows "get_connection R cl w = (r1, w') \<Longrightarrow> keeps clock expiry w w'"
    and "query_bool R c (exists_cmd j) w = (r2, w') \<Longrightarrow> keeps clock expiry w w'"
    and "query_bool R c (exists_cmd j) w = (Ok False, w') \<Longrightarrow> lasts clock expiry d w j \<Longrightarrow> d \<le> clock w'"
    and "query_unit R c (setex_cmd j t) w = (r3, w') \<Longrightarrow> clock w \<le> clock w'"
    and "query_unit R c (setex_cmd j t) w = (r3, w') \<Longrightarrow> lasts clock expiry d w k \<Longrightarrow>
      d \<le> clock w + unat t \<Longrightarrow> lasts clock expiry d w' k"
    and "query_unit R c (setex_cmd j t) w = (Ok (), w') \<Longrightarrow> d \<le> clock w + unat t \<Longrightarrow> lasts clock expiry d w' j"
proof -
  show "keeps clock expiry w w'" if "get_connection R cl w = (r1, w')"
    using assms that unfolding redis_documented_def by (metis snd_conv)
  show kept: "keeps clock expiry w w'" if "query_bool R c (exists_cmd j) w = (r2, w')" for r2
    using assms that unfolding redis_documented_def by (metis snd_conv)
  show "d \<le> clock w'" if q: "query_bool R c (exists_cmd j) w = (Ok False, w')" and "lasts clock expiry d w j"
  proof (cases "clock w < d")
    case True
    with that(2) obtain e where "expiry w j = Some e" "d \<le> e" by (auto simp: lasts_def)
    moreover have "e \<le> clock w'" using assms q \<open>expiry w j = Some e\<close> unfolding redis_documented_def by blast
    ultimately show ?thesis by simp
  next
    case False
    with kept [OF q] show ?thesis by (simp add: keeps_def)
  qed
  show "clock w \<le> clock w'" if "query_unit R c (setex_cmd j t) w = (r3, w')"
    using assms that unfolding redis_documented_def by (metis snd_conv)
  show "lasts clock expiry d w' k"
    if "query_unit R c (setex_cmd j t) w = (r3, w')" "lasts clock expiry d w k" "d \<le> clock w + unat t"
    using assms that unfolding redis_documented_def by (metis snd_conv)
  show "lasts clock expiry d w' j" if "query_unit R c (setex_cmd j t) w = (Ok (), w')" "d \<le> clock w + unat t"
    using assms that unfolding redis_documented_def lasts_def by (meson le_trans)
qed

text \<open>
  What can happen at the server after a revocation, as far as it concerns a service: other clients act
  and time passes, without a key being lost before its time, and stores of the crate with a lifetime of
  at least \<open>T\<close> seconds revoke any ids and ask for any ids. (A store with a shorter lifetime that revokes
  an id again shortens the revocation: \<open>SETEX\<close> replaces the expiry.)
\<close>

inductive server_step ::
    "('cl, 'conn, 'e, 'w) redis_lib \<Rightarrow> ('w \<Rightarrow> nat) \<Rightarrow> ('w \<Rightarrow> string \<Rightarrow> nat option) \<Rightarrow> nat \<Rightarrow> 'w \<Rightarrow> 'w \<Rightarrow> bool"
  for R clock expiry T where
  elsewhere: "keeps clock expiry w w' \<Longrightarrow> server_step R clock expiry T w w'"
| revoking: "redis_revoke R k other w = (r, other', w') \<Longrightarrow> T \<le> unat (rs_ttl other) \<Longrightarrow>
    server_step R clock expiry T w w'"
| asking: "redis_is_revoked R k other w = (r, other', w') \<Longrightarrow> server_step R clock expiry T w w'"

lemma asked_world:
  assumes "redis_documented R clock expiry" "redis_is_revoked R k self w = (r, self', w')"
  shows "clock w \<le> clock w'" "lasts clock expiry d w j \<Longrightarrow> lasts clock expiry d w' j"
    and "lasts clock expiry d w k \<Longrightarrow> clock w' < d \<Longrightarrow> r \<noteq> Ok False"
proof -
  let ?P = "\<lambda>_ v. clock w \<le> clock v \<and> (\<forall>d j. lasts clock expiry d w j \<longrightarrow> lasts clock expiry d v j)"
  let ?Q = "\<lambda>b v. b \<or> (\<forall>d. lasts clock expiry d w k \<longrightarrow> d \<le> clock v)"
  have all: "?P 4 w' \<and> (\<forall>b. r = Ok b \<longrightarrow> ?Q b w')"
  proof (rule with_retry_world [where P = ?P and Q = ?Q, OF _ _ _ _ assms(2) [unfolded redis_is_revoked_def]])
    show "?P (Suc i) (snd (get_connection R cl v))" if "?P i v" for i cl v
      using redis_documentedD(1) [OF assms(1), of cl v] that
      by (metis (no_types, lifting) keeps_def le_trans prod.collapse)
    show "?P (Suc i) v' \<and> (\<forall>b. r = Ok b \<longrightarrow> ?Q b v')"
      if "?P i v" "query_bool R c (exists_cmd k) v = (r, v')" for i c v r v'
      using redis_documentedD(2,3) [OF assms(1)] that unfolding keeps_def
      by (metis (full_types) le_trans)
  qed simp_all
  then show "clock w \<le> clock w'" "lasts clock expiry d w j \<Longrightarrow> lasts clock expiry d w' j" by blast+
  show "r \<noteq> Ok False" if "lasts clock expiry d w k" "clock w' < d"
    using all that by fastforce
qed

lemma revoked_world:
  assumes "redis_documented R clock expiry" "redis_revoke R k self w = (r, self', w')"
  shows "clock w \<le> clock w'"
    and "d \<le> clock w + unat (rs_ttl self) \<Longrightarrow> lasts clock expiry d w j \<Longrightarrow> lasts clock expiry d w' j"
    and "d \<le> clock w + unat (rs_ttl self) \<Longrightarrow> r = Ok x \<Longrightarrow> lasts clock expiry d w' k"
proof -
  let ?d = "clock w + unat (rs_ttl self)"
  let ?P = "\<lambda>_ v. clock w \<le> clock v
    \<and> (\<forall>d j. d \<le> ?d \<longrightarrow> lasts clock expiry d w j \<longrightarrow> lasts clock expiry d v j)"
  let ?Q = "\<lambda>_ v. \<forall>d. d \<le> ?d \<longrightarrow> lasts clock expiry d v k"
  have all: "?P 4 w' \<and> (\<forall>x. r = Ok x \<longrightarrow> ?Q x w')"
  proof (rule with_retry_world [where P = ?P and Q = ?Q, OF _ _ _ _ assms(2) [unfolded redis_revoke_def]])
    show "?P (Suc i) (snd (get_connection R cl v))" if "?P i v" for i cl v
      using redis_documentedD(1) [OF assms(1), of cl v] that
      by (metis (no_types, lifting) keeps_def le_trans prod.collapse)
    show "?P (Suc i) v' \<and> (\<forall>x. r = Ok x \<longrightarrow> ?Q x v')"
      if P: "?P i v" and q: "query_unit R c (setex_cmd k (rs_ttl self)) v = (r, v')" for i c v r v'
    proof (intro conjI allI impI)
      have later: "d \<le> clock v + unat (rs_ttl self)" if "d \<le> ?d" for d using P that by linarith
      show "clock w \<le> clock v'" using redis_documentedD(4) [OF assms(1) q] P by linarith
      show "lasts clock expiry d v' j" if "d \<le> ?d" "lasts clock expiry d w j" for d j
        using redis_documentedD(5) [OF assms(1) q _ later] P that by blast
      show "lasts clock expiry d v' k" if "r = Ok x" "d \<le> ?d" for x d
        using redis_documentedD(6) [OF assms(1) _ later] q that by simp
    qed
  qed simp_all
  then show "clock w \<le> clock w'"
    "d \<le> clock w + unat (rs_ttl self) \<Longrightarrow> lasts clock expiry d w j \<Longrightarrow> lasts clock expiry d w' j"
    "d \<le> clock w + unat (rs_ttl self) \<Longrightarrow> r = Ok x \<Longrightarrow> lasts clock expiry d w' k" by blast+
qed

lemma server_later:
  assumes "(server_step R clock expiry T)\<^sup>*\<^sup>* w v" "redis_documented R clock expiry"
    and "d \<le> clock w + T" "lasts clock expiry d w j"
  shows "d \<le> clock v + T \<and> lasts clock expiry d v j"
  using assms(1)
proof (induction rule: rtranclp_induct)
  case base
  show ?case using assms(3,4) by simp
next
  case (step v v')
  from step.hyps(2) show ?case
  proof cases
    case elsewhere
    with step.IH show ?thesis by (auto simp: keeps_def)
  next
    case (revoking k other r other')
    with step.IH revoked_world(1,2) [OF assms(2) revoking(1)] show ?thesis by simp
  next
    case (asking k other r other')
    with step.IH asked_world(1,2) [OF assms(2) asking] show ?thesis by (meson add_le_mono1 le_trans)
  qed
qed

section \<open>Properties\<close>

text \<open>
  Two servers for the witnesses, with a connection that may be dead: one that only keeps a set of keys,
  for facts on the calls and their order, and one with a clock, where every call takes a second.
\<close>

fun key_of :: "redis_arg list \<Rightarrow> string" where
  "key_of (ArgStr j # _) = j"
| "key_of _ = []"

fun seconds_of :: "redis_arg list \<Rightarrow> nat" where
  "seconds_of (_ # ArgU64 t # _) = unat t"
| "seconds_of _ = 0"

definition set_redis :: "(unit, bool, unit, string set) redis_lib" where
  "set_redis =
     \<lparr>client_open = (\<lambda>_. Ok ()), get_connection = (\<lambda>_ w. (Ok True, w)),
      query_unit = (\<lambda>c cmd w. if c then (Ok (), insert (key_of (cmd_args cmd)) w) else (Err (), w)),
      query_bool = (\<lambda>c cmd w. if c then (Ok (key_of (cmd_args cmd) \<in> w), w) else (Err (), w))\<rparr>"

definition stored_at :: "nat \<Rightarrow> nat option \<Rightarrow> bool" where
  "stored_at now m = (case m of Some e \<Rightarrow> now < e | None \<Rightarrow> False)"

definition clock_redis :: "(unit, bool, unit, nat \<times> (string \<Rightarrow> nat option)) redis_lib" where
  "clock_redis =
     \<lparr>client_open = (\<lambda>_. Ok ()), get_connection = (\<lambda>_ (t, m). (Ok True, (Suc t, m))),
      query_unit = (\<lambda>c cmd (t, m).
        if c then (Ok (), (Suc t, m(key_of (cmd_args cmd) \<mapsto> Suc t + seconds_of (cmd_args cmd))))
        else (Err (), (Suc t, m))),
      query_bool = (\<lambda>c cmd (t, m).
        if c then (Ok (stored_at (Suc t) (m (key_of (cmd_args cmd)))), (Suc t, m)) else (Err (), (Suc t, m)))\<rparr>"

lemma clock_redis_documented: "redis_documented clock_redis fst snd"
  by (auto simp: redis_documented_def clock_redis_def setex_cmd_def exists_cmd_def keeps_def lasts_def
      stored_at_def split: if_splits option.splits)

definition dead_store :: "(unit, bool) redis_store" where
  "dead_store = \<lparr>rs_client = (), rs_connection = Some False, rs_ttl = 60\<rparr>"

text \<open>
  C21. A revocation in Redis is effective, for the lifetime of the store, for every service that shares
  the server: if \<open>revoke\<close> succeeded, then whatever happens at the server afterwards, and whenever less
  than the store's lifetime has passed on the server's clock since \<open>revoke\<close> was called, \<open>decode_standard\<close>
  rejects the token with \<open>Revoked\<close>, whatever its own connection is worth and however many of its calls
  fail.
\<close>

theorem redis_revocation_effective:
  assumes "redis_documented R clock expiry" "redis_revoke R j self w = (Ok (), self', w')"
    and "(server_step R clock expiry (unat (rs_ttl self)))\<^sup>*\<^sup>* w' v"
    and "validate L cfg token = Ok c" "jti c = Some j"
    and "decode_standard L (with_revocation (redis_ops R) (service_new cfg)) token (other, v) = (result, other', v')"
    and "clock v' < clock w + unat (rs_ttl self)"
  shows "result = Err Revoked"
proof -
  let ?d = "clock w + unat (rs_ttl self)"
  have "lasts clock expiry ?d w' j" "clock w \<le> clock w'"
    using revoked_world(1,3) [OF assms(1,2)] by blast+
  then have last: "lasts clock expiry ?d v j"
    using server_later [OF assms(3,1)] by simp
  obtain r self2 w2 where q: "redis_is_revoked R j other v = (r, self2, w2)"
    by (metis prod_cases3)
  have "w2 = v' \<and> result = (case r of Inr False \<Rightarrow> Ok c | _ \<Rightarrow> Err Revoked)"
    using q assms(4-6)
    by (auto simp: decode_standard_def validate_def redis_ops_def split: sum.splits bool.splits)
  with asked_world(3) [OF assms(1) q last] assms(7) show ?thesis
    by (auto split: sum.splits bool.splits)
qed

theorem redis_revocation_effective_witness:
  "redis_revoke clock_redis ''id'' dead_store (0, Map.empty)
     = (Ok (), dead_store\<lparr>rs_connection := Some True\<rparr>, (3, [''id'' \<mapsto> 63]))
   \<and> decode_standard life_lib (with_revocation (redis_ops clock_redis) (service_new life_config)) ''tok''
       (dead_store, (40, [''id'' \<mapsto> 63]))
     = (Err Revoked, dead_store\<lparr>rs_connection := Some True\<rparr>, (43, [''id'' \<mapsto> 63]))"
proof
  show 1: "redis_revoke clock_redis ''id'' dead_store (0, Map.empty)
     = (Ok (), dead_store\<lparr>rs_connection := Some True\<rparr>, (3, [''id'' \<mapsto> 63]))"
    by (simp add: redis_revoke_def with_retry_def connection_alt clock_redis_def dead_store_def
        setex_cmd_def reset_connection_def)
  let ?s = "with_revocation (redis_ops clock_redis) (service_new life_config)"
  obtain x y where d: "decode_standard life_lib ?s ''tok'' (dead_store, (40, [''id'' \<mapsto> 63])) = (x, y, (43, [''id'' \<mapsto> 63]))"
    "y = dead_store\<lparr>rs_connection := Some True\<rparr>"
    using life_validate life_jti
    by (simp add: decode_standard_def validate_def redis_ops_def redis_is_revoked_def with_retry_def connection_alt
        clock_redis_def dead_store_def exists_cmd_def reset_connection_def)
  have "server_step clock_redis fst snd (unat (rs_ttl dead_store)) (3, [''id'' \<mapsto> 63]) (40, [''id'' \<mapsto> 63])"
    by (rule elsewhere) (simp add: keeps_def lasts_def)
  from redis_revocation_effective [OF clock_redis_documented 1 r_into_rtranclp [of "server_step _ _ _ _", OF this]
      life_validate life_jti d(1)]
  have "x = Err Revoked" by (simp add: dead_store_def)
  with d show "decode_standard life_lib ?s ''tok'' (dead_store, (40, [''id'' \<mapsto> 63]))
     = (Err Revoked, dead_store\<lparr>rs_connection := Some True\<rparr>, (43, [''id'' \<mapsto> 63]))" by simp
qed

text \<open>
  A dead connection is replaced once: with a cached connection a command that succeeds leaves the
  cache alone, one that fails is run again on a fresh connection, which is then the cached one, and
  when no connection can be made the cache is left empty and the error of connecting is returned.
\<close>

theorem redis_retries_once:
  assumes "rs_connection self = Some conn"
  shows "redis_is_revoked R j self w =
    (case query_bool R conn (exists_cmd j) w of
       (Inr b, w1) \<Rightarrow> (Ok b, self, w1)
     | (Inl _, w1) \<Rightarrow>
         (case get_connection R (rs_client self) w1 of
            (Inl e, w2) \<Rightarrow> (Err e, self\<lparr>rs_connection := None\<rparr>, w2)
          | (Inr conn', w2) \<Rightarrow>
              (case query_bool R conn' (exists_cmd j) w2 of
                 (r, w3) \<Rightarrow> (r, self\<lparr>rs_connection := Some conn'\<rparr>, w3))))"
  using assms
  by (auto simp: redis_is_revoked_def with_retry_def connection_alt reset_connection_def
      split: prod.split sum.split)

theorem redis_retries_once_witness:
  "redis_is_revoked set_redis ''id'' dead_store {''id''} =
     (Ok True, dead_store\<lparr>rs_connection := Some True\<rparr>, {''id''})"
  using redis_retries_once [of dead_store False set_redis "''id''" "{''id''}"]
  by (simp add: set_redis_def dead_store_def exists_cmd_def)

lemma with_retry_cost:
  fixes cost :: "'w \<Rightarrow> nat"
  assumes conn: "\<And>cl w. cost (snd (get_connection R cl w)) \<le> Suc (cost w)"
    and query: "\<And>c w. cost (snd (q c w)) \<le> Suc (cost w)"
    and r: "with_retry R q self w = (r, self', w')"
  shows "cost w' \<le> cost w + 4"
proof -
  let ?P = "\<lambda>i v. cost v \<le> cost w + i"
  have "?P 4 w' \<and> (\<forall>x. r = Ok x \<longrightarrow> True)"
  proof (rule with_retry_world [where P = ?P and Q = "\<lambda>_ _. True", OF _ _ _ _ r])
    show "?P (Suc i) (snd (get_connection R cl v))" if "?P i v" for i cl v
      using conn [of cl v] that by simp
    show "?P (Suc i) v' \<and> (\<forall>x. r = Ok x \<longrightarrow> True)" if "?P i v" "q c v = (r, v')" for i c v r v'
      using query [of c v] that by simp
  qed simp_all
  then show ?thesis by simp
qed

text \<open>
  An operation makes at most two connections and two queries: a measure of the world that every
  call of the library raises by at most one is raised by at most four, and the client and the
  lifetime of the store never change.
\<close>

theorem redis_calls_bounded:
  fixes cost :: "'w \<Rightarrow> nat"
  assumes "\<And>cl w. cost (snd (get_connection R cl w)) \<le> Suc (cost w)"
    and "\<And>c cmd w. cost (snd (query_unit R c cmd w)) \<le> Suc (cost w)"
    and "\<And>c cmd w. cost (snd (query_bool R c cmd w)) \<le> Suc (cost w)"
  shows "(let (_, self', w') = redis_revoke R j self w
      in cost w' \<le> cost w + 4 \<and> rs_client self' = rs_client self \<and> rs_ttl self' = rs_ttl self)
    \<and> (let (_, self', w') = redis_is_revoked R j self w
      in cost w' \<le> cost w + 4 \<and> rs_client self' = rs_client self \<and> rs_ttl self' = rs_ttl self)"
proof
  obtain r self1 w1 where 1: "redis_revoke R j self w = (r, self1, w1)" by (metis prod_cases3)
  show "let (_, self', w') = redis_revoke R j self w
      in cost w' \<le> cost w + 4 \<and> rs_client self' = rs_client self \<and> rs_ttl self' = rs_ttl self"
    using with_retry_cost [OF assms(1,2) 1 [unfolded redis_revoke_def]]
      with_retry_cache [OF 1 [unfolded redis_revoke_def]] by (simp add: 1)
  obtain r2 self2 w2 where 2: "redis_is_revoked R j self w = (r2, self2, w2)" by (metis prod_cases3)
  show "let (_, self', w') = redis_is_revoked R j self w
      in cost w' \<le> cost w + 4 \<and> rs_client self' = rs_client self \<and> rs_ttl self' = rs_ttl self"
    using with_retry_cost [OF assms(1,3) 2 [unfolded redis_is_revoked_def]]
      with_retry_cache [OF 2 [unfolded redis_is_revoked_def]] by (simp add: 2)
qed

text \<open>A server that counts its calls.\<close>

definition counting_redis :: "(unit, unit, unit, nat) redis_lib" where
  "counting_redis =
     \<lparr>client_open = (\<lambda>_. Ok ()), get_connection = (\<lambda>_ n. (Ok (), Suc n)),
      query_unit = (\<lambda>_ _ n. (Err (), Suc n)), query_bool = (\<lambda>_ _ n. (Err (), Suc n))\<rparr>"

theorem redis_calls_bounded_witness:
  "let (_, self', n) =
      redis_is_revoked counting_redis ''id'' \<lparr>rs_client = (), rs_connection = None, rs_ttl = 60\<rparr> 0
   in n = 4 \<and> n \<le> 0 + 4 \<and> rs_ttl self' = 60"
proof -
  let ?s = "\<lparr>rs_client = (), rs_connection = None, rs_ttl = 60\<rparr>"
  have "redis_is_revoked counting_redis ''id'' ?s 0
      = (Err (), \<lparr>rs_client = (), rs_connection = Some (), rs_ttl = 60\<rparr>, 4)"
    by (simp add: redis_is_revoked_def with_retry_def connection_alt counting_redis_def
        reset_connection_def)
  then show ?thesis
    using redis_calls_bounded [of "\<lambda>n. n" counting_redis "''id''" ?s 0]
    by (simp add: counting_redis_def)
qed

end
