(* ===== verification/Task_Calls.thy ===== *)
theory Task_Calls
  imports Main
begin

section \<open>Calls of concurrent tasks end\<close>

text \<open>
  The JWKS cache and the Redis store are both used by tasks that are each in some phase of a call.
  What their step relations have in common is stated here as an interface: a step moves at most
  one task, and unless it sends that task back to idle, the task has fewer steps left. Then the
  calls of a run take boundedly many steps together.
\<close>

definition no_restarts :: "'p \<Rightarrow> (nat \<Rightarrow> 'p) \<Rightarrow> (nat \<Rightarrow> 'p) \<Rightarrow> bool" where
  "no_restarts idle p p' \<longleftrightarrow> (\<forall>t. p' t = idle \<longrightarrow> p t = idle)"

definition only_first :: "nat \<Rightarrow> 'p \<Rightarrow> (nat \<Rightarrow> 'p) \<Rightarrow> bool" where
  "only_first N idle p \<longleftrightarrow> (\<forall>t \<ge> N. p t = idle)"

text \<open>The steps among the first \<open>n\<close> of a run in which a task moves.\<close>

definition moves :: "(nat \<Rightarrow> nat \<Rightarrow> 'p) \<Rightarrow> nat \<Rightarrow> nat set" where
  "moves p n = {i \<in> {..<n}. p (Suc i) \<noteq> p i}"

lemma moves_Suc:
  "moves p (Suc n) = (if p (Suc n) = p n then moves p n else insert n (moves p n))"
  by (auto simp: moves_def less_Suc_eq)

lemma moves_finite [simp]: "finite (moves p n)" "n \<notin> moves p n"
  by (simp_all add: moves_def)

lemma sum_update_less:
  fixes g :: "'a \<Rightarrow> nat"
  assumes "t < (N::nat)" "g x < g (f t)"
  shows "(\<Sum>i<N. g ((f(t := x)) i)) < (\<Sum>i<N. g (f i))"
  using assms by (intro sum_strict_mono_ex1) auto

lemma finite_bounded_initials:
  assumes "\<And>n. card (A \<inter> {..<n::nat}) \<le> b"
  shows "finite A \<and> card A \<le> b"
proof -
  have fin: "finite A"
  proof (rule ccontr)
    assume "infinite A"
    then obtain B where B: "B \<subseteq> A" "finite B" "card B = Suc b"
      using infinite_arbitrarily_large by blast
    then have "B \<subseteq> A \<inter> {..<Suc (Max B)}"
      by (auto simp: less_Suc_eq_le)
    then have "card B \<le> b" using assms [of "Suc (Max B)"] card_mono
      by (meson finite_Int finite_lessThan le_trans)
    with B show False by simp
  qed
  then have "A = A \<inter> {..<Suc (Max A)}" by (auto simp: less_Suc_eq_le)
  with fin assms [of "Suc (Max A)"] show ?thesis by simp
qed

text \<open>One move of one task, in terms of the steps it has left.\<close>

definition moves_task :: "nat \<Rightarrow> 'p \<Rightarrow> ('p \<Rightarrow> nat) \<Rightarrow> nat \<Rightarrow> (nat \<Rightarrow> 'p) \<Rightarrow> (nat \<Rightarrow> 'p) \<Rightarrow> bool" where
  "moves_task N idle steps t p p' \<longleftrightarrow>
     p' = p(t := p' t)
   \<and> (p' t = idle \<or> (steps (p' t) < steps (p t) \<and> (p t = idle \<longrightarrow> t < N)))"

lemma moved_task:
  assumes "x = idle \<or> (steps x < steps (p t) \<and> (p t = idle \<longrightarrow> t < N))"
  shows "p(t := x) = p \<or> (\<exists>u. moves_task N idle steps u p (p(t := x)))"
  using assms by (intro disjI2 exI [of _ t]) (simp add: moves_task_def)

locale task_calls =
  fixes step :: "'s \<Rightarrow> 's \<Rightarrow> bool"
    and phase :: "'s \<Rightarrow> nat \<Rightarrow> 'p"
    and idle :: 'p
    and steps :: "'p \<Rightarrow> nat"
    and N :: nat
  assumes one_moves: "step s s' \<Longrightarrow>
    phase s' = phase s \<or> (\<exists>t. moves_task N idle steps t (phase s) (phase s'))"
begin

lemma step_decreases:
  assumes "step s s'" "only_first N idle (phase s)" "no_restarts idle (phase s) (phase s')"
  shows "only_first N idle (phase s')
    \<and> (\<Sum>t<N. steps (phase s' t)) + (if phase s' = phase s then 0 else 1) \<le> (\<Sum>t<N. steps (phase s t))"
proof (cases "phase s' = phase s")
  case True
  with assms(2) show ?thesis by simp
next
  case False
  then obtain t where t: "moves_task N idle steps t (phase s) (phase s')"
    using one_moves [OF assms(1)] by blast
  define x where "x = phase s' t"
  from t have upd: "phase s' = (phase s)(t := x)"
    unfolding x_def by (simp only: moves_task_def)
  have "x \<noteq> idle"
  proof
    assume "x = idle"
    with assms(3) upd have "phase s t = idle" by (auto simp: no_restarts_def dest: spec [of _ t])
    with \<open>x = idle\<close> upd False show False by auto
  qed
  with t have less: "steps x < steps (phase s t)" "phase s t = idle \<longrightarrow> t < N"
    by (auto simp: moves_task_def x_def)
  with assms(2) have lt: "t < N" by (auto simp: only_first_def linorder_not_less [symmetric])
  with assms(2) upd have "only_first N idle (phase s')" by (auto simp: only_first_def)
  moreover have "(\<Sum>t<N. steps (phase s' t)) < (\<Sum>t<N. steps (phase s t))"
    unfolding upd using lt less(1) by (rule sum_update_less)
  ultimately show ?thesis using False by simp
qed

lemma moves_bounded:
  assumes "only_first N idle (phase (f 0))"
    and "\<And>i. step (f i) (f (Suc i)) \<and> no_restarts idle (phase (f i)) (phase (f (Suc i)))"
  shows "only_first N idle (phase (f n))
    \<and> card (moves (\<lambda>i. phase (f i)) n) + (\<Sum>t<N. steps (phase (f n) t)) \<le> (\<Sum>t<N. steps (phase (f 0) t))"
proof (induction n)
  case 0
  then show ?case using assms(1) by (simp add: moves_def)
next
  case (Suc n)
  with step_decreases [of "f n" "f (Suc n)"] assms(2) [of n]
  show ?case by (auto simp: moves_Suc split: if_splits)
qed

lemma calls_bounded:
  assumes "\<And>t. phase (f 0) t = idle"
    and "\<And>i. step (f i) (f (Suc i)) \<and> no_restarts idle (phase (f i)) (phase (f (Suc i)))"
  shows "finite {i. phase (f (Suc i)) \<noteq> phase (f i)}
    \<and> card {i. phase (f (Suc i)) \<noteq> phase (f i)} \<le> steps idle * N"
proof (rule finite_bounded_initials)
  fix n
  have "only_first N idle (phase (f 0))" by (simp add: assms(1) only_first_def)
  from moves_bounded [where f = f and n = n, OF this assms(2)]
  have "card (moves (\<lambda>i. phase (f i)) n) \<le> steps idle * N" by (simp add: assms(1) mult.commute)
  moreover have "{i. phase (f (Suc i)) \<noteq> phase (f i)} \<inter> {..<n} = moves (\<lambda>i. phase (f i)) n"
    by (auto simp: moves_def)
  ultimately show "card ({i. phase (f (Suc i)) \<noteq> phase (f i)} \<inter> {..<n}) \<le> steps idle * N" by simp
qed

end

end
