(* ===== verification/Redis_Concurrent.thy ===== *)
theory Redis_Concurrent
  imports Redis_Store Task_Calls
begin

section \<open>Concurrent use of the Redis store (src/revocation.rs, RedisRevocationStore)\<close>

text \<open>
  \<open>N\<close> tasks call \<open>revoke\<close> and \<open>is_revoked\<close> on one store. A step is what one task does between two
  points where others can run: the look at the cached connection under the read lock, taking the
  write lock with the second look under it, the end of the connection attempt that runs while the
  write lock is held, the reply to a command, the reset. A task may be dropped at any point, which
  releases the lock if it holds it; other clients of the server may change the world by \<open>E\<close>.
  \<open>rc_connects\<close> counts the connection attempts.
\<close>

datatype redis_op = OpRevoke string | OpIsRevoked string

datatype redis_answer = Acknowledged | Is_revoked bool

text \<open>The two queries of a call: the first, and the one after the reconnection.\<close>

datatype attempt = First | Second

datatype ('conn, 'e) redis_phase =
    Resting
  | Reading redis_op attempt
  | Want_write redis_op attempt
  | Opening redis_op attempt
  | Querying redis_op attempt 'conn
  | Resetting redis_op
  | Finished redis_op "'e + redis_answer"

record ('cl, 'conn, 'e, 'w) redis_shared =
  rc_store :: "('cl, 'conn) redis_store"
  rc_writer :: "nat option"
  rc_phase :: "nat \<Rightarrow> ('conn, 'e) redis_phase"
  rc_world :: 'w
  rc_connects :: nat

abbreviation rc_cached :: "('cl, 'conn, 'e, 'w) redis_shared \<Rightarrow> 'conn option" where
  "rc_cached s \<equiv> rs_connection (rc_store s)"

definition set_phase ::
    "nat \<Rightarrow> ('conn, 'e) redis_phase \<Rightarrow> ('cl, 'conn, 'e, 'w) redis_shared \<Rightarrow> ('cl, 'conn, 'e, 'w) redis_shared" where
  "set_phase t p s = s\<lparr>rc_phase := (rc_phase s)(t := p)\<rparr>"

text \<open>The command an operation sends, and how its reply is read.\<close>

fun run_op ::
    "('cl, 'conn, 'e, 'w) redis_lib \<Rightarrow> u64 \<Rightarrow> redis_op \<Rightarrow> 'conn \<Rightarrow> 'w \<Rightarrow> ('e + redis_answer) \<times> 'w" where
  "run_op R d (OpRevoke j) conn w =
     (case query_unit R conn (setex_cmd j d) w of (r, w) \<Rightarrow> (map_ok (\<lambda>_. Acknowledged) r, w))"
| "run_op R d (OpIsRevoked j) conn w =
     (case query_bool R conn (exists_cmd j) w of (r, w) \<Rightarrow> (map_ok Is_revoked r, w))"

inductive redis_step ::
    "('cl, 'conn, 'e, 'w) redis_lib \<Rightarrow> ('w \<Rightarrow> 'w \<Rightarrow> bool) \<Rightarrow> nat
      \<Rightarrow> ('cl, 'conn, 'e, 'w) redis_shared \<Rightarrow> ('cl, 'conn, 'e, 'w) redis_shared \<Rightarrow> bool" for R E N where
  call: "t < N \<Longrightarrow> rc_phase s t = Resting \<Longrightarrow> redis_step R E N s (set_phase t (Reading op First) s)"
| read_hit: "rc_phase s t = Reading op n \<Longrightarrow> rc_writer s = None \<Longrightarrow> rc_cached s = Some conn \<Longrightarrow>
    redis_step R E N s (set_phase t (Querying op n conn) s)"
| read_miss: "rc_phase s t = Reading op n \<Longrightarrow> rc_writer s = None \<Longrightarrow> rc_cached s = None \<Longrightarrow>
    redis_step R E N s (set_phase t (Want_write op n) s)"
| write_hit: "rc_phase s t = Want_write op n \<Longrightarrow> rc_writer s = None \<Longrightarrow> rc_cached s = Some conn \<Longrightarrow>
    redis_step R E N s (set_phase t (Querying op n conn) s)"
| write_open: "rc_phase s t = Want_write op n \<Longrightarrow> rc_writer s = None \<Longrightarrow> rc_cached s = None \<Longrightarrow>
    redis_step R E N s
      (set_phase t (Opening op n) s\<lparr>rc_writer := Some t, rc_connects := Suc (rc_connects s)\<rparr>)"
| opened: "rc_phase s t = Opening op n \<Longrightarrow>
    get_connection R (rs_client (rc_store s)) (rc_world s) = (Ok conn, w) \<Longrightarrow>
    redis_step R E N s
      (set_phase t (Querying op n conn) s\<lparr>rc_writer := None, rc_world := w,
         rc_store := (rc_store s)\<lparr>rs_connection := Some conn\<rparr>\<rparr>)"
| open_failed: "rc_phase s t = Opening op n \<Longrightarrow>
    get_connection R (rs_client (rc_store s)) (rc_world s) = (Err e, w) \<Longrightarrow>
    redis_step R E N s (set_phase t (Finished op (Err e)) s\<lparr>rc_writer := None, rc_world := w\<rparr>)"
| answered: "rc_phase s t = Querying op n conn \<Longrightarrow>
    run_op R (rs_ttl (rc_store s)) op conn (rc_world s) = (Ok x, w) \<Longrightarrow>
    redis_step R E N s (set_phase t (Finished op (Ok x)) s\<lparr>rc_world := w\<rparr>)"
| query_failed: "rc_phase s t = Querying op First conn \<Longrightarrow>
    run_op R (rs_ttl (rc_store s)) op conn (rc_world s) = (Err e, w) \<Longrightarrow>
    redis_step R E N s (set_phase t (Resetting op) s\<lparr>rc_world := w\<rparr>)"
| failed_again: "rc_phase s t = Querying op Second conn \<Longrightarrow>
    run_op R (rs_ttl (rc_store s)) op conn (rc_world s) = (Err e, w) \<Longrightarrow>
    redis_step R E N s (set_phase t (Finished op (Err e)) s\<lparr>rc_world := w\<rparr>)"
| reset: "rc_phase s t = Resetting op \<Longrightarrow> rc_writer s = None \<Longrightarrow>
    redis_step R E N s (set_phase t (Reading op Second) s\<lparr>rc_store := reset_connection (rc_store s)\<rparr>)"
| next_call: "rc_phase s t = Finished op r \<Longrightarrow> redis_step R E N s (set_phase t Resting s)"
| dropped_call: "redis_step R E N s
    (set_phase t Resting s\<lparr>rc_writer := (if rc_writer s = Some t then None else rc_writer s)\<rparr>)"
| others: "E (rc_world s) w \<Longrightarrow> redis_step R E N s (s\<lparr>rc_world := w\<rparr>)"

definition redis_initial :: "('cl, 'conn) redis_store \<Rightarrow> 'w \<Rightarrow> ('cl, 'conn, 'e, 'w) redis_shared" where
  "redis_initial self w =
     \<lparr>rc_store = self, rc_writer = None, rc_phase = (\<lambda>_. Resting), rc_world = w, rc_connects = 0\<rparr>"

abbreviation redis_reaches where
  "redis_reaches R E N \<equiv> (redis_step R E N)\<^sup>*\<^sup>*"

lemma set_phase_simps [simp]:
  "rc_store (set_phase t p s) = rc_store s"
  "rc_writer (set_phase t p s) = rc_writer s"
  "rc_phase (set_phase t p s) = (rc_phase s)(t := p)"
  "rc_world (set_phase t p s) = rc_world s"
  "rc_connects (set_phase t p s) = rc_connects s"
  by (simp_all add: set_phase_def)

section \<open>Calls end\<close>

fun attempt_steps :: "attempt \<Rightarrow> nat" where
  "attempt_steps First = 5"
| "attempt_steps Second = 0"

fun redis_left :: "('conn, 'e) redis_phase \<Rightarrow> nat" where
  "redis_left Resting = 10"
| "redis_left (Reading _ n) = attempt_steps n + 4"
| "redis_left (Want_write _ n) = attempt_steps n + 3"
| "redis_left (Opening _ n) = attempt_steps n + 2"
| "redis_left (Querying _ n _) = attempt_steps n + 1"
| "redis_left (Resetting _) = 5"
| "redis_left (Finished _ _) = 0"

interpretation redis_calls: task_calls "redis_step R E N" rc_phase Resting redis_left N
  for R :: "('cl, 'conn, 'e, 'w) redis_lib" and E N
proof
  show "rc_phase s' = rc_phase s \<or> (\<exists>t. moves_task N Resting redis_left t (rc_phase s) (rc_phase s'))"
    if "redis_step R E N s s'" for s s' :: "('cl, 'conn, 'e, 'w) redis_shared"
    using that
    by (induction rule: redis_step.induct)
      (simp_all del: fun_upd_apply fun_upd_triv fun_upd_idem_iff, (rule moved_task, simp)+)
qed

section \<open>The write lock and the cached connection\<close>

fun is_opening :: "('conn, 'e) redis_phase \<Rightarrow> bool" where
  "is_opening (Opening _ _) = True"
| "is_opening _ = False"

fun_cases is_openingE: "is_opening p"

definition opening_tasks :: "('cl, 'conn, 'e, 'w) redis_shared \<Rightarrow> nat set" where
  "opening_tasks s = {t. is_opening (rc_phase s t)}"

text \<open>The lock is held exactly while a connection is opened, and only when none is cached.\<close>

definition redis_inv :: "('cl, 'conn, 'e, 'w) redis_shared \<Rightarrow> bool" where
  "redis_inv s \<longleftrightarrow>
     opening_tasks s = set_option (rc_writer s) \<and> (rc_writer s \<noteq> None \<longrightarrow> rc_cached s = None)"

lemma opening_tasks_simps [simp]:
  "opening_tasks (set_phase t p s) =
     (if is_opening p then insert t (opening_tasks s) else opening_tasks s - {t})"
  "opening_tasks (s\<lparr>rc_writer := h\<rparr>) = opening_tasks s"
  "opening_tasks (s\<lparr>rc_store := c\<rparr>) = opening_tasks s"
  "opening_tasks (s\<lparr>rc_world := w\<rparr>) = opening_tasks s"
  "opening_tasks (s\<lparr>rc_connects := n\<rparr>) = opening_tasks s"
  by (auto simp: opening_tasks_def)

lemma opening_iff_writer:
  assumes "redis_inv s"
  shows "is_opening (rc_phase s t) \<longleftrightarrow> rc_writer s = Some t"
proof -
  have "is_opening (rc_phase s t) \<longleftrightarrow> t \<in> opening_tasks s" by (simp add: opening_tasks_def)
  also have "opening_tasks s = set_option (rc_writer s)" using assms by (simp add: redis_inv_def)
  finally show ?thesis by simp
qed

lemma not_opening: "redis_inv s \<Longrightarrow> \<not> is_opening (rc_phase s t) \<Longrightarrow> opening_tasks s - {t} = opening_tasks s"
  by (auto simp: opening_tasks_def)

lemma opening_singleton: "opening_tasks s = {t} \<Longrightarrow> is_opening (rc_phase s t)"
  by (auto simp: opening_tasks_def)

lemma redis_inv_step:
  assumes "redis_step R E N s s'" "redis_inv s"
  shows "redis_inv s'"
  using assms
proof (cases rule: redis_step.cases)
  case (opened t op n conn w)
  then show ?thesis
    using opening_iff_writer [OF assms(2), of t] assms(2) by (simp add: redis_inv_def)
next
  case (open_failed t op n e w)
  then show ?thesis
    using opening_iff_writer [OF assms(2), of t] assms(2) by (simp add: redis_inv_def)
next
  case (dropped_call t)
  then show ?thesis
    using assms(2) by (cases "rc_writer s") (auto simp: redis_inv_def)
next
  case (others w)
  then show ?thesis using assms(2) by (simp add: redis_inv_def)
qed (use assms(2) in \<open>auto simp: redis_inv_def not_opening dest!: opening_singleton\<close>)

lemma redis_inv_reaches:
  assumes "redis_reaches R E N (redis_initial self w) s"
  shows "redis_inv s"
proof -
  have "redis_inv (redis_initial self w :: ('a, 'b, 'c, 'd) redis_shared)" for self :: "('a, 'b) redis_store" and w
    by (simp add: redis_inv_def redis_initial_def opening_tasks_def)
  with assms show ?thesis
    by (induction rule: rtranclp_induct) (auto intro: redis_inv_step)
qed

section \<open>Revocations and the server\<close>









section \<open>A call that is not disturbed\<close>

text \<open>A whole call as the sequential model runs it, with the answers of both operations in one type.\<close>

definition redis_call ::
    "('cl, 'conn, 'e, 'w) redis_lib \<Rightarrow> redis_op \<Rightarrow> ('cl, 'conn) redis_store \<Rightarrow> 'w
      \<Rightarrow> ('e + redis_answer) \<times> ('cl, 'conn) redis_store \<times> 'w" where
  "redis_call R op self w =
     (case op of
        OpRevoke j \<Rightarrow> (case redis_revoke R j self w of (r, st) \<Rightarrow> (map_ok (\<lambda>_. Acknowledged) r, st))
      | OpIsRevoked j \<Rightarrow> (case redis_is_revoked R j self w of (r, st) \<Rightarrow> (map_ok Is_revoked r, st)))"

lemma redis_call_with_retry: "redis_call R op self w = with_retry R (run_op R (rs_ttl self) op) self w"
  by (cases op)
    (auto simp: redis_call_def redis_revoke_def redis_is_revoked_def with_retry_def
      split: prod.splits sum.splits)

abbreviation leaves where
  "leaves t p self w k s \<equiv> set_phase t p s\<lparr>rc_store := self, rc_world := w, rc_connects := k\<rparr>"

lemma leaves_overwrites:
  "set_phase t p (leaves t q self w k s)\<lparr>rc_world := w'\<rparr> = leaves t p self w' k s"
  "set_phase t p (leaves t q self w k s)\<lparr>rc_store := self'\<rparr> = leaves t p self' w k s"
  "leaves t p self w k (set_phase t q s) = leaves t p self w k s"
  "leaves t p self w k (leaves t q self' w' k' s) = leaves t p self w k s"
  by (cases s; simp add: set_phase_def)+

lemma reading_connects:
  assumes "rc_phase s t = Reading op n" "rc_writer s = None"
    and "connection R (rc_store s) (rc_world s) = (r, self', w')"
  shows "\<exists>k. redis_reaches R E N s
    (leaves t (case r of Inl e \<Rightarrow> Finished op (Err e) | Inr conn \<Rightarrow> Querying op n conn) self' w' k s)"
proof (cases "rc_cached s")
  case (Some conn)
  with assms have "r = Ok conn" "self' = rc_store s" "w' = rc_world s" by (simp_all add: connection_alt)
  moreover have "redis_step R E N s (set_phase t (Querying op n conn) s)"
    using assms(1,2) Some by (rule read_hit)
  ultimately show ?thesis
    by (intro exI [of _ "rc_connects s"]) (auto simp: set_phase_def)
next
  case None
  let ?s1 = "set_phase t (Want_write op n) s"
  let ?s2 = "set_phase t (Opening op n) ?s1\<lparr>rc_writer := Some t, rc_connects := Suc (rc_connects ?s1)\<rparr>"
  let ?last = "leaves t (case r of Inl e \<Rightarrow> Finished op (Err e) | Inr conn \<Rightarrow> Querying op n conn) self' w'
    (Suc (rc_connects s)) s"
  have 1: "redis_step R E N s ?s1" using assms(1,2) None by (rule read_miss)
  have 2: "redis_step R E N ?s1 ?s2"
    by (rule write_open) (use assms(2) None in simp_all)
  have 3: "redis_step R E N ?s2 ?last"
  proof (cases r)
    case (Inr conn)
    have eq: "?last = set_phase t (Querying op n conn) ?s2\<lparr>rc_writer := None, rc_world := w',
        rc_store := (rc_store ?s2)\<lparr>rs_connection := Some conn\<rparr>\<rparr>"
      using assms(2,3) Inr None
      by (auto simp: set_phase_def connection_alt split: prod.splits sum.splits)
    show ?thesis unfolding eq
      by (rule opened) (use assms(3) Inr None in \<open>auto simp: connection_alt split: prod.splits sum.splits\<close>)
  next
    case (Inl e)
    have eq: "?last = set_phase t (Finished op (Err e)) ?s2\<lparr>rc_writer := None, rc_world := w'\<rparr>"
      using assms(2,3) Inl None
      by (auto simp: set_phase_def connection_alt split: prod.splits sum.splits)
    show ?thesis unfolding eq
      by (rule open_failed) (use assms(3) Inl None in \<open>auto simp: connection_alt split: prod.splits sum.splits\<close>)
  qed
  from 1 2 3 have "redis_reaches R E N s ?last"
    by (meson converse_rtranclp_into_rtranclp rtranclp.rtrancl_refl)
  then show ?thesis by blast
qed

text \<open>The reply to the query of an attempt, when it is the last one or it is a success.\<close>

lemma query_ends:
  assumes "rc_phase s t = Querying op n conn"
    and "run_op R (rs_ttl (rc_store s)) op conn (rc_world s) = (r, w')"
    and "is_ok r \<or> n = Second"
  shows "redis_step R E N s (set_phase t (Finished op r) s\<lparr>rc_world := w'\<rparr>)"
  using assms by (cases r) (auto intro: answered failed_again)

lemma connection_ttl: "connection R self w = (r, self', w') \<Longrightarrow> rs_ttl self' = rs_ttl self"
  by (auto simp: connection_alt split: option.splits prod.splits sum.splits)

lemma last_attempt:
  assumes "rc_phase s t = Reading op Second" "rc_writer s = None"
    and "connection R (rc_store s) (rc_world s) = (c, self', w')"
    and "(case c of Inl e \<Rightarrow> (Err e, w') | Inr conn \<Rightarrow> run_op R (rs_ttl (rc_store s)) op conn w') = (r, w'')"
  shows "\<exists>k. redis_reaches R E N s (leaves t (Finished op r) self' w'' k s)"
proof (cases c)
  case (Inl e)
  with reading_connects [OF assms(1-3)] assms(4) show ?thesis by auto
next
  case (Inr conn)
  with reading_connects [OF assms(1-3)]
  obtain k where 1: "redis_reaches R E N s (leaves t (Querying op Second conn) self' w' k s)" (is "redis_reaches _ _ _ _ ?s1")
    by auto
  have "redis_step R E N ?s1 (set_phase t (Finished op r) ?s1\<lparr>rc_world := w''\<rparr>)"
    by (rule query_ends [OF _ _ disjI2 [OF refl]]) (use assms(4) Inr connection_ttl [OF assms(3)] in simp_all)
  with 1 show ?thesis
    by (auto simp: leaves_overwrites intro: rtranclp.rtrancl_into_rtrancl)
qed

lemma query_retries:
  assumes "rc_phase s t = Querying op First conn" "rc_writer s = None"
    and "run_op R (rs_ttl (rc_store s)) op conn (rc_world s) = (Err e, w')"
  shows "redis_reaches R E N s
    (leaves t (Reading op Second) (reset_connection (rc_store s)) w' (rc_connects s) s)"
proof -
  let ?s1 = "set_phase t (Resetting op) s\<lparr>rc_world := w'\<rparr>"
  have 1: "redis_step R E N s ?s1" using assms(1,3) by (rule query_failed)
  have 2: "redis_step R E N ?s1
      (set_phase t (Reading op Second) ?s1\<lparr>rc_store := reset_connection (rc_store ?s1)\<rparr>)"
    by (rule reset) (use assms(2) in simp_all)
  have "set_phase t (Reading op Second) ?s1\<lparr>rc_store := reset_connection (rc_store ?s1)\<rparr>
      = leaves t (Reading op Second) (reset_connection (rc_store s)) w' (rc_connects s) s"
    by (cases s) (simp add: set_phase_def)
  with rtranclp_trans [OF r_into_rtranclp [of "redis_step R E N", OF 1] r_into_rtranclp [of "redis_step R E N", OF 2]]
  show ?thesis by (simp only:)
qed

lemma undisturbed:
  assumes "rc_phase s t = Resting" "t < N" "rc_writer s = None"
    and "with_retry R (run_op R (rs_ttl (rc_store s)) op) (rc_store s) (rc_world s) = (r, self', w')"
  shows "\<exists>k. redis_reaches R E N s (leaves t (Finished op r) self' w' k s)"
proof -
  let ?q = "run_op R (rs_ttl (rc_store s)) op"
  let ?s0 = "set_phase t (Reading op First) s"
  obtain c self1 w1 where c: "connection R (rc_store s) (rc_world s) = (c, self1, w1)"
    by (metis prod_cases3)
  let ?p1 = "case c of Inl e \<Rightarrow> Finished op (Err e) | Inr conn \<Rightarrow> Querying op First conn"
  have "redis_step R E N s ?s0" using assms(2,1) by (rule call)
  moreover obtain k1 where "redis_reaches R E N ?s0 (leaves t ?p1 self1 w1 k1 ?s0)"
    using reading_connects [of ?s0 t op First R c self1 w1 E N] c assms(3) by auto
  ultimately have 1: "redis_reaches R E N s (leaves t ?p1 self1 w1 k1 s)"
    by (simp add: leaves_overwrites converse_rtranclp_into_rtranclp)
  show ?thesis
  proof (cases c)
    case (Inl e)
    with 1 c assms(4) show ?thesis by (auto simp: with_retry_def)
  next
    case (Inr conn)
    let ?s1 = "leaves t (Querying op First conn) self1 w1 k1 s"
    obtain r2 w2 where q: "?q conn w1 = (r2, w2)" by fastforce
    then have q1: "run_op R (rs_ttl (rc_store ?s1)) op conn (rc_world ?s1) = (r2, w2)"
      using connection_ttl [OF c] by simp
    show ?thesis
    proof (cases r2)
      case (Inr x)
      have "redis_step R E N ?s1 (set_phase t (Finished op r2) ?s1\<lparr>rc_world := w2\<rparr>)"
        by (rule query_ends [OF _ q1]) (use Inr in simp_all)
      with 1 c q \<open>c = Inr conn\<close> Inr assms(4) show ?thesis
        by (auto simp: leaves_overwrites with_retry_def intro: rtranclp.rtrancl_into_rtrancl)
    next
      case (Inl e)
      let ?s2 = "leaves t (Reading op Second) (reset_connection self1) w2 k1 s"
      have "redis_reaches R E N ?s1 (leaves t (Reading op Second) (reset_connection self1) w2 k1 ?s1)"
        using query_retries [of ?s1 t op conn R e w2] q1 Inl assms(3) by simp
      with 1 \<open>c = Inr conn\<close> have 2: "redis_reaches R E N s ?s2"
        by (simp add: leaves_overwrites)
      obtain c3 self3 w3 where c3: "connection R (reset_connection self1) w2 = (c3, self3, w3)"
        by (metis prod_cases3)
      obtain k3 where "redis_reaches R E N ?s2 (leaves t (Finished op r) self' w' k3 ?s2)"
        using last_attempt [of ?s2 t op R c3 self3 w3 r w' E N] c c3 q \<open>c = Inr conn\<close> Inl assms(3,4) connection_ttl [OF c]
        by (auto simp: with_retry_def split: sum.splits prod.splits)
      with 2 show ?thesis by (auto simp: leaves_overwrites intro: rtranclp_trans)
    qed
  qed
qed

section \<open>Many calls on one dead connection\<close>

text \<open>Runs in which no call is dropped or started over.\<close>

definition redis_calm ::
    "('cl, 'conn, 'e, 'w) redis_lib \<Rightarrow> ('w \<Rightarrow> 'w \<Rightarrow> bool) \<Rightarrow> nat
      \<Rightarrow> ('cl, 'conn, 'e, 'w) redis_shared \<Rightarrow> ('cl, 'conn, 'e, 'w) redis_shared \<Rightarrow> bool" where
  "redis_calm R E N s s' \<longleftrightarrow> redis_step R E N s s' \<and> no_restarts Resting (rc_phase s) (rc_phase s')"

abbreviation redis_calmly where
  "redis_calmly R E N \<equiv> (redis_calm R E N)\<^sup>*\<^sup>*"

lemma redis_calmI:
  "redis_step R E N s s' \<Longrightarrow> \<forall>t. rc_phase s' t = Resting \<longrightarrow> rc_phase s t = Resting \<Longrightarrow> redis_calm R E N s s'"
  by (simp add: redis_calm_def no_restarts_def)

text \<open>
  States in which the first \<open>n\<close> of \<open>N\<close> calls have finished with the server's answer and the others
  found the cached connection dead, over the server of \<open>Redis_Store\<close>.
\<close>

definition storm :: "nat \<Rightarrow> nat \<Rightarrow> string \<Rightarrow> string set \<Rightarrow> bool option
    \<Rightarrow> (unit, bool, unit, string set) redis_shared" where
  "storm N n j w cached =
     \<lparr>rc_store = dead_store\<lparr>rs_connection := cached\<rparr>, rc_writer = None,
      rc_phase = (\<lambda>t. if t < n then Finished (OpIsRevoked j) (Ok (Is_revoked (j \<in> w)))
        else if t < N then Resetting (OpIsRevoked j) else Resting),
      rc_world = w, rc_connects = n\<rparr>"

lemma set_redis_simps [simp]:
  "run_op set_redis d (OpIsRevoked j) True w = (Ok (Is_revoked (j \<in> w)), w)"
  "run_op set_redis d op False w = (Err (), w)"
  "get_connection set_redis cl w = (Ok True, w)"
  by (simp_all add: set_redis_def exists_cmd_def) (cases op; simp)

lemma dead_store_simps [simp]:
  "rs_connection dead_store = Some False"
  "dead_store\<lparr>rs_connection := Some False\<rparr> = dead_store"
  by (simp_all add: dead_store_def)

lemma all_fail_first:
  assumes "m \<le> N"
  shows "redis_calmly set_redis E N (redis_initial dead_store w)
    ((redis_initial dead_store w)\<lparr>rc_phase := (\<lambda>t. if t < m then Resetting op else Resting)\<rparr>)"
  using assms
proof (induction m)
  case 0
  then show ?case by (simp add: redis_initial_def)
next
  case (Suc m)
  let ?p = "\<lambda>m t. if t < m then Resetting op else Resting"
  let ?init = "redis_initial dead_store w :: (unit, bool, unit, string set) redis_shared"
  let ?s = "?init\<lparr>rc_phase := ?p m\<rparr>"
  let ?s1 = "set_phase m (Reading op First) ?s"
  let ?s2 = "set_phase m (Querying op First False) ?s1"
  let ?s3 = "set_phase m (Resetting op) ?s2\<lparr>rc_world := w\<rparr>"
  have 0: "redis_calmly set_redis E N (redis_initial dead_store w) ?s" using Suc by simp
  have 1: "redis_calm set_redis E N ?s ?s1"
    by (rule redis_calmI, rule call) (use Suc.prems in simp_all)
  have 2: "redis_calm set_redis E N ?s1 ?s2"
    by (rule redis_calmI, rule read_hit) (simp_all add: redis_initial_def)
  have 3: "redis_calm set_redis E N ?s2 ?s3"
    by (rule redis_calmI, rule query_failed [where conn = False and e = "()"])
      (simp_all add: redis_initial_def)
  have "?s3 = ?init\<lparr>rc_phase := ?p (Suc m)\<rparr>"
    by (simp add: set_phase_def redis_initial_def fun_eq_iff)
  moreover have "redis_calmly set_redis E N (redis_initial dead_store w) ?s3"
    using 0 1 2 3 by (meson rtranclp.rtrancl_into_rtrancl)
  ultimately show ?case by (simp only:)
qed

lemma storm_turn:
  assumes "n < N"
  shows "redis_calmly set_redis E N (storm N n j w cached) (storm N (Suc n) j w (Some True))"
proof -
  let ?op = "OpIsRevoked j"
  let ?s0 = "storm N n j w cached"
  let ?s1 = "set_phase n (Reading ?op Second) ?s0\<lparr>rc_store := reset_connection (rc_store ?s0)\<rparr>"
  let ?s2 = "set_phase n (Want_write ?op Second) ?s1"
  let ?s3 = "set_phase n (Opening ?op Second) ?s2\<lparr>rc_writer := Some n, rc_connects := Suc (rc_connects ?s2)\<rparr>"
  let ?s4 = "set_phase n (Querying ?op Second True) ?s3\<lparr>rc_writer := None, rc_world := w,
    rc_store := (rc_store ?s3)\<lparr>rs_connection := Some True\<rparr>\<rparr>"
  let ?s5 = "set_phase n (Finished ?op (Ok (Is_revoked (j \<in> w)))) ?s4\<lparr>rc_world := w\<rparr>"
  have 1: "redis_calm set_redis E N ?s0 ?s1"
    by (rule redis_calmI, rule reset) (use assms in \<open>simp_all add: storm_def\<close>)
  have 2: "redis_calm set_redis E N ?s1 ?s2" by (rule redis_calmI, rule read_miss) (simp_all add: storm_def)
  have 3: "redis_calm set_redis E N ?s2 ?s3" by (rule redis_calmI, rule write_open) (simp_all add: storm_def)
  have 4: "redis_calm set_redis E N ?s3 ?s4" by (rule redis_calmI, rule opened) (simp_all add: storm_def)
  have 5: "redis_calm set_redis E N ?s4 ?s5"
    by (rule redis_calmI, rule answered [where conn = True]) (simp_all add: storm_def del: run_op.simps)
  have "?s5 = storm N (Suc n) j w (Some True)"
    using assms by (simp add: storm_def set_phase_def reset_connection_def dead_store_def fun_eq_iff)
  moreover have "redis_calmly set_redis E N ?s0 ?s5"
    using 1 2 3 4 5 by (meson converse_rtranclp_into_rtranclp rtranclp.rtrancl_refl)
  ultimately show ?thesis by (simp only:)
qed

lemma storm_all:
  "n \<le> N \<Longrightarrow> redis_calmly set_redis E N (redis_initial dead_store w)
     (storm N n j w (if n = 0 then Some False else Some True))"
proof (induction n)
  case 0
  have "storm N 0 j w (Some False)
      = (redis_initial dead_store w)\<lparr>rc_phase := (\<lambda>t. if t < N then Resetting (OpIsRevoked j) else Resting)\<rparr>"
    by (simp add: storm_def redis_initial_def)
  then show ?case using all_fail_first [of N N E w "OpIsRevoked j"] by simp
next
  case (Suc n)
  then show ?case
    using storm_turn [of n N E j w] by (simp, meson Suc_le_lessD rtranclp_trans)
qed

section \<open>Theorems\<close>

text \<open>Concrete states for the witnesses: a task that opens a connection, and a finished revocation.\<close>

abbreviation wit_redis :: "(unit, bool, unit, string set) redis_shared" where
  "wit_redis \<equiv> redis_initial (dead_store\<lparr>rs_connection := None\<rparr>) {}"

definition wit_opening :: "(unit, bool, unit, string set) redis_shared" where
  "wit_opening =
     (let s = set_phase 1 (Want_write (OpIsRevoked ''id'') First) (set_phase 1 (Reading (OpIsRevoked ''id'') First) wit_redis)
      in set_phase 1 (Opening (OpIsRevoked ''id'') First) s\<lparr>rc_writer := Some 1, rc_connects := Suc (rc_connects s)\<rparr>)"

definition wit_calling :: "(unit, bool, unit, string set) redis_shared" where
  "wit_calling = set_phase 0 (Reading (OpIsRevoked ''id'') First) wit_redis"

lemma wit_opening_reached: "redis_reaches set_redis (\<subseteq>) 2 wit_redis wit_opening"
proof -
  let ?s1 = "set_phase 1 (Reading (OpIsRevoked ''id'') First) wit_redis"
  let ?s2 = "set_phase 1 (Want_write (OpIsRevoked ''id'') First) ?s1"
  have 1: "redis_step set_redis (\<subseteq>) 2 wit_redis ?s1" by (rule call) (simp_all add: redis_initial_def)
  have 2: "redis_step set_redis (\<subseteq>) 2 ?s1 ?s2" by (rule read_miss) (simp_all add: redis_initial_def)
  have 3: "redis_step set_redis (\<subseteq>) 2 ?s2 wit_opening"
    unfolding wit_opening_def Let_def by (rule write_open) (simp_all add: redis_initial_def)
  show ?thesis using 1 2 3 by (meson converse_rtranclp_into_rtranclp rtranclp.rtrancl_refl)
qed






text \<open>
  C23. Connections are opened one at a time, and never over a cached one: in every reachable state at
  most one task is opening a connection, it holds the write lock, and no connection is cached then.
\<close>

theorem redis_single_connect:
  assumes "redis_reaches R E N (redis_initial self w) s"
  shows "(\<Union>op n. {t. rc_phase s t = Opening op n}) = set_option (rc_writer s)
    \<and> (case rc_writer s of None \<Rightarrow> True | Some _ \<Rightarrow> rc_cached s = None)"
proof -
  note inv = redis_inv_reaches [OF assms]
  have "(\<Union>op n. {t. rc_phase s t = Opening op n}) = opening_tasks s"
    by (auto simp: opening_tasks_def elim!: is_openingE)
  then show ?thesis using inv by (auto simp: redis_inv_def split: option.split)
qed

theorem redis_single_connect_witness:
  "rc_phase wit_opening 1 = Opening (OpIsRevoked ''id'') First
   \<and> (\<Union>op n. {t. rc_phase wit_opening t = Opening op n}) = {1}"
proof
  show "rc_phase wit_opening 1 = Opening (OpIsRevoked ''id'') First" by (simp add: wit_opening_def)
  show "(\<Union>op n. {t. rc_phase wit_opening t = Opening op n}) = {1}"
    using redis_single_connect [OF wit_opening_reached] by (simp add: wit_opening_def)
qed



text \<open>
  C24. The step relation contains the sequential store: a call that no other task disturbs finishes
  with the result, the cached connection and the world that \<open>revoke\<close> or \<open>is_revoked\<close> computes.
\<close>

theorem undisturbed_call_is_sequential:
  assumes "rc_phase s t = Resting" "t < N" "rc_writer s = None"
  shows "case redis_call R op (rc_store s) (rc_world s) of (r, self', w') \<Rightarrow>
    \<exists>s'. redis_reaches R E N s s' \<and> rc_phase s' = (rc_phase s)(t := Finished op r)
       \<and> rc_store s' = self' \<and> rc_world s' = w'"
proof -
  obtain r self' w' where c: "redis_call R op (rc_store s) (rc_world s) = (r, self', w')"
    by (metis prod_cases3)
  with undisturbed [OF assms, of R op r self' w' E]
  obtain k where "redis_reaches R E N s (leaves t (Finished op r) self' w' k s)"
    by (auto simp: redis_call_with_retry)
  with c show ?thesis by auto
qed

theorem undisturbed_call_is_sequential_witness:
  "\<exists>s'. redis_reaches set_redis (\<subseteq>) 2 wit_redis s'
     \<and> rc_phase s' = (rc_phase wit_redis)(0 := Finished (OpRevoke ''id'') (Ok Acknowledged))
     \<and> rc_store s' = dead_store\<lparr>rs_connection := Some True\<rparr> \<and> rc_world s' = {''id''}"
  using undisturbed_call_is_sequential
    [where s = wit_redis and t = 0 and N = 2 and R = set_redis and op = "OpRevoke ''id''" and E = "(\<subseteq>)"]
  by (simp add: redis_initial_def redis_call_with_retry with_retry_def connection_alt set_redis_def
      setex_cmd_def dead_store_def)

text \<open>
  C30. \<open>reset_connection\<close> drops whatever is cached, also a connection that another call has just opened:
  \<open>N\<close> calls that find one dead connection can open \<open>N\<close> connections, one after the other, though the
  server answers each of them at once, in a run in which no call is dropped or started over, so that
  every task makes a single call and gets the right answer.
\<close>

theorem redis_reset_storm:
  "\<exists>s. (\<lambda>s s'. redis_step set_redis E N s s' \<and> no_restarts Resting (rc_phase s) (rc_phase s'))\<^sup>*\<^sup>*
         (redis_initial dead_store w) s
     \<and> rc_connects s = N
     \<and> map (rc_phase s) [0..<N] = replicate N (Finished (OpIsRevoked j) (Ok (Is_revoked (j \<in> w))))"
  using storm_all [of N N E w j] unfolding redis_calm_def [abs_def]
  by (intro exI [of _ "storm N N j w (if N = 0 then Some False else Some True)"])
    (simp add: storm_def list_eq_iff_nth_eq)

text \<open>
  In every run in which no call is dropped or started over, \<open>N\<close> calls take at most \<open>10 * N\<close>
  steps altogether: each tries at most twice, whatever the server and the other tasks do.
\<close>

theorem redis_calls_terminate:
  assumes "f 0 = redis_initial self w"
    and "\<And>i. redis_step R E N (f i) (f (Suc i)) \<and> no_restarts Resting (rc_phase (f i)) (rc_phase (f (Suc i)))"
  shows "finite {i. rc_phase (f (Suc i)) \<noteq> rc_phase (f i)}
    \<and> card {i. rc_phase (f (Suc i)) \<noteq> rc_phase (f i)} \<le> 10 * N"
  using redis_calls.calls_bounded [of f R E N] assms by (simp add: redis_initial_def)

theorem redis_calls_terminate_witness:
  "card {i. rc_phase ((\<lambda>i::nat. if i = 0 then wit_redis else wit_calling) (Suc i))
     \<noteq> rc_phase ((\<lambda>i. if i = 0 then wit_redis else wit_calling) i)} \<le> 20"
proof -
  let ?f = "\<lambda>i::nat. if i = 0 then wit_redis else wit_calling"
  have "redis_step set_redis (\<subseteq>) 2 wit_redis wit_calling"
    unfolding wit_calling_def by (rule call) (simp_all add: redis_initial_def)
  moreover have "redis_step set_redis (\<subseteq>) 2 wit_calling (wit_calling\<lparr>rc_world := rc_world wit_calling\<rparr>)"
    by (rule others) simp
  ultimately have step: "redis_step set_redis (\<subseteq>) 2 (?f i) (?f (Suc i))" for i by simp
  have "no_restarts Resting (rc_phase (?f i)) (rc_phase (?f (Suc i)))" for i
    by (auto simp: no_restarts_def wit_calling_def redis_initial_def)
  with step have "redis_step set_redis (\<subseteq>) 2 (?f i) (?f (Suc i))
      \<and> no_restarts Resting (rc_phase (?f i)) (rc_phase (?f (Suc i)))" for i
    by blast
  then show ?thesis
    using redis_calls_terminate [of ?f "dead_store\<lparr>rs_connection := None\<rparr>" "{}" set_redis "(\<subseteq>)" 2] by simp
qed

end
