(* ===== verification/Key_Resolver.thy ===== *)
theory Key_Resolver
  imports Jwt_Library Jwt_Error
begin

section \<open>The interface between verification and key resolution (src/jwks.rs)\<close>

text \<open>Read the header, resolve the key id it names, verify with the key.\<close>

definition decode_by ::
    "(string option \<Rightarrow> 's \<Rightarrow> (jwt_error + 'k) \<times> 's) \<Rightarrow> string + header \<Rightarrow> (header \<Rightarrow> 'k \<Rightarrow> jwt_error + 'c)
      \<Rightarrow> 's \<Rightarrow> (jwt_error + 'c) \<times> 's" where
  "decode_by resolve hdr verify s =
     (case hdr of
        Inl e \<Rightarrow> (Err (DecodingFailed e), s)
      | Inr h \<Rightarrow>
          (case resolve (h_kid h) s of
             (Inl e, s') \<Rightarrow> (Err e, s')
           | (Inr k, s') \<Rightarrow> (verify h k, s')))"

text \<open>
  What \<open>JwksCache::decode\<close> needs of the resolution of a key id: a key that is returned is the one
  the state holds for that id, the empty one when there is none, and a failure is a \<open>Jwks\<close> error.
  \<open>known s want\<close> is the key the state \<open>s\<close> holds for \<open>want\<close>.
\<close>

locale key_resolver =
  fixes resolve :: "string option \<Rightarrow> 's \<Rightarrow> (jwt_error + 'k) \<times> 's"
    and known :: "'s \<Rightarrow> string \<Rightarrow> 'k option"
  assumes resolve_known: "resolve kid s = (Ok k, s') \<Longrightarrow> known s' (unwrap_or [] kid) = Some k"
    and resolve_error: "resolve kid s = (Err e, s') \<Longrightarrow> \<exists>m. e = Jwks m"
begin

lemma decode_by_Ok:
  assumes "decode_by resolve hdr verify s = (Ok c, s')"
  shows "\<exists>h k. hdr = Ok h \<and> known s' (unwrap_or [] (h_kid h)) = Some k \<and> verify h k = Ok c"
  using assms resolve_known
  by (auto simp: decode_by_def split: sum.splits prod.splits)

lemma decode_by_error:
  assumes "decode_by resolve hdr verify s = (Err e, s')"
  shows "(\<exists>m. hdr = Err m \<and> e = DecodingFailed m) \<or> (\<exists>m. e = Jwks m)
    \<or> (\<exists>h k. hdr = Ok h \<and> known s' (unwrap_or [] (h_kid h)) = Some k \<and> verify h k = Err e)"
  using assms resolve_known resolve_error
  by (auto simp: decode_by_def split: sum.splits prod.splits)

end

end
