(* ===== verification/Jwks_Cache.thy ===== *)
theory Jwks_Cache
  imports Key_Resolver "HOL-Library.AList"
begin

section \<open>The JWKS cache (src/jwks.rs)\<close>

text \<open>
  \<open>JwksCache\<close> with its constructors and builders, \<open>refresh\<close>, \<open>refresh_coalesced\<close>, \<open>resolve_key\<close>,
  \<open>decoding_key\<close>, \<open>decode\<close>, \<open>is_fresh\<close> and \<open>build_key_map\<close>, for one caller at a time; the mutex and
  the interleavings of several callers are the subject of the theory \<open>Jwks_Concurrent\<close>. Every
  reading of the clock is an argument, in the order in which the source takes them.

  The HTTP client and the JWK types of \<open>jsonwebtoken\<close> are parameters: the record \<open>jwks_lib\<close>.
  \<open>'w\<close> is the outside world that a request acts on, \<open>'ka\<close> the crate's \<open>KeyAlgorithm\<close>.
\<close>

text \<open>The members of a \<open>Jwk\<close> that the source reads; the rest is the key material.\<close>

record ('ka, 'p) jwk =
  jwk_key_id :: "string option"
  jwk_key_algorithm :: "'ka option"
  jwk_params :: 'p

record ('cl, 'resp, 'ka, 'p, 'dk, 'w) jwks_lib =
  client_new :: 'cl
  http_get :: "'cl \<Rightarrow> string \<Rightarrow> 'w \<Rightarrow> (string + 'resp) \<times> 'w"
  error_for_status :: "'resp \<Rightarrow> string + 'resp"
  response_json :: "'resp \<Rightarrow> 'w \<Rightarrow> (string + ('ka, 'p) jwk list) \<times> 'w"
  from_jwk :: "('ka, 'p) jwk \<Rightarrow> string + 'dk"
  key_algorithm_from :: "lib_algorithm \<Rightarrow> 'ka"
  show_algorithm :: "lib_algorithm \<Rightarrow> string"
  show_key_algorithm :: "'ka \<Rightarrow> string"

subsection \<open>State\<close>

definition DEFAULT_TTL :: duration where
  "DEFAULT_TTL = from_secs 600"

definition DEFAULT_MIN_REFRESH_INTERVAL :: duration where
  "DEFAULT_MIN_REFRESH_INTERVAL = from_secs 10"

record ('dk, 'ka) cached_key =
  ck_key :: 'dk
  ck_alg :: "'ka option"

text \<open>The hash map as a list of entries with distinct keys; only lookups and insertions are used.\<close>

type_synonym ('dk, 'ka) key_map = "(string \<times> ('dk, 'ka) cached_key) list"

record ('dk, 'ka) cached_keys =
  cs_keys :: "('dk, 'ka) key_map"
  cs_fetched_at :: "instant option"

record ('cl, 'dk, 'ka) jwks_cache =
  jc_url :: string
  jc_ttl :: duration
  jc_min_refresh_interval :: duration
  jc_client :: 'cl
  jc_state :: "('dk, 'ka) cached_keys"
  jc_static_keys :: bool

definition jwks_new ::
    "('cl, 'resp, 'ka, 'p, 'dk, 'w) jwks_lib \<Rightarrow> string \<Rightarrow> ('cl, 'dk, 'ka) jwks_cache" where
  "jwks_new J url =
     \<lparr>jc_url = url, jc_ttl = DEFAULT_TTL, jc_min_refresh_interval = DEFAULT_MIN_REFRESH_INTERVAL,
      jc_client = client_new J, jc_state = \<lparr>cs_keys = [], cs_fetched_at = None\<rparr>,
      jc_static_keys = False\<rparr>"

definition from_static_keys ::
    "('cl, 'resp, 'ka, 'p, 'dk, 'w) jwks_lib \<Rightarrow> instant \<Rightarrow> (string \<times> 'dk) list
      \<Rightarrow> ('cl, 'dk, 'ka) jwks_cache" where
  "from_static_keys J now keys =
     \<lparr>jc_url = [], jc_ttl = DEFAULT_TTL, jc_min_refresh_interval = DEFAULT_MIN_REFRESH_INTERVAL,
      jc_client = client_new J,
      jc_state = \<lparr>cs_keys = map (\<lambda>(kid, key). (kid, \<lparr>ck_key = key, ck_alg = None\<rparr>)) keys,
                  cs_fetched_at = Some now\<rparr>,
      jc_static_keys = True\<rparr>"

definition with_ttl :: "duration \<Rightarrow> ('cl, 'dk, 'ka) jwks_cache \<Rightarrow> ('cl, 'dk, 'ka) jwks_cache" where
  "with_ttl d self = self\<lparr>jc_ttl := d\<rparr>"

definition with_min_refresh_interval ::
    "duration \<Rightarrow> ('cl, 'dk, 'ka) jwks_cache \<Rightarrow> ('cl, 'dk, 'ka) jwks_cache" where
  "with_min_refresh_interval d self = self\<lparr>jc_min_refresh_interval := d\<rparr>"

definition with_client :: "'cl \<Rightarrow> ('cl, 'dk, 'ka) jwks_cache \<Rightarrow> ('cl, 'dk, 'ka) jwks_cache" where
  "with_client cl self = self\<lparr>jc_client := cl\<rparr>"

definition is_fresh :: "instant \<Rightarrow> instant option \<Rightarrow> duration \<Rightarrow> bool" where
  "is_fresh now fetched_at d = (case fetched_at of Some at \<Rightarrow> now - at < d | None \<Rightarrow> False)"

subsection \<open>Building the key map\<close>

text \<open>The \<open>for\<close> loop of \<open>build_key_map\<close>; \<open>keys\<close> is the map so far.\<close>

fun insert_jwks ::
    "('cl, 'resp, 'ka, 'p, 'dk, 'w) jwks_lib \<Rightarrow> ('dk, 'ka) key_map \<Rightarrow> ('ka, 'p) jwk list
      \<Rightarrow> ('dk, 'ka) key_map" where
  "insert_jwks J keys [] = keys"
| "insert_jwks J keys (jwk # rest) =
     (let kid = unwrap_or [] (jwk_key_id jwk)
      in insert_jwks J
           (case from_jwk J jwk of
              Inr key \<Rightarrow> AList.update kid \<lparr>ck_key = key, ck_alg = jwk_key_algorithm jwk\<rparr> keys
            | Inl _ \<Rightarrow> keys)
           rest)"

definition build_key_map ::
    "('cl, 'resp, 'ka, 'p, 'dk, 'w) jwks_lib \<Rightarrow> ('ka, 'p) jwk list \<Rightarrow> jwt_error + ('dk, 'ka) key_map" where
  "build_key_map J jwks =
     (let keys = insert_jwks J [] jwks
      in if keys = [] then Err (Jwks ''JWKS document contained no usable keys'') else Ok keys)"

subsection \<open>Refreshing\<close>

text \<open>The forced \<open>refresh\<close>; \<open>now\<close> is read when the keys are stored.\<close>

definition refresh ::
    "('cl, 'resp, 'ka, 'p, 'dk, 'w) jwks_lib \<Rightarrow> instant \<Rightarrow> ('cl, 'dk, 'ka) jwks_cache \<Rightarrow> 'w
      \<Rightarrow> (jwt_error + unit) \<times> ('cl, 'dk, 'ka) jwks_cache \<times> 'w" where
  "refresh J now self w =
     (if jc_url self = [] then
        (Err (Jwks ''no JWKS URL configured (static key set)''), self, w)
      else
        (case http_get J (jc_client self) (jc_url self) w of
           (Inl e, w) \<Rightarrow> (Err (Jwks (''fetch failed for '' @ jc_url self @ '': '' @ e)), self, w)
         | (Inr response, w) \<Rightarrow>
             (case error_for_status J response of
                Inl e \<Rightarrow> (Err (Jwks (''JWKS endpoint returned an error: '' @ e)), self, w)
              | Inr response \<Rightarrow>
                  (case response_json J response w of
                     (Inl e, w) \<Rightarrow> (Err (Jwks (''invalid JWKS document: '' @ e)), self, w)
                   | (Inr jwks, w) \<Rightarrow>
                       (case build_key_map J jwks of
                          Inl e \<Rightarrow> (Err e, self, w)
                        | Inr keys \<Rightarrow>
                            (Ok (), self\<lparr>jc_state := \<lparr>cs_keys = keys, cs_fetched_at = Some now\<rparr>\<rparr>, w))))))"

text \<open>\<open>t\<close> is read for the freshness check under the lock, \<open>now\<close> by \<open>refresh\<close>.\<close>

definition refresh_coalesced ::
    "('cl, 'resp, 'ka, 'p, 'dk, 'w) jwks_lib \<Rightarrow> instant \<Rightarrow> instant \<Rightarrow> ('cl, 'dk, 'ka) jwks_cache \<Rightarrow> 'w
      \<Rightarrow> (jwt_error + unit) \<times> ('cl, 'dk, 'ka) jwks_cache \<times> 'w" where
  "refresh_coalesced J t now self w =
     (if is_fresh t (cs_fetched_at (jc_state self)) (jc_min_refresh_interval self)
      then (Ok (), self, w)
      else refresh J now self w)"

subsection \<open>Resolving a key\<close>

definition resolve_key ::
    "('cl, 'resp, 'ka, 'p, 'dk, 'w) jwks_lib \<Rightarrow> instant \<Rightarrow> instant \<Rightarrow> instant \<Rightarrow> string option
      \<Rightarrow> ('cl, 'dk, 'ka) jwks_cache \<Rightarrow> 'w
      \<Rightarrow> (jwt_error + ('dk, 'ka) cached_key) \<times> ('cl, 'dk, 'ka) jwks_cache \<times> 'w" where
  "resolve_key J t1 t2 t3 kid self w =
     (let want = unwrap_or [] kid in
      case (if is_fresh t1 (cs_fetched_at (jc_state self)) (jc_ttl self)
            then map_of (cs_keys (jc_state self)) want else None) of
        Some cached \<Rightarrow> (Ok cached, self, w)
      | None \<Rightarrow>
          if jc_static_keys self then
            (Err (Jwks (''unknown key id `'' @ want @ ''` in static key set'')), self, w)
          else
            (case refresh_coalesced J t2 t3 self w of
               (Inl e, self, w) \<Rightarrow> (Err e, self, w)
             | (Inr _, self, w) \<Rightarrow>
                 (ok_or (Jwks (''unknown key id `'' @ want @ ''` after JWKS refresh''))
                    (map_of (cs_keys (jc_state self)) want), self, w)))"

definition jwks_decoding_key ::
    "('cl, 'resp, 'ka, 'p, 'dk, 'w) jwks_lib \<Rightarrow> instant \<Rightarrow> instant \<Rightarrow> instant \<Rightarrow> string option
      \<Rightarrow> ('cl, 'dk, 'ka) jwks_cache \<Rightarrow> 'w \<Rightarrow> (jwt_error + 'dk) \<times> ('cl, 'dk, 'ka) jwks_cache \<times> 'w" where
  "jwks_decoding_key J t1 t2 t3 kid self w =
     (case resolve_key J t1 t2 t3 kid self w of (r, self, w) \<Rightarrow> (map_ok ck_key r, self, w))"

text \<open>The part of \<open>decode\<close> after the key is resolved: algorithm pinning, then verification.\<close>

definition verify_with ::
    "('cl, 'resp, 'ka, 'p, 'dk, 'w) jwks_lib \<Rightarrow> ('ek, 'dk, 'c) jwt_lib \<Rightarrow> header \<Rightarrow> ('dk, 'ka) cached_key
      \<Rightarrow> string \<Rightarrow> validation \<Rightarrow> jwt_error + 'c" where
  "verify_with J L hdr cached token v =
     (case (case ck_alg cached of
              Some ka \<Rightarrow>
                if ka \<noteq> key_algorithm_from J (h_alg hdr)
                then Some (AlgorithmMismatch (show_algorithm J (h_alg hdr)) (show_key_algorithm J ka))
                else None
            | None \<Rightarrow> None) of
        Some e \<Rightarrow> Err e
      | None \<Rightarrow> map_err DecodingFailed (lib_decode L token (ck_key cached) v))"

definition jwks_decode ::
    "('cl, 'resp, 'ka, 'p, 'dk, 'w) jwks_lib \<Rightarrow> ('ek, 'dk, 'c) jwt_lib \<Rightarrow> instant \<Rightarrow> instant \<Rightarrow> instant
      \<Rightarrow> string \<Rightarrow> validation \<Rightarrow> ('cl, 'dk, 'ka) jwks_cache \<Rightarrow> 'w
      \<Rightarrow> (jwt_error + 'c) \<times> ('cl, 'dk, 'ka) jwks_cache \<times> 'w" where
  "jwks_decode J L t1 t2 t3 token v self w =
     (case lib_decode_header L token of
        Inl e \<Rightarrow> (Err (DecodingFailed e), self, w)
      | Inr hdr \<Rightarrow>
          (case resolve_key J t1 t2 t3 (h_kid hdr) self w of
             (Inl e, self, w) \<Rightarrow> (Err e, self, w)
           | (Inr cached, self, w) \<Rightarrow> (verify_with J L hdr cached token v, self, w)))"

section \<open>Lemmas\<close>

lemma is_fresh_simps [simp]:
  "is_fresh t None d = False"
  "is_fresh t (Some i) d \<longleftrightarrow> t - i < d"
  by (simp_all add: is_fresh_def)

lemma builder_simps [simp]:
  "jc_ttl (with_ttl d self) = d"
  "jc_min_refresh_interval (with_ttl d self) = jc_min_refresh_interval self"
  "jc_state (with_ttl d self) = jc_state self"
  "jc_ttl (with_min_refresh_interval d self) = jc_ttl self"
  "jc_min_refresh_interval (with_min_refresh_interval d self) = d"
  "jc_state (with_min_refresh_interval d self) = jc_state self"
  "jc_client (with_client cl self) = cl"
  by (simp_all add: with_ttl_def with_min_refresh_interval_def with_client_def)

subsection \<open>The key map\<close>

text \<open>The last usable key of a document with a given id, an absent id counting as the empty one.\<close>

definition last_usable ::
    "('cl, 'resp, 'ka, 'p, 'dk, 'w) jwks_lib \<Rightarrow> ('ka, 'p) jwk list \<Rightarrow> string \<Rightarrow> ('dk, 'ka) cached_key option" where
  "last_usable J jwks kid =
     (case find (\<lambda>j. unwrap_or [] (jwk_key_id j) = kid \<and> is_ok (from_jwk J j)) (rev jwks) of
        None \<Rightarrow> None
      | Some j \<Rightarrow> (case from_jwk J j of
          Inl _ \<Rightarrow> None
        | Inr key \<Rightarrow> Some \<lparr>ck_key = key, ck_alg = jwk_key_algorithm j\<rparr>))"

lemma insert_jwks_lookup:
  "map_of (insert_jwks J keys jwks) kid =
     (case last_usable J jwks kid of Some c \<Rightarrow> Some c | None \<Rightarrow> map_of keys kid)"
proof (induction jwks arbitrary: keys)
  case Nil
  then show ?case by (simp add: last_usable_def)
next
  case (Cons j js)
  then show ?case
    by (cases "from_jwk J j")
      (auto simp: Let_def last_usable_def find_append update_conv
        dest: find_SomeD split: option.splits sum.splits)
qed

lemma insert_jwks_distinct:
  "distinct (map fst keys) \<Longrightarrow> distinct (map fst (insert_jwks J keys jwks))"
  by (induction jwks arbitrary: keys) (auto simp: Let_def distinct_update split: sum.splits)

lemma update_not_Nil [simp]: "AList.update k v es \<noteq> []"
  by (cases es) auto

lemma insert_jwks_Nil_iff:
  "insert_jwks J keys jwks = [] \<longleftrightarrow> keys = [] \<and> (\<forall>j \<in> set jwks. \<not> is_ok (from_jwk J j))"
proof (induction jwks arbitrary: keys)
  case Nil
  then show ?case by simp
next
  case (Cons j js)
  then show ?case by (cases "from_jwk J j") (auto simp: Let_def)
qed

lemma build_key_map_Ok_iff:
  "build_key_map J jwks = Ok keys \<longleftrightarrow>
     keys = insert_jwks J [] jwks \<and> (\<exists>j \<in> set jwks. is_ok (from_jwk J j))"
  by (auto simp: build_key_map_def Let_def insert_jwks_Nil_iff)

lemma build_key_map_Err_iff:
  "build_key_map J jwks = Err e \<longleftrightarrow>
     e = Jwks ''JWKS document contained no usable keys'' \<and> (\<forall>j \<in> set jwks. \<not> is_ok (from_jwk J j))"
  by (auto simp: build_key_map_def Let_def insert_jwks_Nil_iff)

subsection \<open>The request\<close>

text \<open>The document a request gives, or the error it ends with, and the world after it.\<close>

definition fetch ::
    "('cl, 'resp, 'ka, 'p, 'dk, 'w) jwks_lib \<Rightarrow> ('cl, 'dk, 'ka) jwks_cache \<Rightarrow> 'w
      \<Rightarrow> (jwt_error + ('dk, 'ka) key_map) \<times> 'w" where
  "fetch J self w =
     (case http_get J (jc_client self) (jc_url self) w of
        (Inl e, w) \<Rightarrow> (Err (Jwks (''fetch failed for '' @ jc_url self @ '': '' @ e)), w)
      | (Inr response, w) \<Rightarrow>
          (case error_for_status J response of
             Inl e \<Rightarrow> (Err (Jwks (''JWKS endpoint returned an error: '' @ e)), w)
           | Inr response \<Rightarrow>
               (case response_json J response w of
                  (Inl e, w) \<Rightarrow> (Err (Jwks (''invalid JWKS document: '' @ e)), w)
                | (Inr jwks, w) \<Rightarrow> (build_key_map J jwks, w))))"

lemma refresh_fetch:
  "refresh J now self w =
     (if jc_url self = [] then (Err (Jwks ''no JWKS URL configured (static key set)''), self, w)
      else case fetch J self w of
        (Inl e, w) \<Rightarrow> (Err e, self, w)
      | (Inr keys, w) \<Rightarrow>
          (Ok (), self\<lparr>jc_state := \<lparr>cs_keys = keys, cs_fetched_at = Some now\<rparr>\<rparr>, w))"
  by (auto simp: refresh_def fetch_def split: prod.splits sum.splits)

lemma fetch_error: "fetch J self w = (Err e, w') \<Longrightarrow> \<exists>m. e = Jwks m"
  by (auto simp: fetch_def build_key_map_Err_iff split: prod.splits sum.splits)

text \<open>A cache that holds keys of a configured URL and is no static key set.\<close>

abbreviation remote :: "('cl, 'dk, 'ka) jwks_cache \<Rightarrow> bool" where
  "remote self \<equiv> jc_url self \<noteq> [] \<and> \<not> jc_static_keys self"

lemma resolve_key_hit:
  assumes "is_fresh t1 (cs_fetched_at (jc_state self)) (jc_ttl self)"
    and "map_of (cs_keys (jc_state self)) (unwrap_or [] kid) = Some c"
  shows "resolve_key J t1 t2 t3 kid self w = (Ok c, self, w)"
  using assms by (simp add: resolve_key_def Let_def)

text \<open>The slow path of \<open>resolve_key\<close>.\<close>

lemma resolve_key_miss:
  assumes "\<not> is_fresh t1 (cs_fetched_at (jc_state self)) (jc_ttl self)
      \<or> map_of (cs_keys (jc_state self)) (unwrap_or [] kid) = None"
    and "remote self"
  shows "resolve_key J t1 t2 t3 kid self w =
    (if is_fresh t2 (cs_fetched_at (jc_state self)) (jc_min_refresh_interval self) then
       (ok_or (Jwks (''unknown key id `'' @ unwrap_or [] kid @ ''` after JWKS refresh''))
          (map_of (cs_keys (jc_state self)) (unwrap_or [] kid)), self, w)
     else case fetch J self w of
       (Inl e, w) \<Rightarrow> (Err e, self, w)
     | (Inr keys, w) \<Rightarrow>
         (ok_or (Jwks (''unknown key id `'' @ unwrap_or [] kid @ ''` after JWKS refresh''))
            (map_of keys (unwrap_or [] kid)),
          self\<lparr>jc_state := \<lparr>cs_keys = keys, cs_fetched_at = Some t3\<rparr>\<rparr>, w))"
proof -
  have "(if is_fresh t1 (cs_fetched_at (jc_state self)) (jc_ttl self)
      then map_of (cs_keys (jc_state self)) (unwrap_or [] kid) else None) = None"
    using assms(1) by auto
  then show ?thesis
    using assms(2)
    by (simp add: resolve_key_def Let_def refresh_coalesced_def refresh_fetch
        split: prod.split sum.split)
qed

section \<open>The cache resolves keys\<close>

lemma resolve_key_known:
  assumes "resolve_key J t1 t2 t3 kid self w = (Ok c, self', w')"
  shows "map_of (cs_keys (jc_state self')) (unwrap_or [] kid) = Some c"
  using assms
  by (auto simp: resolve_key_def Let_def result_iff split: option.splits prod.splits sum.splits if_splits)

lemma refresh_error: "refresh J now self w = (Err e, self', w') \<Longrightarrow> \<exists>m. e = Jwks m"
  by (auto simp: refresh_fetch dest: fetch_error split: if_splits prod.splits sum.splits)

lemma resolve_key_error:
  assumes "resolve_key J t1 t2 t3 kid self w = (Err e, self', w')"
  shows "\<exists>m. e = Jwks m"
  using assms
  by (auto simp: resolve_key_def refresh_coalesced_def Let_def result_iff dest: refresh_error
      split: option.splits prod.splits sum.splits if_splits)

interpretation jwks: key_resolver
  "\<lambda>kid (self, w). resolve_key J t1 t2 t3 kid self w"
  "\<lambda>(self, w) want. map_of (cs_keys (jc_state self)) want"
  for J :: "('cl, 'resp, 'ka, 'p, 'dk, 'w) jwks_lib" and t1 t2 t3
proof
  show "(case s' of (self, w) \<Rightarrow> \<lambda>want. map_of (cs_keys (jc_state self)) want) (unwrap_or [] kid) = Some k"
    if "(case s of (self, w) \<Rightarrow> resolve_key J t1 t2 t3 kid self w) = (Ok k, s')"
    for kid k and s s' :: "('cl, 'dk, 'ka) jwks_cache \<times> 'w"
    using that by (auto split: prod.splits dest: resolve_key_known)
  show "\<exists>m. e = Jwks m"
    if "(case s of (self, w) \<Rightarrow> resolve_key J t1 t2 t3 kid self w) = (Err e, s')"
    for kid e and s s' :: "('cl, 'dk, 'ka) jwks_cache \<times> 'w"
    using that by (cases s') (auto split: prod.splits dest: resolve_key_error)
qed

lemma jwks_decode_by:
  "jwks_decode J L t1 t2 t3 token v self w =
     decode_by (\<lambda>kid (self, w). resolve_key J t1 t2 t3 kid self w) (lib_decode_header L token)
       (\<lambda>hdr k. verify_with J L hdr k token v) (self, w)"
  by (simp add: jwks_decode_def decode_by_def split: sum.split prod.split)

end
