(* ===== verification/Jwks_Properties.thy ===== *)
theory Jwks_Properties
  imports Jwks_Cache
begin

section \<open>Properties of the JWKS cache, its callers one after the other\<close>

subsection \<open>A concrete endpoint for the witnesses\<close>

text \<open>
  The world counts the requests. The endpoint answers with one document or, when it is \<open>None\<close>, is
  unreachable; keys are their own material and can be used unless it is empty.
\<close>

definition doc_lib ::
    "(string, string) jwk list option \<Rightarrow> (unit, (string, string) jwk list, string, string, string, nat) jwks_lib" where
  "doc_lib doc =
     \<lparr>client_new = (),
      http_get = (\<lambda>_ _ n. (case doc of None \<Rightarrow> Err ''refused'' | Some d \<Rightarrow> Ok d, Suc n)),
      error_for_status = Ok, response_json = (\<lambda>d n. (Ok d, n)),
      from_jwk = (\<lambda>j. if jwk_params j = [] then Err ''unusable'' else Ok (jwk_params j)),
      key_algorithm_from = (\<lambda>a. if a = LibRS256 then ''RS256'' else ''other''),
      show_algorithm = (\<lambda>a. if a = LibRS256 then ''RS256'' else ''other''),
      show_key_algorithm = (\<lambda>k. k)\<rparr>"

definition sample_jwks :: "(string, string) jwk list" where
  "sample_jwks =
     [\<lparr>jwk_key_id = Some ''k1'', jwk_key_algorithm = Some ''RS256'', jwk_params = ''p1''\<rparr>,
      \<lparr>jwk_key_id = None, jwk_key_algorithm = None, jwk_params = ''p2''\<rparr>,
      \<lparr>jwk_key_id = Some ''k3'', jwk_key_algorithm = None, jwk_params = []\<rparr>]"

definition sample_cache :: "(unit, string, string) jwks_cache" where
  "sample_cache = jwks_new (doc_lib (Some sample_jwks)) ''url''"

definition loaded_cache :: "(unit, string, string) jwks_cache" where
  "loaded_cache = sample_cache\<lparr>jc_state :=
     \<lparr>cs_keys = [(''k1'', \<lparr>ck_key = ''p1'', ck_alg = Some ''RS256''\<rparr>), ([], \<lparr>ck_key = ''p2'', ck_alg = None\<rparr>)],
      cs_fetched_at = Some 5\<rparr>\<rparr>"

lemma sample_refresh: "refresh (doc_lib (Some sample_jwks)) 5 sample_cache 0 = (Ok (), loaded_cache, 1)"
  by (simp add: refresh_def doc_lib_def sample_cache_def loaded_cache_def jwks_new_def sample_jwks_def
      build_key_map_def)

subsection \<open>The document\<close>

text \<open>
  \<open>build_key_map\<close> keeps, for every key id, the last usable key of the document, a key without
  an id standing under the empty one, skips the others, and fails exactly when no key is usable.
\<close>

theorem build_key_map_correct:
  "(case build_key_map J jwks of
      Inl e \<Rightarrow> e = Jwks ''JWKS document contained no usable keys''
        \<and> filter (\<lambda>j. is_ok (from_jwk J j)) jwks = []
    | Inr keys \<Rightarrow> map_of keys = last_usable J jwks \<and> distinct (map fst keys)
        \<and> filter (\<lambda>j. is_ok (from_jwk J j)) jwks \<noteq> [])"
proof (cases "build_key_map J jwks")
  case (Inl e)
  with build_key_map_Err_iff [of J jwks e] show ?thesis by (simp add: filter_empty_conv)
next
  case (Inr keys)
  then have keys: "keys = insert_jwks J [] jwks" "\<exists>j \<in> set jwks. is_ok (from_jwk J j)"
    by (simp_all add: build_key_map_Ok_iff)
  have "map_of keys kid = last_usable J jwks kid" for kid
    by (simp add: keys(1) insert_jwks_lookup split: option.split)
  then show ?thesis
    using keys insert_jwks_distinct [of "[]" J jwks] Inr by (auto simp: filter_empty_conv fun_eq_iff)
qed

text \<open>
  A forced refresh replaces the whole key set and stamps it with the present, or leaves the cache
  exactly as it was and fails with a \<open>Jwks\<close> error; without a URL it never touches the network.
\<close>

theorem refresh_replaces_or_keeps:
  "(case refresh J now self w of
      (Inl e, self', w') \<Rightarrow> self' = self \<and> (\<exists>m. e = Jwks m)
    | (Inr _, self', w') \<Rightarrow> \<exists>jwks. self' = self\<lparr>jc_state := jc_state self'\<rparr>
        \<and> map_of (cs_keys (jc_state self')) = last_usable J jwks
        \<and> cs_keys (jc_state self') \<noteq> [] \<and> cs_fetched_at (jc_state self') = Some now)
   \<and> snd (refresh J now (self\<lparr>jc_url := []\<rparr>) w) = (self\<lparr>jc_url := []\<rparr>, w)"
proof (cases "jc_url self = []")
  case True
  then show ?thesis by (simp add: refresh_fetch)
next
  case False
  obtain r w' where f: "fetch J self w = (r, w')" by fastforce
  show ?thesis
  proof (cases r)
    case (Inl e)
    then show ?thesis using False f fetch_error [of J self w e w'] by (simp add: refresh_fetch)
  next
    case (Inr keys)
    then obtain jwks where "build_key_map J jwks = Ok keys"
      using f by (auto simp: fetch_def split: prod.splits sum.splits)
    then have "map_of keys = last_usable J jwks \<and> keys \<noteq> []"
      by (auto simp: build_key_map_Ok_iff insert_jwks_Nil_iff insert_jwks_lookup fun_eq_iff
          split: option.split)
    then show ?thesis using False f Inr by (auto simp: refresh_fetch)
  qed
qed

subsection \<open>Resolving\<close>

text \<open>
  Rotation: when a key id is unknown, or the set is stale, and the last fetch is not within the
  minimum interval, one fetch is made; the new set is cached, its key is returned, and as long as
  the set is fresh the next caller gets it without a request.
\<close>

theorem rotation_picked_up:
  assumes "remote self"
    and "map_of (cs_keys (jc_state self)) (unwrap_or [] kid) = None \<or> \<not> is_fresh t1 (cs_fetched_at (jc_state self)) (jc_ttl self)"
    and "\<not> is_fresh t2 (cs_fetched_at (jc_state self)) (jc_min_refresh_interval self)"
    and "refresh J t3 self w = (Ok (), self', w')"
    and "map_of (cs_keys (jc_state self')) (unwrap_or [] kid) = Some c"
    and "t4 - t3 < jc_ttl self"
  shows "resolve_key J t1 t2 t3 kid self w = (Ok c, self', w')
    \<and> resolve_key J t4 t5 t6 kid self' v = (Ok c, self', v)"
proof
  have s': "jc_ttl self' = jc_ttl self" "cs_fetched_at (jc_state self') = Some t3"
    using assms(4) by (auto simp: refresh_fetch split: if_splits prod.splits sum.splits)
  show "resolve_key J t1 t2 t3 kid self w = (Ok c, self', w')"
    using assms by (auto simp: resolve_key_def Let_def refresh_coalesced_def)
  show "resolve_key J t4 t5 t6 kid self' v = (Ok c, self', v)"
    using assms(5,6) s' by (intro resolve_key_hit) simp_all
qed

theorem rotation_picked_up_witness:
  "resolve_key (doc_lib (Some sample_jwks)) 3 4 5 (Some ''k1'') sample_cache 0 =
     (Ok \<lparr>ck_key = ''p1'', ck_alg = Some ''RS256''\<rparr>, loaded_cache, 1)
   \<and> resolve_key (doc_lib (Some sample_jwks)) 9 9 9 (Some ''k1'') loaded_cache 1 =
     (Ok \<lparr>ck_key = ''p1'', ck_alg = Some ''RS256''\<rparr>, loaded_cache, 1)"
  by (rule rotation_picked_up [where ?t4.0 = 9, OF _ _ _ sample_refresh])
    (simp_all add: sample_cache_def jwks_new_def loaded_cache_def DEFAULT_TTL_def from_secs_def)

text \<open>
  Rate limit: within the minimum interval after a successful fetch no caller makes a request,
  known or unknown key id, fresh or stale set; the answer is the one the cached set gives.
\<close>

theorem refresh_rate_limited:
  assumes "is_fresh t2 (cs_fetched_at (jc_state self)) (jc_min_refresh_interval self)" "remote self"
  shows "snd (resolve_key J t1 t2 t3 kid self w) = (self, w)
    \<and> (case fst (resolve_key J t1 t2 t3 kid self w) of
         Inr c \<Rightarrow> map_of (cs_keys (jc_state self)) (unwrap_or [] kid) = Some c
       | Inl _ \<Rightarrow> map_of (cs_keys (jc_state self)) (unwrap_or [] kid) = None)"
  using assms
  by (auto simp: resolve_key_def Let_def refresh_coalesced_def split: option.splits)

theorem refresh_rate_limited_witness:
  "snd (resolve_key (doc_lib (Some sample_jwks)) 8 8 8 (Some ''unknown'') loaded_cache 1) = (loaded_cache, 1)"
  using refresh_rate_limited [of 8 loaded_cache "doc_lib (Some sample_jwks)" 8 8 "Some ''unknown''" 1]
  by (simp add: loaded_cache_def sample_cache_def jwks_new_def DEFAULT_MIN_REFRESH_INTERVAL_def from_secs_def)

text \<open>
  C34. A static key set works for ten minutes only: a configured key is found while the set is fresh,
  and from the end of the default lifetime on it is reported as an unknown key id. No request is
  ever made.
\<close>

theorem static_keys_expire:
  assumes "map_of keys (unwrap_or [] kid) = Some key"
  shows "resolve_key J t1 t2 t3 kid (from_static_keys J now keys) w =
    (if t1 - now < 600000000000 then Ok \<lparr>ck_key = key, ck_alg = None\<rparr>
     else Err (Jwks (''unknown key id `'' @ unwrap_or [] kid @ ''` in static key set'')),
     from_static_keys J now keys, w)"
  using assms
  by (simp add: resolve_key_def Let_def from_static_keys_def DEFAULT_TTL_def from_secs_def map_of_map)

theorem static_keys_expire_witness:
  "fst (resolve_key (doc_lib None) 600000000007 0 0 (Some ''k'') (from_static_keys (doc_lib None) 7 [(''k'', ''p'')]) 0)
     = Err (Jwks ''unknown key id `k` in static key set'')"
  using static_keys_expire [of "[(''k'', ''p'')]" "Some ''k''" "''p''" "doc_lib None" 600000000007 0 0 7 0]
  by simp

subsection \<open>Many callers in a row\<close>

text \<open>Calls of \<open>resolve_key\<close>, each with its three clock readings and its key id.\<close>

definition resolve_all ::
    "('cl, 'resp, 'ka, 'p, 'dk, 'w) jwks_lib \<Rightarrow> (instant \<times> instant \<times> instant \<times> string option) list
      \<Rightarrow> ('cl, 'dk, 'ka) jwks_cache \<Rightarrow> 'w \<Rightarrow> ('cl, 'dk, 'ka) jwks_cache \<times> 'w" where
  "resolve_all J calls self w =
     fold (\<lambda>(t1, t2, t3, kid) (self, w). snd (resolve_key J t1 t2 t3 kid self w)) calls (self, w)"

lemma resolve_all_simps [simp]:
  "resolve_all J [] self w = (self, w)"
  "resolve_all J ((t1, t2, t3, kid) # calls) self w =
     (let (self', w') = snd (resolve_key J t1 t2 t3 kid self w) in resolve_all J calls self' w')"
  by (simp_all add: resolve_all_def split: prod.split)

text \<open>
  A flood of unknown key ids costs one request: after a successful fetch any number of callers,
  whatever key ids they name, leave the endpoint alone and the set as it is until the minimum
  interval is over.
\<close>

theorem flood_shielded:
  assumes "remote self" "cs_fetched_at (jc_state self) = Some t"
    and "\<And>c. c \<in> set calls \<Longrightarrow> fst (snd c) < t + jc_min_refresh_interval self"
    and "0 < jc_min_refresh_interval self"
  shows "resolve_all J calls self w = (self, w)"
  using assms(3)
proof (induction calls)
  case Nil
  then show ?case by simp
next
  case (Cons c calls)
  obtain t1 t2 t3 kid where c: "c = (t1, t2, t3, kid)" by (cases c)
  have "t2 < t + jc_min_refresh_interval self" using Cons.prems [of c] by (simp add: c)
  then have "is_fresh t2 (cs_fetched_at (jc_state self)) (jc_min_refresh_interval self)"
    using assms(2,4) by auto
  then have "snd (resolve_key J t1 t2 t3 kid self w) = (self, w)"
    using assms(1) by (auto simp: resolve_key_def Let_def refresh_coalesced_def split: option.splits)
  then show ?case using Cons by (simp add: c)
qed

theorem flood_shielded_witness:
  "resolve_all (doc_lib None) [(6, 7, 7, Some ''x''), (8, 8, 9, Some ''y''), (9, 9, 9, None)] loaded_cache 1
     = (loaded_cache, 1)"
  by (rule flood_shielded)
    (auto simp: loaded_cache_def sample_cache_def jwks_new_def DEFAULT_MIN_REFRESH_INTERVAL_def from_secs_def)

text \<open>
  A failing endpoint is not shielded: failed fetches leave no trace in the cache, so as long as
  the endpoint is unreachable every caller that needs a key makes a request of its own, the minimum
  interval notwithstanding. The world counts the requests here.
\<close>

theorem failing_endpoint_hammered:
  assumes "remote self" "cs_fetched_at (jc_state self) = None"
    and "\<And>cl url n. http_get J cl url n = (Err e, Suc n)"
  shows "resolve_all J calls self n = (self, n + length calls)"
proof (induction calls arbitrary: n)
  case Nil
  then show ?case by simp
next
  case (Cons c calls)
  obtain t1 t2 t3 kid where c: "c = (t1, t2, t3, kid)" by (cases c)
  have "snd (resolve_key J t1 t2 t3 kid self n) = (self, Suc n)"
    using assms by (simp add: resolve_key_def Let_def refresh_coalesced_def refresh_fetch fetch_def)
  then show ?case using Cons by (simp add: c)
qed

theorem failing_endpoint_hammered_witness:
  "resolve_all (doc_lib None) [(1, 1, 1, Some ''k''), (1, 1, 1, Some ''k''), (1, 1, 1, Some ''k'')] sample_cache 0
     = (sample_cache, 3)"
  using failing_endpoint_hammered [of sample_cache "doc_lib None" "''refused''"
      "[(1, 1, 1, Some ''k''), (1, 1, 1, Some ''k''), (1, 1, 1, Some ''k'')]" 0]
  by (simp add: sample_cache_def jwks_new_def doc_lib_def)

subsection \<open>Decoding\<close>

text \<open>
  C10. A token is accepted only under the cached key its key id names, the empty id standing for a
  token without one, and only if the key advertises no algorithm or the one of the token's header.
\<close>

theorem jwks_decode_pinned:
  assumes "jwks_decode J L t1 t2 t3 token v self w = (Ok c, self', w')"
  shows "\<exists>hdr cached. lib_decode_header L token = Ok hdr
    \<and> map_of (cs_keys (jc_state self')) (unwrap_or [] (h_kid hdr)) = Some cached
    \<and> ck_alg cached \<in> {None, Some (key_algorithm_from J (h_alg hdr))}
    \<and> lib_decode L token (ck_key cached) v = Ok c"
  using jwks.decode_by_Ok [OF assms [unfolded jwks_decode_by]]
  by (auto simp: verify_with_def result_iff split: option.splits if_splits)

definition jwks_tok_lib :: "(bytes, string, nat) jwt_lib" where
  "jwks_tok_lib = \<lparr>ek_from_secret = (\<lambda>b. b), ek_from_rsa_pem = Ok, ek_from_ec_der = (\<lambda>b. b),
      ek_from_ec_pem = Ok, ek_from_ed_der = (\<lambda>b. b), ek_from_ed_pem = Ok,
      dk_from_secret = (\<lambda>_. []), dk_from_rsa_der = (\<lambda>_. []), dk_from_rsa_pem = (\<lambda>_. Ok []),
      dk_from_ec_der = (\<lambda>_. []), dk_from_ec_pem = (\<lambda>_. Ok []), dk_from_ed_der = (\<lambda>_. []),
      dk_from_ed_pem = (\<lambda>_. Ok []),
      header_new = (\<lambda>a. \<lparr>h_alg = a, h_kid = None\<rparr>),
      validation_new = (\<lambda>a. \<lparr>v_algorithms = [a], v_leeway = 60, v_validate_exp = True,
          v_validate_nbf = False, v_required_spec_claims = {''exp''}, v_iss = None, v_aud = None\<rparr>),
      set_required_spec_claims = (\<lambda>cs v. v\<lparr>v_required_spec_claims := set cs\<rparr>),
      set_issuer = (\<lambda>xs v. v\<lparr>v_iss := Some (set xs)\<rparr>),
      set_audience = (\<lambda>xs v. v\<lparr>v_aud := Some (set xs)\<rparr>),
      lib_encode = (\<lambda>h c k. Err ''encode''),
      lib_decode = (\<lambda>t k v. if k = ''p1'' then Ok 7 else Err ''invalid''),
      lib_decode_header = (\<lambda>t. Ok \<lparr>h_alg = (if t = ''rs'' then LibRS256 else LibHS256), h_kid = Some ''k1''\<rparr>)\<rparr>"

theorem jwks_decode_pinned_witness:
  "jwks_decode (doc_lib (Some sample_jwks)) jwks_tok_lib 9 9 9 ''rs'' (validation_new jwks_tok_lib LibRS256)
     loaded_cache 1 = (Ok 7, loaded_cache, 1)
   \<and> (\<exists>hdr cached. lib_decode_header jwks_tok_lib ''rs'' = Ok hdr
       \<and> map_of (cs_keys (jc_state loaded_cache)) (unwrap_or [] (h_kid hdr)) = Some cached
       \<and> ck_alg cached \<in> {None, Some (key_algorithm_from (doc_lib (Some sample_jwks)) (h_alg hdr))})"
proof
  show 1: "jwks_decode (doc_lib (Some sample_jwks)) jwks_tok_lib 9 9 9 ''rs'' (validation_new jwks_tok_lib LibRS256)
     loaded_cache 1 = (Ok 7, loaded_cache, 1)"
    by (simp add: jwks_decode_def jwks_tok_lib_def resolve_key_def loaded_cache_def sample_cache_def
        jwks_new_def DEFAULT_TTL_def from_secs_def verify_with_def doc_lib_def)
  show "\<exists>hdr cached. lib_decode_header jwks_tok_lib ''rs'' = Ok hdr
       \<and> map_of (cs_keys (jc_state loaded_cache)) (unwrap_or [] (h_kid hdr)) = Some cached
       \<and> ck_alg cached \<in> {None, Some (key_algorithm_from (doc_lib (Some sample_jwks)) (h_alg hdr))}"
    using jwks_decode_pinned [OF 1] by blast
qed

text \<open>
  The errors of \<open>decode\<close> are told apart: \<open>DecodingFailed\<close> for the header and the verification, \<open>Jwks\<close>
  for the key, \<open>AlgorithmMismatch\<close> for the pinning.
\<close>

lemma jwks_decode_errors:
  assumes "jwks_decode J L t1 t2 t3 token v self w = (Err e, self', w')"
  shows "(\<exists>m. e = DecodingFailed m) \<or> (\<exists>m. e = Jwks m) \<or> (\<exists>a k. e = AlgorithmMismatch a k)"
  using jwks.decode_by_error [OF assms [unfolded jwks_decode_by]]
  by (auto simp: verify_with_def result_iff split: option.splits if_splits)

text \<open>
  A token whose header names another algorithm than its key advertises is rejected before it is
  verified: the error is \<open>AlgorithmMismatch\<close> with both names, whatever verification would say.
\<close>

theorem algorithm_mismatch_first:
  assumes "lib_decode_header L token = Ok hdr"
    and "resolve_key J t1 t2 t3 (h_kid hdr) self w = (Ok cached, self', w')"
    and "ck_alg cached = Some ka" "ka \<noteq> key_algorithm_from J (h_alg hdr)"
  shows "jwks_decode J (L\<lparr>lib_decode := anything\<rparr>) t1 t2 t3 token v self w =
    (Err (AlgorithmMismatch (show_algorithm J (h_alg hdr)) (show_key_algorithm J ka)), self', w')"
  using assms by (simp add: jwks_decode_def verify_with_def)

theorem algorithm_mismatch_first_witness:
  "jwks_decode (doc_lib (Some sample_jwks)) (jwks_tok_lib\<lparr>lib_decode := (\<lambda>_ _ _. Ok 7)\<rparr>) 9 9 9 ''hs''
     (validation_new jwks_tok_lib LibHS256) loaded_cache 1
   = (Err (AlgorithmMismatch ''other'' ''RS256''), loaded_cache, 1)"
proof -
  have h: "lib_decode_header jwks_tok_lib ''hs'' = Ok \<lparr>h_alg = LibHS256, h_kid = Some ''k1''\<rparr>"
    by (simp add: jwks_tok_lib_def)
  have r: "resolve_key (doc_lib (Some sample_jwks)) 9 9 9 (h_kid \<lparr>h_alg = LibHS256, h_kid = Some ''k1''\<rparr>)
      loaded_cache 1 = (Ok \<lparr>ck_key = ''p1'', ck_alg = Some ''RS256''\<rparr>, loaded_cache, 1)"
    by (simp add: resolve_key_def loaded_cache_def sample_cache_def jwks_new_def DEFAULT_TTL_def from_secs_def)
  show ?thesis
    using algorithm_mismatch_first [OF h r, of "''RS256''" "\<lambda>_ _ _. Ok 7" "validation_new jwks_tok_lib LibHS256"]
    by (simp add: doc_lib_def)
qed

end
