(* ===== verification/Jwks_Well_Formed.thy ===== *)
theory Jwks_Well_Formed
  imports Jwks_Properties
begin

section \<open>The states of a JWKS cache (src/jwks.rs)\<close>

text \<open>
  What the fields of \<open>JwksCache\<close> promise each other, beyond their Rust types: the key map has one
  entry per key id, a cache that was never filled has no fetch time and the other way round, a
  static key set has no URL and was filled when it was made. Every constructor gives such a
  cache and every method keeps it one, whatever the endpoint answers.
\<close>

definition cache_ok :: "('cl, 'dk, 'ka) jwks_cache \<Rightarrow> bool" where
  "cache_ok self \<longleftrightarrow>
     distinct (map fst (cs_keys (jc_state self)))
   \<and> (jc_static_keys self \<longrightarrow> jc_url self = [] \<and> cs_fetched_at (jc_state self) \<noteq> None)
   \<and> (\<not> jc_static_keys self \<longrightarrow> (cs_fetched_at (jc_state self) = None \<longleftrightarrow> cs_keys (jc_state self) = []))"

text \<open>The caches a program can hold: those its constructors, builders and methods give.\<close>

inductive jwks_made ::
    "('cl, 'resp, 'ka, 'p, 'dk, 'w) jwks_lib \<Rightarrow> ('cl, 'dk, 'ka) jwks_cache \<Rightarrow> bool" for J where
  made_new: "jwks_made J (jwks_new J url)"
| made_static: "distinct (map fst keys) \<Longrightarrow> jwks_made J (from_static_keys J now keys)"
| made_ttl: "jwks_made J self \<Longrightarrow> jwks_made J (with_ttl d self)"
| made_interval: "jwks_made J self \<Longrightarrow> jwks_made J (with_min_refresh_interval d self)"
| made_client: "jwks_made J self \<Longrightarrow> jwks_made J (with_client cl self)"
| made_refresh: "jwks_made J self \<Longrightarrow> refresh J now self w = (r, self', w') \<Longrightarrow> jwks_made J self'"
| made_resolve: "jwks_made J self \<Longrightarrow> resolve_key J t1 t2 t3 kid self w = (r', self', w') \<Longrightarrow>
    jwks_made J self'"
| made_decoding_key: "jwks_made J self \<Longrightarrow>
    jwks_decoding_key J t1 t2 t3 kid self w = (k, self', w') \<Longrightarrow> jwks_made J self'"

section \<open>Lemmas\<close>

lemma fetch_keys_ok:
  assumes "fetch J self w = (Ok keys, w')"
  shows "distinct (map fst keys) \<and> keys \<noteq> []"
  using assms insert_jwks_distinct [of "[]" J]
  by (auto simp: fetch_def build_key_map_Ok_iff insert_jwks_Nil_iff split: prod.splits sum.splits)

text \<open>What a method can do to the cache: nothing, or a new, non-empty set with its time.\<close>

definition same_or_filled :: "('cl, 'dk, 'ka) jwks_cache \<Rightarrow> ('cl, 'dk, 'ka) jwks_cache \<Rightarrow> bool" where
  "same_or_filled self self' \<longleftrightarrow> self' = self
   \<or> (jc_url self \<noteq> [] \<and> (\<exists>keys now. distinct (map fst keys) \<and> keys \<noteq> []
       \<and> self' = self\<lparr>jc_state := \<lparr>cs_keys = keys, cs_fetched_at = Some now\<rparr>\<rparr>))"

lemma same_or_filled_refl [simp]: "same_or_filled self self"
  by (simp add: same_or_filled_def)

lemma refresh_same_or_filled:
  "refresh J now self w = (r, self', w') \<Longrightarrow> same_or_filled self self'"
  by (auto simp: refresh_fetch same_or_filled_def dest!: fetch_keys_ok
      split: if_splits prod.splits sum.splits)

lemma refresh_Ok_filled:
  "refresh J now self w = (Ok u, self', w') \<Longrightarrow> cs_fetched_at (jc_state self') = Some now"
  by (auto simp: refresh_fetch split: if_splits prod.splits sum.splits)

lemma resolve_key_same_or_filled:
  "resolve_key J t1 t2 t3 kid self w = (r, self', w') \<Longrightarrow> same_or_filled self self'"
  by (auto simp: resolve_key_def refresh_coalesced_def Let_def result_iff
      dest: refresh_same_or_filled split: option.splits prod.splits sum.splits if_splits)

lemma cache_ok_filled: "same_or_filled self self' \<Longrightarrow> cache_ok self \<Longrightarrow> cache_ok self'"
  by (auto simp: same_or_filled_def cache_ok_def)

lemma cache_ok_builders:
  "cache_ok (with_ttl d self) = cache_ok self"
  "cache_ok (with_min_refresh_interval d self) = cache_ok self"
  "cache_ok (with_client cl self) = cache_ok self"
  by (simp_all add: cache_ok_def with_ttl_def with_min_refresh_interval_def with_client_def)

lemma cache_ok_new: "cache_ok (jwks_new J url)"
  by (simp add: cache_ok_def jwks_new_def)

lemma made_ok: "jwks_made J self \<Longrightarrow> cache_ok self"
proof (induction rule: jwks_made.induct)
  case (made_static keys now)
  then show ?case by (simp add: cache_ok_def from_static_keys_def comp_def case_prod_unfold)
next
  case (made_decoding_key self t1 t2 t3 kid w k self' w')
  then show ?case
    by (auto simp: jwks_decoding_key_def intro: cache_ok_filled resolve_key_same_or_filled
        split: prod.splits)
qed (auto simp: cache_ok_builders cache_ok_new
    intro: cache_ok_filled refresh_same_or_filled resolve_key_same_or_filled)

lemma resolved_in_cache:
  assumes "cache_ok self" "resolve_key J t1 t2 t3 kid self w = (Ok c, self', w')"
  shows "(unwrap_or [] kid, c) \<in> set (cs_keys (jc_state self'))
    \<and> cs_fetched_at (jc_state self') \<noteq> None"
proof -
  have "(unwrap_or [] kid, c) \<in> set (cs_keys (jc_state self'))"
    using resolve_key_known [OF assms(2)] by (rule map_of_SomeD)
  moreover have "cache_ok self'"
    using resolve_key_same_or_filled [OF assms(2)] assms(1) by (rule cache_ok_filled)
  ultimately show ?thesis by (auto simp: cache_ok_def)
qed

section \<open>Theorem\<close>

text \<open>Which errors verifying against a JWKS cache can end with.\<close>

fun jwks_decode_error :: "jwt_error \<Rightarrow> bool" where
  "jwks_decode_error (Jwks _) = True"
| "jwks_decode_error (AlgorithmMismatch _ _) = True"
| "jwks_decode_error (DecodingFailed _) = True"
| "jwks_decode_error _ = False"

lemma verify_with_error: "verify_with J L hdr c token v = Err e \<Longrightarrow> jwks_decode_error e"
  by (auto simp: verify_with_def map_err_Err_iff split: option.splits if_splits)

text \<open>
  C20. Well-formedness of the cache and of its answers. Verifying a token against any cache that the
  constructors, builders and methods can give leaves a well-formed cache of the same
  configuration; it never empties a key set; it ends with a JWKS, an algorithm mismatch or a
  decoding error, and it accepts a token only from a cache that has been filled.
\<close>

theorem jwks_decode_well_formed:
  assumes "jwks_made J self" "jwks_decode J L t1 t2 t3 token v self w = (r, self', w')"
  shows "jwks_made J self' \<and> cache_ok self' \<and> self' = self\<lparr>jc_state := jc_state self'\<rparr>
    \<and> (cs_keys (jc_state self') = [] \<longrightarrow> cs_keys (jc_state self) = [])
    \<and> (case r of Inl e \<Rightarrow> jwks_decode_error e | Inr _ \<Rightarrow> cs_fetched_at (jc_state self') \<noteq> None)"
proof -
  have ok: "cache_ok self" using assms(1) by (rule made_ok)
  have "jwks_made J self'"
    using assms
    by (auto simp: jwks_decode_def intro: made_resolve split: sum.splits prod.splits)
  moreover
  have "same_or_filled self self'"
    using assms(2)
    by (auto simp: jwks_decode_def dest: resolve_key_same_or_filled
        split: sum.splits prod.splits)
  moreover have "case r of Inl e \<Rightarrow> jwks_decode_error e | Inr _ \<Rightarrow> cs_fetched_at (jc_state self') \<noteq> None"
  proof (cases r)
    case (Inl e)
    with assms(2) show ?thesis
      by (auto simp: jwks_decode_def dest: resolve_key_error verify_with_error
          split: sum.splits prod.splits)
  next
    case (Inr c)
    with assms(2) show ?thesis
      by (auto simp: jwks_decode_def dest!: resolved_in_cache [OF ok] split: sum.splits prod.splits)
  qed
  ultimately show ?thesis using cache_ok_filled [of self self'] ok by (auto simp: same_or_filled_def)
qed

theorem jwks_decode_well_formed_witness:
  "cache_ok loaded_cache
   \<and> jwks_decode (doc_lib (Some sample_jwks)) jwks_tok_lib 9 9 9 ''rs'' (validation_new jwks_tok_lib LibRS256)
       loaded_cache 1 = (Ok 7, loaded_cache, 1)"
proof
  show 1: "jwks_decode (doc_lib (Some sample_jwks)) jwks_tok_lib 9 9 9 ''rs'' (validation_new jwks_tok_lib LibRS256)
     loaded_cache 1 = (Ok 7, loaded_cache, 1)"
    by (simp add: jwks_decode_def jwks_tok_lib_def resolve_key_def loaded_cache_def sample_cache_def
        jwks_new_def DEFAULT_TTL_def from_secs_def verify_with_def doc_lib_def)
  have "jwks_made (doc_lib (Some sample_jwks)) sample_cache"
    unfolding sample_cache_def by (rule made_new)
  then have "jwks_made (doc_lib (Some sample_jwks)) loaded_cache"
    using sample_refresh by (rule made_refresh)
  then show "cache_ok loaded_cache" using jwks_decode_well_formed [OF _ 1] by blast
qed

end
