(* ===== verification/Jwks_Concurrent.thy ===== *)
theory Jwks_Concurrent
  imports Jwks_Properties Task_Calls
begin

section \<open>Concurrent use of the JWKS cache (src/jwks.rs)\<close>

text \<open>
  \<open>N\<close> tasks call \<open>resolve_key\<close> on one cache. A step is what one task does between two points where
  others can run: the lookup under the read lock, taking \<open>refresh_lock\<close>, the freshness check
  under it, sending the request, storing the answer and releasing the lock, the last lookup. The
  clock advances between steps, the answer of a request is arbitrary, a task may be dropped at
  any point, which releases the lock if it holds it, and anyone may call the forced \<open>refresh\<close>,
  which does not take the lock. The log records, newest first, when automatic fetches were started
  and when any fetch succeeded.
\<close>

datatype ('dk, 'ka) phase =
    Idle
  | Waiting string
  | Checking string
  | Fetching string
  | Lookup string
  | Done string "jwt_error + ('dk, 'ka) cached_key"

datatype fetch_event = Started | Succeeded

record ('cl, 'dk, 'ka) jwks_shared =
  js_cache :: "('cl, 'dk, 'ka) jwks_cache"
  js_holder :: "nat option"
  js_phase :: "nat \<Rightarrow> ('dk, 'ka) phase"
  js_now :: instant
  js_log :: "(fetch_event \<times> instant) list"

abbreviation js_keys where "js_keys s \<equiv> cs_keys (jc_state (js_cache s))"
abbreviation js_fetched_at where "js_fetched_at s \<equiv> cs_fetched_at (jc_state (js_cache s))"

definition goto :: "nat \<Rightarrow> ('dk, 'ka) phase \<Rightarrow> ('cl, 'dk, 'ka) jwks_shared \<Rightarrow> ('cl, 'dk, 'ka) jwks_shared" where
  "goto t p s = s\<lparr>js_phase := (js_phase s)(t := p)\<rparr>"

definition store_keys ::
    "('dk, 'ka) key_map \<Rightarrow> ('cl, 'dk, 'ka) jwks_shared \<Rightarrow> ('cl, 'dk, 'ka) jwks_shared" where
  "store_keys keys s =
     s\<lparr>js_cache := (js_cache s)\<lparr>jc_state := \<lparr>cs_keys = keys, cs_fetched_at = Some (js_now s)\<rparr>\<rparr>,
       js_log := (Succeeded, js_now s) # js_log s\<rparr>"

inductive jwks_step :: "nat \<Rightarrow> ('cl, 'dk, 'ka) jwks_shared \<Rightarrow> ('cl, 'dk, 'ka) jwks_shared \<Rightarrow> bool" for N where
  tick: "js_now s \<le> t \<Longrightarrow> jwks_step N s (s\<lparr>js_now := t\<rparr>)"
| hit: "t < N \<Longrightarrow> js_phase s t = Idle \<Longrightarrow>
    is_fresh (js_now s) (js_fetched_at s) (jc_ttl (js_cache s)) \<Longrightarrow> map_of (js_keys s) want = Some c \<Longrightarrow>
    jwks_step N s (goto t (Done want (Ok c)) s)"
| miss: "t < N \<Longrightarrow> js_phase s t = Idle \<Longrightarrow>
    \<not> is_fresh (js_now s) (js_fetched_at s) (jc_ttl (js_cache s)) \<or> map_of (js_keys s) want = None \<Longrightarrow>
    jwks_step N s (goto t (Waiting want) s)"
| acquire: "js_phase s t = Waiting want \<Longrightarrow> js_holder s = None \<Longrightarrow>
    jwks_step N s (goto t (Checking want) s\<lparr>js_holder := Some t\<rparr>)"
| reuse: "js_phase s t = Checking want \<Longrightarrow>
    is_fresh (js_now s) (js_fetched_at s) (jc_min_refresh_interval (js_cache s)) \<Longrightarrow>
    jwks_step N s (goto t (Lookup want) s\<lparr>js_holder := None\<rparr>)"
| begin_fetch: "js_phase s t = Checking want \<Longrightarrow>
    \<not> is_fresh (js_now s) (js_fetched_at s) (jc_min_refresh_interval (js_cache s)) \<Longrightarrow>
    jwks_step N s (goto t (Fetching want) s\<lparr>js_log := (Started, js_now s) # js_log s\<rparr>)"
| fetched: "js_phase s t = Fetching want \<Longrightarrow>
    jwks_step N s (goto t (Lookup want) (store_keys keys s)\<lparr>js_holder := None\<rparr>)"
| failed: "js_phase s t = Fetching want \<Longrightarrow>
    jwks_step N s (goto t (Done want (Err e)) s\<lparr>js_holder := None\<rparr>)"
| look_up: "js_phase s t = Lookup want \<Longrightarrow>
    jwks_step N s (goto t (Done want (ok_or (Jwks (''unknown key id `'' @ want @ ''` after JWKS refresh''))
      (map_of (js_keys s) want))) s)"
| again: "js_phase s t = Done want r \<Longrightarrow> jwks_step N s (goto t Idle s)"
| forced: "jwks_step N s (store_keys keys s)"
| dropped: "jwks_step N s (goto t Idle s\<lparr>js_holder := (if js_holder s = Some t then None else js_holder s)\<rparr>)"

definition jwks_initial :: "('cl, 'dk, 'ka) jwks_cache \<Rightarrow> instant \<Rightarrow> ('cl, 'dk, 'ka) jwks_shared" where
  "jwks_initial c t =
     \<lparr>js_cache = c\<lparr>jc_state := \<lparr>cs_keys = [], cs_fetched_at = None\<rparr>\<rparr>, js_holder = None,
      js_phase = (\<lambda>_. Idle), js_now = t, js_log = []\<rparr>"

abbreviation jwks_reaches where
  "jwks_reaches N \<equiv> (jwks_step N)\<^sup>*\<^sup>*"

section \<open>The invariant\<close>

text \<open>When the last fetch recorded in a log succeeded.\<close>

fun last_success :: "(fetch_event \<times> instant) list \<Rightarrow> instant option" where
  "last_success [] = None"
| "last_success ((Succeeded, t) # l) = Some t"
| "last_success ((Started, t) # l) = last_success l"

text \<open>Every automatic fetch of the log started when the last success was at least \<open>d\<close> old.\<close>

fun spaced :: "duration \<Rightarrow> (fetch_event \<times> instant) list \<Rightarrow> bool" where
  "spaced d [] = True"
| "spaced d ((Succeeded, t) # l) = spaced d l"
| "spaced d ((Started, t) # l) = (\<not> is_fresh t (last_success l) d \<and> spaced d l)"

text \<open>The phases in which a task holds the lock.\<close>

fun critical :: "('dk, 'ka) phase \<Rightarrow> bool" where
  "critical (Checking _) = True"
| "critical (Fetching _) = True"
| "critical _ = False"

fun_cases criticalE: "critical p"

definition in_critical :: "('cl, 'dk, 'ka) jwks_shared \<Rightarrow> nat set" where
  "in_critical s = {t. critical (js_phase s t)}"

definition shared_inv :: "duration \<Rightarrow> ('cl, 'dk, 'ka) jwks_shared \<Rightarrow> bool" where
  "shared_inv d s \<longleftrightarrow>
     jc_min_refresh_interval (js_cache s) = d
   \<and> js_fetched_at s = last_success (js_log s)
   \<and> spaced d (js_log s)
   \<and> in_critical s = set_option (js_holder s)"

lemma goto_simps [simp]:
  "js_cache (goto t p s) = js_cache s"
  "js_holder (goto t p s) = js_holder s"
  "js_phase (goto t p s) = (js_phase s)(t := p)"
  "js_now (goto t p s) = js_now s"
  "js_log (goto t p s) = js_log s"
  by (simp_all add: goto_def)

lemma store_keys_simps [simp]:
  "jc_min_refresh_interval (js_cache (store_keys keys s)) = jc_min_refresh_interval (js_cache s)"
  "jc_ttl (js_cache (store_keys keys s)) = jc_ttl (js_cache s)"
  "js_fetched_at (store_keys keys s) = Some (js_now s)"
  "js_keys (store_keys keys s) = keys"
  "js_holder (store_keys keys s) = js_holder s"
  "js_phase (store_keys keys s) = js_phase s"
  "js_now (store_keys keys s) = js_now s"
  "js_log (store_keys keys s) = (Succeeded, js_now s) # js_log s"
  by (simp_all add: store_keys_def)

lemma in_critical_goto:
  "in_critical (goto t p s) = (if critical p then insert t (in_critical s) else in_critical s - {t})"
  by (auto simp: in_critical_def)

lemma in_critical_simps [simp]:
  "in_critical (s\<lparr>js_holder := h\<rparr>) = in_critical s"
  "in_critical (s\<lparr>js_log := l\<rparr>) = in_critical s"
  "in_critical (s\<lparr>js_now := t\<rparr>) = in_critical s"
  "in_critical (store_keys keys s) = in_critical s"
  by (simp_all add: in_critical_def)

lemma shared_inv_holder:
  assumes "shared_inv d s"
  shows "critical (js_phase s t) \<longleftrightarrow> js_holder s = Some t"
proof -
  have "critical (js_phase s t) \<longleftrightarrow> t \<in> in_critical s" by (simp add: in_critical_def)
  also have "in_critical s = set_option (js_holder s)" using assms by (simp add: shared_inv_def)
  finally show ?thesis by simp
qed

lemma shared_inv_initial: "shared_inv (jc_min_refresh_interval c) (jwks_initial c t)"
  by (simp add: shared_inv_def jwks_initial_def in_critical_def)

lemma shared_inv_step:
  assumes "jwks_step N s s'" "shared_inv d s"
  shows "shared_inv d s'"
  using assms
proof (induction rule: jwks_step.induct)
  case (dropped s t)
  then show ?case by (cases "js_holder s") (auto simp: shared_inv_def in_critical_goto)
next
  case (acquire s t want)
  then show ?case by (simp add: shared_inv_def in_critical_goto)
next
  case (reuse s t want)
  then show ?case
    using shared_inv_holder [OF reuse.prems, of t] by (simp add: shared_inv_def in_critical_goto)
next
  case (begin_fetch s t want)
  then show ?case
    using shared_inv_holder [OF begin_fetch.prems, of t]
    by (simp add: shared_inv_def in_critical_goto)
next
  case (fetched s t want keys)
  then show ?case
    using shared_inv_holder [OF fetched.prems, of t] by (simp add: shared_inv_def in_critical_goto)
next
  case (failed s t want e)
  then show ?case
    using shared_inv_holder [OF failed.prems, of t] by (simp add: shared_inv_def in_critical_goto)
next
  case (hit t s want c)
  then show ?case
    using shared_inv_holder [OF hit.prems, of t] by (auto simp: shared_inv_def in_critical_goto)
next
  case (miss t s want)
  then show ?case
    using shared_inv_holder [OF miss.prems, of t] by (auto simp: shared_inv_def in_critical_goto)
next
  case (look_up s t want)
  then show ?case
    using shared_inv_holder [OF look_up.prems, of t] by (auto simp: shared_inv_def in_critical_goto)
next
  case (again s t want r)
  then show ?case
    using shared_inv_holder [OF again.prems, of t] by (auto simp: shared_inv_def in_critical_goto)
qed (simp_all add: shared_inv_def)

lemma shared_inv_reaches:
  "jwks_reaches N s s' \<Longrightarrow> shared_inv d s \<Longrightarrow> shared_inv d s'"
  by (induction rule: rtranclp_induct) (auto intro: shared_inv_step)

subsection \<open>The log\<close>

text \<open>The log is in the order of the clock and only grows.\<close>

definition log_ok :: "('cl, 'dk, 'ka) jwks_shared \<Rightarrow> bool" where
  "log_ok s \<longleftrightarrow> sorted_wrt (\<ge>) (js_now s # map snd (js_log s))"

lemma log_step:
  assumes "jwks_step N s s'"
  shows "js_now s \<le> js_now s' \<and> (log_ok s \<longrightarrow> log_ok s')
    \<and> (\<exists>new. js_log s' = new @ js_log s \<and> (\<forall>e \<in> set new. snd e = js_now s))"
  using assms
proof (induction rule: jwks_step.induct)
  case (tick s t)
  then show ?case by (auto simp: log_ok_def)
qed (auto simp: log_ok_def)

lemma log_reaches:
  assumes "jwks_reaches N s s'"
  shows "js_now s \<le> js_now s' \<and> (log_ok s \<longrightarrow> log_ok s') \<and> (\<exists>new. js_log s' = new @ js_log s)"
  using assms
proof (induction rule: rtranclp_induct)
  case base
  then show ?case by simp
next
  case (step y z)
  with log_step [OF step.hyps(2)] show ?case by force
qed

lemma last_success_newest:
  "sorted_wrt (\<ge>) (map snd (l2 @ (Succeeded, a) # l3)) \<Longrightarrow>
     \<exists>a'. last_success (l2 @ (Succeeded, a) # l3) = Some a' \<and> a \<le> a'"
proof (induction l2)
  case Nil
  then show ?case by simp
next
  case (Cons e l2)
  then show ?case by (cases e; cases "fst e") auto
qed

lemma spaced_appendD: "spaced d (l1 @ l2) \<Longrightarrow> spaced d l2"
proof (induction l1)
  case Nil
  then show ?case by simp
next
  case (Cons e l1)
  then show ?case by (cases e; cases "fst e") auto
qed

lemma started_after_success:
  assumes "spaced d (l1 @ (Started, b) # l2 @ (Succeeded, a) # l3)"
    and "sorted_wrt (\<ge>) (map snd (l1 @ (Started, b) # l2 @ (Succeeded, a) # l3))" "0 < d"
  shows "a + d \<le> b"
proof -
  have "spaced d ((Started, b) # l2 @ (Succeeded, a) # l3)"
    using assms(1) by (rule spaced_appendD)
  then have "\<not> is_fresh b (last_success (l2 @ (Succeeded, a) # l3)) d" by simp
  moreover have "sorted_wrt (\<ge>) (map snd (l2 @ (Succeeded, a) # l3))"
    using assms(2) by (simp add: sorted_wrt_append)
  then obtain a' where "last_success (l2 @ (Succeeded, a) # l3) = Some a'" "a \<le> a'"
    using last_success_newest by blast
  ultimately show ?thesis using assms(3) by simp
qed

lemma reached_ok:
  assumes "jwks_reaches N (jwks_initial c t0) s"
  shows "shared_inv (jc_min_refresh_interval c) s" "log_ok s"
proof -
  show "shared_inv (jc_min_refresh_interval c) s"
    using assms shared_inv_initial by (rule shared_inv_reaches)
  show "log_ok s" using log_reaches [OF assms] by (simp add: log_ok_def jwks_initial_def)
qed

section \<open>Theorems\<close>

text \<open>
  Concrete states for the witnesses, over the cache of \<open>Jwks_Properties\<close>: a task that waits, a task
  that fetches, a forced refresh and an automatic one twenty seconds later.
\<close>

abbreviation "wit_start \<equiv> jwks_initial sample_cache 0"

definition wit_waiting :: "(unit, string, string) jwks_shared" where
  "wit_waiting = goto 0 (Waiting ''k'') wit_start"

definition wit_fetching :: "(unit, string, string) jwks_shared" where
  "wit_fetching =
     (let s = goto 0 (Checking ''k'') wit_waiting\<lparr>js_holder := Some 0\<rparr>
      in goto 0 (Fetching ''k'') s\<lparr>js_log := (Started, js_now s) # js_log s\<rparr>)"

definition wit_forced :: "(unit, string, string) jwks_shared" where
  "wit_forced = store_keys [] wit_start"

definition wit_late :: "(unit, string, string) jwks_shared" where
  "wit_late =
     (let s = goto 0 (Waiting ''k'') (wit_forced\<lparr>js_now := 20000000000\<rparr>);
          s = goto 0 (Checking ''k'') s\<lparr>js_holder := Some 0\<rparr>
      in goto 0 (Fetching ''k'') s\<lparr>js_log := (Started, js_now s) # js_log s\<rparr>)"

lemma sample_cache_simps [simp]:
  "jc_min_refresh_interval sample_cache = 10000000000"
  "jc_ttl sample_cache = 600000000000"
  "jc_url sample_cache = ''url''"
  "\<not> jc_static_keys sample_cache"
  by (simp_all add: sample_cache_def jwks_new_def DEFAULT_TTL_def DEFAULT_MIN_REFRESH_INTERVAL_def from_secs_def)

lemma wit_waiting_reached: "jwks_reaches 2 wit_start wit_waiting"
  unfolding wit_waiting_def
  by (rule r_into_rtranclp, rule miss) (simp_all add: jwks_initial_def)

text \<open>A waiting task that finds the lock free and the set not fresh starts a fetch.\<close>

lemma starts_fetch:
  assumes "js_phase s t = Waiting want" "js_holder s = None"
    and "\<not> is_fresh (js_now s) (js_fetched_at s) (jc_min_refresh_interval (js_cache s))"
  shows "jwks_reaches N s
    (let s = goto t (Checking want) s\<lparr>js_holder := Some t\<rparr>
     in goto t (Fetching want) s\<lparr>js_log := (Started, js_now s) # js_log s\<rparr>)"
proof -
  let ?s1 = "goto t (Checking want) s\<lparr>js_holder := Some t\<rparr>"
  have 1: "jwks_step N s ?s1" using assms(1,2) by (rule acquire)
  have "jwks_step N ?s1 (goto t (Fetching want) ?s1\<lparr>js_log := (Started, js_now ?s1) # js_log ?s1\<rparr>)"
    by (rule begin_fetch) (use assms(3) in simp_all)
  with 1 show ?thesis
    unfolding Let_def by (meson converse_rtranclp_into_rtranclp rtranclp.rtrancl_refl)
qed

lemma wit_fetching_reached: "jwks_reaches 2 wit_start wit_fetching"
proof -
  have "jwks_reaches 2 wit_waiting wit_fetching"
    unfolding wit_fetching_def
    by (rule starts_fetch) (simp_all add: wit_waiting_def jwks_initial_def)
  with wit_waiting_reached show ?thesis by (rule rtranclp_trans)
qed

lemma wit_forced_reached: "jwks_reaches 2 wit_start wit_forced"
  unfolding wit_forced_def by (rule r_into_rtranclp, rule forced)

lemma wit_late_reached: "jwks_reaches 2 wit_start wit_late"
proof -
  let ?s1 = "wit_forced\<lparr>js_now := 20000000000\<rparr>"
  have 1: "jwks_step 2 wit_forced ?s1" by (rule tick) (simp add: wit_forced_def jwks_initial_def)
  have 2: "jwks_step 2 ?s1 (goto 0 (Waiting ''k'') ?s1)"
    by (rule miss) (simp_all add: wit_forced_def jwks_initial_def store_keys_def)
  have 3: "jwks_reaches 2 (goto 0 (Waiting ''k'') ?s1) wit_late"
    unfolding wit_late_def Let_def
    by (rule starts_fetch [unfolded Let_def]) (simp_all add: wit_forced_def jwks_initial_def store_keys_def)
  show ?thesis
    using wit_forced_reached 1 2 3 by (meson rtranclp.rtrancl_into_rtrancl rtranclp_trans)
qed

text \<open>
  C16. Single flight: in every reachable state at most one task is fetching, and it holds the lock.
\<close>

theorem single_flight:
  assumes "jwks_reaches N (jwks_initial c t0) s"
  shows "{t. \<exists>want. js_phase s t = Fetching want} \<subseteq> set_option (js_holder s)"
proof
  fix t assume "t \<in> {t. \<exists>want. js_phase s t = Fetching want}"
  then have "critical (js_phase s t)" by auto
  then show "t \<in> set_option (js_holder s)"
    using shared_inv_holder [OF reached_ok(1) [OF assms]] by simp
qed

theorem single_flight_witness:
  "js_phase wit_fetching 0 = Fetching ''k''
   \<and> {t. \<exists>want. js_phase wit_fetching t = Fetching want} \<subseteq> {0}"
proof
  show "js_phase wit_fetching 0 = Fetching ''k''" by (simp add: wit_fetching_def)
  show "{t. \<exists>want. js_phase wit_fetching t = Fetching want} \<subseteq> {0}"
    using single_flight [OF wit_fetching_reached] by (simp add: wit_fetching_def)
qed

text \<open>
  C12. Automatic fetches are rate-limited by successful ones: whatever the tasks do, an automatic
  fetch that starts after a fetch has succeeded starts at least the minimum interval later.
\<close>

theorem fetches_spaced:
  assumes "jwks_reaches N (jwks_initial c t0) s"
    and "js_log s = newer @ (Started, b) # between @ (Succeeded, a) # older"
    and "0 < jc_min_refresh_interval c"
  shows "a + jc_min_refresh_interval c \<le> b"
proof (rule started_after_success)
  show "spaced (jc_min_refresh_interval c) (newer @ (Started, b) # between @ (Succeeded, a) # older)"
    using reached_ok(1) [OF assms(1)] assms(2) by (simp add: shared_inv_def)
  show "sorted_wrt (\<ge>) (map snd (newer @ (Started, b) # between @ (Succeeded, a) # older))"
    using reached_ok(2) [OF assms(1)] assms(2) by (simp add: log_ok_def)
qed (rule assms(3))

theorem fetches_spaced_witness:
  "js_log wit_late = [(Started, 20000000000), (Succeeded, 0)] \<and> (0::nat) + 10000000000 \<le> 20000000000"
proof
  show log: "js_log wit_late = [(Started, 20000000000), (Succeeded, 0)]"
    by (simp add: wit_late_def wit_forced_def store_keys_def goto_def jwks_initial_def Let_def)
  have "js_log wit_late = [] @ (Started, 20000000000) # [] @ (Succeeded, 0) # []" by (simp add: log)
  from fetches_spaced [OF wit_late_reached this]
  show "(0::nat) + 10000000000 \<le> 20000000000" by simp
qed

text \<open>
  Waiters reuse the result: once a fetch has succeeded, no task starts another one before the
  minimum interval is over, however many are waiting and whatever key ids they want.
\<close>

theorem waiters_reuse_fetch:
  assumes "jwks_reaches N (jwks_initial c t0) s" "js_log s = (Succeeded, a) # older"
    and "jwks_reaches N s s'" "js_now s' < a + jc_min_refresh_interval c"
  shows "filter (\<lambda>e. fst e = Started) (js_log s') = filter (\<lambda>e. fst e = Started) (js_log s)"
proof -
  obtain new where new: "js_log s' = new @ js_log s" using log_reaches [OF assms(3)] by blast
  have reach: "jwks_reaches N (jwks_initial c t0) s'" using assms(1,3) by (rule rtranclp_trans)
  note ok = reached_ok [OF reach]
  have pos: "0 < jc_min_refresh_interval c \<or> js_now s' < a" using assms(4) by auto
  have a_le: "a \<le> js_now s'"
    using ok(2) new assms(2) by (auto simp: log_ok_def)
  have "fst e \<noteq> Started" if mem: "e \<in> set new" for e
  proof
    assume "fst e = Started"
    then obtain b where e: "e = (Started, b)" by (cases e) auto
    obtain newer between where "new = newer @ (Started, b) # between"
      using split_list [OF mem] unfolding e by blast
    then have log: "js_log s' = newer @ (Started, b) # between @ (Succeeded, a) # older"
      using new assms(2) by simp
    have "a + jc_min_refresh_interval c \<le> b"
    proof (rule started_after_success)
      show "spaced (jc_min_refresh_interval c) (newer @ (Started, b) # between @ (Succeeded, a) # older)"
        using ok(1) log by (simp add: shared_inv_def)
      show "sorted_wrt (\<ge>) (map snd (newer @ (Started, b) # between @ (Succeeded, a) # older))"
        using ok(2) log by (simp add: log_ok_def)
    qed (use pos a_le in simp)
    moreover have "b \<le> js_now s'" using ok(2) log by (auto simp: log_ok_def)
    ultimately show False using assms(4) by simp
  qed
  then have "filter (\<lambda>e. fst e = Started) new = []" by (simp add: filter_empty_conv)
  then show ?thesis by (simp add: new)
qed

theorem waiters_reuse_fetch_witness:
  "filter (\<lambda>e. fst e = Started) (js_log (goto 0 (Waiting ''k'') wit_forced)) = []"
proof -
  have log: "js_log wit_forced = (Succeeded, 0) # []"
    by (simp add: wit_forced_def jwks_initial_def)
  have "jwks_reaches 2 wit_forced (goto 0 (Waiting ''k'') wit_forced)"
    by (rule r_into_rtranclp, rule miss) (simp_all add: wit_forced_def jwks_initial_def)
  from waiters_reuse_fetch [OF wit_forced_reached log this] show ?thesis
    by (simp add: log wit_forced_def jwks_initial_def)
qed

subsection \<open>Failing fetches\<close>

text \<open>Runs in which no call is dropped or started over.\<close>

abbreviation calm_reaches where
  "calm_reaches N \<equiv>
     (\<lambda>s s'. jwks_step N s s' \<and> no_restarts Idle (js_phase s) (js_phase s'))\<^sup>*\<^sup>*"

text \<open>Tasks \<open>0\<close> to \<open>m - 1\<close> of \<open>N\<close> have asked for a key and failed, tasks \<open>m\<close> to \<open>n - 1\<close> wait.\<close>

definition herd ::
    "('cl, 'dk, 'ka) jwks_cache \<Rightarrow> instant \<Rightarrow> string \<Rightarrow> jwt_error \<Rightarrow> nat \<Rightarrow> nat \<Rightarrow> ('cl, 'dk, 'ka) jwks_shared" where
  "herd c t0 want e m n = (jwks_initial c t0)
     \<lparr>js_phase := (\<lambda>t. if t < m then Done want (Err e) else if t < n then Waiting want else Idle),
      js_log := replicate m (Started, t0)\<rparr>"

lemma herd_simps [simp]:
  "js_phase (herd c t0 want e m n) t = (if t < m then Done want (Err e) else if t < n then Waiting want else Idle)"
  "js_log (herd c t0 want e m n) = replicate m (Started, t0)"
  "js_now (herd c t0 want e m n) = t0"
  "js_holder (herd c t0 want e m n) = None"
  "js_fetched_at (herd c t0 want e m n) = None"
  by (simp_all add: herd_def jwks_initial_def)

lemma herd_start: "herd c t0 want e 0 0 = jwks_initial c t0"
  by (simp add: herd_def jwks_initial_def)

lemma calm_stepI:
  assumes "jwks_step N s s'" "\<forall>t. js_phase s' t = Idle \<longrightarrow> js_phase s t = Idle"
  shows "jwks_step N s s' \<and> no_restarts Idle (js_phase s) (js_phase s')"
  using assms by (simp add: no_restarts_def)

lemma all_wait: "n \<le> N \<Longrightarrow> calm_reaches N (jwks_initial c t0) (herd c t0 want e 0 n)"
proof (induction n)
  case 0
  then show ?case by (simp add: herd_start)
next
  case (Suc n)
  let ?s = "herd c t0 want e 0 n"
  have "jwks_step N ?s (goto n (Waiting want) ?s)"
    by (rule miss) (use Suc.prems in simp_all)
  moreover have "goto n (Waiting want) ?s = herd c t0 want e 0 (Suc n)"
    by (auto simp: goto_def fun_eq_iff herd_def jwks_initial_def)
  ultimately have "jwks_step N ?s (herd c t0 want e 0 (Suc n))" by simp
  from calm_stepI [OF this] show ?case
    by (rule rtranclp.rtrancl_into_rtrancl [rotated]) (use Suc in simp_all)
qed

text \<open>One task takes the lock, fetches and fails.\<close>

lemma fails_in_turn:
  assumes "m < n"
  shows "calm_reaches N (herd c t0 want e m n) (herd c t0 want e (Suc m) n)"
proof -
  let ?s = "herd c t0 want e m n"
  let ?s1 = "goto m (Checking want) ?s\<lparr>js_holder := Some m\<rparr>"
  let ?s2 = "goto m (Fetching want) ?s1\<lparr>js_log := (Started, js_now ?s1) # js_log ?s1\<rparr>"
  let ?s3 = "goto m (Done want (Err e)) ?s2\<lparr>js_holder := None\<rparr>"
  have "jwks_step N ?s ?s1" by (rule acquire) (use assms in simp_all)
  note 1 = calm_stepI [OF this]
  have "jwks_step N ?s1 ?s2" by (rule begin_fetch) simp_all
  note 2 = calm_stepI [OF this]
  have "jwks_step N ?s2 ?s3" by (rule failed) simp
  note 3 = calm_stepI [OF this]
  have "?s3 = herd c t0 want e (Suc m) n"
    using assms by (auto simp: goto_def fun_eq_iff herd_def jwks_initial_def)
  moreover have "calm_reaches N ?s ?s3"
    by (rule converse_rtranclp_into_rtranclp, rule 1, simp,
        rule converse_rtranclp_into_rtranclp, rule 2, simp, rule r_into_rtranclp, rule 3, simp)
  ultimately show ?thesis by simp
qed

lemma all_fail: "m \<le> n \<Longrightarrow> calm_reaches N (herd c t0 want e 0 n) (herd c t0 want e m n)"
proof (induction m)
  case (Suc m)
  then show ?case
    by (intro rtranclp_trans [OF Suc.IH fails_in_turn]) simp_all
qed simp

text \<open>
  C33. Waiters do not share a failure: \<open>N\<close> tasks can miss at the same moment on an empty cache, all wait
  for the lock with no request sent yet, and then, when the endpoint fails with \<open>e\<close>, each of them makes
  a request of its own and is answered \<open>e\<close>, \<open>N\<close> requests one after the other, without any call being
  dropped or started over and without any time passing.
\<close>

theorem failing_waiters_all_fetch:
  "\<exists>s1 s2. calm_reaches N (jwks_initial c t0) s1
     \<and> map (js_phase s1) [0..<N] = replicate N (Waiting want) \<and> js_log s1 = [] \<and> js_now s1 = t0
     \<and> calm_reaches N s1 s2
     \<and> map (js_phase s2) [0..<N] = replicate N (Done want (Err e))
     \<and> js_log s2 = replicate N (Started, t0) \<and> js_now s2 = t0"
proof (intro exI conjI)
  show "calm_reaches N (jwks_initial c t0) (herd c t0 want e 0 N)" by (rule all_wait) simp
  show "calm_reaches N (herd c t0 want e 0 N) (herd c t0 want e N N)" by (rule all_fail) simp
qed (simp_all add: list_eq_iff_nth_eq)

subsection \<open>Progress\<close>

text \<open>The holder of the lock can finish, and then gives it back.\<close>

lemma holder_finishes:
  assumes "shared_inv d s"
  shows "\<exists>s'. jwks_reaches N s s' \<and> shared_inv d s' \<and> js_holder s' = None
    \<and> (\<forall>t. js_holder s \<noteq> Some t \<longrightarrow> js_phase s' t = js_phase s t)
    \<and> (\<forall>t want. js_holder s = Some t \<longrightarrow> js_phase s t \<in> {Checking want, Fetching want} \<longrightarrow> js_phase s' t = Lookup want)"
proof (cases "js_holder s")
  case None
  with assms show ?thesis by (intro exI [of _ s]) simp
next
  case (Some t)
  then have "critical (js_phase s t)" using shared_inv_holder [OF assms] by simp
  then obtain want where w: "js_phase s t \<in> {Checking want, Fetching want}"
    by (auto elim: criticalE)
  have fetch: "\<exists>s'. jwks_reaches N s s' \<and> js_holder s' = None \<and> js_phase s' = (js_phase s)(t := Lookup want)"
    if "js_phase s t = Fetching want" for s :: "('a, 'b, 'c) jwks_shared"
  proof (intro exI conjI)
    show "jwks_reaches N s (goto t (Lookup want) (store_keys [] s)\<lparr>js_holder := None\<rparr>)"
      by (rule r_into_rtranclp, rule fetched, rule that)
  qed simp_all
  have "\<exists>s'. jwks_reaches N s s' \<and> js_holder s' = None \<and> js_phase s' = (js_phase s)(t := Lookup want)"
  proof (cases "js_phase s t = Fetching want")
    case True
    then show ?thesis by (rule fetch)
  next
    case False
    then have ph: "js_phase s t = Checking want" using w by simp
    show ?thesis
    proof (cases "is_fresh (js_now s) (js_fetched_at s) (jc_min_refresh_interval (js_cache s))")
      case True
      show ?thesis
      proof (intro exI conjI)
        show "jwks_reaches N s (goto t (Lookup want) s\<lparr>js_holder := None\<rparr>)"
          by (rule r_into_rtranclp, rule reuse, rule ph, rule True)
      qed simp_all
    next
      case False
      let ?s = "goto t (Fetching want) s\<lparr>js_log := (Started, js_now s) # js_log s\<rparr>"
      have "jwks_step N s ?s" using ph False by (rule begin_fetch)
      moreover have "js_phase ?s t = Fetching want" by simp
      from fetch [OF this] obtain s' where "jwks_reaches N ?s s'" "js_holder s' = None"
        "js_phase s' = (js_phase ?s)(t := Lookup want)" by blast
      ultimately show ?thesis by (auto intro: converse_rtranclp_into_rtranclp)
    qed
  qed
  then obtain s' where s': "jwks_reaches N s s'" "js_holder s' = None"
    "js_phase s' = (js_phase s)(t := Lookup want)" by blast
  have "shared_inv d s'" using s'(1) assms by (rule shared_inv_reaches)
  then show ?thesis using s' Some w by (intro exI [of _ s']) auto
qed

text \<open>
  No caller is stuck: from every reachable state a task that waits for the lock can still get
  its turn and reach its final lookup.
\<close>

theorem waiter_can_finish:
  assumes "jwks_reaches N (jwks_initial c t0) s" "js_phase s t = Waiting want"
  shows "\<exists>s'. jwks_reaches N s s' \<and> js_phase s' t = Lookup want"
proof -
  note inv = reached_ok(1) [OF assms(1)]
  have "js_holder s \<noteq> Some t" using shared_inv_holder [OF inv, of t] assms(2) by simp
  with holder_finishes [OF inv, of N] assms(2) obtain s1 where s1: "jwks_reaches N s s1"
    "shared_inv (jc_min_refresh_interval c) s1" "js_holder s1 = None" "js_phase s1 t = Waiting want"
    by metis
  let ?s2 = "goto t (Checking want) s1\<lparr>js_holder := Some t\<rparr>"
  have 2: "jwks_step N s1 ?s2" using s1(3,4) by (intro acquire)
  have "js_holder ?s2 = Some t" "js_phase ?s2 t \<in> {Checking want, Fetching want}" by simp_all
  with holder_finishes [OF shared_inv_step [OF 2 s1(2)], of N] obtain s3
    where "jwks_reaches N ?s2 s3" "js_phase s3 t = Lookup want"
    by blast
  with s1(1) 2 show ?thesis
    by (meson rtranclp.rtrancl_into_rtrancl rtranclp_trans)
qed

theorem waiter_can_finish_witness:
  "\<exists>s'. jwks_reaches 2 wit_waiting s' \<and> js_phase s' 0 = Lookup ''k''"
  by (rule waiter_can_finish [OF wit_waiting_reached]) (simp add: wit_waiting_def)

subsection \<open>The sequential function is one of the runs\<close>

text \<open>The last three steps of a task that has the lock.\<close>

lemma look_up_run:
  assumes "js_phase s t = Lookup want"
  shows "jwks_reaches N s (goto t (Done want (ok_or (Jwks (''unknown key id `'' @ want @ ''` after JWKS refresh''))
      (map_of (js_keys s) want))) s)"
  by (rule r_into_rtranclp, rule look_up, rule assms)

lemma reuse_run:
  assumes "js_phase s t = Checking want"
    and "is_fresh (js_now s) (js_fetched_at s) (jc_min_refresh_interval (js_cache s))"
  shows "\<exists>s'. jwks_reaches N s s' \<and> js_cache s' = js_cache s
    \<and> js_phase s' t = Done want (ok_or (Jwks (''unknown key id `'' @ want @ ''` after JWKS refresh''))
        (map_of (js_keys s) want))"
proof -
  let ?s1 = "goto t (Lookup want) s\<lparr>js_holder := None\<rparr>"
  have "jwks_step N s ?s1" using assms by (rule reuse)
  moreover have "js_phase ?s1 t = Lookup want" by simp
  note look_up_run [OF this, of N]
  ultimately have "jwks_reaches N s (goto t (Done want (ok_or (Jwks (''unknown key id `'' @ want @ ''` after JWKS refresh''))
      (map_of (js_keys ?s1) want))) ?s1)"
    by (rule converse_rtranclp_into_rtranclp)
  then show ?thesis by (intro exI conjI, assumption) simp_all
qed

lemma fetch_run:
  assumes "js_phase s t = Checking want"
    and "\<not> is_fresh (js_now s) (js_fetched_at s) (jc_min_refresh_interval (js_cache s))"
  shows "\<exists>s'. jwks_reaches N s s'
    \<and> js_cache s' = (js_cache s)\<lparr>jc_state := \<lparr>cs_keys = keys, cs_fetched_at = Some (js_now s)\<rparr>\<rparr>
    \<and> js_phase s' t = Done want (ok_or (Jwks (''unknown key id `'' @ want @ ''` after JWKS refresh''))
        (map_of keys want))"
    and "\<exists>s'. jwks_reaches N s s' \<and> js_cache s' = js_cache s \<and> js_phase s' t = Done want (Err e)"
proof -
  let ?s1 = "goto t (Fetching want) s\<lparr>js_log := (Started, js_now s) # js_log s\<rparr>"
  have 1: "jwks_step N s ?s1" using assms by (rule begin_fetch)
  have ph: "js_phase ?s1 t = Fetching want" by simp
  let ?s2 = "goto t (Lookup want) (store_keys keys ?s1)\<lparr>js_holder := None\<rparr>"
  have 2: "jwks_step N ?s1 ?s2" using ph by (rule fetched)
  have "js_phase ?s2 t = Lookup want" by simp
  from look_up_run [OF this, of N]
  have "jwks_reaches N s (goto t (Done want (ok_or (Jwks (''unknown key id `'' @ want @ ''` after JWKS refresh''))
      (map_of (js_keys ?s2) want))) ?s2)"
    using 1 2 by (meson converse_rtranclp_into_rtranclp)
  then show "\<exists>s'. jwks_reaches N s s'
    \<and> js_cache s' = (js_cache s)\<lparr>jc_state := \<lparr>cs_keys = keys, cs_fetched_at = Some (js_now s)\<rparr>\<rparr>
    \<and> js_phase s' t = Done want (ok_or (Jwks (''unknown key id `'' @ want @ ''` after JWKS refresh''))
        (map_of keys want))"
    by (intro exI conjI, assumption) (simp_all add: store_keys_def)
  let ?s3 = "goto t (Done want (Err e)) ?s1\<lparr>js_holder := None\<rparr>"
  have "jwks_step N ?s1 ?s3" using ph by (rule failed)
  with 1 have "jwks_reaches N s ?s3"
    by (meson converse_rtranclp_into_rtranclp rtranclp.rtrancl_refl)
  then show "\<exists>s'. jwks_reaches N s s' \<and> js_cache s' = js_cache s \<and> js_phase s' t = Done want (Err e)"
    by (intro exI conjI, assumption) simp_all
qed

lemma miss_run:
  assumes "t < N" "js_phase s t = Idle" "js_holder s = None" "remote (js_cache s)"
    and "\<not> is_fresh (js_now s) (js_fetched_at s) (jc_ttl (js_cache s)) \<or> map_of (js_keys s) (unwrap_or [] kid) = None"
  shows "\<exists>s'. jwks_reaches N s s'
    \<and> js_phase s' t = Done (unwrap_or [] kid) (fst (resolve_key J (js_now s) (js_now s) (js_now s) kid (js_cache s) w))
    \<and> js_cache s' = fst (snd (resolve_key J (js_now s) (js_now s) (js_now s) kid (js_cache s) w))"
proof -
  let ?want = "unwrap_or [] kid"
  let ?s1 = "goto t (Waiting ?want) s"
  let ?s2 = "goto t (Checking ?want) ?s1\<lparr>js_holder := Some t\<rparr>"
  have 1: "jwks_step N s ?s1" using assms(1,2,5) by (rule miss)
  have 2: "jwks_step N ?s1 ?s2" by (rule acquire) (use assms(3) in simp_all)
  have ph: "js_phase ?s2 t = Checking ?want" by simp
  have pre: "jwks_reaches N s s'" if "jwks_reaches N ?s2 s'" for s'
    using 1 2 that by (meson converse_rtranclp_into_rtranclp)
  note res = resolve_key_miss [OF assms(5,4), of J "js_now s" "js_now s" w]
  obtain r w' where f: "fetch J (js_cache s) w = (r, w')" by fastforce
  show ?thesis
  proof (cases "is_fresh (js_now s) (js_fetched_at s) (jc_min_refresh_interval (js_cache s))")
    case True
    then have fr: "is_fresh (js_now ?s2) (js_fetched_at ?s2) (jc_min_refresh_interval (js_cache ?s2))"
      by simp
    from reuse_run [OF ph fr, of N] pre True show ?thesis by (auto simp: res)
  next
    case False
    then have fr: "\<not> is_fresh (js_now ?s2) (js_fetched_at ?s2) (jc_min_refresh_interval (js_cache ?s2))"
      by simp
    show ?thesis
    proof (cases r)
      case (Inl e)
      from fetch_run(2) [OF ph fr, of N e] pre False f Inl show ?thesis by (auto simp: res)
    next
      case (Inr keys)
      from fetch_run(1) [OF ph fr, of N keys] pre False f Inr show ?thesis by (auto simp: res)
    qed
  qed
qed

text \<open>
  C17. The step relation contains the sequential model: a task that finds the lock free and is not
  disturbed ends with the answer of \<open>resolve_key\<close> and leaves the cache that \<open>resolve_key\<close> leaves.
\<close>

theorem undisturbed_run_is_resolve_key:
  assumes "t < N" "js_phase s t = Idle" "js_holder s = None" "remote (js_cache s)"
  shows "\<exists>s'. jwks_reaches N s s'
    \<and> js_phase s' t = Done (unwrap_or [] kid) (fst (resolve_key J (js_now s) (js_now s) (js_now s) kid (js_cache s) w))
    \<and> js_cache s' = fst (snd (resolve_key J (js_now s) (js_now s) (js_now s) kid (js_cache s) w))"
proof (cases "\<exists>c. is_fresh (js_now s) (js_fetched_at s) (jc_ttl (js_cache s))
    \<and> map_of (js_keys s) (unwrap_or [] kid) = Some c")
  case True
  then obtain c where c: "is_fresh (js_now s) (js_fetched_at s) (jc_ttl (js_cache s))"
      "map_of (js_keys s) (unwrap_or [] kid) = Some c" by blast
  have "jwks_reaches N s (goto t (Done (unwrap_or [] kid) (Ok c)) s)"
    by (rule r_into_rtranclp, rule hit [OF assms(1,2) c])
  then show ?thesis
    by (intro exI [of _ "goto t (Done (unwrap_or [] kid) (Ok c)) s"]) (simp add: resolve_key_hit [OF c])
next
  case False
  then show ?thesis by (intro miss_run [OF assms]) auto
qed

theorem undisturbed_run_is_resolve_key_witness:
  "\<exists>s'. jwks_reaches 1 wit_start s'
    \<and> js_phase s' 0 = Done ''k1'' (fst (resolve_key (doc_lib (Some sample_jwks)) 0 0 0 (Some ''k1'') (js_cache wit_start) 0))
    \<and> js_cache s' = fst (snd (resolve_key (doc_lib (Some sample_jwks)) 0 0 0 (Some ''k1'') (js_cache wit_start) 0))"
  using undisturbed_run_is_resolve_key [of 0 1 wit_start "Some ''k1''" "doc_lib (Some sample_jwks)" 0]
  by (simp add: jwks_initial_def)

end
