(* ===== verification/Jwks_Termination.thy ===== *)
theory Jwks_Termination
  imports Jwks_Concurrent
begin

section \<open>Calls of the JWKS cache end (src/jwks.rs, resolve_key)\<close>

text \<open>
  A call of \<open>resolve_key\<close> has no loop, but it waits for a lock that other calls hold. Here: in any
  run, however the tasks are interleaved with the clock and with forced refreshes, the calls take
  boundedly many steps, and as long as one of them is unfinished one of them can take a step, so a
  scheduler that keeps running calls that can run finishes them all.
\<close>

text \<open>How many steps of its own a call still takes at most.\<close>

fun steps_left :: "('dk, 'ka) phase \<Rightarrow> nat" where
  "steps_left Idle = 5"
| "steps_left (Waiting _) = 4"
| "steps_left (Checking _) = 3"
| "steps_left (Fetching _) = 2"
| "steps_left (Lookup _) = 1"
| "steps_left (Done _ _) = 0"

lemma step_moves_one:
  assumes "jwks_step N s s'"
  shows "js_phase s' = js_phase s \<or> (\<exists>t. moves_task N Idle steps_left t (js_phase s) (js_phase s'))"
  using assms
  by (induction rule: jwks_step.induct)
    (simp_all del: fun_upd_apply fun_upd_triv fun_upd_idem_iff, (rule moved_task, simp)+)

interpretation jwks_calls: task_calls "jwks_step N" js_phase Idle steps_left N
  for N
  by unfold_locales (rule step_moves_one)

section \<open>Theorems\<close>

text \<open>
  C18. In every run of the cache in which no call is dropped or started over, \<open>N\<close> calls take at most
  \<open>5 * N\<close> steps altogether, whatever the interleaving, the answers of the endpoint, the clock and
  forced refreshes do in between: no call spins, none fetches twice.
\<close>

theorem calls_terminate:
  assumes "f 0 = jwks_initial c t0"
    and "\<And>i. jwks_step N (f i) (f (Suc i)) \<and> no_restarts Idle (js_phase (f i)) (js_phase (f (Suc i)))"
  shows "finite {i. js_phase (f (Suc i)) \<noteq> js_phase (f i)}
    \<and> card {i. js_phase (f (Suc i)) \<noteq> js_phase (f i)} \<le> 5 * N"
  using jwks_calls.calls_bounded [of f N] assms by (simp add: jwks_initial_def)

theorem calls_terminate_witness:
  "card {i. js_phase ((\<lambda>i::nat. if i = 0 then wit_start else wit_waiting) (Suc i))
     \<noteq> js_phase ((\<lambda>i. if i = 0 then wit_start else wit_waiting) i)} \<le> 10"
proof -
  let ?f = "\<lambda>i::nat. if i = 0 then wit_start else wit_waiting"
  have "jwks_step 2 wit_start wit_waiting"
    unfolding wit_waiting_def by (rule miss) (simp_all add: jwks_initial_def)
  moreover have "jwks_step 2 wit_waiting (wit_waiting\<lparr>js_now := js_now wit_waiting\<rparr>)"
    by (rule tick) simp
  ultimately have step: "jwks_step 2 (?f i) (?f (Suc i))" for i by simp
  have "no_restarts Idle (js_phase (?f i)) (js_phase (?f (Suc i)))" for i
    by (auto simp: no_restarts_def wit_waiting_def jwks_initial_def)
  with step have "jwks_step 2 (?f i) (?f (Suc i)) \<and> no_restarts Idle (js_phase (?f i)) (js_phase (?f (Suc i)))" for i
    by blast
  then show ?thesis
    using calls_terminate [of ?f sample_cache 0 2] by simp
qed

text \<open>What a task in a given phase can do at once.\<close>

definition can_advance :: "nat \<Rightarrow> ('cl, 'dk, 'ka) jwks_shared \<Rightarrow> nat \<Rightarrow> bool" where
  "can_advance N s u \<longleftrightarrow>
     (\<exists>s'. jwks_step N s s' \<and> steps_left (js_phase s' u) < steps_left (js_phase s u))"

lemma advanceI:
  "jwks_step N s s' \<Longrightarrow> steps_left (js_phase s' u) < steps_left (js_phase s u) \<Longrightarrow> can_advance N s u"
  by (auto simp: can_advance_def)

lemma critical_advances: "critical (js_phase s u) \<Longrightarrow> can_advance N s u"
proof (elim criticalE, goal_cases)
  case (1 want)
  then show ?case
    by (cases "is_fresh (js_now s) (js_fetched_at s) (jc_min_refresh_interval (js_cache s))")
      (auto intro: advanceI [OF reuse] advanceI [OF begin_fetch])
next
  case (2 want)
  then show ?case by (auto intro: advanceI [OF failed])
qed

text \<open>
  C19. No deadlock: in every reachable state with an unfinished call, some call can take a step at
  once, and that step brings it nearer to its end.
\<close>

theorem calls_never_stuck:
  assumes "jwks_reaches N (jwks_initial c t0) s" "js_phase s t \<noteq> Idle" "\<nexists>want r. js_phase s t = Done want r"
  shows "\<exists>u s'. jwks_step N s s' \<and> steps_left (js_phase s' u) < steps_left (js_phase s u)"
proof -
  have "\<exists>u. can_advance N s u"
  proof (cases "js_phase s t")
    case (Waiting want)
    show ?thesis
    proof (cases "js_holder s")
      case None
      have "can_advance N s t"
        by (rule advanceI [OF acquire [OF Waiting None]]) (simp add: Waiting)
      then show ?thesis by blast
    next
      case (Some u)
      then show ?thesis
        using shared_inv_holder [OF reached_ok(1) [OF assms(1)], of u] critical_advances by blast
    qed
  next
    case (Lookup want)
    have "can_advance N s t"
      by (rule advanceI [OF look_up [OF Lookup]]) (simp add: Lookup)
    then show ?thesis by blast
  qed (use assms(2,3) critical_advances [of s t N] in auto)
  then show ?thesis by (simp add: can_advance_def)
qed

theorem calls_never_stuck_witness:
  "\<exists>u s'. jwks_step 2 wit_waiting s'
     \<and> steps_left (js_phase s' u) < steps_left (js_phase wit_waiting u)"
  by (rule calls_never_stuck [OF wit_waiting_reached, of 0]) (simp_all add: wit_waiting_def)

end
