(* ===== verification/Jwks_Withdrawal.thy ===== *)
theory Jwks_Withdrawal
  imports Jwks_Concurrent
begin

section \<open>Withdrawn keys (src/jwks.rs)\<close>

text \<open>
  An issuer that withdraws a key removes it from its document. From the last moment at which a key
  set with the key was stored, the cache may go on serving the key, but not for longer than a
  set is served at all: the lifetime of the cache, or the minimum refresh interval where that is
  longer. This holds in every interleaving of the calls and whatever the endpoint answers
  otherwise.
\<close>

text \<open>Some entry of a key map is the key \<open>k\<close>, under whatever id.\<close>

definition holds_key :: "('dk, 'ka) cached_key \<Rightarrow> ('dk, 'ka) key_map \<Rightarrow> bool" where
  "holds_key k keys \<longleftrightarrow> k \<in> snd ` set keys"

lemma not_found: "\<not> holds_key k keys \<Longrightarrow> map_of keys want \<noteq> Some k"
  by (force simp: holds_key_def dest: map_of_SomeD)

text \<open>A step in which no key set with the key \<open>k\<close> is stored: the log records what is stored.\<close>

definition step_without ::
    "('dk, 'ka) cached_key \<Rightarrow> nat \<Rightarrow> ('cl, 'dk, 'ka) jwks_shared \<Rightarrow> ('cl, 'dk, 'ka) jwks_shared \<Rightarrow> bool" where
  "step_without k N s s' \<longleftrightarrow> jwks_step N s s'
     \<and> (js_log s' = (Succeeded, js_now s) # js_log s \<longrightarrow> \<not> holds_key k (js_keys s'))"

abbreviation reaches_without where
  "reaches_without k N \<equiv> (step_without k N)\<^sup>*\<^sup>*"

text \<open>How long a stored set is served.\<close>

definition served_for :: "('cl, 'dk, 'ka) jwks_shared \<Rightarrow> duration" where
  "served_for s = max (jc_ttl (js_cache s)) (jc_min_refresh_interval (js_cache s))"

lemma served_for_simps [simp]:
  "served_for (goto t p s) = served_for s"
  "served_for (store_keys keys s) = served_for s"
  "served_for (s\<lparr>js_holder := h\<rparr>) = served_for s"
  "served_for (s\<lparr>js_log := l\<rparr>) = served_for s"
  "served_for (s\<lparr>js_now := n\<rparr>) = served_for s"
  by (simp_all add: served_for_def)

lemma served_for_step: "jwks_step N s s' \<Longrightarrow> served_for s' = served_for s"
  by (induction rule: jwks_step.induct) simp_all

text \<open>A set that was stored after \<open>F\<close> lacks the key.\<close>

definition gone_since :: "('dk, 'ka) cached_key \<Rightarrow> instant \<Rightarrow> ('cl, 'dk, 'ka) jwks_shared \<Rightarrow> bool" where
  "gone_since k F s \<longleftrightarrow>
     (case js_fetched_at s of None \<Rightarrow> True | Some f \<Rightarrow> f \<le> F \<or> \<not> holds_key k (js_keys s))"

lemma gone_since_simps [simp]:
  "gone_since k F (goto t p s) = gone_since k F s"
  "gone_since k F (s\<lparr>js_holder := h\<rparr>) = gone_since k F s"
  "gone_since k F (s\<lparr>js_log := l\<rparr>) = gone_since k F s"
  "gone_since k F (s\<lparr>js_now := n\<rparr>) = gone_since k F s"
  by (simp_all add: gone_since_def split: option.split)

lemma step_stores:
  "jwks_step N s s' \<Longrightarrow> jc_state (js_cache s') = jc_state (js_cache s) \<or> js_log s' = (Succeeded, js_now s) # js_log s"
  by (induction rule: jwks_step.induct) simp_all

lemma gone_since_step:
  assumes "step_without k N s s'" "gone_since k F s"
  shows "gone_since k F s'"
  using assms step_stores [of N s s'] by (auto simp: step_without_def gone_since_def split: option.splits)

text \<open>A fresh set, in either sense, is one that lacks the key.\<close>

lemma fresh_gone:
  assumes "gone_since k F s" "F + served_for s \<le> js_now s" "d \<le> served_for s"
    and "is_fresh (js_now s) (js_fetched_at s) d"
  shows "\<not> holds_key k (js_keys s)"
  using assms by (cases "js_fetched_at s") (auto simp: gone_since_def)

text \<open>What a task can be about to answer: the last lookup is done on a set that lacks the key.\<close>

definition task_without :: "('dk, 'ka) cached_key \<Rightarrow> nat \<Rightarrow> ('cl, 'dk, 'ka) jwks_shared \<Rightarrow> bool" where
  "task_without k t s \<longleftrightarrow>
     (case js_phase s t of
        Lookup want \<Rightarrow> \<not> holds_key k (js_keys s)
      | Done want r \<Rightarrow> r \<noteq> Ok k
      | _ \<Rightarrow> True)"

lemma task_without_simps [simp]:
  "task_without k t (s\<lparr>js_holder := h\<rparr>) = task_without k t s"
  "task_without k t (s\<lparr>js_log := l\<rparr>) = task_without k t s"
  "task_without k t (s\<lparr>js_now := n\<rparr>) = task_without k t s"
  "task_without k t (goto u p s) = (if u = t then
     (case p of Lookup want \<Rightarrow> \<not> holds_key k (js_keys s) | Done want r \<Rightarrow> r \<noteq> Ok k | _ \<Rightarrow> True)
     else task_without k t s)"
  by (simp_all add: task_without_def split: phase.split)

lemma task_without_store:
  "task_without k t s \<Longrightarrow> \<not> holds_key k keys \<Longrightarrow> task_without k t (store_keys keys s)"
  by (auto simp: task_without_def split: phase.splits)

definition withdrawn_inv ::
    "('dk, 'ka) cached_key \<Rightarrow> instant \<Rightarrow> duration \<Rightarrow> nat \<Rightarrow> ('cl, 'dk, 'ka) jwks_shared \<Rightarrow> bool" where
  "withdrawn_inv k F d t s \<longleftrightarrow>
     gone_since k F s \<and> F + d \<le> js_now s \<and> served_for s = d \<and> task_without k t s"

lemma withdrawn_inv_step:
  assumes "step_without k N s s'" "withdrawn_inv k F d t s"
  shows "withdrawn_inv k F d t s'"
proof -
  note inv = assms(2) [unfolded withdrawn_inv_def]
  have step: "jwks_step N s s'"
    and lacks: "js_log s' = (Succeeded, js_now s) # js_log s \<Longrightarrow> \<not> holds_key k (js_keys s')"
    using assms(1) by (simp_all add: step_without_def)
  have fresh: "\<not> holds_key k (js_keys s)"
    if "is_fresh (js_now s) (js_fetched_at s) (jc_ttl (js_cache s))
      \<or> is_fresh (js_now s) (js_fetched_at s) (jc_min_refresh_interval (js_cache s))"
    using that inv fresh_gone [of k F s "jc_ttl (js_cache s)"]
      fresh_gone [of k F s "jc_min_refresh_interval (js_cache s)"]
    by (auto simp: served_for_def)
  have "task_without k t s'"
    using step
  proof (cases rule: jwks_step.cases)
    case (hit u want c)
    with inv fresh not_found [of k "js_keys s" want] show ?thesis by auto
  next
    case (reuse u want)
    with inv fresh show ?thesis by auto
  next
    case (fetched u want keys)
    with inv lacks task_without_store [of k t s keys] show ?thesis by simp
  next
    case (look_up u want)
    have "\<not> holds_key k (js_keys s)" if "u = t"
      using that inv look_up by (simp add: task_without_def)
    then have "map_of (js_keys s) want \<noteq> Some k" if "u = t"
      using that by (intro not_found) simp
    then show ?thesis
      using inv unfolding look_up(1) by (simp add: ok_or_Ok_iff)
  next
    case (forced keys)
    with inv lacks task_without_store [of k t s keys] show ?thesis by simp
  qed (use inv in auto)
  moreover have "js_now s \<le> js_now s'" using log_step [OF step] by blast
  ultimately show ?thesis
    using gone_since_step [OF assms(1)] served_for_step [OF step] inv by (simp add: withdrawn_inv_def)
qed

lemma withdrawn_inv_reaches:
  "reaches_without k N s s' \<Longrightarrow> withdrawn_inv k F d t s \<Longrightarrow> withdrawn_inv k F d t s'"
  by (induction rule: rtranclp_induct) (auto intro: withdrawn_inv_step)

text \<open>In a reachable state nothing was stored later than now.\<close>

lemma gone_since_now:
  assumes "jwks_reaches N (jwks_initial c t0) s"
  shows "gone_since k (js_now s) s"
proof -
  have "js_fetched_at s = last_success (js_log s)"
    using reached_ok(1) [OF assms] by (simp add: shared_inv_def)
  moreover have "last_success l = Some f \<Longrightarrow> (Succeeded, f) \<in> set l" for l f
    by (induction l rule: last_success.induct) auto
  ultimately show ?thesis
    using reached_ok(2) [OF assms] by (force simp: gone_since_def log_ok_def split: option.split)
qed

lemma gone_since_reaches: "reaches_without k N s s' \<Longrightarrow> gone_since k F s \<Longrightarrow> gone_since k F s'"
  by (induction rule: rtranclp_induct) (auto intro: gone_since_step)

lemma without_served_for: "reaches_without k N s s' \<Longrightarrow> served_for s' = served_for s"
  by (induction rule: rtranclp_induct) (auto simp: step_without_def dest: served_for_step)

section \<open>Theorem\<close>

text \<open>
  C15. A withdrawn key dies with the set it was in: when no set stored from some state on contains the
  key, no call that starts once the lifetime of the cache and the minimum refresh interval have
  passed is answered with it, in any interleaving with other calls, forced refreshes, failures of
  the endpoint and dropped tasks.
\<close>

theorem withdrawn_key_dies:
  assumes "jwks_reaches N (jwks_initial c t0) s" "reaches_without k N s s1"
    and "js_now s + max (jc_ttl (js_cache s)) (jc_min_refresh_interval (js_cache s)) \<le> js_now s1"
    and "js_phase s1 t = Idle" "reaches_without k N s1 s2"
  shows "js_phase s2 t \<noteq> Done want (Ok k)"
proof -
  have "gone_since k (js_now s) s1"
    using assms(2) gone_since_now [OF assms(1)] by (rule gone_since_reaches)
  then have "withdrawn_inv k (js_now s) (served_for s) t s1"
    using assms(3,4) without_served_for [OF assms(2)]
    by (simp add: withdrawn_inv_def task_without_def served_for_def)
  with assms(5) have "withdrawn_inv k (js_now s) (served_for s) t s2"
    by (rule withdrawn_inv_reaches)
  then show ?thesis by (auto simp: withdrawn_inv_def task_without_def)
qed

text \<open>
  The witness: a key set with one key is stored, ten minutes pass, and a call for the key runs into
  an endpoint that fails.
\<close>

definition wit_key :: "(string, string) cached_key" where
  "wit_key = \<lparr>ck_key = ''p1'', ck_alg = Some ''RS256''\<rparr>"

definition wit_stored :: "(unit, string, string) jwks_shared" where
  "wit_stored = store_keys [(''k1'', wit_key)] wit_start"

definition wit_expired :: "(unit, string, string) jwks_shared" where
  "wit_expired = wit_stored\<lparr>js_now := 600000000000\<rparr>"

lemma step_withoutI:
  "jwks_step N s s' \<Longrightarrow> js_log s' \<noteq> (Succeeded, js_now s) # js_log s \<Longrightarrow> step_without k N s s'"
  by (simp add: step_without_def)

lemma wit_stored_reached: "jwks_reaches 2 wit_start wit_stored"
  unfolding wit_stored_def by (rule r_into_rtranclp, rule forced)

lemma wit_expires: "reaches_without wit_key 2 wit_stored wit_expired"
  unfolding wit_expired_def
  by (rule r_into_rtranclp, rule step_withoutI, rule tick) (simp_all add: wit_stored_def jwks_initial_def)

lemma wit_asks: "reaches_without wit_key 2 wit_expired (goto 0 (Waiting ''k1'') wit_expired)"
  by (rule r_into_rtranclp, rule step_withoutI, rule miss)
    (simp_all add: wit_expired_def wit_stored_def jwks_initial_def)

theorem withdrawn_key_dies_witness:
  "map_of (js_keys wit_expired) ''k1'' = Some wit_key
   \<and> js_phase (goto 0 (Waiting ''k1'') wit_expired) 0 \<noteq> Done ''k1'' (Ok wit_key)"
proof
  show "map_of (js_keys wit_expired) ''k1'' = Some wit_key"
    by (simp add: wit_expired_def wit_stored_def)
  have "js_now wit_stored + max (jc_ttl (js_cache wit_stored)) (jc_min_refresh_interval (js_cache wit_stored))
      \<le> js_now wit_expired"
    by (simp add: wit_expired_def wit_stored_def jwks_initial_def)
  moreover have "js_phase wit_expired 0 = Idle"
    by (simp add: wit_expired_def wit_stored_def jwks_initial_def)
  ultimately show "js_phase (goto 0 (Waiting ''k1'') wit_expired) 0 \<noteq> Done ''k1'' (Ok wit_key)"
    using withdrawn_key_dies [OF wit_stored_reached wit_expires _ _ wit_asks] by blast
qed

end
