(* ===== verification/Revocation_Lifetime.thy ===== *)
theory Revocation_Lifetime
  imports Token_Lifecycle
begin

section \<open>Is a revoked token rejected for ever?\<close>

text \<open>
  A revocation lasts as long as the lifetime of the store, counted by the monotonic clock; a token is
  good until its \<open>exp\<close>, plus the leeway, on the wall clock. Here the two clocks meet: \<open>utc t\<close> is the
  wall clock in whole seconds at the instant \<open>t\<close> of the monotonic clock, and \<open>L t\<close> the library as
  it behaves then. A store whose lifetime covers what is left of the token and the leeway makes a
  revocation final, and a shorter one does not.
\<close>

text \<open>While the monotonic clock runs for some whole seconds, so does the wall clock, at least.\<close>

definition keeps_pace :: "(instant \<Rightarrow> nat) \<Rightarrow> bool" where
  "keeps_pace utc \<longleftrightarrow> (\<forall>a b. a \<le> b \<longrightarrow> utc a + (b - a) div 1000000000 \<le> utc b)"

text \<open>The library at every instant: what it accepts passes the validation then, and has the id \<open>j\<close>.\<close>

definition library_over_time ::
    "(instant \<Rightarrow> ('ek, 'dk, 'dt standard_claims) jwt_lib) \<Rightarrow> (instant \<Rightarrow> nat) \<Rightarrow> (string \<Rightarrow> token_facts)
      \<Rightarrow> string \<Rightarrow> string \<Rightarrow> bool" where
  "library_over_time L utc facts token j \<longleftrightarrow>
     (\<forall>t. constructors_documented (L t) \<and> decode_enforces (L t) (utc t) facts)
   \<and> (\<forall>t k v c. lib_decode (L t) token k v = Ok c \<longrightarrow> jti c = Some j)"

section \<open>Lemmas\<close>

text \<open>An accepted token meets the policy and has its id.\<close>

lemma accepted_in_time:
  assumes "library_over_time L utc facts token j" "validate (L t) cfg token = Ok c"
  shows "meets_policy cfg (utc t) (facts token)" "jti c = Some j"
proof -
  from assms(2) obtain k where k: "lib_decode (L t) token k (build_validation (L t) cfg) = Ok c"
    by (auto simp: validate_def decode_def elim: decode_with_rotation_Ok)
  then have "passes (utc t) (build_validation (L t) cfg) (facts token)"
    using assms(1) by (auto simp: library_over_time_def dest: decode_enforcesD)
  then show "meets_policy cfg (utc t) (facts token)"
    using assms(1) passes_build_validation [of "L t"] by (auto simp: library_over_time_def)
  show "jti c = Some j" using assms(1) k by (auto simp: library_over_time_def)
qed

text \<open>
  A revocation keeps its place while less than \<open>m\<close> others follow and none of the sweeps comes after
  its lifetime: what is behind it in the queue came after it.
\<close>

lemma keeps_place:
  assumes "\<And>r. r \<in> set later \<Longrightarrow> alive d t2 (fst r)" "length later < m"
  shows "\<exists>before behind. queue_after m d (rs @ (t1, t2, j) # later) = before @ (j, t2) # behind
    \<and> length behind \<le> length later"
  using assms
proof (induction later rule: rev_induct)
  case Nil
  then show ?case using queue_after_snoc(2) [of m d rs "(t1, t2, j)"]
    by (auto simp: queue_revoke_def Let_def)
next
  case (snoc r later)
  obtain s1 s2 k where r: "r = (s1, s2, k)" by (cases r)
  obtain ahead behind where q: "queue_after m d (rs @ (t1, t2, j) # later) = ahead @ (j, t2) # behind"
      "length behind \<le> length later"
    using snoc by auto
  let ?live = "filter (\<lambda>e. alive d (snd e) s1)"
  have "alive d t2 s1" using snoc.prems(1) [of r] r by simp
  then have live: "?live (ahead @ (j, t2) # behind) = ?live ahead @ (j, t2) # ?live behind" by simp
  have few: "length (?live behind) \<le> length later"
    using q(2) length_filter_le [of _ behind] by (rule order.trans [rotated])
  have "queue_after m d ((rs @ (t1, t2, j) # later) @ [r]) =
      drop (Suc (length (?live ahead @ (j, t2) # ?live behind)) - m) (?live ahead @ (j, t2) # ?live behind) @ [(k, s2)]"
    unfolding queue_after_snoc(2) q(1) by (simp only: r queue_revoke_def Let_def prod.case live)
  moreover have "Suc (length (?live ahead @ (j, t2) # ?live behind)) - m \<le> length (?live ahead)"
    using few snoc.prems(2) by simp
  ultimately show ?case
    using few
    by (intro exI [of _ "drop (Suc (length (?live ahead @ (j, t2) # ?live behind)) - m) (?live ahead)"]
        exI [of _ "?live behind @ [(k, s2)]"]) simp
qed

lemma represented_lookup: "represents i q \<Longrightarrow> (j, t) \<in> set q \<Longrightarrow> map_of (entries i) j = Some t"
  by (simp add: represents_def map_of_is_SomeI)

lemma still_revoked:
  assumes "distinct (revoked_ids (rs @ (t1, t2, j) # later))" "length later < max m 1"
    and "\<And>r. r \<in> set later \<Longrightarrow> fst r \<le> t" "alive d t2 t"
  shows "store_is_revoked t j (after (rs @ (t1, t2, j) # later) (with_limits m d)) = Ok True"
proof -
  let ?rs = "rs @ (t1, t2, j) # later"
  have "alive d t2 (fst r)" if "r \<in> set later" for r
    using alive_mono [OF assms(4) assms(3) [OF that]] .
  then obtain before behind where q: "queue_after (max m 1) d ?rs = before @ (j, t2) # behind"
    using keeps_place [of later d t2 "max m 1" rs t1 j] assms(2) by blast
  have "(j, t2) \<in> set (queue_after (max m 1) d ?rs)" unfolding q by simp
  with represents_after [OF assms(1)]
  have "map_of (entries (inner (after ?rs (with_limits m d)))) j = Some t2"
    by (rule represented_lookup)
  with assms(4) show ?thesis by (simp add: store_is_revoked_alive del: after_simps)
qed

section \<open>Theorems\<close>




text \<open>
  C4. Revocation is final when the lifetime of the store reaches past the \<open>exp\<close> of the token and the
  leeway, \<open>exp\<close> is checked, all ids are distinct and less than \<open>max_entries\<close> others are revoked after
  it: then the revoked token is rejected at every later time, as \<open>Revoked\<close> as long as \<open>validate\<close> would
  still accept it and with the error of \<open>validate\<close> otherwise, which accepts nothing any more once
  \<open>exp\<close> and the leeway are over.
\<close>

theorem revocation_is_final:
  assumes "library_over_time L utc facts token j" "keeps_pace utc"
    and "validate_exp cfg" "tf_exp (facts token) = Some e"
    and "case d of None \<Rightarrow> True
      | Some lifetime \<Rightarrow> e + unat (unwrap_or 60 (leeway cfg)) < utc t2 + lifetime div 1000000000"
    and "distinct (revoked_ids (rs @ (t1, t2, j) # later))" "length later < max m 1"
    and "\<And>r. r \<in> set later \<Longrightarrow> fst r \<le> t" "t2 \<le> t"
  shows "fst (decode_standard (L t) (with_revocation (mem_ops a b t) (service_new cfg)) token
      (after (rs @ (t1, t2, j) # later) (with_limits m d)))
      = (case validate (L t) cfg token of Inl err \<Rightarrow> Err err | Inr _ \<Rightarrow> Err Revoked)
    \<and> (e + unat (unwrap_or 60 (leeway cfg)) < utc t \<longrightarrow> \<not> is_ok (validate (L t) cfg token))"
proof (cases "validate (L t) cfg token")
  case (Inl err)
  then show ?thesis by (simp add: decode_standard_def validate_def)
next
  case (Inr c)
  note accepted = accepted_in_time [OF assms(1) Inr]
  have in_time: "utc t \<le> e + unat (unwrap_or 60 (leeway cfg))"
    using accepted(1) assms(3,4) by (simp add: meets_policy_def)
  have "alive d t2 t"
  proof (cases d)
    case (Some lifetime)
    note in_time
    also have "e + unat (unwrap_or 60 (leeway cfg)) < utc t2 + lifetime div 1000000000" using assms(5) Some by simp
    finally have "utc t < utc t2 + lifetime div 1000000000" .
    moreover have "utc t2 + (t - t2) div 1000000000 \<le> utc t"
      using assms(2,9) by (simp add: keeps_pace_def)
    ultimately have "(t - t2) div 1000000000 < lifetime div 1000000000" by linarith
    then have "t - t2 < lifetime" by (metis div_le_mono linorder_not_le)
    with Some show ?thesis by simp
  qed simp
  with assms(6-8) have "store_is_revoked t j (after (rs @ (t1, t2, j) # later) (with_limits m d)) = Ok True"
    by (rule still_revoked)
  with Inr accepted(2) in_time show ?thesis
    by (simp add: decode_standard_def validate_def del: after_simps)
qed

text \<open>
  A lifetime of the store that only covers the token's own is too short, because a token is good
  for the leeway after its \<open>exp\<close>: once the revocation has run out, a token that is still valid is
  accepted again, although it was revoked.
\<close>

theorem short_revocation_revives:
  assumes "validate L cfg token = Ok c" "jti c = Some j"
    and "distinct (revoked_ids (rs @ [(t1, t2, j)]))" "\<not> alive d t2 t"
  shows "fst (decode_standard L (with_revocation (mem_ops a b t) (service_new cfg)) token
    (after (rs @ [(t1, t2, j)]) (with_limits m d))) = Ok c"
proof -
  have "(j, t2) \<in> set (queue_after (max m 1) d (rs @ [(t1, t2, j)]))"
    by (simp add: queue_revoke_def Let_def)
  with represents_after [OF assms(3)]
  have "map_of (entries (inner (after (rs @ [(t1, t2, j)]) (with_limits m d)))) j = Some t2"
    by (rule represented_lookup)
  with assms(1,2,4) show ?thesis
    by (simp add: decode_standard_def validate_def store_is_revoked_alive del: after_simps)
qed

subsection \<open>A library over time for the witnesses\<close>

text \<open>
  The token of \<open>Token_Lifecycle\<close>, with \<open>exp\<close> at 3605 seconds and a leeway of 60, on a wall clock that
  shows the whole seconds of the monotonic one.
\<close>

definition whole_seconds :: "instant \<Rightarrow> nat" where
  "whole_seconds t = t div 1000000000"

definition life_lib_at :: "instant \<Rightarrow> (bytes, bytes, int standard_claims) jwt_lib" where
  "life_lib_at t = life_lib\<lparr>lib_decode := (\<lambda>tok k v.
     if tok = ''tok'' \<and> k = as_bytes ''k'' \<and> passes (whole_seconds t) v life_facts
     then Ok life_stamped else Err ''invalid'')\<rparr>"

lemma life_lib_over_time: "library_over_time life_lib_at whole_seconds (\<lambda>_. life_facts) ''tok'' ''id''"
  using life_documented
  by (auto simp: library_over_time_def life_lib_at_def constructors_documented_def decode_enforces_def
      life_jti split: if_splits)

lemma whole_seconds_pace: "keeps_pace whole_seconds"
  unfolding keeps_pace_def whole_seconds_def
proof (intro allI impI)
  fix a b :: nat assume "a \<le> b"
  have "a div 1000000000 + (b - a) div 1000000000 \<le> (a + (b - a)) div 1000000000"
    unfolding div_add1_eq [of a "b - a"] by simp
  with \<open>a \<le> b\<close> show "a div 1000000000 + (b - a) div 1000000000 \<le> b div 1000000000" by simp
qed

lemma life_accepted_until:
  assumes "whole_seconds t \<le> 3665"
  shows "validate (life_lib_at t) life_config ''tok'' = Ok life_stamped"
proof -
  have "meets_policy life_config (whole_seconds t) life_facts"
    using assms by (simp add: meets_policy_def life_config_def life_facts_def)
  moreover have "constructors_documented (life_lib_at t)"
    using life_lib_over_time by (simp add: library_over_time_def)
  ultimately have "passes (whole_seconds t) (build_validation (life_lib_at t) life_config) life_facts"
    using passes_build_validation by blast
  moreover have "decoding_keys (life_lib_at t) life_config = Ok [(None, as_bytes ''k'')]"
    by (simp add: hmac_candidates life_config_def) (simp add: life_lib_at_def life_lib_def table_lib_def)
  ultimately have "decode (life_lib_at t) life_config ''tok'' = Ok life_stamped"
    by (intro decode_primary)
      (auto simp: token_kid_def decoding_key_def decoding_key_for_family life_lib_at_def life_lib_def
        table_lib_def life_config_def)
  then show ?thesis by (simp add: validate_def)
qed

theorem revocation_is_final_witness:
  "fst (decode_standard (life_lib_at 3650000000000)
      (with_revocation (mem_ops 0 0 3650000000000) (service_new life_config)) ''tok''
      (after ([(1, 1, ''x'')] @ (6000000000, 6000000000, ''id'') # [(7000000000, 7000000000, ''y'')])
        (with_limits 2 (Some (from_secs 3700))))) = Err Revoked
   \<and> \<not> is_ok (validate (life_lib_at 3666000000000) life_config ''tok'')"
proof -
  let ?store = "after ([(1, 1, ''x'')] @ (6000000000, 6000000000, ''id'') # [(7000000000, 7000000000, ''y'')])
    (with_limits 2 (Some (from_secs 3700)))"
  have "whole_seconds 3650000000000 \<le> 3665" by (simp add: whole_seconds_def)
  note valid = life_accepted_until [OF this]
  have final: "fst (decode_standard (life_lib_at t) (with_revocation (mem_ops 0 0 t) (service_new life_config)) ''tok'' ?store)
      = (case validate (life_lib_at t) life_config ''tok'' of Inl err \<Rightarrow> Err err | Inr _ \<Rightarrow> Err Revoked)
    \<and> (3605 + unat (unwrap_or 60 (leeway life_config)) < whole_seconds t \<longrightarrow>
        \<not> is_ok (validate (life_lib_at t) life_config ''tok''))" if "7000000000 \<le> t" for t
    by (rule revocation_is_final [where ?t2.0 = 6000000000, OF life_lib_over_time whole_seconds_pace])
      (use that in \<open>auto simp: life_config_def life_facts_def whole_seconds_def from_secs_def\<close>)
  from final [of 3650000000000] final [of 3666000000000] valid show ?thesis
    by (simp add: life_config_def whole_seconds_def del: after_simps)
qed

text \<open>A store with the lifetime of the access tokens, 3600 seconds: the same token, revoked at once.\<close>

theorem short_revocation_revives_witness:
  "fst (decode_standard (life_lib_at 3650000000000)
      (with_revocation (mem_ops 0 0 3650000000000) (service_new life_config)) ''tok''
      (after ([(1, 1, ''x'')] @ [(6000000000, 6000000000, ''id'')])
        (with_limits 2 (Some (from_secs 3600))))) = Ok life_stamped"
proof -
  have "whole_seconds 3650000000000 \<le> 3665" by (simp add: whole_seconds_def)
  then have "validate (life_lib_at 3650000000000) life_config ''tok'' = Ok life_stamped"
    by (rule life_accepted_until)
  then show ?thesis
    by (rule short_revocation_revives [OF _ life_jti]) (simp_all add: from_secs_def)
qed

end
