(* ===== verification/Refresh_Tokens.thy ===== *)
theory Refresh_Tokens
  imports Token_Lifecycle
begin

section \<open>Refresh tokens (src/service.rs)\<close>

text \<open>
  A refresh token differs from an access token in its expiry only: no claim and no header says what it
  is for. Decoding reads neither of the two lifetimes of the configuration.
\<close>

definition with_lifetimes :: "i64 \<Rightarrow> i64 \<Rightarrow> jwt_config \<Rightarrow> jwt_config" where
  "with_lifetimes access refresh cfg = cfg\<lparr>access_token_ttl := access, refresh_token_ttl := refresh\<rparr>"

lemma with_lifetimes_simps [simp]:
  "algorithm (with_lifetimes a r cfg) = algorithm cfg"
  "secret (with_lifetimes a r cfg) = secret cfg"
  "der_private_key (with_lifetimes a r cfg) = der_private_key cfg"
  "public_key (with_lifetimes a r cfg) = public_key cfg"
  "der_public_key (with_lifetimes a r cfg) = der_public_key cfg"
  "issuer (with_lifetimes a r cfg) = issuer cfg"
  "audience (with_lifetimes a r cfg) = audience cfg"
  "audiences (with_lifetimes a r cfg) = audiences cfg"
  "leeway (with_lifetimes a r cfg) = leeway cfg"
  "required_claims (with_lifetimes a r cfg) = required_claims cfg"
  "validate_exp (with_lifetimes a r cfg) = validate_exp cfg"
  "validate_nbf (with_lifetimes a r cfg) = validate_nbf cfg"
  "key_id (with_lifetimes a r cfg) = key_id cfg"
  "rotation_keys (with_lifetimes a r cfg) = rotation_keys cfg"
  "access_token_ttl (with_lifetimes a r cfg) = a"
  "refresh_token_ttl (with_lifetimes a r cfg) = r"
  by (simp_all add: with_lifetimes_def)

lemma lifetimes_encode: "encode L (with_lifetimes a r cfg) = encode L cfg"
  by (rule ext) (simp add: encode_def encoding_key_def)

lemma lifetimes_candidates: "push_rotation_keys L (with_lifetimes a r cfg) keys es = push_rotation_keys L cfg keys es"
  by (induction es arbitrary: keys) (simp_all add: rotation_entry_key_def)

lemma lifetimes_keys: "decoding_keys L (with_lifetimes a r cfg) = decoding_keys L cfg"
  by (simp add: decoding_keys_def lifetimes_candidates)

lemma lifetimes_audiences: "merged_audiences (with_lifetimes a r cfg) = merged_audiences cfg"
  by (simp add: merged_audiences_def split: option.split)

lemma lifetimes_validation: "build_validation L (with_lifetimes a r cfg) = build_validation L cfg"
  by (cases "issuer cfg") (simp_all add: build_validation_def lifetimes_audiences)

lemma lifetimes_decode: "decode L (with_lifetimes a r cfg) = decode L cfg"
  by (rule ext) (simp only: decode_def decode_with_rotation_def lifetimes_keys lifetimes_validation)

lemma lifetimes_stamp: "stamped_standard C now uuid (with_lifetimes a r cfg) = stamped_standard C now uuid cfg"
  by (intro ext) (simp add: stamped_standard_def lifetimes_audiences Let_def cong: if_cong split: option.split)

text \<open>
  Refresh tokens are access tokens: minting one is minting an access token under a configuration
  whose access lifetime is the refresh lifetime, and no decoder can tell, because decoding,
  with and without the revocation check, is the same under any two lifetimes. So every refresh
  token is accepted wherever an access token is, for its longer life.
\<close>

theorem refresh_tokens_are_access_tokens:
  "encode_refresh_standard L C now uuid cfg claims =
     encode_standard L C now uuid (with_lifetimes (refresh_token_ttl cfg) r cfg) claims
   \<and> decode L (with_lifetimes a r cfg) = decode L cfg
   \<and> decode_standard L (svc\<lparr>config := with_lifetimes a r (config svc)\<rparr>) token s = decode_standard L svc token s"
  by (cases svc)
    (simp add: encode_refresh_standard_def encode_standard_def lifetimes_encode lifetimes_stamp
      lifetimes_decode decode_standard_def split: sum.split option.split)

end
