(* ===== verification/Extractors.thy ===== *)
theory Extractors
  imports Token_Prelude
begin

section \<open>Reading the header and writing the cookie (src/extractors.rs)\<close>

text \<open>
  \<open>extract_bearer_token\<close> and \<open>build_auth_cookie\<close> with what they use of the standard library:
  \<open>strip_prefix\<close>, \<open>trim\<close>, \<open>filter\<close>, \<open>format!\<close> and the \<open>Display\<close> of \<open>i64\<close>. A string is its UTF-8
  bytes, so \<open>trim\<close> strips the encodings of the characters with the Unicode property \<open>White_Space\<close>.
\<close>

subsection \<open>White space\<close>

definition bytes_char :: "nat list \<Rightarrow> string" where
  "bytes_char bs = map char_of bs"

text \<open>The encodings of U+0009 to U+000D, U+0020, U+0085, U+00A0, U+1680, U+2000 to U+200A, U+2028,
  U+2029, U+202F, U+205F and U+3000.\<close>

definition white_space_bytes :: "nat list list" where
  "white_space_bytes =
     [[9], [10], [11], [12], [13], [32], [194, 133], [194, 160], [225, 154, 128],
      [226, 128, 128], [226, 128, 129], [226, 128, 130], [226, 128, 131], [226, 128, 132],
      [226, 128, 133], [226, 128, 134], [226, 128, 135], [226, 128, 136], [226, 128, 137],
      [226, 128, 138], [226, 128, 168], [226, 128, 169], [226, 128, 175], [226, 129, 159],
      [227, 128, 128]]"

definition white_space :: "string list" where
  "white_space = map bytes_char white_space_bytes"

text \<open>Strip strings of \<open>ws\<close> from the front as long as one is there.\<close>

function strip_front :: "string list \<Rightarrow> string \<Rightarrow> string" where
  "strip_front ws s =
     (case find (\<lambda>w. w \<noteq> [] \<and> prefix w s) ws of
        None \<Rightarrow> s
      | Some w \<Rightarrow> strip_front ws (drop (length w) s))"
  by pat_completeness auto

termination
proof (relation "measure (length \<circ> snd)", goal_cases)
  case 1
  then show ?case by simp
next
  case (2 ws s w)
  then have "w \<noteq> []" "prefix w s" by (auto dest: find_SomeD)
  then show ?case by (auto simp: prefix_def)
qed

declare strip_front.simps [simp del]

definition trim_start :: "string \<Rightarrow> string" where
  "trim_start s = strip_front white_space s"

definition trim_end :: "string \<Rightarrow> string" where
  "trim_end s = rev (strip_front (map rev white_space) (rev s))"

definition trim :: "string \<Rightarrow> string" where
  "trim s = trim_end (trim_start s)"

subsection \<open>The bearer token\<close>

definition strip_prefix :: "string \<Rightarrow> string \<Rightarrow> string option" where
  "strip_prefix p s = (if prefix p s then Some (drop (length p) s) else None)"

definition extract_bearer_token :: "string \<Rightarrow> string option" where
  "extract_bearer_token authorization =
     (case map_option trim (strip_prefix ''Bearer '' authorization) of
        Some t \<Rightarrow> if t \<noteq> [] then Some t else None
      | None \<Rightarrow> None)"

subsection \<open>The cookie\<close>

definition digit :: "nat \<Rightarrow> char" where
  "digit n = char_of (48 + n)"

fun show_nat :: "nat \<Rightarrow> string" where
  "show_nat n = (if n < 10 then [digit n] else show_nat (n div 10) @ [digit (n mod 10)])"

declare show_nat.simps [simp del]

definition show_i64 :: "i64 \<Rightarrow> string" where
  "show_i64 n = (if sint n < 0 then ''-'' @ show_nat (nat (- sint n)) else show_nat (nat (sint n)))"

definition build_auth_cookie :: "string \<Rightarrow> string \<Rightarrow> i64 \<Rightarrow> bool \<Rightarrow> string" where
  "build_auth_cookie name v max_age_secs sec =
     (let cookie = name @ ''='' @ v @ ''; Max-Age='' @ show_i64 max_age_secs
            @ ''; Path=/; HttpOnly; SameSite=Strict''
      in if sec then cookie @ ''; Secure'' else cookie)"

section \<open>Lemmas\<close>

subsection \<open>Stripping\<close>

lemma strip_front_splits: "\<exists>u. s = concat u @ strip_front ws s \<and> set u \<subseteq> set ws"
proof (induction ws s rule: strip_front.induct)
  case (1 ws s)
  show ?case
  proof (cases "find (\<lambda>w. w \<noteq> [] \<and> prefix w s) ws")
    case None
    then have "strip_front ws s = s" by (subst strip_front.simps) simp
    then show ?thesis by (intro exI [of _ "[]"]) simp
  next
    case (Some w)
    then have w: "w \<in> set ws" "prefix w s" by (auto dest: find_SomeD)
    from "1.IH" [OF Some] obtain u where
      u: "drop (length w) s = concat u @ strip_front ws (drop (length w) s)" "set u \<subseteq> set ws"
      by blast
    have "s = w @ drop (length w) s" using w(2) by (auto simp: prefix_def)
    then have "s = concat (w # u) @ strip_front ws s"
      using u(1) Some by (subst strip_front.simps) simp
    then show ?thesis using u(2) w(1) by (intro exI [of _ "w # u"]) auto
  qed
qed

definition no_front :: "string list \<Rightarrow> string \<Rightarrow> bool" where
  "no_front ws s \<longleftrightarrow> (\<forall>w \<in> set ws. w \<noteq> [] \<longrightarrow> \<not> prefix w s)"

lemma strip_front_none: "no_front ws s \<Longrightarrow> strip_front ws s = s"
proof -
  assume "no_front ws s"
  then have "find (\<lambda>w. w \<noteq> [] \<and> prefix w s) ws = None" by (auto simp: find_None_iff no_front_def)
  then show ?thesis by (subst strip_front.simps) simp
qed

lemma no_front_strip: "no_front ws (strip_front ws s)"
proof (induction ws s rule: strip_front.induct)
  case (1 ws s)
  show ?case
  proof (cases "find (\<lambda>w. w \<noteq> [] \<and> prefix w s) ws")
    case None
    then have "no_front ws s" by (auto simp: find_None_iff no_front_def)
    then show ?thesis by (simp add: strip_front_none)
  next
    case (Some w)
    then have "strip_front ws s = strip_front ws (drop (length w) s)"
      by (subst strip_front.simps) simp
    with "1.IH" [OF Some] show ?thesis by simp
  qed
qed

lemma find_unique:
  assumes "w \<in> set ws" "P w" "\<And>a. a \<in> set ws \<Longrightarrow> P a \<Longrightarrow> a = w"
  shows "find P ws = Some w"
proof (cases "find P ws")
  case None
  with assms(1,2) show ?thesis by (simp add: find_None_iff)
next
  case (Some v)
  with assms(3) show ?thesis by (auto dest: find_SomeD)
qed

text \<open>No string of \<open>ws\<close> is a prefix of another, so that what is stripped is determined.\<close>

definition prefix_free :: "string list \<Rightarrow> bool" where
  "prefix_free ws \<longleftrightarrow> (\<forall>a \<in> set ws. \<forall>b \<in> set ws. prefix a b \<longrightarrow> a = b) \<and> [] \<notin> set ws"

lemma strip_front_concat:
  assumes "prefix_free ws" "set u \<subseteq> set ws"
  shows "strip_front ws (concat u @ s) = strip_front ws s"
  using assms(2)
proof (induction u)
  case Nil
  then show ?case by simp
next
  case (Cons w u)
  then have w: "w \<in> set ws" "w \<noteq> []" using assms(1) by (auto simp: prefix_free_def)
  let ?s = "w @ concat u @ s"
  have "a = w" if "a \<in> set ws" "prefix a ?s" for a
    using assms(1) w that prefix_same_cases [of a ?s w] by (auto simp: prefix_free_def)
  then have "find (\<lambda>a. a \<noteq> [] \<and> prefix a ?s) ws = Some w"
    using w by (intro find_unique) auto
  then have "strip_front ws ?s = strip_front ws (concat u @ s)"
    by (subst strip_front.simps) simp
  then show ?case using Cons by simp
qed

text \<open>
  The table: no encoding is a prefix or a suffix of another, and the bytes after the first of an
  encoding never begin one, so that an encoding is never found across the end of a string.
\<close>

lemma white_space_prefix_free: "prefix_free white_space"
  by code_simp

lemma white_space_suffix_free: "prefix_free (map rev white_space)"
  by code_simp

lemma white_space_synchronizing: "\<forall>w \<in> set white_space. \<forall>b \<in> set (tl w). b \<notin> hd ` set white_space"
  by code_simp

text \<open>Nothing to trim on either side.\<close>

definition trimmed :: "string \<Rightarrow> bool" where
  "trimmed t \<longleftrightarrow> no_front white_space t \<and> no_front (map rev white_space) (rev t)"

lemma trim_end_splits: "\<exists>v. s = trim_end s @ concat v \<and> set v \<subseteq> set white_space"
proof -
  obtain u where u: "rev s = concat u @ strip_front (map rev white_space) (rev s)"
    "set u \<subseteq> set (map rev white_space)"
    using strip_front_splits by blast
  from u(1) have "s = trim_end s @ rev (concat u)"
    unfolding trim_end_def by (metis rev_append rev_rev_ident)
  moreover have "rev (concat u) = concat (map rev (rev u))" by (rule rev_concat)
  moreover have "set (map rev (rev u)) \<subseteq> set white_space" using u(2) by auto
  ultimately show ?thesis by metis
qed

lemma trim_splits:
  "\<exists>u v. s = concat u @ trim s @ concat v \<and> set u \<subseteq> set white_space \<and> set v \<subseteq> set white_space"
proof -
  obtain u where u: "s = concat u @ trim_start s" "set u \<subseteq> set white_space"
    using strip_front_splits unfolding trim_start_def by blast
  obtain v where v: "trim_start s = trim s @ concat v" "set v \<subseteq> set white_space"
    using trim_end_splits [of "trim_start s"] unfolding trim_def by blast
  from u v show ?thesis by (intro exI [of _ u] exI [of _ v]) metis
qed

lemma trim_trimmed: "trimmed (trim s)"
proof -
  obtain v where v: "trim_start s = trim s @ concat v"
    using trim_end_splits [of "trim_start s"] unfolding trim_def by blast
  have "no_front white_space (trim_start s)" unfolding trim_start_def by (rule no_front_strip)
  then have "no_front white_space (trim s)"
    unfolding no_front_def v by (auto dest: prefix_prefix)
  moreover have "no_front (map rev white_space) (rev (trim s))"
    unfolding trim_def trim_end_def rev_rev_ident by (rule no_front_strip)
  ultimately show ?thesis by (simp add: trimmed_def)
qed

lemma no_front_append_white:
  assumes "no_front white_space t" "t \<noteq> []" "set v \<subseteq> set white_space"
  shows "no_front white_space (t @ concat v)"
  unfolding no_front_def
proof (intro ballI impI notI)
  fix w assume w: "w \<in> set white_space" "w \<noteq> []" "prefix w (t @ concat v)"
  then have "\<not> prefix w t" using assms(1) by (auto simp: no_front_def)
  with w(3) obtain r where r: "w = t @ r" "prefix r (concat v)" by (auto simp: prefix_append)
  with \<open>\<not> prefix w t\<close> have "r \<noteq> []" by auto
  obtain z where z: "concat v = r @ z" using r(2) by (auto simp: prefix_def)
  then have hdr: "hd r = hd (concat v)" "v \<noteq> []" using \<open>r \<noteq> []\<close> by auto
  have "[] \<notin> set v" using assms(3) white_space_prefix_free by (auto simp: prefix_free_def)
  then have "hd (concat v) \<in> hd ` set white_space"
    using hdr(2) assms(3) by (cases v) auto
  moreover have "hd r \<in> set (tl w)" using r(1) assms(2) \<open>r \<noteq> []\<close> by (cases t) auto
  ultimately show False using white_space_synchronizing w(1) hdr(1) by metis
qed

lemma trim_white:
  assumes "trimmed t" "t \<noteq> []" "set u \<subseteq> set white_space" "set v \<subseteq> set white_space"
  shows "trim (concat u @ t @ concat v) = t"
proof -
  have "trim_start (concat u @ t @ concat v) = t @ concat v"
    using assms no_front_append_white unfolding trim_start_def trimmed_def
    by (simp add: strip_front_concat [OF white_space_prefix_free] strip_front_none)
  moreover have "set (map rev (rev v)) \<subseteq> set (map rev white_space)" using assms(4) by auto
  then have "strip_front (map rev white_space) (concat (map rev (rev v)) @ rev t) = rev t"
    using assms(1) unfolding trimmed_def
    by (simp only: strip_front_concat [OF white_space_suffix_free] strip_front_none)
  ultimately show ?thesis by (simp add: trim_def trim_end_def rev_concat)
qed

subsection \<open>Decimal numbers and attributes\<close>

text \<open>A user agent's reading of a cookie: its parts between semicolons, and the number in one.\<close>

fun split_on :: "char \<Rightarrow> string \<Rightarrow> string list" where
  "split_on d [] = [[]]"
| "split_on d (c # s) =
     (if c = d then [] # split_on d s
      else (case split_on d s of p # ps \<Rightarrow> (c # p) # ps | [] \<Rightarrow> [[c]]))"

definition read_nat :: "string \<Rightarrow> nat" where
  "read_nat s = foldl (\<lambda>a c. 10 * a + (of_char c - 48)) 0 s"

definition read_int :: "string \<Rightarrow> int" where
  "read_int s = (case s of c # r \<Rightarrow> if c = CHR ''-'' then - int (read_nat r) else int (read_nat s) | [] \<Rightarrow> 0)"

lemma split_on_nonempty: "split_on d s \<noteq> []"
  by (cases s) (auto split: list.split)

lemma split_on_none: "d \<notin> set s \<Longrightarrow> split_on d s = [s]"
  by (induction s) auto

lemma split_on_append: "split_on d (s @ d # r) = split_on d s @ split_on d r"
  by (induction s) (auto split: list.splits simp: split_on_nonempty)

lemma of_char_digit: "n < 10 \<Longrightarrow> of_char (digit n) = 48 + n"
  by (simp add: digit_def)

lemma digit_neq: "n < 10 \<Longrightarrow> digit n \<noteq> CHR '';'' \<and> digit n \<noteq> CHR ''-''"
  using of_char_digit [of n] by auto

lemma read_show_nat: "read_nat (show_nat n) = n"
proof (induction n rule: show_nat.induct)
  case (1 n)
  show ?case
  proof (cases "n < 10")
    case True
    then show ?thesis by (subst show_nat.simps) (simp add: read_nat_def of_char_digit)
  next
    case False
    then have "show_nat n = show_nat (n div 10) @ [digit (n mod 10)]" by (subst show_nat.simps) simp
    moreover have "read_nat (show_nat (n div 10)) = n div 10" using "1.IH" False by simp
    ultimately show ?thesis by (simp add: read_nat_def of_char_digit)
  qed
qed

lemma show_nat_chars: "show_nat n \<noteq> [] \<and> CHR '';'' \<notin> set (show_nat n) \<and> CHR ''-'' \<notin> set (show_nat n)"
proof (induction n rule: show_nat.induct)
  case (1 n)
  show ?case
  proof (cases "n < 10")
    case True
    then have "show_nat n = [digit n]" by (subst show_nat.simps) simp
    then show ?thesis using digit_neq [of n] True by auto
  next
    case False
    then have "show_nat n = show_nat (n div 10) @ [digit (n mod 10)]" by (subst show_nat.simps) simp
    then show ?thesis using "1.IH" False digit_neq [of "n mod 10"] by auto
  qed
qed

lemma read_show_i64: "read_int (show_i64 n) = sint n"
proof (cases "sint n < 0")
  case True
  then show ?thesis by (simp add: show_i64_def read_int_def read_show_nat)
next
  case False
  obtain c r where c: "show_nat (nat (sint n)) = c # r" using show_nat_chars by (metis neq_Nil_conv)
  then have "c \<noteq> CHR ''-''" using show_nat_chars [of "nat (sint n)"] by auto
  with False c read_show_nat [of "nat (sint n)"] show ?thesis
    by (simp add: show_i64_def read_int_def)
qed

lemma show_i64_no_semicolon: "CHR '';'' \<notin> set (show_i64 n)"
  using show_nat_chars by (simp add: show_i64_def)

lemma split_on_part: "d \<notin> set s \<Longrightarrow> split_on d (s @ d # r) = s # split_on d r"
  by (simp add: split_on_append split_on_none)

text \<open>The cookie as its parts.\<close>

lemma cookie_parts:
  "build_auth_cookie name v age sec = (name @ ''='' @ v) @ CHR '';'' # ('' Max-Age='' @ show_i64 age)
     @ CHR '';'' # '' Path=/'' @ CHR '';'' # '' HttpOnly'' @ CHR '';'' # '' SameSite=Strict''
     @ (if sec then CHR '';'' # '' Secure'' else [])"
  by (simp add: build_auth_cookie_def Let_def)

lemma fixed_parts:
  "split_on CHR '';'' (('' Max-Age='' @ show_i64 age) @ CHR '';'' # '' Path=/'' @ CHR '';'' # '' HttpOnly''
      @ CHR '';'' # '' SameSite=Strict'' @ (if sec then CHR '';'' # '' Secure'' else [])) =
     ['' Max-Age='' @ show_i64 age, '' Path=/'', '' HttpOnly'', '' SameSite=Strict'']
     @ (if sec then ['' Secure''] else [])"
  by (subst split_on_part) (simp_all add: show_i64_no_semicolon)

section \<open>Properties\<close>

text \<open>
  C26. \<open>extract_bearer_token\<close> returns exactly the token of a header of the form \<open>Bearer\<close>, a space,
  and the token between any amounts of white space: the token is not empty and has no white space
  at its ends; every other header gives nothing.
\<close>

theorem bearer_token_iff:
  "extract_bearer_token authorization = Some t \<longleftrightarrow>
     t \<noteq> [] \<and> trimmed t
   \<and> (\<exists>u v. authorization = ''Bearer '' @ concat u @ t @ concat v
        \<and> set u \<subseteq> set white_space \<and> set v \<subseteq> set white_space)"
proof
  assume "extract_bearer_token authorization = Some t"
  then obtain s where s: "authorization = ''Bearer '' @ s" "t = trim s" "t \<noteq> []"
    by (auto simp: extract_bearer_token_def strip_prefix_def prefix_def split: if_splits)
  with trim_splits [of s] trim_trimmed [of s] show "t \<noteq> [] \<and> trimmed t
   \<and> (\<exists>u v. authorization = ''Bearer '' @ concat u @ t @ concat v
        \<and> set u \<subseteq> set white_space \<and> set v \<subseteq> set white_space)" by metis
next
  assume "t \<noteq> [] \<and> trimmed t
   \<and> (\<exists>u v. authorization = ''Bearer '' @ concat u @ t @ concat v
        \<and> set u \<subseteq> set white_space \<and> set v \<subseteq> set white_space)"
  then show "extract_bearer_token authorization = Some t"
    by (auto simp: extract_bearer_token_def strip_prefix_def trim_white)
qed

text \<open>
  The attributes of the cookie: whatever the name and the value are, what follows them is
  \<open>Max-Age\<close> with a number that reads back as the given 64-bit integer, \<open>Path=/\<close>, \<open>HttpOnly\<close> and
  \<open>SameSite=Strict\<close>, and \<open>Secure\<close> exactly when it was asked for.
\<close>

theorem cookie_attributes:
  "split_on CHR '';'' (build_auth_cookie name v age sec) =
     split_on CHR '';'' (name @ ''='' @ v)
     @ ['' Max-Age='' @ show_i64 age, '' Path=/'', '' HttpOnly'', '' SameSite=Strict'']
     @ (if sec then ['' Secure''] else [])
   \<and> read_int (show_i64 age) = sint age"
  unfolding cookie_parts split_on_append [of "CHR '';''" "name @ ''='' @ v"] fixed_parts
  by (simp add: read_show_i64)

text \<open>
  The name and the value are not escaped: a value with a semicolon adds an attribute of its own,
  ahead of those of the function.
\<close>

theorem cookie_value_injects:
  assumes "CHR '';'' \<notin> set name" "CHR '';'' \<notin> set v" "CHR '';'' \<notin> set attr"
  shows "split_on CHR '';'' (build_auth_cookie name (v @ '';'' @ attr) age sec) =
     [name @ ''='' @ v, attr, '' Max-Age='' @ show_i64 age, '' Path=/'', '' HttpOnly'', '' SameSite=Strict'']
     @ (if sec then ['' Secure''] else [])"
proof -
  have "split_on CHR '';'' (name @ ''='' @ v @ '';'' @ attr) = [name @ ''='' @ v, attr]"
    using assms split_on_part [of "CHR '';''" "name @ ''='' @ v" attr] by (simp add: split_on_none)
  then show ?thesis
    unfolding cookie_parts split_on_append [of "CHR '';''" "name @ ''='' @ v @ '';'' @ attr"] fixed_parts
    by simp
qed

theorem cookie_value_injects_witness:
  "split_on CHR '';'' (build_auth_cookie ''session'' (''x'' @ '';'' @ '' Domain=evil'') 60 True) =
     [''session'' @ ''='' @ ''x'', '' Domain=evil'', '' Max-Age='' @ show_i64 60, '' Path=/'', '' HttpOnly'',
      '' SameSite=Strict''] @ (if True then ['' Secure''] else [])"
  by (rule cookie_value_injects) simp_all

end
