(* ===== verification/Test_Assertions.thy ===== *)
theory Test_Assertions
  imports Token_Prelude "HOL-Library.Monad_Syntax"
begin

section \<open>Running the repository's unit tests on the model\<close>

text \<open>
  A unit test is a computation that ends normally, \<open>Some ()\<close>, or panics, \<open>None\<close>: at a failed
  assertion, or when \<open>unwrap\<close>, \<open>unwrap_err\<close> or \<open>expect_err\<close> meets the other kind of result.
  The clock readings a test makes are a function of their number, in the order of the source.
\<close>

definition check :: "bool \<Rightarrow> unit option" where
  "check b = (if b then Some () else None)"

definition unwrap :: "'e + 'a \<Rightarrow> 'a option" where
  "unwrap r = (case r of Inr x \<Rightarrow> Some x | Inl _ \<Rightarrow> None)"

definition unwrap_err :: "'e + 'a \<Rightarrow> 'e option" where
  "unwrap_err r = (case r of Inl e \<Rightarrow> Some e | Inr _ \<Rightarrow> None)"

lemma check_simps [simp]:
  "check True = Some ()"
  "check False = None"
  by (simp_all add: check_def)

lemma check_bind [simp]:
  "check b \<bind> (\<lambda>_. k) = (if b then k else None)"
  by simp

lemma check_Some_iff [simp]: "check b = Some u \<longleftrightarrow> b"
  by (simp add: check_def)

lemma unwrap_simps [simp]:
  "unwrap (Inr x) = Some x"
  "unwrap (Inl e) = None"
  "unwrap_err (Inl e) = Some e"
  "unwrap_err (Inr x) = None"
  by (simp_all add: unwrap_def unwrap_err_def)

text \<open>\<open>str::contains\<close>.\<close>

definition contains :: "string \<Rightarrow> string \<Rightarrow> bool" where
  "contains s t = sublist t s"

end
