(* ===== verification/Debug_Text.thy ===== *)
theory Debug_Text
  imports Jwt_Config Extractors Test_Assertions
begin

section \<open>Debug output as text (src/service.rs, impl Debug)\<close>

text \<open>
  What \<open>{:?}\<close> writes for the values of \<open>Jwt_Config\<close>: \<open>debug_struct\<close> and the \<open>Debug\<close>
  implementations of \<open>str\<close>, \<open>bool\<close>, the integers, \<open>Option\<close> and \<open>Vec\<close> of the standard library.
  Which characters beyond ASCII are printed as they are is a table of Unicode and a parameter,
  a predicate on code points.
\<close>

subsection \<open>Strings\<close>

text \<open>Lower-case hexadecimal digits without leading zeros, and \<open>\u{...}\<close>.\<close>

definition hex_digit :: "nat \<Rightarrow> char" where
  "hex_digit n = char_of (if n < 10 then 48 + n else 87 + n)"

fun show_hex :: "nat \<Rightarrow> string" where
  "show_hex n = (if n < 16 then [hex_digit n] else show_hex (n div 16) @ [hex_digit (n mod 16)])"

declare show_hex.simps [simp del]

definition unicode_escape :: "nat \<Rightarrow> string" where
  "unicode_escape n = [CHR 0x5C] @ ''u{'' @ show_hex n @ ''}''"

definition escape_ascii :: "char \<Rightarrow> string" where
  "escape_ascii c =
     (if c = CHR 0x00 then [CHR 0x5C, CHR ''0'']
      else if c = CHR 0x09 then [CHR 0x5C, CHR ''t'']
      else if c = CHR 0x0D then [CHR 0x5C, CHR ''r'']
      else if c = CHR 0x0A then [CHR 0x5C, CHR ''n'']
      else if c = CHR 0x22 \<or> c = CHR 0x5C then [CHR 0x5C, c]
      else if of_char c < (32 :: nat) \<or> c = CHR 0x7F then unicode_escape (of_char c)
      else [c])"

text \<open>A character beyond ASCII is a leading byte and its continuation bytes.\<close>

definition is_continuation :: "char \<Rightarrow> bool" where
  "is_continuation c \<longleftrightarrow> 128 \<le> (of_char c :: nat) \<and> of_char c < (192 :: nat)"

definition code_point :: "char \<Rightarrow> string \<Rightarrow> nat" where
  "code_point lead conts =
     fold (\<lambda>b n. n * 64 + of_char b mod 64) conts (of_char lead mod 2 ^ (6 - length conts))"

function debug_bytes :: "(nat \<Rightarrow> bool) \<Rightarrow> string \<Rightarrow> string" where
  "debug_bytes P [] = []"
| "debug_bytes P (c # cs) =
     (if of_char c < (128 :: nat) then escape_ascii c @ debug_bytes P cs
      else let conts = takeWhile is_continuation cs; n = code_point c conts
        in (if P n then c # conts else unicode_escape n) @ debug_bytes P (dropWhile is_continuation cs))"
  by pat_completeness auto
termination
  by (relation "measure (length \<circ> snd)") (auto simp: less_Suc_eq_le length_dropWhile_le)

definition debug_str :: "(nat \<Rightarrow> bool) \<Rightarrow> string \<Rightarrow> string" where
  "debug_str P s = [CHR 0x22] @ debug_bytes P s @ [CHR 0x22]"

subsection \<open>Values\<close>

fun join :: "string \<Rightarrow> string list \<Rightarrow> string" where
  "join sep [] = []"
| "join sep [x] = x"
| "join sep (x # y # xs) = x @ sep @ join sep (y # xs)"

definition show_int :: "int \<Rightarrow> string" where
  "show_int n = (if n < 0 then ''-'' @ show_nat (nat (- n)) else show_nat (nat n))"

fun debug_text :: "(nat \<Rightarrow> bool) \<Rightarrow> dbg \<Rightarrow> string" where
  "debug_text P (DbgStr s) = debug_str P s"
| "debug_text P (DbgBool b) = (if b then ''true'' else ''false'')"
| "debug_text P (DbgInt n) = show_int n"
| "debug_text P DbgNone = ''None''"
| "debug_text P (DbgSome d) = ''Some('' @ debug_text P d @ '')''"
| "debug_text P (DbgList ds) = ''['' @ join '', '' (map (debug_text P) ds) @ '']''"
| "debug_text P (DbgStruct name fs) =
     (if fs = [] then name
      else name @ '' { '' @ join '', '' (map (\<lambda>f. fst f @ '': '' @ debug_text P (snd f)) fs) @ '' }'')"

subsection \<open>The unit tests on Debug output (src/lib.rs)\<close>

definition jwt_config_debug_redacts_secret :: "(nat \<Rightarrow> bool) \<Rightarrow> unit option" where
  "jwt_config_debug_redacts_secret P =
     do {
       let config = default_config\<lparr>secret := ''super-secret-value'', issuer := Some ''iss''\<rparr>;
       let dbg = debug_text P (jwt_config_fmt config);
       check (\<not> contains dbg ''super-secret-value'');
       check (contains dbg ''<redacted>'')
     }"

definition jwt_config_debug_shows_algorithm :: "(nat \<Rightarrow> bool) \<Rightarrow> unit option" where
  "jwt_config_debug_shows_algorithm P =
     do {
       let hs384 = default_config\<lparr>algorithm := HS384\<rparr>;
       check (contains (debug_text P (jwt_config_fmt hs384)) ''HS384'');
       let rs256 = default_config\<lparr>algorithm := RS256\<rparr>;
       check (contains (debug_text P (jwt_config_fmt rs256)) ''RS256'')
     }"

text \<open>The integration test of the algorithm names (tests/algorithms.rs); \<open>seen\<close> is its set.\<close>

fun check_algorithm_cases ::
    "(nat \<Rightarrow> bool) \<Rightarrow> lib_algorithm set \<Rightarrow> (jwt_algorithm \<times> string) list \<Rightarrow> unit option" where
  "check_algorithm_cases P seen [] = Some ()"
| "check_algorithm_cases P seen ((alg, name) # cases) =
     do {
       let json_alg = to_lib_algorithm alg;
       check (json_alg \<notin> seen);
       let debug = debug_text P (jwt_config_fmt (default_config\<lparr>algorithm := alg\<rparr>));
       check (contains debug name);
       check_algorithm_cases P (insert json_alg seen) cases
     }"

definition algorithm_mapping_and_names :: "(nat \<Rightarrow> bool) \<Rightarrow> unit option" where
  "algorithm_mapping_and_names P =
     check_algorithm_cases P {}
       [(HS256, ''HS256''), (HS384, ''HS384''), (HS512, ''HS512''), (ES256, ''ES256''), (ES384, ''ES384''),
        (RS256, ''RS256''), (RS384, ''RS384''), (RS512, ''RS512''), (PS256, ''PS256''), (PS384, ''PS384''),
        (PS512, ''PS512''), (EdDSA, ''EdDSA'')]"

section \<open>Lemmas\<close>

text \<open>No byte of the output is a control character.\<close>

definition control :: "char \<Rightarrow> bool" where
  "control c \<longleftrightarrow> of_char c < (32 :: nat) \<or> c = CHR 0x7F"

text \<open>A text without its string literals: \<open>outside\<close> keeps the quotes and drops what they enclose.\<close>

fun outside :: "string \<Rightarrow> string" and inside :: "string \<Rightarrow> string" and escaped :: "string \<Rightarrow> string" where
  "outside [] = []"
| "outside (c # cs) = c # (if c = CHR 0x22 then inside cs else outside cs)"
| "inside [] = []"
| "inside (c # cs) =
     (if c = CHR 0x22 then c # outside cs else if c = CHR 0x5C then escaped cs else inside cs)"
| "escaped [] = []"
| "escaped (c # cs) = inside cs"

lemma of_char_hex: "n < 16 \<Longrightarrow> of_char (hex_digit n) = (if n < 10 then 48 + n else 87 + n :: nat)"
  by (simp add: hex_digit_def)

text \<open>Characters that mean nothing to the scanner.\<close>

definition quiet :: "char \<Rightarrow> bool" where
  "quiet c \<longleftrightarrow> c \<noteq> CHR 0x22 \<and> c \<noteq> CHR 0x5C \<and> \<not> control c"

lemma quietI:
  "32 \<le> (of_char c :: nat) \<Longrightarrow> of_char c \<noteq> (34 :: nat) \<Longrightarrow> of_char c \<noteq> (92 :: nat)
    \<Longrightarrow> of_char c \<noteq> (127 :: nat) \<Longrightarrow> quiet c"
  by (auto simp: quiet_def control_def)

lemma inside_quiet: "list_all quiet a \<Longrightarrow> inside (a @ r) = inside r"
  by (induction a) (auto simp: quiet_def)

lemma quiet_not_control: "list_all quiet a \<Longrightarrow> filter control a = []"
  by (induction a) (auto simp: quiet_def)

lemma quiet_hex_digit: "n < 16 \<Longrightarrow> quiet (hex_digit n)"
  by (rule quietI) (auto simp: of_char_hex)

lemma quiet_show_hex: "list_all quiet (show_hex n)"
proof (induction n rule: show_hex.induct)
  case (1 n)
  then show ?case by (subst show_hex.simps) (auto simp: quiet_hex_digit)
qed

lemma quiet_high: "128 \<le> (of_char c :: nat) \<Longrightarrow> quiet c"
  by (rule quietI) auto

lemma quiet_continuations: "list_all quiet (takeWhile is_continuation cs)"
  by (induction cs) (auto simp: is_continuation_def quiet_high)

subsection \<open>A string literal is closed by its own quote\<close>

lemma inside_unicode_escape: "inside (unicode_escape n @ r) = inside r"
  by (simp add: unicode_escape_def inside_quiet quiet_show_hex)

lemma inside_escape_ascii: "inside (escape_ascii c @ r) = inside r"
  by (auto simp: escape_ascii_def inside_unicode_escape)

lemma inside_debug_bytes: "inside (debug_bytes P s @ r) = inside r"
proof (induction P s rule: debug_bytes.induct)
  case (2 P c cs)
  show ?case
  proof (cases "of_char c < (128 :: nat)")
    case True
    then show ?thesis using 2 by (simp add: inside_escape_ascii)
  next
    case False
    then have "list_all quiet (c # takeWhile is_continuation cs)"
      by (simp add: quiet_high quiet_continuations)
    from inside_quiet [OF this] show ?thesis
      using 2 False by (simp add: Let_def inside_unicode_escape)
  qed
qed simp

lemma control_escape_chars [simp]:
  "\<not> control CHR 0x5C" "\<not> control CHR 0x22" "\<not> control CHR ''u''" "\<not> control CHR ''{''" "\<not> control CHR ''}''"
  "\<not> control CHR ''0''" "\<not> control CHR ''t''" "\<not> control CHR ''r''" "\<not> control CHR ''n''"
  by code_simp+

lemma filter_control_unicode: "filter control (unicode_escape n) = []"
  by (simp add: unicode_escape_def quiet_not_control quiet_show_hex)

lemma filter_control_ascii: "filter control (escape_ascii c) = []"
proof (cases "control c")
  case True
  then have "c \<noteq> CHR 0x22" "c \<noteq> CHR 0x5C" "of_char c < (32 :: nat) \<or> c = CHR 0x7F"
    by (metis control_escape_chars(2)) (metis True control_escape_chars(1), use True in \<open>simp only: control_def\<close>)
  then show ?thesis by (simp add: escape_ascii_def filter_control_unicode)
next
  case False
  then show ?thesis by (simp add: escape_ascii_def filter_control_unicode)
qed

lemmas filter_control_escape = filter_control_unicode filter_control_ascii

lemma filter_control_bytes: "filter control (debug_bytes P s) = []"
proof (induction P s rule: debug_bytes.induct)
  case (2 P c cs)
  then show ?case
    using quiet_not_control [OF quiet_continuations, of cs] quiet_high [of c]
    by (auto simp: Let_def filter_control_escape quiet_def)
qed simp

subsection \<open>The layout around the literals\<close>

text \<open>A value with every string emptied, and values whose names are plain.\<close>

fun blank :: "dbg \<Rightarrow> dbg" where
  "blank (DbgStr s) = DbgStr []"
| "blank (DbgSome d) = DbgSome (blank d)"
| "blank (DbgList ds) = DbgList (map blank ds)"
| "blank (DbgStruct name fs) = DbgStruct name (map (\<lambda>f. (fst f, blank (snd f))) fs)"
| "blank d = d"

fun plain_names :: "dbg \<Rightarrow> bool" where
  "plain_names (DbgSome d) \<longleftrightarrow> plain_names d"
| "plain_names (DbgList ds) \<longleftrightarrow> list_all plain_names ds"
| "plain_names (DbgStruct name fs) \<longleftrightarrow>
     list_all quiet name \<and> list_all (\<lambda>f. list_all quiet (fst f) \<and> plain_names (snd f)) fs"
| "plain_names d \<longleftrightarrow> True"

text \<open>The text is one line, and its literals enclose every character of the strings shown.\<close>

definition well_quoted :: "(nat \<Rightarrow> bool) \<Rightarrow> dbg \<Rightarrow> bool" where
  "well_quoted P d \<longleftrightarrow>
     filter control (debug_text P d) = [] \<and> outside (debug_text P d) = debug_text P (blank d)"

lemma outside_quiet: "list_all quiet a \<Longrightarrow> outside (a @ r) = a @ outside r"
  by (induction a) (auto simp: quiet_def)

lemma quiet_layout [simp]:
  "quiet CHR ''{''" "quiet CHR ''}''" "quiet CHR '' ''" "quiet CHR '':''" "quiet CHR '',''"
  "quiet CHR ''(''" "quiet CHR '')''" "quiet CHR ''[''" "quiet CHR '']''" "quiet CHR ''-''"
  "list_all quiet ''true''" "list_all quiet ''false''" "list_all quiet ''None''" "list_all quiet ''Some(''"
  by code_simp+

lemma control_layout [simp]:
  "\<not> control CHR ''{''" "\<not> control CHR ''}''" "\<not> control CHR '' ''" "\<not> control CHR '':''"
  "\<not> control CHR '',''" "\<not> control CHR ''(''" "\<not> control CHR '')''" "\<not> control CHR ''[''"
  "\<not> control CHR '']''" "\<not> control CHR ''S''" "\<not> control CHR ''o''" "\<not> control CHR ''m''"
  "\<not> control CHR ''e''"
  "\<not> control CHR ''f''"
  "\<not> control CHR ''a''" "\<not> control CHR ''l''" "\<not> control CHR ''s''" "\<not> control CHR ''N''"
  by code_simp+

lemma quiet_show_nat: "list_all quiet (show_nat n)"
proof (induction n rule: show_nat.induct)
  case (1 n)
  have "quiet (digit k)" if "k < 10" for k
    using that by (intro quietI) (auto simp: of_char_digit)
  then show ?case using 1 by (subst show_nat.simps) auto
qed

lemma quiet_show_int: "list_all quiet (show_int n)"
  by (simp add: show_int_def quiet_show_nat)

lemma outside_debug_str: "outside (debug_str P s @ r) = debug_str P [] @ outside r"
  by (simp add: debug_str_def inside_debug_bytes)

lemma join_Cons: "join sep (x # xs) = x @ (if xs = [] then [] else sep @ join sep xs)"
  by (cases xs) simp_all

lemma outside_join:
  assumes "list_all quiet sep" "\<And>x r. x \<in> set xs \<Longrightarrow> outside (f x @ r) = g x @ outside r"
  shows "outside (join sep (map f xs) @ r) = join sep (map g xs) @ outside r"
  using assms(2)
  by (induction xs arbitrary: r) (simp_all add: join_Cons outside_quiet [OF assms(1)])

lemma filter_join:
  "filter p sep = [] \<Longrightarrow> (\<And>x. x \<in> set xs \<Longrightarrow> filter p x = []) \<Longrightarrow> filter p (join sep xs) = []"
  by (induction sep xs rule: join.induct) auto

lemma outside_debug_text:
  "plain_names d \<Longrightarrow> outside (debug_text P d @ r) = debug_text P (blank d) @ outside r"
proof (induction d arbitrary: r rule: blank.induct)
  case (2 d)
  then show ?case by (simp add: outside_quiet) 
next
  case (3 ds)
  have "outside (join '', '' (map (debug_text P) ds) @ r)
      = join '', '' (map (\<lambda>d. debug_text P (blank d)) ds) @ outside r" for r
    by (rule outside_join) (use 3 in \<open>auto simp: list_all_iff\<close>)
  then show ?case by (simp add: comp_def)
next
  case (4 name fs)
  have "outside (join '', '' (map (\<lambda>f. fst f @ '': '' @ debug_text P (snd f)) fs) @ r)
      = join '', '' (map (\<lambda>f. fst f @ '': '' @ debug_text P (blank (snd f))) fs) @ outside r" for r
    by (rule outside_join) (use 4 in \<open>auto simp: list_all_iff outside_quiet\<close>)
  then show ?case using 4 by (simp add: comp_def outside_quiet)
qed (simp_all add: outside_quiet outside_debug_str quiet_show_int)

lemma one_line_debug_text: "plain_names d \<Longrightarrow> filter control (debug_text P d) = []"
proof (induction d rule: blank.induct)
  case (2 d)
  then show ?case by (simp add: quiet_not_control)
next
  case (3 ds)
  then show ?case by (auto simp: quiet_not_control list_all_iff intro!: filter_join)
next
  case (4 name fs)
  then show ?case by (auto simp: quiet_not_control list_all_iff intro!: filter_join)
qed (simp_all add: quiet_not_control quiet_show_int debug_str_def filter_control_bytes)

lemma well_quoted: "plain_names d \<Longrightarrow> well_quoted P d"
  using outside_debug_text [of d P "[]"] by (simp add: well_quoted_def one_line_debug_text)

lemma plain_option [simp]: "(\<And>x. plain_names (f x)) \<Longrightarrow> plain_names (dbg_option f m)"
  by (cases m) (simp_all add: dbg_option_def)

lemma plain_fmt: "plain_names (jwt_config_fmt c)" "plain_names (rotation_key_fmt k)"
proof -
  have names: "list_all (list_all quiet) [''JwtConfig'', ''algorithm'', ''secret'', ''der_private_key'',
      ''public_key'', ''der_public_key'', ''issuer'', ''audience'', ''audiences'', ''leeway'',
      ''required_claims'', ''validate_exp'', ''validate_nbf'', ''access_token_ttl'',
      ''refresh_token_ttl'', ''key_id'', ''rotation_keys'', ''RotationKey'']"
    by code_simp
  then show "plain_names (jwt_config_fmt c)" "plain_names (rotation_key_fmt k)"
    by (simp_all only: jwt_config_fmt_def rotation_key_fmt_def plain_names.simps list.pred_inject
        append.simps fst_conv snd_conv) (simp_all add: list_all_iff)
qed

subsection \<open>The unit tests pass\<close>

text \<open>The text shown for the tests' configurations.\<close>

lemma shown_numbers: "show_int 0 = ''0''" "show_int 3600 = ''3600''" "show_int 604800 = ''604800''"
  by (simp_all add: show_int_def show_nat.simps digit_def char_of_def bit_0)

lemma default_config_text:
  "debug_text P (jwt_config_fmt (default_config\<lparr>secret := s, issuer := i, algorithm := a\<rparr>)) =
     ''JwtConfig { algorithm: '' @ debug_str P (alg_name a) @ '', secret: '' @ debug_str P ''<redacted>''
     @ '', der_private_key: None, public_key: None, der_public_key: false, issuer: ''
     @ debug_text P (dbg_option DbgStr i)
     @ '', audience: None, audiences: [], leeway: None, required_claims: [''
     @ debug_str P ''exp'' @ '', '' @ debug_str P ''iss''
     @ ''], validate_exp: true, validate_nbf: false, access_token_ttl: 3600, refresh_token_ttl: 604800''
     @ '', key_id: None, rotation_keys: 0 }''"
  by (simp add: jwt_config_fmt_def default_config_def config_alg_name_def dbg_option_def
      default_required_claims_def DEFAULT_REQUIRED_CLAIMS_def shown_numbers)

lemma jwt_config_debug_tests_pass:
  "jwt_config_debug_redacts_secret P = Some ()"
  "jwt_config_debug_shows_algorithm P = Some ()"
proof -
  have tests: "debug_text P (jwt_config_fmt (default_config\<lparr>secret := s, issuer := i\<rparr>))
      = debug_text P (jwt_config_fmt (default_config\<lparr>secret := s, issuer := i, algorithm := HS256\<rparr>))"
    "debug_text P (jwt_config_fmt (default_config\<lparr>algorithm := a\<rparr>))
      = debug_text P (jwt_config_fmt (default_config\<lparr>secret := [], issuer := None, algorithm := a\<rparr>))" for s i a
    by (simp_all add: default_config_def)
  note shown = tests [unfolded default_config_text]
  show "jwt_config_debug_redacts_secret P = Some ()"
    unfolding jwt_config_debug_redacts_secret_def Let_def shown by code_simp
  show "jwt_config_debug_shows_algorithm P = Some ()"
    unfolding jwt_config_debug_shows_algorithm_def Let_def shown by code_simp
qed

text \<open>A default configuration shows the name of its algorithm.\<close>

lemma shows_algorithm:
  "contains (debug_text P (jwt_config_fmt (default_config\<lparr>algorithm := a\<rparr>))) (alg_name a)"
proof -
  have name: "debug_str P (alg_name a) = [CHR 0x22] @ alg_name a @ [CHR 0x22]"
    by (cases a; hypsubst; code_simp)
  have config: "default_config\<lparr>algorithm := a\<rparr> = default_config\<lparr>secret := [], issuer := None, algorithm := a\<rparr>"
    by (simp add: default_config_def)
  obtain pre post where "debug_text P (jwt_config_fmt (default_config\<lparr>algorithm := a\<rparr>))
      = pre @ alg_name a @ post"
    unfolding config default_config_text name by (metis append.assoc)
  then show ?thesis unfolding contains_def by (simp add: sublist_appendI)
qed

lemma algorithm_test_passes: "algorithm_mapping_and_names P = Some ()"
  using shows_algorithm [of P HS256] shows_algorithm [of P HS384] shows_algorithm [of P HS512]
    shows_algorithm [of P ES256] shows_algorithm [of P ES384] shows_algorithm [of P RS256]
    shows_algorithm [of P RS384] shows_algorithm [of P RS512] shows_algorithm [of P PS256]
    shows_algorithm [of P PS384] shows_algorithm [of P PS512] shows_algorithm [of P EdDSA]
  by (simp add: algorithm_mapping_and_names_def Let_def)

section \<open>Properties\<close>

text \<open>
  C36. Replacing secrets and key material of a configuration, or of a rotation key, leaves its
  Debug text unchanged. The text is a single line, and what it contains outside its string
  literals is what it would contain with every string empty: no issuer, audience, claim name or
  key id, whatever quotes, backslashes and line ends it has, can pose as another field. The two
  unit tests on Debug output and the integration test of the algorithm names pass.
\<close>

theorem debug_text_redacts_and_quotes:
  "debug_text P (jwt_config_fmt (c\<lparr>secret := s, der_private_key := map_option f (der_private_key c),
       public_key := map_option g (public_key c), der_public_key := map_option h (der_public_key c),
       rotation_keys := map r (rotation_keys c)\<rparr>)) = debug_text P (jwt_config_fmt c)
   \<and> well_quoted P (jwt_config_fmt c) \<and> well_quoted P (rotation_key_fmt k)
   \<and> debug_text P (rotation_key_fmt (k\<lparr>rk_secret := s, rk_public_key := map_option g (rk_public_key k),
         rk_der_public_key := map_option h (rk_der_public_key k)\<rparr>)) = debug_text P (rotation_key_fmt k)
   \<and> jwt_config_debug_redacts_secret P = Some ()
   \<and> jwt_config_debug_shows_algorithm P = Some ()
   \<and> algorithm_mapping_and_names P = Some ()"
  by (simp add: well_quoted plain_fmt jwt_config_debug_tests_pass algorithm_test_passes)
    (simp add: jwt_config_fmt_def rotation_key_fmt_def config_alg_name_def option.map_comp comp_def)

end
