(* ===== verification/Fuzz_Records.thy ===== *)
theory Fuzz_Records
  imports Token_Prelude "HOL-Library.Monad_Syntax"
begin

section \<open>The record splitter of the fuzz targets (fuzz/fuzz_targets)\<close>

text \<open>
  \<open>split_records\<close>, which two fuzz targets share: it cuts a byte string into at most \<open>n\<close> records
  with a 16-bit little-endian length in front, and pads the result to \<open>n\<close>. Every index and slice of
  the source is one here, \<open>None\<close> being the panic out of range; that there is none is a theorem, as is
  the length of the result, which the targets index without a check.
\<close>

unbundle bit_operations_syntax

subsection \<open>Indexing\<close>

definition index :: "'a list \<Rightarrow> nat \<Rightarrow> 'a option" where
  "index xs i = (if i < length xs then Some (xs ! i) else None)"

definition slice_to :: "'a list \<Rightarrow> nat \<Rightarrow> 'a list option" where
  "slice_to xs n = (if n \<le> length xs then Some (take n xs) else None)"

definition slice_from :: "'a list \<Rightarrow> nat \<Rightarrow> 'a list option" where
  "slice_from xs n = (if n \<le> length xs then Some (drop n xs) else None)"

subsection \<open>The two loops\<close>

definition u16_from_le_bytes :: "8 word \<Rightarrow> 8 word \<Rightarrow> 16 word" where
  "u16_from_le_bytes b0 b1 = ucast b0 OR push_bit 8 (ucast b1)"

function read_loop :: "nat \<Rightarrow> bytes list \<Rightarrow> bytes \<Rightarrow> bytes list option" where
  "read_loop n parts data =
     (if length parts < n \<and> 2 \<le> length data then
        do {
          b0 \<leftarrow> index data 0;
          b1 \<leftarrow> index data 1;
          let len = unat (u16_from_le_bytes b0 b1);
          rest \<leftarrow> slice_from data 2;
          let k = min len (length rest);
          part \<leftarrow> slice_to rest k;
          data' \<leftarrow> slice_from rest k;
          read_loop n (parts @ [part]) data'
        }
      else Some parts)"
  by pat_completeness auto
termination by (relation "measure (\<lambda>(n, parts, _). n - length parts)") auto

function pad_loop :: "nat \<Rightarrow> bytes list \<Rightarrow> bytes list" where
  "pad_loop n parts = (if length parts < n then pad_loop n (parts @ [[]]) else parts)"
  by pat_completeness auto
termination by (relation "measure (\<lambda>(n, parts). n - length parts)") auto

declare read_loop.simps [simp del] pad_loop.simps [simp del]

definition split_records :: "bytes \<Rightarrow> nat \<Rightarrow> bytes list option" where
  "split_records data n = do { parts \<leftarrow> read_loop n [] data; Some (pad_loop n parts) }"

subsection \<open>What the loops compute\<close>

text \<open>The records of a byte string, without indexing: the reference for the two loops.\<close>

fun read_records :: "nat \<Rightarrow> bytes \<Rightarrow> bytes list" where
  "read_records 0 data = []"
| "read_records (Suc n) (b0 # b1 # rest) =
     (let len = unat (u16_from_le_bytes b0 b1); k = min len (length rest)
      in take k rest # read_records n (drop k rest))"
| "read_records (Suc n) data = []"

definition record_list :: "bytes \<Rightarrow> nat \<Rightarrow> bytes list" where
  "record_list data n =
     (let parts = read_records n data in parts @ replicate (n - length parts) [])"

lemma length_read_records: "length (read_records n data) \<le> n"
  by (induction n data rule: read_records.induct) (auto simp: Let_def)

lemma length_record_list: "length (record_list data n) = n"
  using length_read_records [of n data] by (simp add: record_list_def Let_def)

lemma read_loop_step:
  assumes "length parts < n"
  shows "read_loop n parts (b0 # b1 # rest) =
    (let k = min (unat (u16_from_le_bytes b0 b1)) (length rest)
     in read_loop n (parts @ [take k rest]) (drop k rest))"
  using assms by (subst read_loop.simps) (simp add: index_def slice_from_def slice_to_def Let_def)

lemma read_loop_ends: "\<not> (length parts < n \<and> 2 \<le> length data) \<Longrightarrow> read_loop n parts data = Some parts"
  by (subst read_loop.simps) (simp only: if_False)

lemma read_loop_records:
  "n - length parts = m \<Longrightarrow> read_loop n parts data = Some (parts @ read_records m data)"
proof (induction m data arbitrary: parts rule: read_records.induct)
  case (2 m b0 b1 rest)
  let ?k = "min (unat (u16_from_le_bytes b0 b1)) (length rest)"
  have "n - length (parts @ [take ?k rest]) = m" using 2(2) by simp
  note IH = 2(1) [OF refl refl this]
  have "length parts < n" using 2(2) by simp
  then show ?case by (simp add: read_loop_step IH Let_def)
qed (simp_all add: read_loop_ends)

lemma pad_loop_replicate: "pad_loop n parts = parts @ replicate (n - length parts) []"
proof (induction n parts rule: pad_loop.induct)
  case (1 n parts)
  show ?case
  proof (cases "length parts < n")
    case True
    then have "n - length parts = Suc (n - length (parts @ [[]]))" by simp
    with True 1 show ?thesis by (subst pad_loop.simps) simp
  qed (subst pad_loop.simps, simp)
qed

text \<open>No index and no slice of the two loops is out of range, and they compute the records.\<close>

lemma split_records_Some [simp]: "split_records data n = Some (record_list data n)"
  by (simp add: split_records_def read_loop_records [OF refl] pad_loop_replicate record_list_def Let_def)

text \<open>Writing a record, and reading it back.\<close>

definition write_record :: "bytes \<Rightarrow> bytes" where
  "write_record r = word_of_nat (length r) # word_of_nat (length r div 256) # r"

lemma u16_of_length:
  assumes "n < 65536"
  shows "unat (u16_from_le_bytes (word_of_nat n) (word_of_nat (n div 256))) = n"
proof -
  let ?lo = "ucast (word_of_nat n :: 8 word) :: 16 word"
  let ?hi = "ucast (word_of_nat (n div 256) :: 8 word) :: 16 word"
  have lo: "unat ?lo = n mod 256"
    by (simp add: unsigned_ucast_eq unsigned_of_nat take_bit_eq_mod)
  have hi: "unat ?hi = n div 256"
    using assms by (simp add: unsigned_ucast_eq unsigned_of_nat take_bit_eq_mod)
  have "?lo AND push_bit 8 ?hi = 0"
    by (rule bit_word_eqI) (auto simp: bit_simps)
  then have "?lo OR push_bit 8 ?hi = ?lo + push_bit 8 ?hi" by (simp add: disjunctive_add_eq_or)
  moreover have "unat (?lo + push_bit 8 ?hi) = n"
    using lo hi assms by (simp add: unat_word_ariths push_bit_eq_mult)
  ultimately show ?thesis by (simp add: u16_from_le_bytes_def)
qed

lemma read_written_records:
  assumes "\<And>r. r \<in> set rs \<Longrightarrow> length r < 65536"
  shows "record_list (concat (map write_record rs) @ junk) (length rs) = rs"
proof -
  have "read_records (length rs) (concat (map write_record rs) @ junk) = rs"
    using assms
  proof (induction rs)
    case Nil
    then show ?case by simp
  next
    case (Cons r rs)
    then show ?case by (simp add: write_record_def u16_of_length Let_def)
  qed
  then show ?thesis by (simp add: record_list_def)
qed

theorem split_records_roundtrip:
  assumes "\<And>r. r \<in> set rs \<Longrightarrow> length r < 65536"
  shows "split_records (concat (map write_record rs) @ junk) (length rs) = Some rs"
  using read_written_records [OF assms] by simp

theorem split_records_roundtrip_witness:
  "split_records (concat (map write_record [[1, 2], []]) @ [7]) 2 = Some [[1, 2], []]"
proof -
  have "length r < 65536" if "r \<in> set [[1, 2], []]" for r :: bytes
    using that by auto
  from split_records_roundtrip [of "[[1, 2], []]", OF this, where junk = "[7]"] show ?thesis
    by (simp add: numeral_2_eq_2 del: split_records_Some)
qed

end
