(* ===== verification/Utf8.thy ===== *)
theory Utf8
  imports Token_Prelude
begin

section \<open>Decoding UTF-8 (std::str::from_utf8, String::from_utf8_lossy)\<close>

text \<open>
  The two functions of the standard library with which the fuzz targets turn bytes into text. Both
  walk over the bytes in the same steps: a step takes a well-formed sequence, or the longest
  prefix of one (at least one byte) as ill-formed. \<open>from_utf8\<close> refuses a text with an ill-formed
  step, \<open>from_utf8_lossy\<close> puts the replacement character U+FFFD in its place. A byte past the end
  reads as 0, which is no continuation byte.
\<close>

definition byte_at :: "bytes \<Rightarrow> nat \<Rightarrow> 8 word" where
  "byte_at bs i = (if i < length bs then bs ! i else 0)"

definition between :: "8 word \<Rightarrow> 8 word \<Rightarrow> 8 word \<Rightarrow> bool" where
  "between lo hi b \<longleftrightarrow> lo \<le> b \<and> b \<le> hi"

definition is_cont :: "8 word \<Rightarrow> bool" where
  "is_cont b = between 0x80 0xBF b"

text \<open>The second bytes allowed after the first byte of a sequence of three or four bytes.\<close>

definition second_ok :: "8 word \<Rightarrow> 8 word \<Rightarrow> bool" where
  "second_ok b c =
     (if b = 0xE0 then between 0xA0 0xBF c
      else if b = 0xED then between 0x80 0x9F c
      else if b = 0xF0 then between 0x90 0xBF c
      else if b = 0xF4 then between 0x80 0x8F c
      else is_cont c)"

text \<open>The step at the first byte: whether it is well-formed, and the number of bytes it takes.\<close>

definition utf8_step :: "8 word \<Rightarrow> bytes \<Rightarrow> bool \<times> nat" where
  "utf8_step b rest =
     (if b < 0x80 then (True, 1)
      else if between 0xC2 0xDF b then
        (if is_cont (byte_at rest 0) then (True, 2) else (False, 1))
      else if between 0xE0 0xEF b then
        (if \<not> second_ok b (byte_at rest 0) then (False, 1)
         else if \<not> is_cont (byte_at rest 1) then (False, 2)
         else (True, 3))
      else if between 0xF0 0xF4 b then
        (if \<not> second_ok b (byte_at rest 0) then (False, 1)
         else if \<not> is_cont (byte_at rest 1) then (False, 2)
         else if \<not> is_cont (byte_at rest 2) then (False, 3)
         else (True, 4))
      else (False, 1))"

lemma utf8_step_pos: "0 < snd (utf8_step b rest)"
  by (simp add: utf8_step_def)

function utf8_ok :: "bytes \<Rightarrow> bool" where
  "utf8_ok [] = True"
| "utf8_ok (b # rest) =
     (fst (utf8_step b rest) \<and> utf8_ok (drop (snd (utf8_step b rest)) (b # rest)))"
  by pat_completeness auto
termination
  by (relation "measure length") (auto simp: utf8_step_pos)

definition REPLACEMENT :: bytes where
  "REPLACEMENT = [0xEF, 0xBF, 0xBD]"

function utf8_lossy :: "bytes \<Rightarrow> bytes" where
  "utf8_lossy [] = []"
| "utf8_lossy (b # rest) =
     (let (ok, n) = utf8_step b rest
      in (if ok then take n (b # rest) else REPLACEMENT) @ utf8_lossy (drop n (b # rest)))"
  by pat_completeness auto
termination
proof (relation "measure length")
  show "(drop n (b # rest), b # rest) \<in> measure length"
    if "x = utf8_step b rest" "(ok, n) = x" for b rest x ok n
    proof -
    have "0 < n" using utf8_step_pos [of b rest] that by (metis snd_conv)
    then show ?thesis by simp
  qed
qed simp

declare utf8_ok.simps(2) [simp del] utf8_lossy.simps(2) [simp del]

text \<open>A string of the model holds one character per byte.\<close>

definition text_of :: "bytes \<Rightarrow> string" where
  "text_of bs = map (\<lambda>b. char_of (unat b)) bs"

definition from_utf8 :: "bytes \<Rightarrow> string option" where
  "from_utf8 bs = (if utf8_ok bs then Some (text_of bs) else None)"

definition from_utf8_lossy :: "bytes \<Rightarrow> string" where
  "from_utf8_lossy bs = text_of (utf8_lossy bs)"

section \<open>Lemmas\<close>

lemma zero_not_cont [simp]: "\<not> is_cont 0" "\<not> second_ok b 0"
  by (simp_all add: is_cont_def second_ok_def between_def)

lemma byte_at_0 [simp]: "byte_at [] i = 0" "byte_at (b # bs) 0 = b" "byte_at (b # bs) (Suc i) = byte_at bs i"
  by (simp_all add: byte_at_def)

lemma cont_in_range: "is_cont (byte_at bs i) \<Longrightarrow> i < length bs"
  by (rule ccontr) (simp add: byte_at_def)

lemma second_in_range: "second_ok b (byte_at bs i) \<Longrightarrow> i < length bs"
  by (rule ccontr) (simp add: byte_at_def)

lemma utf8_step_length: "utf8_step b rest = (True, n) \<Longrightarrow> n \<le> length (b # rest)"
  by (auto simp: utf8_step_def dest!: cont_in_range second_in_range simp: Suc_le_eq split: if_splits)

lemma byte_at_append: "i < length bs \<Longrightarrow> byte_at (bs @ cs) i = byte_at bs i"
  by (simp add: byte_at_def nth_append)

lemma byte_at_take: "i < n \<Longrightarrow> byte_at (take n bs) i = byte_at bs i"
  by (simp add: byte_at_def)

text \<open>A well-formed step only looks at the bytes it takes.\<close>

lemma utf8_step_local:
  assumes "utf8_step b rest = (True, n)"
  shows "utf8_step b (take (n - 1) rest @ cs) = (True, n)"
proof -
  have len: "n \<le> Suc (length rest)" using utf8_step_length [OF assms] by simp
  then have "byte_at (take (n - 1) rest @ cs) i = byte_at rest i" if "i < n - 1" for i
    using that by (simp add: byte_at_append byte_at_take)
  then show ?thesis using assms by (auto simp: utf8_step_def split: if_splits)
qed

lemma utf8_ok_step:
  assumes "utf8_step b rest = (True, n)" "utf8_ok cs"
  shows "utf8_ok (take n (b # rest) @ cs)"
proof -
  obtain m where n: "n = Suc m"
    using utf8_step_pos [of b rest] assms(1) by (cases n) auto
  have "utf8_step b (take m rest @ cs) = (True, n)"
    using utf8_step_local [OF assms(1), of cs] n by simp
  moreover have "drop m (take m rest @ cs) = cs"
    using utf8_step_length [OF assms(1)] n by simp
  ultimately show ?thesis using assms(2) n by (simp add: utf8_ok.simps(2))
qed

lemma utf8_ok_replacement: "utf8_ok cs \<Longrightarrow> utf8_ok (REPLACEMENT @ cs)"
  using utf8_ok_step [of "0xEF" "[0xBF, 0xBD]" 3 cs]
  by (simp add: REPLACEMENT_def utf8_step_def between_def is_cont_def second_ok_def)

lemma utf8_ok_lossy: "utf8_ok (utf8_lossy bs)"
proof (induction bs rule: utf8_lossy.induct)
  case 1
  then show ?case by simp
next
  case (2 b rest)
  obtain ok n where s: "utf8_step b rest = (ok, n)" by fastforce
  have "utf8_ok (utf8_lossy (drop n (b # rest)))" using "2.IH" [OF s [symmetric]] s by simp
  with s show ?case
    by (cases ok) (simp_all add: utf8_lossy.simps(2) utf8_ok_step utf8_ok_replacement)
qed

lemma utf8_lossy_id: "utf8_ok bs \<Longrightarrow> utf8_lossy bs = bs"
proof (induction bs rule: utf8_ok.induct)
  case 1
  then show ?case by simp
next
  case (2 b rest)
  obtain ok n where s: "utf8_step b rest = (ok, n)" by fastforce
  with 2 show ?case by (simp add: utf8_ok.simps(2) utf8_lossy.simps(2))
qed

lemma utf8_lossy_length: "length (utf8_lossy bs) \<le> 3 * length bs"
proof (induction bs rule: utf8_lossy.induct)
  case 1
  then show ?case by simp
next
  case (2 b rest)
  obtain ok n where s: "utf8_step b rest = (ok, n)" by fastforce
  have n: "0 < n" using utf8_step_pos [of b rest] s by simp
  have "length (utf8_lossy (drop n (b # rest))) \<le> 3 * length (drop n (b # rest))"
    using "2.IH" [OF s [symmetric]] s by simp
  with s n show ?case
    by (auto simp: utf8_lossy.simps(2) REPLACEMENT_def)
qed

lemma from_utf8_length: "from_utf8 bs = Some s \<Longrightarrow> length s = length bs"
  by (auto simp: from_utf8_def text_of_def split: if_splits)

lemma unat_lt8: "unat (b :: 8 word) < 256"
  using unsigned_less [of b] by simp

lemma as_bytes_text_of [simp]: "as_bytes (text_of bs) = bs"
proof -
  have "of_char (char_of (unat b)) = b" for b :: "8 word"
  proof -
    have "of_char (char_of (unat b)) = (of_nat (of_char (char_of (unat b))) :: 8 word)"
      by (simp only: of_nat_of_char)
    also have "\<dots> = of_nat (unat b mod 256)" by simp
    also have "unat b mod 256 = unat b" by (simp add: unat_lt8)
    finally show ?thesis by simp
  qed
  then show ?thesis by (simp add: as_bytes_def text_of_def comp_def)
qed

end
