(* ===== verification/Json_Fields.thy ===== *)
theory Json_Fields
  imports Jwt_Claims
begin

section \<open>Derived serialization of plain fields\<close>

text \<open>
  What \<open>#[derive(Serialize, Deserialize)]\<close> gives for the fields of the small claims structs in the
  tests and fuzz targets: an option that is not skipped is written as \<open>null\<close>, and a number is
  read as \<open>u64\<close> only when it is in range.
\<close>

definition json_option :: "('a \<Rightarrow> json) \<Rightarrow> 'a option \<Rightarrow> json" where
  "json_option f m = (case m of None \<Rightarrow> JNull | Some x \<Rightarrow> f x)"

fun de_u64 :: "json option \<Rightarrow> u64 option option" where
  "de_u64 None = Some None"
| "de_u64 (Some JNull) = Some None"
| "de_u64 (Some (JInt n)) = (if 0 \<le> n \<and> n < 2 ^ 64 then Some (Some (word_of_int n)) else None)"
| "de_u64 (Some _) = None"

lemma uint_u64_less [simp]: "uint (x :: u64) < 18446744073709551616"
  using uint_lt2p [of x] by simp

text \<open>Reading back what was written, skipped or not.\<close>

lemma de_string_json_option [simp]: "de_string (Some (json_option JStr m)) = Some m"
  by (cases m) (simp_all add: json_option_def)

lemma de_u64_json_option [simp]: "de_u64 (Some (json_option (\<lambda>n. JInt (uint n)) m)) = Some m"
  by (cases m) (simp_all add: json_option_def)

lemma de_u64_map [simp]: "de_u64 (map_option (\<lambda>n. JInt (uint n)) m) = Some m"
  by (cases m) simp_all

end
