(* ===== verification/Fuzz_Targets.thy ===== *)
theory Fuzz_Targets
  imports Fuzz_Records Utf8 Json_Fields Service_Properties Jwks_Properties
begin

section \<open>The fuzz targets (fuzz/fuzz_targets)\<close>

text \<open>
  The four targets as functions of the input bytes. A value of \<open>None\<close> is a panic of the target
  itself: an index or a slice out of range, in the target or in \<open>split_records\<close>, or \<open>expect\<close> on a
  failed runtime; the functions of the libraries are total here, so a panic inside one of them is not
  modelled. What the targets compute and then drop is returned. The parser of \<open>serde_json\<close> and the building of a tokio
  runtime are parameters.
\<close>

unbundle bit_operations_syntax

text \<open>\<open>slice::get\<close> with an index and with a range; \<open>None\<close> is a value here, not a panic.\<close>

definition get_at :: "'a list \<Rightarrow> nat \<Rightarrow> 'a option" where
  "get_at xs i = (if i < length xs then Some (xs ! i) else None)"

definition get_range :: "nat \<Rightarrow> nat \<Rightarrow> 'a list \<Rightarrow> 'a list option" where
  "get_range a b xs = (if b \<le> length xs then Some (drop a (take b xs)) else None)"

definition FUZZ_SECRET :: string where
  "FUZZ_SECRET = ''fuzz-test-secret-key''"

subsection \<open>fuzz_claim_validation\<close>

text \<open>The configuration the target builds from the issuer text and the last record.\<close>

definition fuzz_leeway :: "bytes \<Rightarrow> u64" where
  "fuzz_leeway config =
     push_bit 8 (ucast (unwrap_or 0 (first config))) OR ucast (unwrap_or 0 (get_at config 1))"

definition fuzz_config :: "string \<Rightarrow> bytes \<Rightarrow> jwt_config" where
  "fuzz_config issuer_text config =
     (let audience_text = from_utf8_lossy (unwrap_or [] (get_range 2 8 config));
          require_exp = (case first config of Some b \<Rightarrow> b AND 1 = 1 | None \<Rightarrow> False);
          nbf_flag = (case first config of Some b \<Rightarrow> b AND 2 = 2 | None \<Rightarrow> False)
      in default_config\<lparr>secret := FUZZ_SECRET, issuer := Some issuer_text,
           leeway := Some (fuzz_leeway config),
           audiences := (if audience_text = [] then [] else [audience_text]),
           validate_exp := require_exp, validate_nbf := nbf_flag\<rparr>)"

text \<open>The results of the three calls, in their order.\<close>

definition fuzz_claim_validation ::
    "('ek, 'dk, 'dt standard_claims) jwt_lib \<Rightarrow> bytes
      \<Rightarrow> ((jwt_error + 'dt standard_claims) \<times> (jwt_error + 'dt standard_claims)
          \<times> (jwt_error + 'dt standard_claims)) option" where
  "fuzz_claim_validation L input =
     do {
       data \<leftarrow> slice_to input (min (length input) 8192);
       parts \<leftarrow> split_records data 5;
       p0 \<leftarrow> index parts 0;
       p1 \<leftarrow> index parts 1;
       p2 \<leftarrow> index parts 2;
       p3 \<leftarrow> index parts 3;
       config \<leftarrow> index parts 4;
       let forged = from_utf8_lossy p0 @ ''.'' @ from_utf8_lossy p1 @ ''.'' @ from_utf8_lossy p2;
       let cfg = fuzz_config (from_utf8_lossy p3) config;
       Some (decode L cfg forged, validate L cfg forged, decode L cfg (from_utf8_lossy data))
     }"

subsection \<open>fuzz_jwt_decode\<close>

definition fuzz_jwt_config :: jwt_config where
  "fuzz_jwt_config = default_config\<lparr>secret := FUZZ_SECRET, issuer := Some ''fuzz-test''\<rparr>"

definition fuzz_jwt_decode ::
    "('ek, 'dk, 'dt standard_claims) jwt_lib \<Rightarrow> bytes \<Rightarrow> jwt_error + 'dt standard_claims" where
  "fuzz_jwt_decode L input = decode L fuzz_jwt_config (from_utf8_lossy input)"

subsection \<open>fuzz_jwt_encode\<close>

text \<open>
  \<open>FuzzClaims\<close> and its derived serialization: no field is skipped, so an absent option is written
  as \<open>null\<close>; the entries of \<open>extra\<close> are flattened into the object.
\<close>

record fuzz_claims =
  fz_sub :: "string option"
  fz_iss :: "string option"
  fz_aud :: "string option"
  fz_exp :: "u64 option"
  fz_extra :: "(string \<times> json) list"

definition fuzz_fields :: "string list" where
  "fuzz_fields = [''sub'', ''iss'', ''aud'', ''exp'']"

definition serialize_fuzz :: "fuzz_claims \<Rightarrow> (string \<times> json) list" where
  "serialize_fuzz c =
     [(''sub'', json_option JStr (fz_sub c)), (''iss'', json_option JStr (fz_iss c)),
      (''aud'', json_option JStr (fz_aud c)), (''exp'', json_option (\<lambda>n. JInt (uint n)) (fz_exp c))]
     @ fz_extra c"

definition deserialize_fuzz :: "json \<Rightarrow> fuzz_claims option" where
  "deserialize_fuzz j =
     (case j of
        JObj es \<Rightarrow>
          if distinct (filter (\<lambda>k. k \<in> set fuzz_fields) (map fst es)) then
            do {
              s \<leftarrow> de_string (map_of es ''sub'');
              i \<leftarrow> de_string (map_of es ''iss'');
              a \<leftarrow> de_string (map_of es ''aud'');
              e \<leftarrow> de_u64 (map_of es ''exp'');
              Some \<lparr>fz_sub = s, fz_iss = i, fz_aud = a, fz_exp = e,
                    fz_extra = collect_map (filter (\<lambda>kv. fst kv \<notin> set fuzz_fields) es)\<rparr>
            }
          else None
      | _ \<Rightarrow> None)"

text \<open>
  \<open>from_str\<close> is the parser: the value a text denotes, if it is one. The outer option is \<open>None\<close> when
  the input is skipped.
\<close>

definition fuzz_jwt_encode ::
    "(string \<Rightarrow> json option) \<Rightarrow> ('ek, 'dk, fuzz_claims) jwt_lib \<Rightarrow> bytes
      \<Rightarrow> ((jwt_error + string) \<times> (jwt_error + fuzz_claims) option) option" where
  "fuzz_jwt_encode from_str L input =
     (case from_utf8 input of
        None \<Rightarrow> None
      | Some s \<Rightarrow>
          (case Option.bind (from_str s) deserialize_fuzz of
             None \<Rightarrow> None
           | Some claims \<Rightarrow>
               (case encode L fuzz_jwt_config claims of
                  Inr token \<Rightarrow> Some (Ok token, Some (decode L fuzz_jwt_config token))
                | Inl e \<Rightarrow> Some (Err e, None))))"

subsection \<open>fuzz_jwks\<close>

definition fuzz_alg :: "8 word \<Rightarrow> lib_algorithm" where
  "fuzz_alg alg_bits =
     (let m = alg_bits mod 4
      in if m = 0 then LibHS256 else if m = 1 then LibHS512 else if m = 2 then LibES256 else LibRS256)"

text \<open>The runtime is parameter \<open>rt\<close>; \<open>now\<close> is read by the constructor of the cache.\<close>

definition fuzz_jwks ::
    "('cl, 'resp, 'ka, 'p, 'dk, 'w) jwks_lib \<Rightarrow> ('ek, 'dk, 'c) jwt_lib \<Rightarrow> 'rt option
      \<Rightarrow> instant \<Rightarrow> instant \<Rightarrow> instant \<Rightarrow> instant \<Rightarrow> bytes \<Rightarrow> 'w
      \<Rightarrow> ((jwt_error + 'c) \<times> ('cl, 'dk, 'ka) jwks_cache \<times> 'w) option" where
  "fuzz_jwks J L rt now t1 t2 t3 input w =
     do {
       data \<leftarrow> slice_to input (min (length input) 8192);
       parts \<leftarrow> split_records data 2;
       p0 \<leftarrow> index parts 0;
       p1 \<leftarrow> index parts 1;
       let token = from_utf8_lossy p0;
       let alg_bits = unwrap_or 0 (first p1);
       let keys = AList.update ''fuzz-key'' (dk_from_secret L (as_bytes ''fuzz-jwks-static-secret'')) [];
       let cache = from_static_keys J now keys;
       let v = validation_new L (fuzz_alg alg_bits);
       let v = v\<lparr>v_leeway := ucast alg_bits * 3600\<rparr>;
       let v = v\<lparr>v_required_spec_claims := {}\<rparr>;
       _ \<leftarrow> rt;
       Some (jwks_decode J L t1 t2 t3 token v cache w)
     }"

section \<open>Lemmas\<close>

lemma slice_to_min [simp]: "slice_to xs (min (length xs) n) = Some (take n xs)"
  by (auto simp: slice_to_def min_def)

text \<open>The records the targets index are there.\<close>

lemma index_record_list [simp]: "i < n \<Longrightarrow> index (record_list data n) i = Some (record_list data n ! i)"
  by (simp add: index_def length_record_list)

text \<open>What the first target computes, written without the checks.\<close>

lemma fuzz_claim_validation_alt:
  "fuzz_claim_validation L input =
     (let data = take 8192 input; parts = record_list data 5;
          forged = from_utf8_lossy (parts ! 0) @ ''.'' @ from_utf8_lossy (parts ! 1) @ ''.''
            @ from_utf8_lossy (parts ! 2);
          cfg = fuzz_config (from_utf8_lossy (parts ! 3)) (parts ! 4)
      in Some (decode L cfg forged, decode L cfg forged, decode L cfg (from_utf8_lossy data)))"
  by (simp add: fuzz_claim_validation_def validate_def Let_def)

lemma fuzz_jwks_alt:
  "fuzz_jwks J L (Some r) now t1 t2 t3 input w =
     (let parts = record_list (take 8192 input) 2; alg_bits = unwrap_or 0 (first (parts ! 1))
      in Some (jwks_decode J L t1 t2 t3 (from_utf8_lossy (parts ! 0))
           ((validation_new L (fuzz_alg alg_bits))
              \<lparr>v_leeway := ucast alg_bits * 3600, v_required_spec_claims := {}\<rparr>)
           (from_static_keys J now [(''fuzz-key'', dk_from_secret L (as_bytes ''fuzz-jwks-static-secret''))]) w))"
  by (simp add: fuzz_jwks_def Let_def)

text \<open>Decoding under an HMAC secret fails with \<open>DecodingFailed\<close> only: such a key always loads.\<close>

lemma decode_hmac_error:
  assumes "decode L cfg tok = Err e" "family (algorithm cfg) = Hmac" "rotation_keys cfg = []"
  shows "\<exists>m. e = DecodingFailed m"
proof -
  have "decoding_keys L cfg = Ok [(key_id cfg, dk_from_secret L (as_bytes (secret cfg)))]"
    using assms(2,3) by (simp add: decoding_keys_def decoding_key_for_family)
  with assms(1) show ?thesis
    by (auto simp: decode_def decode_with_rotation_alt result_iff unknown_kid_error_def
        split: option.splits if_splits sum.splits)
qed

lemma fuzz_config_hmac:
  "family (algorithm (fuzz_config i b)) = Hmac" "rotation_keys (fuzz_config i b) = []"
  by (simp_all add: fuzz_config_def default_config_def Let_def)

lemma fuzz_jwt_config_hmac:
  "family (algorithm fuzz_jwt_config) = Hmac" "rotation_keys fuzz_jwt_config = []"
  by (simp_all add: fuzz_jwt_config_def default_config_def)

text \<open>A result is either accepted or a failure to decode.\<close>

definition ok_or_decoding_failed :: "jwt_error + 'c \<Rightarrow> bool" where
  "ok_or_decoding_failed r = (case r of Inr _ \<Rightarrow> True | Inl (DecodingFailed _) \<Rightarrow> True | Inl _ \<Rightarrow> False)"

lemma ok_or_decoding_failedI: "(\<And>e. r = Err e \<Longrightarrow> \<exists>m. e = DecodingFailed m) \<Longrightarrow> ok_or_decoding_failed r"
  by (cases r) (auto simp: ok_or_decoding_failed_def)

lemma fuzz_decode_outcome:
  "ok_or_decoding_failed (decode L (fuzz_config i b) tok)"
  "ok_or_decoding_failed (decode L fuzz_jwt_config tok)"
  by (rule ok_or_decoding_failedI, erule decode_hmac_error;
      simp add: fuzz_config_hmac fuzz_jwt_config_hmac)+

subsection \<open>The bits of the validation configuration\<close>

lemma fuzz_leeway_bits:
  "bit (fuzz_leeway config) n =
     (if n < 8 then bit (unwrap_or 0 (get_at config 1)) n else bit (unwrap_or 0 (first config)) (n - 8))"
proof (cases "n < 8")
  case True
  then show ?thesis by (simp add: fuzz_leeway_def bit_or_iff bit_push_bit_iff bit_ucast_iff)
next
  case False
  then show ?thesis
    by (auto simp: fuzz_leeway_def bit_or_iff bit_push_bit_iff bit_ucast_iff dest: bit_imp_le_length)
qed

lemma and_1_eq: "(b AND 1 = 1) \<longleftrightarrow> bit (b :: 8 word) 0"
  by (simp add: and_one_eq odd_iff_mod_2_eq_one [symmetric] bit_0)

lemma bit_2_word: "bit (2 :: 8 word) n \<longleftrightarrow> n = 1"
  using bit_exp_iff [of 1 n, where 'a = "8 word"] by auto

lemma and_2_eq: "(b AND 2 = 2) \<longleftrightarrow> bit (b :: 8 word) 1"
proof -
  have "bit (b AND 2) n = bit (if bit b 1 then 2 else (0 :: 8 word)) n" for n
    unfolding bit_and_iff by (cases "n = 1") (simp_all add: bit_2_word del: bit_numeral_word_iff)
  then have "b AND 2 = (if bit b 1 then 2 else 0)"
    by (intro bit_word_eqI) simp
  then show ?thesis by simp
qed

lemma fuzz_leeway_less: "unat (fuzz_leeway config) < 65536"
proof -
  have "take_bit 16 (fuzz_leeway config) = fuzz_leeway config"
    by (rule bit_word_eqI) (auto simp: bit_take_bit_iff fuzz_leeway_bits dest: bit_imp_le_length)
  then have "take_bit 16 (unat (fuzz_leeway config)) = unat (fuzz_leeway config)"
    by (metis unsigned_take_bit_eq)
  then show ?thesis using take_bit_nat_less_exp [of 16 "unat (fuzz_leeway config)"] by simp
qed

lemma fuzz_config_fields:
  "issuer (fuzz_config i b) = Some i" "leeway (fuzz_config i b) = Some (fuzz_leeway b)"
  "required_claims (fuzz_config i b) = [''exp'', ''iss'']"
  "validate_exp (fuzz_config i b) = bit (fuzz_leeway b) 8"
  "validate_nbf (fuzz_config i b) = bit (fuzz_leeway b) 9"
  "audience (fuzz_config i b) = None" "length (audiences (fuzz_config i b)) \<le> 1"
  by (cases "first b"; simp add: fuzz_config_def default_config_def Let_def default_required_claims_def
      DEFAULT_REQUIRED_CLAIMS_def fuzz_leeway_bits and_1_eq and_2_eq)+

lemma bit_le_unat: "bit (x :: u64) n \<Longrightarrow> 2 ^ n \<le> unat x"
proof -
  assume "bit x n"
  then have "bit (unat x) n" by (simp add: bit_unsigned_iff)
  then have "unat x div 2 ^ n \<noteq> 0" by (metis bit_iff_odd even_zero)
  then show ?thesis by (simp add: div_eq_0_iff)
qed

section \<open>Theorems\<close>

text \<open>
  Decoding bytes leniently always gives well-formed UTF-8, of at most three times the length; it
  changes nothing exactly when the strict decoder accepts the bytes, and then both give the same
  text; doing it twice changes nothing more.
\<close>

theorem from_utf8_lossy_valid:
  "from_utf8 (as_bytes (from_utf8_lossy bs)) = Some (from_utf8_lossy bs)
   \<and> length (from_utf8_lossy bs) \<le> 3 * length bs
   \<and> from_utf8 bs = (if as_bytes (from_utf8_lossy bs) = bs then Some (from_utf8_lossy bs) else None)
   \<and> from_utf8_lossy (as_bytes (from_utf8_lossy bs)) = from_utf8_lossy bs"
proof -
  have "utf8_lossy bs = bs \<longleftrightarrow> utf8_ok bs"
    using utf8_ok_lossy [of bs] utf8_lossy_id [of bs] by auto
  moreover have "length (from_utf8_lossy bs) \<le> 3 * length bs"
    using utf8_lossy_length [of bs] by (simp add: from_utf8_lossy_def text_of_def)
  ultimately show ?thesis
    by (simp add: from_utf8_def from_utf8_lossy_def utf8_ok_lossy utf8_lossy_id)
qed

lemma resolve_static:
  "resolve_key J t1 t2 t3 kid (from_static_keys J now [(k, key)]) w =
     ((if t1 - now < DEFAULT_TTL \<and> unwrap_or [] kid = k then Ok \<lparr>ck_key = key, ck_alg = None\<rparr>
       else Err (Jwks (''unknown key id `'' @ unwrap_or [] kid @ ''` in static key set''))),
      from_static_keys J now [(k, key)], w)"
  by (simp add: resolve_key_def from_static_keys_def Let_def)

lemma decode_static:
  "jwks_decode J L t1 t2 t3 token v (from_static_keys J now [(k, key)]) w =
     ((case lib_decode_header L token of
         Inl e \<Rightarrow> Err (DecodingFailed e)
       | Inr hdr \<Rightarrow>
           if t1 - now < DEFAULT_TTL \<and> unwrap_or [] (h_kid hdr) = k
           then map_err DecodingFailed (lib_decode L token key v)
           else Err (Jwks (''unknown key id `'' @ unwrap_or [] (h_kid hdr) @ ''` in static key set''))),
      from_static_keys J now [(k, key)], w)"
  by (simp add: jwks_decode_def resolve_static verify_with_def split: sum.split)

lemma static_outcome:
  "case jwks_decode J L t1 t2 t3 token v (from_static_keys J now [(k, key)]) w of
     (r, cache, w') \<Rightarrow> w' = w \<and> (case r of Inl (Jwks _) \<Rightarrow> True | _ \<Rightarrow> ok_or_decoding_failed r)"
  by (cases "lib_decode_header L token"; cases "lib_decode L token key v")
    (simp_all add: decode_static ok_or_decoding_failed_def)

lemma encode_hmac_error:
  assumes "family (algorithm cfg) = Hmac" "encode L cfg claims = Err e"
  shows "e = EncodingFailed"
  using assms by (cases "lib_encode L ((header_new L (to_lib_algorithm (algorithm cfg)))\<lparr>h_kid := key_id cfg\<rparr>) claims
        (ek_from_secret L (as_bytes (secret cfg)))")
    (simp_all add: encode_def encoding_key_def encoding_key_for_family Let_def)

text \<open>
  C32. The code of the targets never panics, whatever the bytes, and this is how each ends: every index
  and slice of \<open>split_records\<close> and of the targets is in range; each decoding of \<open>fuzz_claim_validation\<close>
  and \<open>fuzz_jwt_decode\<close> ends with a token accepted or with \<open>DecodingFailed\<close>; \<open>fuzz_jwt_encode\<close> skips
  its input, fails with \<open>EncodingFailed\<close>, or encodes and then decodes with one of these two outcomes;
  \<open>fuzz_jwks\<close> panics when, and only when, the runtime cannot be built, and otherwise ends with a token
  accepted, \<open>DecodingFailed\<close> or \<open>Jwks\<close>, without a request.
\<close>

theorem fuzz_targets_never_panic:
  "(case fuzz_claim_validation L input of
      None \<Rightarrow> False
    | Some (a, b, c) \<Rightarrow> a = b \<and> ok_or_decoding_failed a \<and> ok_or_decoding_failed c)
   \<and> ok_or_decoding_failed (fuzz_jwt_decode L input)
   \<and> (case fuzz_jwt_encode from_str E input of
        None \<Rightarrow> True
      | Some (Inl e, d) \<Rightarrow> e = EncodingFailed \<and> d = None
      | Some (Inr token, d) \<Rightarrow> d = Some (decode E fuzz_jwt_config token)
          \<and> ok_or_decoding_failed (decode E fuzz_jwt_config token))
   \<and> (case fuzz_jwks J L' rt now t1 t2 t3 input w of
        None \<Rightarrow> rt = None
      | Some (r, cache, w') \<Rightarrow> rt \<noteq> None \<and> w' = w
          \<and> (case r of Inl (Jwks _) \<Rightarrow> True | _ \<Rightarrow> ok_or_decoding_failed r))"
proof (intro conjI)
  show "case fuzz_claim_validation L input of
      None \<Rightarrow> False
    | Some (a, b, c) \<Rightarrow> a = b \<and> ok_or_decoding_failed a \<and> ok_or_decoding_failed c"
    by (simp add: fuzz_claim_validation_alt fuzz_decode_outcome Let_def)
  show "ok_or_decoding_failed (fuzz_jwt_decode L input)"
    by (simp add: fuzz_jwt_decode_def fuzz_decode_outcome)
  show "case fuzz_jwt_encode from_str E input of
        None \<Rightarrow> True
      | Some (Inl e, d) \<Rightarrow> e = EncodingFailed \<and> d = None
      | Some (Inr token, d) \<Rightarrow> d = Some (decode E fuzz_jwt_config token)
          \<and> ok_or_decoding_failed (decode E fuzz_jwt_config token)"
    using encode_hmac_error [OF fuzz_jwt_config_hmac(1), of E]
    by (auto simp: fuzz_jwt_encode_def fuzz_decode_outcome split: option.split sum.split)
  show "case fuzz_jwks J L' rt now t1 t2 t3 input w of
        None \<Rightarrow> rt = None
      | Some (r, cache, w') \<Rightarrow> rt \<noteq> None \<and> w' = w
          \<and> (case r of Inl (Jwks _) \<Rightarrow> True | _ \<Rightarrow> ok_or_decoding_failed r)"
  proof (cases rt)
    case None
    then show ?thesis by (simp add: fuzz_jwks_def)
  next
    case (Some x)
    then show ?thesis
      using static_outcome [where J = J and L = L' and ?t1.0 = t1 and ?t2.0 = t2 and ?t3.0 = t3] unfolding Some fuzz_jwks_alt Let_def
      by (simp add: case_prod_unfold)
  qed
qed

text \<open>
  The parameters of \<open>fuzz_claim_validation\<close> are tied to each other: the flags are bits 8 and 9 of
  the leeway, so \<open>exp\<close> is only checked with a leeway of 256 seconds or more and \<open>nbf\<close> with 512 or
  more; the required claims are always \<open>exp\<close> and \<open>iss\<close>, there is always an issuer and never more than
  one audience. The check of \<open>exp\<close> with the default leeway of 60 is never run.
\<close>

theorem fuzz_config_correlated:
  "(if validate_exp (fuzz_config i b) then 256 \<le> unat (fuzz_leeway b) else \<not> bit (fuzz_leeway b) 8)
   \<and> (if validate_nbf (fuzz_config i b) then 512 \<le> unat (fuzz_leeway b) else \<not> bit (fuzz_leeway b) 9)
   \<and> leeway (fuzz_config i b) = Some (fuzz_leeway b) \<and> unat (fuzz_leeway b) < 65536
   \<and> required_claims (fuzz_config i b) = [''exp'', ''iss''] \<and> issuer (fuzz_config i b) = Some i
   \<and> length (merged_audiences (fuzz_config i b)) \<le> 1"
  using bit_le_unat [of "fuzz_leeway b" 8] bit_le_unat [of "fuzz_leeway b" 9] fuzz_config_fields(7) [of i b]
  by (simp add: fuzz_config_fields fuzz_leeway_less merged_audiences_def)

lemma from_utf8_lossy_text:
  assumes "from_utf8 bs = Some s"
  shows "from_utf8_lossy bs = s"
  using assms utf8_lossy_id [of bs] by (auto simp: from_utf8_def from_utf8_lossy_def split: if_splits)

lemma record_list_write:
  assumes "length (concat (map write_record rs)) < 65536" "n = length rs"
  shows "record_list (concat (map write_record rs)) n = rs"
proof -
  have "length r \<le> length (concat (map write_record rs))" if "r \<in> set rs" for r
    using that by (induction rs) (auto simp: write_record_def)
  then have "\<And>r. r \<in> set rs \<Longrightarrow> length r < 65536" using assms(1) le_less_trans by blast
  from read_written_records [OF this, where junk = "[]"] show ?thesis using assms(2) by simp
qed

text \<open>
  The target reaches every token: for texts in well-formed UTF-8 that fit into the bound, the
  input that writes them as records makes \<open>fuzz_claim_validation\<close> decode and validate exactly the
  token of their three parts, under exactly the given issuer.
\<close>

theorem fuzz_reaches_every_token:
  assumes "from_utf8 h = Some header_text" "from_utf8 p = Some payload" "from_utf8 s = Some signature"
    and "from_utf8 i = Some issuer_text"
    and "length (concat (map write_record [h, p, s, i, config])) \<le> 8192"
  shows "\<exists>r. fuzz_claim_validation L (concat (map write_record [h, p, s, i, config])) =
    (let cfg = fuzz_config issuer_text config; forged = header_text @ ''.'' @ payload @ ''.'' @ signature
     in Some (decode L cfg forged, validate L cfg forged, r))"
proof -
  have "record_list (take 8192 (concat (map write_record [h, p, s, i, config]))) 5 = [h, p, s, i, config]"
    unfolding take_all [OF assms(5)]
    by (rule record_list_write) (use assms(5) in simp_all)
  then show ?thesis
    using assms(1-4) [THEN from_utf8_lossy_text]
    by (simp only: fuzz_claim_validation_alt Let_def) (simp add: validate_def)
qed

theorem fuzz_reaches_every_token_witness:
  "\<forall>L :: (unit, unit, int standard_claims) jwt_lib. \<exists>r.
     fuzz_claim_validation L (concat (map write_record [[0x68], [0x70], [0xC3, 0xA9], [0x69], [1, 0]])) =
     (let cfg = fuzz_config ''i'' [1, 0]; forged = ''h'' @ ''.'' @ ''p'' @ ''.'' @ [CHR 0xC3, CHR 0xA9]
      in Some (decode L cfg forged, validate L cfg forged, r))"
proof
  fix L :: "(unit, unit, int standard_claims) jwt_lib"
  have 1: "from_utf8 [0x68] = Some ''h''" "from_utf8 [0x70] = Some ''p''"
      "from_utf8 [0xC3, 0xA9] = Some [CHR 0xC3, CHR 0xA9]" "from_utf8 [0x69] = Some ''i''"
    by code_simp+
  have 2: "length (concat (map write_record [[0x68], [0x70], [0xC3, 0xA9], [0x69], [1, 0]])) \<le> 8192"
    by (simp add: write_record_def)
  show "\<exists>r. fuzz_claim_validation L (concat (map write_record [[0x68], [0x70], [0xC3, 0xA9], [0x69], [1, 0]])) =
     (let cfg = fuzz_config ''i'' [1, 0]; forged = ''h'' @ ''.'' @ ''p'' @ ''.'' @ [CHR 0xC3, CHR 0xA9]
      in Some (decode L cfg forged, validate L cfg forged, r))"
    by (rule fuzz_reaches_every_token [OF 1 2])
qed

text \<open>
  \<open>fuzz_jwks\<close> never sends a request and never changes the cache, and it accepts a token only when
  its header names \<open>fuzz-key\<close> and the token verifies under the static secret.
\<close>

theorem fuzz_jwks_fails_closed:
  assumes "fuzz_jwks J L rt now t1 t2 t3 input w = Some (r, cache, w')"
  shows "w' = w \<and> jc_static_keys cache \<and> cs_fetched_at (jc_state cache) = Some now
    \<and> (case r of
         Inl e \<Rightarrow> (\<exists>m. e = DecodingFailed m) \<or> (\<exists>m. e = Jwks m)
       | Inr c \<Rightarrow> \<exists>token hdr v. lib_decode_header L token = Ok hdr \<and> h_kid hdr = Some ''fuzz-key''
           \<and> token = from_utf8_lossy (record_list (take 8192 input) 2 ! 0)
           \<and> lib_decode L token (dk_from_secret L (as_bytes ''fuzz-jwks-static-secret'')) v = Ok c)"
proof -
  obtain x where x: "rt = Some x"
    using assms by (cases rt) (simp_all add: fuzz_jwks_def Let_def)
  let ?token = "from_utf8_lossy (record_list (take 8192 input) 2 ! 0)"
  have cache: "w' = w" "cache = from_static_keys J now [(''fuzz-key'', dk_from_secret L (as_bytes ''fuzz-jwks-static-secret''))]"
    using assms unfolding x fuzz_jwks_alt Let_def decode_static by simp_all
  have "jc_static_keys cache \<and> cs_fetched_at (jc_state cache) = Some now"
    by (simp add: cache(2) from_static_keys_def)
  moreover obtain v where "r = (case lib_decode_header L ?token of
         Inl e \<Rightarrow> Err (DecodingFailed e)
       | Inr hdr \<Rightarrow>
           if t1 - now < DEFAULT_TTL \<and> unwrap_or [] (h_kid hdr) = ''fuzz-key''
           then map_err DecodingFailed (lib_decode L ?token (dk_from_secret L (as_bytes ''fuzz-jwks-static-secret'')) v)
           else Err (Jwks (''unknown key id `'' @ unwrap_or [] (h_kid hdr) @ ''` in static key set'')))"
    using assms unfolding x fuzz_jwks_alt Let_def decode_static by blast
  ultimately show ?thesis
    using cache(1)
    by (cases "lib_decode_header L ?token";
        cases "lib_decode L ?token (dk_from_secret L (as_bytes ''fuzz-jwks-static-secret'')) v")
      (auto simp: unwrap_or_def split: option.splits if_splits)
qed

text \<open>A token that the target accepts: \<open>tok\<close> in the first record, no second record.\<close>

definition fuzz_lib :: "(bytes, bytes, nat) jwt_lib" where
  "fuzz_lib = table_lib \<lparr>h_alg = LibHS256, h_kid = Some ''fuzz-key''\<rparr> 7 (as_bytes ''fuzz-jwks-static-secret'')
     \<lparr>tf_alg = LibHS256, tf_present = {}, tf_exp = None, tf_nbf = None, tf_iss = None, tf_aud = None\<rparr>"

lemma fuzz_tok_records: "record_list [3, 0, 0x74, 0x6F, 0x6B] 2 = [[0x74, 0x6F, 0x6B], []]"
  by code_simp

lemma fuzz_tok_text: "from_utf8_lossy [0x74, 0x6F, 0x6B] = ''tok''"
  by code_simp

definition no_endpoint :: "(unit, unit, string, unit, bytes, nat) jwks_lib" where
  "no_endpoint =
     \<lparr>client_new = (), http_get = (\<lambda>_ _ n. (Err ''refused'', Suc n)), error_for_status = Ok,
      response_json = (\<lambda>_ n. (Err ''empty'', n)), from_jwk = (\<lambda>_. Err ''unusable''),
      key_algorithm_from = (\<lambda>_. ''alg''), show_algorithm = (\<lambda>_. ''alg''), show_key_algorithm = (\<lambda>k. k)\<rparr>"

lemma fuzz_accepts:
  "fuzz_jwks no_endpoint fuzz_lib (Some ()) 5 6 6 6 [3, 0, 0x74, 0x6F, 0x6B] 0 =
     Some (Ok 7, from_static_keys no_endpoint 5 [(''fuzz-key'', as_bytes ''fuzz-jwks-static-secret'')], 0)"
  by (simp add: fuzz_jwks_alt fuzz_tok_records fuzz_tok_text decode_static fuzz_lib_def table_lib_def
      passes_def fuzz_alg_def Let_def DEFAULT_TTL_def from_secs_def)

theorem fuzz_jwks_fails_closed_witness:
  "\<exists>hdr. lib_decode_header fuzz_lib ''tok'' = Ok hdr \<and> h_kid hdr = Some ''fuzz-key''"
  using fuzz_jwks_fails_closed [OF fuzz_accepts] by (auto simp: fuzz_tok_records fuzz_tok_text)

subsection \<open>FuzzClaims\<close>

definition fuzz_extra_ok :: "fuzz_claims \<Rightarrow> bool" where
  "fuzz_extra_ok c \<longleftrightarrow> distinct (map fst (fz_extra c)) \<and> (\<forall>k \<in> fst ` set (fz_extra c). k \<notin> set fuzz_fields)"

text \<open>
  What \<open>FuzzClaims\<close> writes it reads back unchanged, \<open>null\<close> for every absent field included.
\<close>

theorem fuzz_claims_roundtrip:
  assumes "fuzz_extra_ok c"
  shows "deserialize_fuzz (JObj (serialize_fuzz c)) = Some c"
proof -
  have f: "filter (\<lambda>k. k \<in> set fuzz_fields) (map fst (fz_extra c)) = []"
      "filter (\<lambda>kv. fst kv \<notin> set fuzz_fields) (fz_extra c) = fz_extra c"
    using assms by (auto simp: fuzz_extra_ok_def filter_empty_conv intro!: filter_True)
  then show ?thesis
    using assms
    by (simp add: deserialize_fuzz_def serialize_fuzz_def fuzz_fields_def fuzz_extra_ok_def
        collect_map_distinct)
qed

theorem fuzz_claims_roundtrip_witness:
  "deserialize_fuzz (JObj (serialize_fuzz
     \<lparr>fz_sub = Some ''u'', fz_iss = None, fz_aud = None, fz_exp = Some 9, fz_extra = [(''x'', JNull)]\<rparr>))
   = Some \<lparr>fz_sub = Some ''u'', fz_iss = None, fz_aud = None, fz_exp = Some 9, fz_extra = [(''x'', JNull)]\<rparr>"
  by (rule fuzz_claims_roundtrip) (simp add: fuzz_extra_ok_def fuzz_fields_def)

text \<open>
  Every accepted input comes from deserialized claims, and what the target decodes in the end is
  what it has just encoded; the result of the decoding is dropped, so a failure there goes unseen.
\<close>

lemma fuzz_jwt_encode_decodes_own:
  assumes "fuzz_jwt_encode from_str L input = Some (r, d)"
  shows "\<exists>s claims. from_utf8 input = Some s \<and> Option.bind (from_str s) deserialize_fuzz = Some claims
    \<and> r = encode L fuzz_jwt_config claims
    \<and> d = (case r of Inr token \<Rightarrow> Some (decode L fuzz_jwt_config token) | Inl _ \<Rightarrow> None)"
  using assms by (auto simp: fuzz_jwt_encode_def split: option.splits sum.splits)

end
