(* ===== verification/Revocation_Tests.thy ===== *)
theory Revocation_Tests
  imports Test_Assertions Store_Properties Extractors
begin

section \<open>The unit tests of the in-memory store (src/revocation.rs, mod tests)\<close>

text \<open>
  The six tests as the source has them, with \<open>\<tau> i\<close> the \<open>i\<close>-th reading of the clock: \<open>revoke\<close> reads
  it twice, \<open>len\<close>, \<open>is_empty\<close> and \<open>is_revoked\<close> once. The theorems say for which clocks they pass.
\<close>

abbreviation millis :: "nat \<Rightarrow> duration" where
  "millis n \<equiv> n * 1000000"

text \<open>A call of \<open>revoke\<close> followed by \<open>unwrap\<close>, and the question of \<open>is_revoked\<close> likewise.\<close>

definition revoke_unwrap :: "instant \<Rightarrow> instant \<Rightarrow> string \<Rightarrow> in_memory_store \<Rightarrow> in_memory_store option" where
  "revoke_unwrap t1 t2 j s =
     do {
       let (r, s) = store_revoke t1 t2 j s;
       _ \<leftarrow> unwrap r;
       Some s
     }"

definition is_revoked_unwrap :: "instant \<Rightarrow> string \<Rightarrow> in_memory_store \<Rightarrow> bool option" where
  "is_revoked_unwrap t j s = unwrap (store_is_revoked t j s)"

text \<open>A \<open>for\<close> loop that revokes its ids; the \<open>i\<close>-th pass makes two readings, from number \<open>k\<close> on.\<close>

fun revoke_each :: "(nat \<Rightarrow> instant) \<Rightarrow> nat \<Rightarrow> string list \<Rightarrow> in_memory_store \<Rightarrow> in_memory_store option" where
  "revoke_each \<tau> k [] s = Some s"
| "revoke_each \<tau> k (j # js) s =
     do {
       s \<leftarrow> revoke_unwrap (\<tau> k) (\<tau> (k + 1)) j s;
       revoke_each \<tau> (k + 2) js s
     }"

definition store_never_exceeds_max_entries_and_evicts_oldest :: "(nat \<Rightarrow> instant) \<Rightarrow> unit option" where
  "store_never_exceeds_max_entries_and_evicts_oldest \<tau> =
     do {
       let s = with_limits 3 None;
       let (e, s) = store_is_empty (\<tau> 0) s;
       check e;
       s \<leftarrow> revoke_each \<tau> 1 [''jti-1'', ''jti-2'', ''jti-3''] s;
       let (n, s) = store_len (\<tau> 7) s;
       check (n = 3);
       s \<leftarrow> revoke_unwrap (\<tau> 8) (\<tau> 9) ''jti-4'' s;
       let (n, s) = store_len (\<tau> 10) s;
       check (n = 3);
       let (e, s) = store_is_empty (\<tau> 11) s;
       check (\<not> e);
       b \<leftarrow> is_revoked_unwrap (\<tau> 12) ''jti-1'' s;
       check (\<not> b);
       b \<leftarrow> is_revoked_unwrap (\<tau> 13) ''jti-2'' s;
       check b;
       b \<leftarrow> is_revoked_unwrap (\<tau> 14) ''jti-3'' s;
       check b;
       b \<leftarrow> is_revoked_unwrap (\<tau> 15) ''jti-4'' s;
       check b
     }"

definition flood_id :: "nat \<Rightarrow> string" where
  "flood_id i = ''flood-'' @ show_nat i"

definition flood_of_revocations_stays_bounded :: "(nat \<Rightarrow> instant) \<Rightarrow> unit option" where
  "flood_of_revocations_stays_bounded \<tau> =
     do {
       let s = with_limits 50 None;
       s \<leftarrow> revoke_each \<tau> 0 (map flood_id [0..<500]) s;
       let (n, s) = store_len (\<tau> 1000) s;
       check (n = 50);
       b \<leftarrow> is_revoked_unwrap (\<tau> 1001) ''flood-499'' s;
       check b;
       b \<leftarrow> is_revoked_unwrap (\<tau> 1002) ''flood-0'' s;
       check (\<not> b)
     }"

text \<open>The sleep of the test lies between the readings 2 and 3.\<close>

definition ttl_expires_entries :: "(nat \<Rightarrow> instant) \<Rightarrow> unit option" where
  "ttl_expires_entries \<tau> =
     do {
       let s = with_limits 100 (Some (millis 30));
       s \<leftarrow> revoke_unwrap (\<tau> 0) (\<tau> 1) ''ephemeral'' s;
       b \<leftarrow> is_revoked_unwrap (\<tau> 2) ''ephemeral'' s;
       check b;
       b \<leftarrow> is_revoked_unwrap (\<tau> 3) ''ephemeral'' s;
       check (\<not> b);
       let (n, s) = store_len (\<tau> 4) s;
       check (n = 0)
     }"

text \<open>The sleep of the test lies between the readings 4 and 5.\<close>

definition sweep_on_insert_frees_capacity :: "(nat \<Rightarrow> instant) \<Rightarrow> unit option" where
  "sweep_on_insert_frees_capacity \<tau> =
     do {
       let s = with_limits 2 (Some (millis 30));
       s \<leftarrow> revoke_unwrap (\<tau> 0) (\<tau> 1) ''a'' s;
       s \<leftarrow> revoke_unwrap (\<tau> 2) (\<tau> 3) ''b'' s;
       let (n, s) = store_len (\<tau> 4) s;
       check (n = 2);
       s \<leftarrow> revoke_unwrap (\<tau> 5) (\<tau> 6) ''c'' s;
       let (n, s) = store_len (\<tau> 7) s;
       check (n = 1);
       b \<leftarrow> is_revoked_unwrap (\<tau> 8) ''c'' s;
       check b;
       b \<leftarrow> is_revoked_unwrap (\<tau> 9) ''a'' s;
       check (\<not> b);
       b \<leftarrow> is_revoked_unwrap (\<tau> 10) ''b'' s;
       check (\<not> b)
     }"

definition revoke_is_idempotent :: "(nat \<Rightarrow> instant) \<Rightarrow> unit option" where
  "revoke_is_idempotent \<tau> =
     do {
       let s = store_new;
       s \<leftarrow> revoke_unwrap (\<tau> 0) (\<tau> 1) ''same'' s;
       s \<leftarrow> revoke_unwrap (\<tau> 2) (\<tau> 3) ''same'' s;
       let (n, s) = store_len (\<tau> 4) s;
       check (n = 1);
       b \<leftarrow> is_revoked_unwrap (\<tau> 5) ''same'' s;
       check b
     }"

definition zero_capacity_is_clamped_to_one :: "(nat \<Rightarrow> instant) \<Rightarrow> unit option" where
  "zero_capacity_is_clamped_to_one \<tau> =
     do {
       let s = with_limits 0 None;
       s \<leftarrow> revoke_unwrap (\<tau> 0) (\<tau> 1) ''first'' s;
       s \<leftarrow> revoke_unwrap (\<tau> 2) (\<tau> 3) ''second'' s;
       let (n, s) = store_len (\<tau> 4) s;
       check (n = 1);
       b \<leftarrow> is_revoked_unwrap (\<tau> 5) ''second'' s;
       check b
     }"

section \<open>Lemmas\<close>

lemma revoke_unwrap_simp [simp]: "revoke_unwrap t1 t2 j s = Some (insert_entry t2 j (make_room t1 s))"
  by (simp add: revoke_unwrap_def store_revoke_def)

lemma is_revoked_unwrap_simp [simp]:
  "is_revoked_unwrap t j s =
     Some (\<exists>i. map_of (entries (inner s)) j = Some i \<and> alive (ttl s) i t)"
  by (simp add: is_revoked_unwrap_def store_is_revoked_alive)

fun timed :: "(nat \<Rightarrow> instant) \<Rightarrow> nat \<Rightarrow> string list \<Rightarrow> history" where
  "timed \<tau> k [] = []"
| "timed \<tau> k (j # js) = (\<tau> k, \<tau> (k + 1), j) # timed \<tau> (k + 2) js"

lemma revoke_each_after [simp]: "revoke_each \<tau> k js s = Some (after (timed \<tau> k js) s)"
  by (induction js arbitrary: k s) (simp_all add: store_revoke_def)

lemma timed_ids [simp]: "revoked_ids (timed \<tau> k js) = js" "length (timed \<tau> k js) = length js"
  by (induction js arbitrary: k) simp_all

lemma store_len_forever: "ttl s = None \<Longrightarrow> store_len t s = (length (entries (inner s)), s)"
  by (simp add: store_len_def sweep_expired_def)

lemma flood_id_inj: "inj flood_id"
proof (rule injI)
  fix i j assume "flood_id i = flood_id j"
  then have "read_nat (show_nat i) = read_nat (show_nat j)" by (simp add: flood_id_def)
  then show "i = j" by (simp add: read_show_nat)
qed

lemma flood_id_literals: "''flood-499'' = flood_id 499" "''flood-0'' = flood_id 0"
  by code_simp+

text \<open>The sizes and answers the tests ask for, of a store that has seen distinct ids.\<close>

lemma after_entries:
  assumes "distinct (revoked_ids rs)"
  shows "entries (inner (after rs (with_limits m d))) = queue_after (max m 1) d rs"
  using represents_after [OF assms] by (simp add: represents_def)

lemma after_length:
  assumes "distinct (revoked_ids rs)"
  shows "length (entries (inner (after rs (with_limits m None)))) = min (length rs) (max m 1)"
proof -
  have "length (map fst (queue_after (max m 1) None rs)) = min (length rs) (max m 1)"
    by (subst queue_after_forever) (auto simp: min_def)
  then show ?thesis by (simp add: after_entries [OF assms])
qed

lemma after_remembers:
  assumes "distinct (revoked_ids rs)"
  shows "(\<exists>i. map_of (entries (inner (after rs (with_limits m None)))) j = Some i)
    \<longleftrightarrow> j \<in> set (drop (length rs - max m 1) (revoked_ids rs))"
  using remembers_newest [OF assms, of 0 j m] by (simp add: store_is_revoked_alive)

lemma flood_passes: "flood_of_revocations_stays_bounded \<tau> = Some ()"
proof -
  define ids where "ids = map flood_id [0..<500]"
  let ?rs = "timed \<tau> 0 ids"
  have dist: "distinct (revoked_ids ?rs)"
    by (simp add: ids_def distinct_map inj_on_subset [OF flood_id_inj] del: upt_conv_Cons)
  have newest: "drop (length ?rs - max 50 1) (revoked_ids ?rs) = map flood_id [450..<500]"
    by (simp add: ids_def drop_map)
  have "499 \<in> {450..<500::nat}" "0 \<notin> {450..<500::nat}" by simp_all
  then have "flood_id 499 \<in> set (map flood_id [450..<500])" "flood_id 0 \<notin> set (map flood_id [450..<500])"
    using flood_id_inj unfolding set_map set_upt by (blast dest: injD)+
  then have newest_kept: "\<exists>i. map_of (entries (inner (after ?rs (with_limits 50 None)))) (flood_id 499) = Some i"
    and oldest_gone: "\<not> (\<exists>i. map_of (entries (inner (after ?rs (with_limits 50 None)))) (flood_id 0) = Some i)"
    using after_remembers [OF dist, of 50] unfolding newest by blast+
  have "length (entries (inner (after ?rs (with_limits 50 None)))) = 50"
    using after_length [OF dist, of 50] by (simp add: ids_def)
  then show ?thesis
    unfolding flood_of_revocations_stays_bounded_def flood_id_literals ids_def [symmetric]
    using newest_kept oldest_gone by (simp add: store_len_forever)
qed

text \<open>The operations on a store written out, so that a test can be evaluated.\<close>

definition mem_store :: "(string \<times> instant) list \<Rightarrow> string list \<Rightarrow> nat \<Rightarrow> duration option \<Rightarrow> in_memory_store" where
  "mem_store es os m d = \<lparr>inner = \<lparr>entries = es, order = os\<rparr>, max_entries = m, ttl = d\<rparr>"

lemma mem_store_fields:
  "entries (inner (mem_store es os m d)) = es"
  "ttl (mem_store es os m d) = d"
  by (simp_all add: mem_store_def)

lemma mem_store_forever:
  "with_limits n d = mem_store [] [] (max n 1) d"
  "make_room t (mem_store es os m None) = (case evict_loop m es os of (es', os') \<Rightarrow> mem_store es' os' m None)"
  "insert_entry t j (mem_store es os m d) = mem_store (AList.update j t es) (os @ [j]) m d"
  "store_len t (mem_store es os m None) = (length es, mem_store es os m None)"
  by (simp_all add: mem_store_def with_limits_def make_room_def sweep_expired_def evict_oldest_to_def
      insert_entry_def store_len_def split: prod.split)

lemma mem_store_ttl:
  fixes live :: "(string \<times> instant) list"
  assumes "live = filter (\<lambda>e. t - snd e < d) es"
  shows "make_room t (mem_store es os m (Some d)) =
      (case evict_loop m live (filter (\<lambda>j. contains_key j live) os) of (es', os') \<Rightarrow> mem_store es' os' m (Some d))"
    and "store_len t (mem_store es os m (Some d)) =
      (length live, mem_store live (filter (\<lambda>j. contains_key j live) os) m (Some d))"
  unfolding assms
  by (simp_all add: mem_store_def make_room_def sweep_expired_def evict_oldest_to_def
      store_len_def Let_def case_prod_unfold split: prod.split)

lemmas run_test = mem_store_forever mem_store_fields mem_store_ttl [OF refl] contains_key_def Let_def

lemma evicts_oldest_passes:
  "store_never_exceeds_max_entries_and_evicts_oldest \<tau> = Some ()"
  by (simp add: store_never_exceeds_max_entries_and_evicts_oldest_def store_is_empty_def store_revoke_def run_test)

lemma idempotent_passes: "revoke_is_idempotent \<tau> = Some ()"
  by (simp add: revoke_is_idempotent_def store_new_def DEFAULT_MAX_ENTRIES_def run_test)

lemma zero_capacity_passes: "zero_capacity_is_clamped_to_one \<tau> = Some ()"
  by (simp add: zero_capacity_is_clamped_to_one_def run_test)

lemma ttl_expires_iff:
  assumes "mono \<tau>" "\<tau> 2 + millis 50 \<le> \<tau> 3"
  shows "ttl_expires_entries \<tau> = Some () \<longleftrightarrow> \<tau> 2 - \<tau> 1 < millis 30"
proof -
  have "\<tau> 1 \<le> \<tau> 2" "\<tau> 3 \<le> \<tau> 4" using assms(1) by (simp_all add: monoD)
  then have "\<not> \<tau> 3 - \<tau> 1 < 30000000" "\<not> \<tau> 4 - \<tau> 1 < 30000000" using assms(2) by auto
  then show ?thesis by (simp add: ttl_expires_entries_def run_test)
qed

lemma sweep_on_insert_iff:
  assumes "mono \<tau>" "\<tau> 4 + millis 50 \<le> \<tau> 5"
  shows "sweep_on_insert_frees_capacity \<tau> = Some ()
    \<longleftrightarrow> \<tau> 4 - \<tau> 1 < millis 30 \<and> \<tau> 8 - \<tau> 6 < millis 30"
proof -
  have le: "\<tau> 1 \<le> \<tau> 2" "\<tau> 2 \<le> \<tau> 3" "\<tau> 3 \<le> \<tau> 4" "\<tau> 5 \<le> \<tau> 6" "\<tau> 6 \<le> \<tau> 7" "\<tau> 7 \<le> \<tau> 8"
    using assms(1) by (simp_all add: monoD)
  show ?thesis
  proof (cases "\<tau> 4 - \<tau> 1 < 30000000")
    case True
    with le have "\<tau> 2 - \<tau> 1 < 30000000" "\<tau> 4 - \<tau> 3 < 30000000" by auto
    moreover have "\<not> \<tau> 5 - \<tau> 1 < 30000000" "\<not> \<tau> 5 - \<tau> 3 < 30000000" using le assms(2) by auto
    moreover have "\<tau> 7 - \<tau> 6 < 30000000 \<or> \<not> \<tau> 8 - \<tau> 6 < 30000000" using le by auto
    ultimately show ?thesis
      using True by (elim disjE; simp add: sweep_on_insert_frees_capacity_def run_test)
  next
    case False
    then show ?thesis
      by (cases "\<tau> 2 - \<tau> 1 < 30000000"; cases "\<tau> 4 - \<tau> 3 < 30000000")
        (simp_all add: sweep_on_insert_frees_capacity_def run_test)
  qed
qed

section \<open>Theorems\<close>

text \<open>
  The four tests of the store that do not depend on time pass for every clock: eviction of the
  oldest, the flood of 500 revocations into 50 places, idempotence, and the capacity of zero.
\<close>

theorem revocation_unit_tests_pass:
  "store_never_exceeds_max_entries_and_evicts_oldest \<tau> = Some ()
   \<and> flood_of_revocations_stays_bounded \<tau> = Some ()
   \<and> revoke_is_idempotent \<tau> = Some ()
   \<and> zero_capacity_is_clamped_to_one \<tau> = Some ()"
  by (simp add: evicts_oldest_passes flood_passes idempotent_passes zero_capacity_passes)

text \<open>
  The two tests with a lifetime of 30 ms are races against the clock: with their sleeps of 50 ms they
  pass exactly when the assertions that expect a live entry run within 30 ms of its insertion.
\<close>

theorem revocation_ttl_tests_race:
  assumes "mono \<tau>" "\<tau> 2 + millis 50 \<le> \<tau> 3" "mono \<sigma>" "\<sigma> 4 + millis 50 \<le> \<sigma> 5"
  shows "(ttl_expires_entries \<tau> = Some () \<longleftrightarrow> \<tau> 2 - \<tau> 1 < millis 30)
    \<and> (sweep_on_insert_frees_capacity \<sigma> = Some ()
        \<longleftrightarrow> \<sigma> 4 - \<sigma> 1 < millis 30 \<and> \<sigma> 8 - \<sigma> 6 < millis 30)"
  using ttl_expires_iff [OF assms(1,2)] sweep_on_insert_iff [OF assms(3,4)] by blast

text \<open>A clock that only moves while the tests sleep, and one on which the first of them fails.\<close>

theorem revocation_ttl_tests_race_witness:
  "ttl_expires_entries (\<lambda>i. if i < 3 then 0 else millis 50) = Some ()
   \<and> sweep_on_insert_frees_capacity (\<lambda>i. if i < 5 then 0 else millis 50) = Some ()"
proof -
  have "mono (\<lambda>i. if i < 3 then 0 else millis 50)" "mono (\<lambda>i. if i < 5 then 0 else millis 50)"
    by (auto intro!: monoI)
  from revocation_ttl_tests_race [OF this(1) _ this(2)] show ?thesis by simp
qed

end
