(* ===== verification/Hmac_Library.thy ===== *)
theory Hmac_Library
  imports Jwt_Service Extractors "HOL-Library.Countable"
begin

section \<open>jsonwebtoken with HMAC keys, as its documentation describes it\<close>

text \<open>
  The unit tests call \<open>encode\<close> and \<open>decode\<close> with several claims types on the same tokens. Here the
  library carries JSON values, a claims type comes with its two conversions (\<open>typed\<close>), and
  \<open>hmac_documented\<close> says what is documented of HMAC keys; the library at the end of the theory
  shows that this can hold.
\<close>

text \<open>
  What a payload says of the registered claims: \<open>exp\<close> and \<open>nbf\<close> are numbers of seconds, \<open>iss\<close> and \<open>aud\<close>
  a text or an array of texts, \<open>sub\<close> a text. A member of another form is not a claim that is present.
\<close>

definition json_string :: "json option \<Rightarrow> string option" where
  "json_string j = (case j of Some (JStr s) \<Rightarrow> Some s | _ \<Rightarrow> None)"

definition json_texts :: "json option \<Rightarrow> string set option" where
  "json_texts j =
     (case j of
        Some (JStr s) \<Rightarrow> Some {s}
      | Some (JArr js) \<Rightarrow> map_option set (de_strings js)
      | _ \<Rightarrow> None)"

definition json_time :: "json option \<Rightarrow> nat option" where
  "json_time j =
     (case j of Some (JInt n) \<Rightarrow> if 0 \<le> n \<and> n < 2 ^ 64 then Some (nat n) else None | _ \<Rightarrow> None)"

definition json_members :: "json \<Rightarrow> (string \<times> json) list" where
  "json_members j = (case j of JObj es \<Rightarrow> es | _ \<Rightarrow> [])"

definition json_facts :: "lib_algorithm \<Rightarrow> json \<Rightarrow> token_facts" where
  "json_facts a j =
     (let m = map_of (json_members j)
      in \<lparr>tf_alg = a,
          tf_present = {k. (k = ''exp'' \<and> json_time (m ''exp'') \<noteq> None) \<or> (k = ''nbf'' \<and> json_time (m ''nbf'') \<noteq> None)
            \<or> (k = ''aud'' \<and> json_texts (m ''aud'') \<noteq> None) \<or> (k = ''iss'' \<and> json_texts (m ''iss'') \<noteq> None)
            \<or> (k = ''sub'' \<and> json_string (m ''sub'') \<noteq> None)},
          tf_exp = json_time (m ''exp''), tf_nbf = json_time (m ''nbf''),
          tf_iss = json_texts (m ''iss''), tf_aud = json_texts (m ''aud'')\<rparr>)"

text \<open>
  The payloads of which something is relied on: objects without a member twice, whose numbers are
  integers of 64 bits, at any depth, and whose registered claims are absent, \<open>null\<close> or of their form.
\<close>

fun plain_json :: "json \<Rightarrow> bool" where
  "plain_json (JInt n) \<longleftrightarrow> - (2 ^ 63) \<le> n \<and> n < 2 ^ 64"
| "plain_json (JFloat _) \<longleftrightarrow> False"
| "plain_json (JArr js) \<longleftrightarrow> list_all plain_json js"
| "plain_json (JObj es) \<longleftrightarrow> distinct (map fst es) \<and> list_all (\<lambda>kv. plain_json (snd kv)) es"
| "plain_json _ \<longleftrightarrow> True"

definition well_formed :: "(json option \<Rightarrow> 'a option) \<Rightarrow> json option \<Rightarrow> bool" where
  "well_formed read m \<longleftrightarrow> m = None \<or> m = Some JNull \<or> read m \<noteq> None"

definition plain_payload :: "json \<Rightarrow> bool" where
  "plain_payload j \<longleftrightarrow>
     plain_json j
   \<and> (case j of
        JObj es \<Rightarrow>
          well_formed json_time (map_of es ''exp'') \<and> well_formed json_time (map_of es ''nbf'')
        \<and> well_formed json_texts (map_of es ''iss'') \<and> well_formed json_texts (map_of es ''aud'')
        \<and> well_formed json_string (map_of es ''sub'')
      | _ \<Rightarrow> False)"

lemma well_formed_simps [simp]:
  "well_formed f None" "well_formed f (Some JNull)"
  "well_formed json_string (Some (JStr s))" "well_formed json_texts (Some (JStr s))"
  "well_formed json_time (Some (JInt n)) \<longleftrightarrow> 0 \<le> n \<and> n < 2 ^ 64"
  by (simp_all add: well_formed_def json_string_def json_texts_def json_time_def)

text \<open>A library over a claims type, from one over JSON values.\<close>

definition typed ::
    "('c \<Rightarrow> json) \<Rightarrow> (json \<Rightarrow> 'c option) \<Rightarrow> ('ek, 'dk, json) jwt_lib \<Rightarrow> ('ek, 'dk, 'c) jwt_lib" where
  "typed ser de L =
     \<lparr>ek_from_secret = ek_from_secret L, ek_from_rsa_pem = ek_from_rsa_pem L,
      ek_from_ec_der = ek_from_ec_der L, ek_from_ec_pem = ek_from_ec_pem L,
      ek_from_ed_der = ek_from_ed_der L, ek_from_ed_pem = ek_from_ed_pem L,
      dk_from_secret = dk_from_secret L, dk_from_rsa_der = dk_from_rsa_der L,
      dk_from_rsa_pem = dk_from_rsa_pem L, dk_from_ec_der = dk_from_ec_der L,
      dk_from_ec_pem = dk_from_ec_pem L, dk_from_ed_der = dk_from_ed_der L,
      dk_from_ed_pem = dk_from_ed_pem L, header_new = header_new L, validation_new = validation_new L,
      set_required_spec_claims = set_required_spec_claims L, set_issuer = set_issuer L,
      set_audience = set_audience L,
      lib_encode = (\<lambda>h c k. lib_encode L h (ser c) k),
      lib_decode = (\<lambda>t k v. and_then (lib_decode L t k v) (\<lambda>j. ok_or ''invalid claims'' (de j))),
      lib_decode_header = lib_decode_header L\<rparr>"

lemma typed_simps [simp]:
  "ek_from_secret (typed ser de L) = ek_from_secret L"
  "dk_from_secret (typed ser de L) = dk_from_secret L"
  "header_new (typed ser de L) = header_new L"
  "validation_new (typed ser de L) = validation_new L"
  "set_required_spec_claims (typed ser de L) = set_required_spec_claims L"
  "set_issuer (typed ser de L) = set_issuer L"
  "set_audience (typed ser de L) = set_audience L"
  "lib_encode (typed ser de L) h c ek = lib_encode L h (ser c) ek"
  "lib_decode (typed ser de L) t k v = and_then (lib_decode L t k v) (\<lambda>j. ok_or ''invalid claims'' (de j))"
  "lib_decode_header (typed ser de L) = lib_decode_header L"
  by (simp_all add: typed_def)

lemma typed_constructors: "constructors_documented (typed ser de L) = constructors_documented L"
  unfolding constructors_documented_def typed_simps by (rule refl)

lemma typed_build_validation: "build_validation (typed ser de L) cfg = build_validation L cfg"
  unfolding build_validation_def typed_simps by (rule refl)

text \<open>
  Two secrets that are sure to be different keys: HMAC pads a key with zero bytes to the size of a block,
  64 bytes at least, and replaces a longer one by its hash.
\<close>

definition hmac_key :: "bytes \<Rightarrow> bytes" where
  "hmac_key b = rev (dropWhile (\<lambda>x. x = 0) (rev b))"

definition other_hmac_key :: "bytes \<Rightarrow> bytes \<Rightarrow> bool" where
  "other_hmac_key b b' \<longleftrightarrow> length b \<le> 64 \<and> length b' \<le> 64 \<and> hmac_key b \<noteq> hmac_key b'"

text \<open>
  Encoding with an HMAC algorithm and a secret succeeds and the token carries its header. A token of a
  plain payload is decoded, at the clock's reading \<open>now\<close>, to what was encoded: surely under its own
  secret when it surely passes the validation, and never when it does not pass, or under a secret that
  is another key, which is the ideal of a message authentication code.
\<close>

definition hmac_documented :: "('ek, 'dk, json) jwt_lib \<Rightarrow> nat \<Rightarrow> bool" where
  "hmac_documented L now \<longleftrightarrow>
     constructors_documented L
   \<and> (\<forall>h j b. h_alg h \<in> {LibHS256, LibHS384, LibHS512} \<longrightarrow>
        (\<exists>tok. lib_encode L h j (ek_from_secret L b) = Ok tok))
   \<and> (\<forall>h j b tok. lib_encode L h j (ek_from_secret L b) = Ok tok \<longrightarrow>
        lib_decode_header L tok = Ok h
      \<and> (plain_payload j \<longrightarrow>
           (\<forall>v. surely_passes now v (json_facts (h_alg h) j) \<longrightarrow>
              lib_decode L tok (dk_from_secret L b) v = Ok j)
         \<and> (\<forall>b' v j'. lib_decode L tok (dk_from_secret L b') v = Ok j' \<longrightarrow>
              \<not> other_hmac_key b b' \<and> j' = j \<and> passes now v (json_facts (h_alg h) j))))"

lemma hmac_documentedD:
  assumes "hmac_documented L now"
  shows "constructors_documented L"
    and "h_alg h \<in> {LibHS256, LibHS384, LibHS512} \<Longrightarrow>
      \<exists>tok. lib_encode L h j (ek_from_secret L b) = Ok tok"
    and "lib_encode L h j (ek_from_secret L b) = Ok tok \<Longrightarrow> lib_decode_header L tok = Ok h"
    and "lib_encode L h j (ek_from_secret L b) = Ok tok \<Longrightarrow> plain_payload j \<Longrightarrow>
      surely_passes now v (json_facts (h_alg h) j) \<Longrightarrow> lib_decode L tok (dk_from_secret L b) v = Ok j"
    and "lib_encode L h j (ek_from_secret L b) = Ok tok \<Longrightarrow> plain_payload j \<Longrightarrow>
      lib_decode L tok (dk_from_secret L b') v = Ok j' \<Longrightarrow>
      \<not> other_hmac_key b b' \<and> j' = j \<and> passes now v (json_facts (h_alg h) j)"
  using assms unfolding hmac_documented_def by blast+

text \<open>A text that has not the three parts of a token, with dots between them, is none.\<close>

definition token_shape_documented :: "('ek, 'dk, json) jwt_lib \<Rightarrow> bool" where
  "token_shape_documented L \<longleftrightarrow>
     (\<forall>text. count_list text (CHR ''.'') \<noteq> 2 \<longrightarrow>
        \<not> is_ok (lib_decode_header L text) \<and> (\<forall>k v. \<not> is_ok (lib_decode L text k v)))"

section \<open>A service with a secret\<close>

text \<open>A configuration with an HMAC algorithm, without rotation keys and without a key id.\<close>

definition secret_config :: "jwt_config \<Rightarrow> bool" where
  "secret_config cfg \<longleftrightarrow> family (algorithm cfg) = Hmac \<and> rotation_keys cfg = [] \<and> key_id cfg = None"

lemma hmac_lib_algorithm: "family a = Hmac \<Longrightarrow> to_lib_algorithm a \<in> {LibHS256, LibHS384, LibHS512}"
  by (cases a) auto

lemma secret_encode:
  assumes "hmac_documented L now" "secret_config cfg"
  shows "\<exists>tok. encode (typed ser de L) cfg c = Ok tok
    \<and> lib_encode L \<lparr>h_alg = to_lib_algorithm (algorithm cfg), h_kid = None\<rparr> (ser c)
        (ek_from_secret L (as_bytes (secret cfg))) = Ok tok"
proof -
  let ?h = "(header_new L (to_lib_algorithm (algorithm cfg)))\<lparr>h_kid := None\<rparr>"
  have h: "?h = \<lparr>h_alg = to_lib_algorithm (algorithm cfg), h_kid = None\<rparr>"
    using constructors_documentedD(1) [OF hmac_documentedD(1) [OF assms(1)]] by (metis header.surjective header.update_convs(2) old.unit.exhaust)
  have "h_alg ?h \<in> {LibHS256, LibHS384, LibHS512}"
    using assms(2) hmac_lib_algorithm unfolding h by (simp add: secret_config_def)
  then obtain tok where "lib_encode L ?h (ser c) (ek_from_secret L (as_bytes (secret cfg))) = Ok tok"
    using hmac_documentedD(2) [OF assms(1)] by blast
  then show ?thesis
    using assms(2) unfolding h
    by (auto simp: encode_def Let_def encoding_key_def encoding_key_for_family secret_config_def h)
qed

text \<open>Decoding a token that some secret signed, for a token without a key id.\<close>

lemma secret_decode:
  assumes "hmac_documented L now" "family (algorithm cfg) = Hmac" "rotation_keys cfg = []"
    and "lib_encode L \<lparr>h_alg = a, h_kid = None\<rparr> j (ek_from_secret L b) = Ok tok"
  shows "decode (typed ser de L) cfg tok =
    map_err DecodingFailed (and_then (lib_decode L tok (dk_from_secret L (as_bytes (secret cfg))) (build_validation L cfg))
      (\<lambda>j. ok_or ''invalid claims'' (de j)))"
proof -
  have "lib_decode_header L tok = Ok \<lparr>h_alg = a, h_kid = None\<rparr>"
    using hmac_documentedD(3) [OF assms(1,4)] .
  then show ?thesis
    using assms(2,3)
    by (simp add: decode_def decode_with_rotation_def decoding_keys_def decoding_key_for_family
        typed_build_validation split: sum.split)
qed

lemma secret_decode_Ok:
  assumes "hmac_documented L now" "family (algorithm cfg) = Hmac" "rotation_keys cfg = []"
    and "lib_encode L \<lparr>h_alg = a, h_kid = None\<rparr> j (ek_from_secret L (as_bytes (secret cfg))) = Ok tok"
    and "plain_payload j" "surely_meets_policy cfg now (json_facts a j)" "de j = Some c"
  shows "decode (typed ser de L) cfg tok = Ok c"
proof -
  have "surely_passes now (build_validation L cfg) (json_facts a j)"
    using surely_passes_build_validation [OF hmac_documentedD(1) [OF assms(1)]] assms(6) by blast
  then have "lib_decode L tok (dk_from_secret L (as_bytes (secret cfg))) (build_validation L cfg) = Ok j"
    using hmac_documentedD(4) [OF assms(1,4,5)] by simp
  with assms(7) show ?thesis by (simp add: secret_decode [OF assms(1-4)])
qed

lemma secret_decode_Err:
  assumes "hmac_documented L now" "family (algorithm cfg) = Hmac" "rotation_keys cfg = []"
    and "lib_encode L \<lparr>h_alg = a, h_kid = None\<rparr> j (ek_from_secret L b) = Ok tok"
    and "plain_payload j"
    and "other_hmac_key b (as_bytes (secret cfg)) \<or> \<not> meets_policy cfg now (json_facts a j)"
  shows "\<exists>m. decode (typed ser de L) cfg tok = Err (DecodingFailed m)"
proof (cases "lib_decode L tok (dk_from_secret L (as_bytes (secret cfg))) (build_validation L cfg)")
  case (Inl m)
  then show ?thesis by (simp add: secret_decode [OF assms(1-4)])
next
  case (Inr j')
  have "\<not> other_hmac_key b (as_bytes (secret cfg)) \<and> passes now (build_validation L cfg) (json_facts a j)"
    using hmac_documentedD(5) [OF assms(1,4,5) Inr] by simp
  then show ?thesis
    using assms(6) passes_build_validation [OF hmac_documentedD(1) [OF assms(1)]] by blast
qed

section \<open>A library that keeps the documented behaviour\<close>

text \<open>The first part of a token is the number of its header, payload and secret, written in decimal.\<close>

instance json :: countable by countable_datatype

instance lib_algorithm :: countable by countable_datatype

definition token_of :: "header \<Rightarrow> json \<Rightarrow> bytes \<Rightarrow> string" where
  "token_of h j b = show_nat (to_nat (h_alg h, h_kid h, j, b)) @ ''..''"

definition parts_of :: "string \<Rightarrow> header \<times> json \<times> bytes" where
  "parts_of tok = (case from_nat (read_nat (takeWhile (\<lambda>c. c \<noteq> CHR ''.'') tok)) of (a, kid, j, b) \<Rightarrow> (\<lparr>h_alg = a, h_kid = kid\<rparr>, j, b))"

lemma show_nat_no_dot: "CHR ''.'' \<notin> set (show_nat n)"
proof (induction n rule: show_nat.induct)
  case (1 n)
  have "digit k \<noteq> CHR ''.''" if "k < 10" for k
    using of_char_digit [OF that] by auto
  then have "CHR ''.'' \<noteq> digit (n mod 10)" "n < 10 \<Longrightarrow> CHR ''.'' \<noteq> digit n"
    by (metis mod_less_divisor zero_less_numeral)+
  with 1 show ?case by (subst show_nat.simps) (simp split: if_split)
qed

lemma takeWhile_show_nat: "takeWhile (\<lambda>c. c \<noteq> CHR ''.'') (show_nat n @ ''..'') = show_nat n"
  using show_nat_no_dot by (subst takeWhile_append2) auto

lemma parts_of_token [simp]: "parts_of (token_of h j b) = (h, j, b)"
  by (simp add: parts_of_def token_of_def takeWhile_show_nat read_show_nat)

lemma token_of_shape: "count_list (token_of h j b) (CHR ''.'') = 2"
  using show_nat_no_dot [THEN count_notin] by (simp add: token_of_def)

definition hmac_lib :: "nat \<Rightarrow> (bytes, bytes, json) jwt_lib" where
  "hmac_lib now =
     \<lparr>ek_from_secret = (\<lambda>b. b), ek_from_rsa_pem = (\<lambda>b. Ok b), ek_from_ec_der = (\<lambda>b. b),
      ek_from_ec_pem = (\<lambda>b. Ok b), ek_from_ed_der = (\<lambda>b. b), ek_from_ed_pem = (\<lambda>b. Ok b),
      dk_from_secret = (\<lambda>b. b), dk_from_rsa_der = (\<lambda>b. b), dk_from_rsa_pem = (\<lambda>b. Ok b),
      dk_from_ec_der = (\<lambda>b. b), dk_from_ec_pem = (\<lambda>b. Ok b), dk_from_ed_der = (\<lambda>b. b),
      dk_from_ed_pem = (\<lambda>b. Ok b),
      header_new = (\<lambda>a. \<lparr>h_alg = a, h_kid = None\<rparr>),
      validation_new = (\<lambda>a. \<lparr>v_algorithms = [a], v_leeway = 60, v_validate_exp = True,
          v_validate_nbf = False, v_required_spec_claims = {''exp''}, v_iss = None, v_aud = None\<rparr>),
      set_required_spec_claims = (\<lambda>cs v. v\<lparr>v_required_spec_claims := set cs\<rparr>),
      set_issuer = (\<lambda>xs v. v\<lparr>v_iss := Some (set xs)\<rparr>),
      set_audience = (\<lambda>xs v. v\<lparr>v_aud := Some (set xs)\<rparr>),
      lib_encode = (\<lambda>h j k. Ok (token_of h j k)),
      lib_decode = (\<lambda>t k v. case parts_of t of (h, j, b) \<Rightarrow>
          if t = token_of h j b \<and> k = b \<and> surely_passes now v (json_facts (h_alg h) j) then Ok j
          else Err ''invalid token''),
      lib_decode_header = (\<lambda>t. case parts_of t of (h, j, b) \<Rightarrow>
          if t = token_of h j b then Ok h else Err ''invalid header'')\<rparr>"

lemma hmac_lib_documented: "hmac_documented (hmac_lib now) now"
  by (auto simp: hmac_documented_def constructors_documented_def hmac_lib_def surely_passes_def
      other_hmac_key_def split: if_splits)

lemma hmac_lib_shape: "token_shape_documented (hmac_lib now)"
  by (auto simp: token_shape_documented_def hmac_lib_def is_ok_iff token_of_shape split: prod.splits if_splits)

lemma hmac_lib_malformed: "CHR ''-'' \<in> set tok \<Longrightarrow> lib_decode_header (hmac_lib now) tok = Err ''invalid header''"
  using show_nat_chars by (auto simp: hmac_lib_def token_of_def split: prod.split)

end
