(* ===== verification/Service_Tests.thy ===== *)
theory Service_Tests
  imports Test_Assertions Hmac_Library Json_Fields
begin

section \<open>The unit tests of the service (src/lib.rs, mod tests and mod proptest_tests)\<close>

text \<open>
  The tests that mint and verify tokens, over a library \<open>L\<close> that carries JSON values; \<open>utc\<close> is the
  time in seconds that \<open>chrono::Utc::now().timestamp()\<close> returns. The strings that the property
  tests generate are arguments, as are some literals of the negative tests: the theorem about those
  quantifies over them.
\<close>

subsection \<open>NumericClaims\<close>

record numeric_claims =
  nc_sub :: "string option"
  nc_exp :: "u64 option"
  nc_iss :: "string option"
  nc_aud :: "string option"

definition serialize_numeric :: "numeric_claims \<Rightarrow> json" where
  "serialize_numeric c =
     JObj ([(''sub'', json_option JStr (nc_sub c))] @
       ser_option ''exp'' (\<lambda>n. JInt (uint n)) (nc_exp c) @
       ser_option ''iss'' JStr (nc_iss c) @
       ser_option ''aud'' JStr (nc_aud c))"

definition numeric_fields :: "string list" where
  "numeric_fields = [''sub'', ''exp'', ''iss'', ''aud'']"

text \<open>Members that are no field are ignored; a second member for a field is an error.\<close>

definition deserialize_numeric :: "json \<Rightarrow> numeric_claims option" where
  "deserialize_numeric j =
     (case j of
        JObj es \<Rightarrow>
          if distinct (filter (\<lambda>k. k \<in> set numeric_fields) (map fst es)) then
            do {
              s \<leftarrow> de_string (map_of es ''sub'');
              e \<leftarrow> de_u64 (map_of es ''exp'');
              i \<leftarrow> de_string (map_of es ''iss'');
              a \<leftarrow> de_string (map_of es ''aud'');
              Some \<lparr>nc_sub = s, nc_exp = e, nc_iss = i, nc_aud = a\<rparr>
            }
          else None
      | _ \<Rightarrow> None)"

abbreviation numeric_lib where
  "numeric_lib L \<equiv> typed serialize_numeric deserialize_numeric L"

text \<open>\<open>BareClaims\<close> of one test: the subject only.\<close>

definition serialize_bare :: "string option \<Rightarrow> json" where
  "serialize_bare s = JObj [(''sub'', json_option JStr s)]"

definition now_plus_secs :: "nat \<Rightarrow> u64 \<Rightarrow> u64" where
  "now_plus_secs utc secs = word_of_nat utc + secs"

text \<open>\<open>u64::saturating_sub\<close>.\<close>

definition saturating_sub :: "u64 \<Rightarrow> u64 \<Rightarrow> u64" where
  "saturating_sub a b = (if a < b then 0 else a - b)"

subsection \<open>Tokens that are accepted\<close>

definition jwt_config_default_is_hs256 :: "unit option" where
  "jwt_config_default_is_hs256 =
     do {
       let config = default_config;
       check (algorithm config = HS256);
       check (access_token_ttl config = 3600);
       check (refresh_token_ttl config = 604800)
     }"

definition jwt_config_short_secret_works_for_hmac :: "('ek, 'dk, json) jwt_lib \<Rightarrow> nat \<Rightarrow> unit option" where
  "jwt_config_short_secret_works_for_hmac L utc =
     do {
       let config = default_config\<lparr>secret := ''ab'', issuer := Some ''test-issuer''\<rparr>;
       let claims = \<lparr>nc_sub = Some ''user-1'', nc_exp = Some (now_plus_secs utc 3600),
         nc_iss = Some ''test-issuer'', nc_aud = None\<rparr>;
       token \<leftarrow> unwrap (encode (numeric_lib L) config claims);
       decoded \<leftarrow> unwrap (decode (numeric_lib L) config token);
       check (nc_sub decoded = Some ''user-1'')
     }"

definition jwt_service_encode_decode_roundtrip :: "('ek, 'dk, json) jwt_lib \<Rightarrow> nat \<Rightarrow> unit option" where
  "jwt_service_encode_decode_roundtrip L utc =
     do {
       let config = default_config\<lparr>secret := ''a-valid-secret-key-for-testing'', issuer := Some ''test-issuer''\<rparr>;
       let claims = \<lparr>nc_sub = Some ''user-42'', nc_exp = Some (now_plus_secs utc 3600),
         nc_iss = Some ''test-issuer'', nc_aud = None\<rparr>;
       token \<leftarrow> unwrap (encode (numeric_lib L) config claims);
       decoded \<leftarrow> unwrap (decode (numeric_lib L) config token);
       check (nc_sub decoded = Some ''user-42'');
       check (nc_iss decoded = Some ''test-issuer'')
     }"

definition jwt_service_encode_decode_with_issuer_audience ::
    "('ek, 'dk, json) jwt_lib \<Rightarrow> nat \<Rightarrow> unit option" where
  "jwt_service_encode_decode_with_issuer_audience L utc =
     do {
       let config = default_config\<lparr>secret := ''test-secret-key-123'', issuer := Some ''test-issuer'',
         audience := Some ''test-audience''\<rparr>;
       let claims = \<lparr>nc_sub = Some ''user-1'', nc_exp = Some (now_plus_secs utc 3600),
         nc_iss = Some ''test-issuer'', nc_aud = Some ''test-audience''\<rparr>;
       token \<leftarrow> unwrap (encode (numeric_lib L) config claims);
       decoded \<leftarrow> unwrap (decode (numeric_lib L) config token);
       check (nc_iss decoded = Some ''test-issuer'');
       check (nc_aud decoded = Some ''test-audience'')
     }"

text \<open>The property test; \<open>subject\<close> is the generated string.\<close>

definition jwt_roundtrip :: "('ek, 'dk, json) jwt_lib \<Rightarrow> nat \<Rightarrow> string \<Rightarrow> unit option" where
  "jwt_roundtrip L utc subject =
     do {
       let config = default_config\<lparr>secret := ''test-secret-key-12345'', issuer := Some ''test-issuer''\<rparr>;
       let claims = \<lparr>nc_sub = Some subject, nc_exp = Some (word_of_nat utc + 3600),
         nc_iss = Some ''test-issuer'', nc_aud = None\<rparr>;
       token \<leftarrow> unwrap (encode (numeric_lib L) config claims);
       decoded \<leftarrow> unwrap (decode (numeric_lib L) config token);
       check (nc_sub decoded = Some subject);
       check (nc_iss decoded = Some ''test-issuer'')
     }"

subsection \<open>Tokens that are rejected\<close>

definition issuer_mismatch_rejected :: "('ek, 'dk, json) jwt_lib \<Rightarrow> nat \<Rightarrow> unit option" where
  "issuer_mismatch_rejected L utc =
     do {
       let config = default_config\<lparr>secret := ''issuer-test-secret'', issuer := Some ''expected-issuer''\<rparr>;
       let claims = \<lparr>nc_sub = Some ''user-1'', nc_exp = Some (now_plus_secs utc 3600),
         nc_iss = Some ''evil-issuer'', nc_aud = None\<rparr>;
       token \<leftarrow> unwrap (encode (numeric_lib L) config claims);
       check (\<not> is_ok (decode (numeric_lib L) config token))
     }"

definition cross_algorithm_token_rejected :: "('ek, 'dk, json) jwt_lib \<Rightarrow> nat \<Rightarrow> unit option" where
  "cross_algorithm_token_rejected L utc =
     do {
       let hs384_config = default_config\<lparr>secret := ''shared-secret-value'', algorithm := HS384\<rparr>;
       let hs256_config = default_config\<lparr>secret := ''shared-secret-value'', algorithm := HS256\<rparr>;
       let claims = \<lparr>nc_sub = Some ''user-1'', nc_exp = Some (now_plus_secs utc 3600),
         nc_iss = Some ''issuer'', nc_aud = None\<rparr>;
       token \<leftarrow> unwrap (encode (numeric_lib L) hs384_config claims);
       check (\<not> is_ok (decode (numeric_lib L) hs256_config token))
     }"

definition missing_required_claims_rejected :: "('ek, 'dk, json) jwt_lib \<Rightarrow> unit option" where
  "missing_required_claims_rejected L =
     do {
       let config = default_config\<lparr>secret := ''required-claims-secret''\<rparr>;
       token \<leftarrow> unwrap (encode (typed serialize_bare (\<lambda>_. None) L) config (Some ''user-1''));
       check (\<not> is_ok (decode (numeric_lib L) config token))
     }"

text \<open>
  Four tests whose claims have no issuer. In the source \<open>secret1\<close> is \<open>secret-one\<close>, \<open>secret2\<close> is
  \<open>secret-two\<close>, \<open>expiry\<close> is an hour ago and \<open>aud_of_token\<close> is \<open>other-aud\<close>.
\<close>

definition wrong_secret_test ::
    "string \<Rightarrow> string \<Rightarrow> ('ek, 'dk, json) jwt_lib \<Rightarrow> nat \<Rightarrow> unit option" where
  "wrong_secret_test secret1 secret2 L utc =
     do {
       let config1 = default_config\<lparr>secret := secret1\<rparr>;
       let config2 = default_config\<lparr>secret := secret2\<rparr>;
       let claims = \<lparr>nc_sub = Some ''user-1'', nc_exp = Some (now_plus_secs utc 3600),
         nc_iss = None, nc_aud = None\<rparr>;
       token \<leftarrow> unwrap (encode (numeric_lib L) config1 claims);
       check (\<not> is_ok (decode (numeric_lib L) config2 token))
     }"

definition jwt_service_wrong_secret_fails :: "('ek, 'dk, json) jwt_lib \<Rightarrow> nat \<Rightarrow> unit option" where
  "jwt_service_wrong_secret_fails L utc = wrong_secret_test ''secret-one'' ''secret-two'' L utc"

definition expired_token_test :: "u64 \<Rightarrow> ('ek, 'dk, json) jwt_lib \<Rightarrow> unit option" where
  "expired_token_test expiry L =
     do {
       let config = default_config\<lparr>secret := ''expired-test-secret''\<rparr>;
       let claims = \<lparr>nc_sub = Some ''user-1'', nc_exp = Some expiry, nc_iss = None, nc_aud = None\<rparr>;
       token \<leftarrow> unwrap (encode (numeric_lib L) config claims);
       check (\<not> is_ok (decode (numeric_lib L) config token))
     }"

definition expired_token_rejected :: "('ek, 'dk, json) jwt_lib \<Rightarrow> nat \<Rightarrow> unit option" where
  "expired_token_rejected L utc = expired_token_test (saturating_sub (now_plus_secs utc 0) 3600) L"

definition audience_mismatch_test :: "string \<Rightarrow> ('ek, 'dk, json) jwt_lib \<Rightarrow> nat \<Rightarrow> unit option" where
  "audience_mismatch_test aud_of_token L utc =
     do {
       let config = default_config\<lparr>secret := ''aud-test-secret'', audience := Some ''expected-aud''\<rparr>;
       let claims = \<lparr>nc_sub = Some ''user-1'', nc_exp = Some (now_plus_secs utc 3600), nc_iss = None,
         nc_aud = Some aud_of_token\<rparr>;
       token \<leftarrow> unwrap (encode (numeric_lib L) config claims);
       check (\<not> is_ok (decode (numeric_lib L) config token))
     }"

definition audience_mismatch_rejected :: "('ek, 'dk, json) jwt_lib \<Rightarrow> nat \<Rightarrow> unit option" where
  "audience_mismatch_rejected L utc = audience_mismatch_test ''other-aud'' L utc"

definition wrong_secret_proptest ::
    "string \<Rightarrow> string \<Rightarrow> ('ek, 'dk, json) jwt_lib \<Rightarrow> nat \<Rightarrow> string \<Rightarrow> unit option" where
  "wrong_secret_proptest secret1 secret2 L utc issuer_text =
     do {
       let config1 = default_config\<lparr>secret := secret1, issuer := Some issuer_text\<rparr>;
       let config2 = default_config\<lparr>secret := secret2, issuer := Some issuer_text\<rparr>;
       let claims = \<lparr>nc_sub = Some ''user-1'', nc_exp = Some (word_of_nat utc + 3600),
         nc_iss = None, nc_aud = None\<rparr>;
       token \<leftarrow> unwrap (encode (numeric_lib L) config1 claims);
       check (\<not> is_ok (decode (numeric_lib L) config2 token))
     }"

definition jwt_wrong_secret_fails :: "('ek, 'dk, json) jwt_lib \<Rightarrow> nat \<Rightarrow> string \<Rightarrow> unit option" where
  "jwt_wrong_secret_fails L utc issuer_text =
     wrong_secret_proptest ''secret-one-for-testing'' ''secret-two-for-testing'' L utc issuer_text"

definition jwt_malformed_token_fails :: "('ek, 'dk, json) jwt_lib \<Rightarrow> string \<Rightarrow> unit option" where
  "jwt_malformed_token_fails L text =
     do {
       let config = default_config\<lparr>secret := ''a-valid-secret''\<rparr>;
       check (\<not> is_ok (decode (numeric_lib L) config text))
     }"

subsection \<open>Rotation\<close>

definition rotation_accepts_old_secret_tokens :: "('ek, 'dk, json) jwt_lib \<Rightarrow> nat \<Rightarrow> unit option" where
  "rotation_accepts_old_secret_tokens L utc =
     do {
       let old_config = default_config\<lparr>secret := ''old-secret''\<rparr>;
       let claims = \<lparr>nc_sub = Some ''user-1'', nc_exp = Some (now_plus_secs utc 3600),
         nc_iss = Some ''issuer'', nc_aud = None\<rparr>;
       token \<leftarrow> unwrap (encode (numeric_lib L) old_config claims);
       let rotated = with_rotation_secrets HS256 [''new-secret'', ''old-secret''];
       decoded \<leftarrow> unwrap (decode (numeric_lib L) rotated token);
       check (nc_sub decoded = Some ''user-1'');
       new_token \<leftarrow> unwrap (encode (numeric_lib L) rotated claims);
       let primary_only = default_config\<lparr>secret := ''new-secret''\<rparr>;
       check (is_ok (decode (numeric_lib L) primary_only new_token));
       check (\<not> is_ok (decode (numeric_lib L) primary_only token))
     }"

section \<open>Lemmas\<close>

lemma deserialize_serialize_numeric [simp]: "deserialize_numeric (serialize_numeric c) = Some c"
  by (cases c; cases "nc_exp c"; cases "nc_iss c"; cases "nc_aud c")
    (simp_all add: deserialize_numeric_def serialize_numeric_def numeric_fields_def map_fst_ser_option
      ser_option_def)

lemma numeric_facts:
  "json_facts alg (serialize_numeric c) =
     \<lparr>tf_alg = alg,
      tf_present = {k. (k = ''sub'' \<and> nc_sub c \<noteq> None) \<or> (k = ''exp'' \<and> nc_exp c \<noteq> None)
        \<or> (k = ''iss'' \<and> nc_iss c \<noteq> None) \<or> (k = ''aud'' \<and> nc_aud c \<noteq> None)},
      tf_exp = map_option unat (nc_exp c), tf_nbf = None, tf_iss = map_option (\<lambda>i. {i}) (nc_iss c),
      tf_aud = map_option (\<lambda>a. {a}) (nc_aud c)\<rparr>"
  by (cases "nc_sub c"; cases "nc_exp c"; cases "nc_iss c"; cases "nc_aud c")
    (auto simp: json_facts_def json_members_def serialize_numeric_def ser_option_def json_option_def
      json_string_def json_texts_def json_time_def Let_def)

lemma numeric_plain [simp]: "plain_payload (serialize_numeric c)"
  by (cases "nc_sub c"; cases "nc_exp c"; cases "nc_iss c"; cases "nc_aud c")
    (simp_all add: plain_payload_def serialize_numeric_def ser_option_def json_option_def
      order_trans [OF _ uint_ge_0])

text \<open>
  A token minted under one configuration: it is accepted under the same secret when it surely meets
  the policy, and rejected under another secret or when it does not meet the policy.
\<close>

abbreviation minted where
  "minted L cfg c tok \<equiv>
     encode (numeric_lib L) cfg c = Ok tok
   \<and> lib_encode L \<lparr>h_alg = to_lib_algorithm (algorithm cfg), h_kid = None\<rparr> (serialize_numeric c)
       (ek_from_secret L (as_bytes (secret cfg))) = Ok tok"

lemma numeric_minted:
  assumes "hmac_documented L now" "secret_config cfg"
  shows "\<exists>tok. minted L cfg c tok"
  using secret_encode [OF assms, of serialize_numeric deserialize_numeric c] by blast

lemma minted_accepted:
  assumes "hmac_documented L now" "minted L cfg c tok"
    and "family (algorithm cfg') = Hmac" "rotation_keys cfg' = []" "secret cfg' = secret cfg"
    and "surely_meets_policy cfg' now (json_facts (to_lib_algorithm (algorithm cfg)) (serialize_numeric c))"
  shows "decode (numeric_lib L) cfg' tok = Ok c"
  by (rule secret_decode_Ok [where j = "serialize_numeric c", OF assms(1,3,4) _ numeric_plain assms(6)])
    (use assms(2,5) in simp_all)

lemma minted_rejected:
  assumes "hmac_documented L now" "minted L cfg c tok"
    and "family (algorithm cfg') = Hmac" "rotation_keys cfg' = []"
    and "other_hmac_key (as_bytes (secret cfg)) (as_bytes (secret cfg'))
      \<or> \<not> meets_policy cfg' now (json_facts (to_lib_algorithm (algorithm cfg)) (serialize_numeric c))"
  shows "\<not> is_ok (decode (numeric_lib L) cfg' tok)"
  using secret_decode_Err [OF assms(1,3,4) conjunct2 [OF assms(2)] numeric_plain assms(5), of serialize_numeric deserialize_numeric]
  by auto

lemmas other_key_defs = other_hmac_key_def hmac_key_def as_bytes_def

text \<open>The configurations of the tests.\<close>

lemma default_policy_simps [simp]:
  "algorithm default_config = HS256" "rotation_keys default_config = []" "key_id default_config = None"
  "issuer default_config = None" "audience default_config = None" "audiences default_config = []"
  "leeway default_config = None" "validate_exp default_config" "\<not> validate_nbf default_config"
  "required_claims default_config = [''exp'', ''iss'']"
  by (simp_all add: default_config_def default_required_claims_def DEFAULT_REQUIRED_CLAIMS_def)

lemma secret_config_updates [simp]:
  "secret_config default_config"
  "secret_config (cfg\<lparr>secret := s\<rparr>) = secret_config cfg"
  "secret_config (cfg\<lparr>issuer := i\<rparr>) = secret_config cfg"
  "secret_config (cfg\<lparr>audience := a\<rparr>) = secret_config cfg"
  by (simp_all add: secret_config_def)

text \<open>The clock of the library is at most an hour ahead of the one the test has read.\<close>

definition test_clock :: "nat \<Rightarrow> nat \<Rightarrow> bool" where
  "test_clock utc now \<longleftrightarrow> utc \<le> now \<and> now \<le> utc + 3600 \<and> utc < 2 ^ 63"

lemma unat_now_plus_secs:
  assumes "test_clock utc now"
  shows "unat (now_plus_secs utc 3600) = utc + 3600" "unat (word_of_nat utc + 3600 :: u64) = utc + 3600"
  using assms by (simp_all add: test_clock_def now_plus_secs_def unat_word_ariths unsigned_of_nat take_bit_eq_mod)

text \<open>What a positive test runs, and a negative one: as rewriting rules for their bodies.\<close>

lemma run_accepting:
  assumes "hmac_documented L now" "secret_config cfg"
    and "surely_meets_policy cfg now (json_facts (to_lib_algorithm (algorithm cfg)) (serialize_numeric c))"
  shows "unwrap (encode (numeric_lib L) cfg c) \<bind> (\<lambda>tok. unwrap (decode (numeric_lib L) cfg tok) \<bind> k) = k c"
proof -
  obtain tok where tok: "minted L cfg c tok" using numeric_minted [OF assms(1,2)] by blast
  have "decode (numeric_lib L) cfg tok = Ok c"
    by (rule minted_accepted [OF assms(1) tok _ _ refl assms(3)])
      (use assms(2) in \<open>simp_all add: secret_config_def\<close>)
  with tok show ?thesis by simp
qed

lemma run_rejecting:
  assumes "hmac_documented L now" "secret_config cfg" "secret_config cfg'"
    and "other_hmac_key (as_bytes (secret cfg)) (as_bytes (secret cfg'))
      \<or> \<not> meets_policy cfg' now (json_facts (to_lib_algorithm (algorithm cfg)) (serialize_numeric c))"
  shows "unwrap (encode (numeric_lib L) cfg c) \<bind> (\<lambda>tok. check (\<not> is_ok (decode (numeric_lib L) cfg' tok))) = Some ()"
proof -
  obtain tok where tok: "minted L cfg c tok" using numeric_minted [OF assms(1,2)] by blast
  have "\<not> is_ok (decode (numeric_lib L) cfg' tok)"
    by (rule minted_rejected [OF assms(1) tok _ _ assms(4)])
      (use assms(3) in \<open>simp_all add: secret_config_def\<close>)
  with tok show ?thesis by simp
qed

lemmas policy_defs = surely_meets_policy_def meets_policy_def numeric_facts test_clock_def

lemma accepting_tests_pass:
  assumes "hmac_documented L now" "test_clock utc now"
  shows "jwt_config_short_secret_works_for_hmac L utc = Some ()"
    and "jwt_service_encode_decode_roundtrip L utc = Some ()"
    and "jwt_service_encode_decode_with_issuer_audience L utc = Some ()"
    and "jwt_roundtrip L utc subject = Some ()"
  unfolding jwt_config_short_secret_works_for_hmac_def jwt_service_encode_decode_roundtrip_def
    jwt_service_encode_decode_with_issuer_audience_def jwt_roundtrip_def Let_def
  by (subst run_accepting [OF assms(1)];
      use assms(2) unat_now_plus_secs [OF assms(2)] in \<open>simp add: policy_defs\<close>)+

lemma rejecting_tests_pass:
  assumes "hmac_documented L now" "test_clock utc now"
  shows "issuer_mismatch_rejected L utc = Some ()"
    and "cross_algorithm_token_rejected L utc = Some ()"
  unfolding issuer_mismatch_rejected_def cross_algorithm_token_rejected_def Let_def
  by (subst run_rejecting [OF assms(1)]; simp add: policy_defs secret_config_def)+

text \<open>A token whose claims have no issuer is rejected whenever \<open>iss\<close> is required.\<close>

lemma issuerless_tests_pass:
  assumes "hmac_documented L now"
  shows "wrong_secret_test s1 s2 L utc = Some ()"
    and "expired_token_test e L = Some ()"
    and "audience_mismatch_test a L utc = Some ()"
    and "wrong_secret_proptest s1 s2 L utc i = Some ()"
  unfolding wrong_secret_test_def expired_token_test_def audience_mismatch_test_def
    wrong_secret_proptest_def Let_def
  by (subst run_rejecting [OF assms]; simp add: policy_defs)+

lemma missing_required_passes:
  assumes "hmac_documented L now"
  shows "missing_required_claims_rejected L = Some ()"
proof -
  let ?cfg = "default_config\<lparr>secret := ''required-claims-secret''\<rparr>"
  obtain tok where tok: "encode (typed serialize_bare (\<lambda>_. None) L) ?cfg (Some ''user-1'') = Ok tok"
    "lib_encode L \<lparr>h_alg = to_lib_algorithm (algorithm ?cfg), h_kid = None\<rparr> (serialize_bare (Some ''user-1''))
        (ek_from_secret L (as_bytes (secret ?cfg))) = Ok tok"
    using secret_encode [OF assms, of ?cfg serialize_bare "\<lambda>_. None" "Some ''user-1''"] by auto
  have "\<not> meets_policy ?cfg now
      (json_facts (to_lib_algorithm (algorithm ?cfg)) (serialize_bare (Some ''user-1'')))"
    by (simp add: meets_policy_def json_facts_def json_members_def serialize_bare_def json_time_def Let_def)
  moreover have "plain_payload (serialize_bare (Some ''user-1''))"
    by (simp add: plain_payload_def serialize_bare_def json_option_def)
  ultimately obtain m where "decode (numeric_lib L) ?cfg tok = Err (DecodingFailed m)"
    using secret_decode_Err [OF assms _ _ tok(2), of ?cfg serialize_numeric deserialize_numeric] by auto
  with tok(1) show ?thesis by (simp add: missing_required_claims_rejected_def)
qed

text \<open>The rotation test: the token has no key id, so the keys are tried in their order.\<close>

lemma rotated_secrets_decode:
  assumes "hmac_documented L now"
    and "lib_encode L \<lparr>h_alg = a, h_kid = None\<rparr> j (ek_from_secret L b) = Ok tok"
  shows "decode (typed ser de L) (with_rotation_secrets HS256 [s1, s2]) tok =
    try_keys (typed ser de L) tok (build_validation L (with_rotation_secrets HS256 [s1, s2]))
      (DecodingFailed ''no keys configured'')
      [(None, dk_from_secret L (as_bytes s1)), (None, dk_from_secret L (as_bytes s1)),
       (None, dk_from_secret L (as_bytes s2))]"
proof -
  have "lib_decode_header L tok = Ok \<lparr>h_alg = a, h_kid = None\<rparr>"
    using hmac_documentedD(3) [OF assms] .
  then show ?thesis
    by (simp add: decode_def decode_with_rotation_def decoding_keys_def decoding_key_for_family
        with_rotation_secrets_def with_rotation_keys_def rotation_key_new_def rotation_entry_key_def
        typed_build_validation Let_def)
qed

lemma rotation_passes:
  assumes "hmac_documented L now" "test_clock utc now"
  shows "rotation_accepts_old_secret_tokens L utc = Some ()"
proof -
  let ?old = "default_config\<lparr>secret := ''old-secret''\<rparr>"
  let ?new = "default_config\<lparr>secret := ''new-secret''\<rparr>"
  let ?rot = "with_rotation_secrets HS256 [''new-secret'', ''old-secret'']"
  let ?c = "\<lparr>nc_sub = Some ''user-1'', nc_exp = Some (now_plus_secs utc 3600),
         nc_iss = Some ''issuer'', nc_aud = None\<rparr>"
  let ?j = "serialize_numeric ?c" and ?v = "build_validation L ?rot"
  obtain tok where tok: "minted L ?old ?c tok" using numeric_minted [OF assms(1), of ?old ?c] by auto
  have enc: "lib_encode L \<lparr>h_alg = LibHS256, h_kid = None\<rparr> ?j (ek_from_secret L (as_bytes ''old-secret'')) = Ok tok"
    using tok by simp
  have policy: "surely_meets_policy cfg now (json_facts LibHS256 ?j)" if "cfg \<in> {?old, ?new, ?rot}" for cfg
    using that assms(2) unat_now_plus_secs [OF assms(2)]
    by (auto simp: policy_defs with_rotation_secrets_def with_rotation_keys_def Let_def rotation_key_new_def
        default_required_claims_def DEFAULT_REQUIRED_CLAIMS_def)
  have old_key: "lib_decode L tok (dk_from_secret L (as_bytes ''old-secret'')) ?v = Ok ?j"
  proof -
    have "algorithm ?rot = HS256"
      by (simp add: with_rotation_secrets_def with_rotation_keys_def Let_def)
    then have "surely_passes now ?v (json_facts LibHS256 ?j)"
      using surely_passes_build_validation [OF hmac_documentedD(1) [OF assms(1)]] policy by blast
    then show ?thesis using hmac_documentedD(4) [OF assms(1) enc] by simp
  qed
  have new_key: "\<not> is_ok (lib_decode L tok (dk_from_secret L (as_bytes ''new-secret'')) ?v)"
    using hmac_documentedD(5) [OF assms(1) enc, of "as_bytes ''new-secret''" ?v]
    by (auto simp: is_ok_iff other_key_defs)
  then obtain e where new_err: "lib_decode L tok (dk_from_secret L (as_bytes ''new-secret'')) ?v = Err e"
    by (auto simp: is_ok_def split: sum.splits)
  have decoded: "decode (numeric_lib L) ?rot tok = Ok ?c"
    unfolding rotated_secrets_decode [OF assms(1) enc] by (simp add: new_err old_key)
  have rot_secret: "secret ?rot = ''new-secret''" "algorithm ?rot = HS256" "key_id ?rot = None"
    by (simp_all add: with_rotation_secrets_def with_rotation_keys_def Let_def rotation_key_new_def)
  have "encode (numeric_lib L) ?rot ?c = encode (numeric_lib L) ?new ?c"
    by (simp add: encode_def encoding_key_def encoding_key_for_family rot_secret Let_def)
  moreover obtain tok2 where tok2: "minted L ?new ?c tok2" using numeric_minted [OF assms(1), of ?new ?c] by auto
  moreover have "decode (numeric_lib L) ?new tok2 = Ok ?c"
    by (rule minted_accepted [OF assms(1) tok2]) (simp_all add: policy)
  moreover have "\<not> is_ok (decode (numeric_lib L) ?new tok)"
    by (rule minted_rejected [OF assms(1) tok]) (simp_all add: other_key_defs)
  ultimately show ?thesis
    using tok decoded by (simp add: rotation_accepts_old_secret_tokens_def)
qed

end
