(* ===== verification/Claims_Tests.thy ===== *)
theory Claims_Tests
  imports Service_Tests Revocation_Tests Decode_Standard
begin

section \<open>The unit tests of claims, errors, extractors and revocation (src/lib.rs, mod tests)\<close>

text \<open>
  The remaining tests of src/lib.rs, except the two of \<open>Debug\<close> output, which are in \<open>Debug_Text\<close>. The
  printer and the parser of \<open>serde_json\<close> are parameters.
\<close>

subsection \<open>Claims\<close>

text \<open>\<open>serde_json::from_str::<StandardClaims>\<close> over a parser of JSON values.\<close>

definition standard_of_json :: "'dt chrono_lib \<Rightarrow> json \<Rightarrow> 'dt standard_claims option" where
  "standard_of_json C j = (case j of JObj es \<Rightarrow> deserialize_claims C es | _ \<Rightarrow> None)"

abbreviation json_of_standard :: "'dt chrono_lib \<Rightarrow> 'dt standard_claims \<Rightarrow> json" where
  "json_of_standard C c \<equiv> JObj (serialize_claims C c)"

definition standard_claims_serialization_roundtrip ::
    "'dt chrono_lib \<Rightarrow> (json \<Rightarrow> string) \<Rightarrow> (string \<Rightarrow> json option) \<Rightarrow> unit option" where
  "standard_claims_serialization_roundtrip C print parse =
     do {
       let claims = default_claims\<lparr>sub := Some ''user-100'', iss := Some ''issuer'', aud := Some ''audience'',
         role := Some ''editor'', permissions := [''edit'']\<rparr>;
       let text = print (json_of_standard C claims);
       deserialized \<leftarrow> Option.bind (parse text) (standard_of_json C);
       check (sub deserialized = Some ''user-100'');
       check (iss deserialized = Some ''issuer'');
       check (aud deserialized = Some ''audience'');
       check (role deserialized = Some ''editor'');
       check (permissions deserialized = [''edit''])
     }"

definition standard_claims_skips_none_fields :: "'dt chrono_lib \<Rightarrow> (json \<Rightarrow> string) \<Rightarrow> unit option" where
  "standard_claims_skips_none_fields C print =
     do {
       let claims = default_claims;
       let text = print (json_of_standard C claims);
       check (\<not> contains text ''sub'');
       check (\<not> contains text ''iss'');
       check (\<not> contains text ''role'')
     }"

definition standard_claims_with_extra_fields ::
    "'dt chrono_lib \<Rightarrow> (json \<Rightarrow> string) \<Rightarrow> (string \<Rightarrow> json option) \<Rightarrow> unit option" where
  "standard_claims_with_extra_fields C print parse =
     do {
       let more = AList.update ''custom_key'' (JStr ''custom_value'') [];
       let claims = default_claims\<lparr>sub := Some ''user-1'', extra := more\<rparr>;
       let text = print (json_of_standard C claims);
       deserialized \<leftarrow> Option.bind (parse text) (standard_of_json C);
       v \<leftarrow> map_of (extra deserialized) ''custom_key'';
       check (v = JStr ''custom_value'')
     }"

text \<open>The property test, on the four generated parts.\<close>

definition arb_standard_claims ::
    "string option \<Rightarrow> string option \<Rightarrow> string option \<Rightarrow> string list \<Rightarrow> 'dt standard_claims" where
  "arb_standard_claims s a r ps =
     \<lparr>sub = s, iss = None, aud = a, exp = None, iat = None, jti = None, role = r, permissions = ps,
      extra = []\<rparr>"

definition claims_serialization_roundtrip ::
    "'dt chrono_lib \<Rightarrow> (json \<Rightarrow> string) \<Rightarrow> (string \<Rightarrow> json option) \<Rightarrow> 'dt standard_claims \<Rightarrow> unit option" where
  "claims_serialization_roundtrip C print parse claims =
     do {
       let text = print (json_of_standard C claims);
       deserialized \<leftarrow> Option.bind (parse text) (standard_of_json C);
       check (sub deserialized = sub claims);
       check (iss deserialized = iss claims);
       check (aud deserialized = aud claims);
       check (role deserialized = role claims);
       check (permissions deserialized = permissions claims)
     }"

subsection \<open>Extractors and errors\<close>

definition extract_bearer_token_valid :: "unit option" where
  "extract_bearer_token_valid = check (extract_bearer_token ''Bearer abc123'' = Some ''abc123'')"

definition extract_bearer_token_with_spaces :: "unit option" where
  "extract_bearer_token_with_spaces =
     check (extract_bearer_token ''Bearer   token-with-spaces  '' = Some ''token-with-spaces'')"

definition extract_bearer_token_wrong_scheme :: "unit option" where
  "extract_bearer_token_wrong_scheme = check (extract_bearer_token ''Basic abc123'' = None)"

definition extract_bearer_token_empty :: "unit option" where
  "extract_bearer_token_empty =
     do {
       check (extract_bearer_token ''Bearer '' = None);
       check (extract_bearer_token [] = None)
     }"

definition build_auth_cookie_format :: "unit option" where
  "build_auth_cookie_format =
     do {
       let cookie = build_auth_cookie ''session'' ''jwt_token_here'' 3600 True;
       check (contains cookie ''session=jwt_token_here'');
       check (contains cookie ''Max-Age=3600'');
       check (contains cookie ''Path=/'');
       check (contains cookie ''HttpOnly'');
       check (contains cookie ''SameSite=Strict'');
       check (contains cookie ''Secure'')
     }"

definition build_auth_cookie_no_secure :: "unit option" where
  "build_auth_cookie_no_secure =
     do {
       let cookie = build_auth_cookie ''sid'' ''tok'' 600 False;
       check (\<not> contains cookie ''Secure'');
       check (contains cookie ''sid=tok'')
     }"

definition jwt_error_display_messages :: "unit option" where
  "jwt_error_display_messages =
     do {
       check (display EncodingFailed = ''failed to encode JWT'');
       check (display (DecodingFailed ''bad'') = ''failed to decode JWT: bad'');
       check (display Expired = ''token has expired'');
       check (display InvalidSignature = ''invalid signature'');
       check (display Revoked = ''token has been revoked'');
       check (display (InvalidSecret ''weak'') = ''invalid secret or key: weak'');
       check (display (KeyLoading ''pem err'') = ''failed to load signing key: pem err'')
     }"

subsection \<open>Minting standard claims, validation and revocation\<close>

abbreviation standard_lib where
  "standard_lib C L \<equiv> typed (json_of_standard C) (standard_of_json C) L"

definition encode_standard_mints_a_valid_token ::
    "('ek, 'dk, json) jwt_lib \<Rightarrow> 'dt chrono_lib \<Rightarrow> 'dt \<Rightarrow> string \<Rightarrow> unit option" where
  "encode_standard_mints_a_valid_token L C utc_now uuid =
     do {
       let cfg = default_config\<lparr>secret := ''standard-mint-secret'', issuer := Some ''issuer''\<rparr>;
       let claims = default_claims\<lparr>sub := Some ''user-1''\<rparr>;
       r \<leftarrow> encode_standard (standard_lib C L) C utc_now uuid cfg claims;
       token \<leftarrow> unwrap r;
       decoded \<leftarrow> unwrap (validate (standard_lib C L) cfg token);
       check (sub decoded = Some ''user-1'')
     }"

definition validate_rejects_expired_and_returns_real_claims ::
    "('ek, 'dk, json) jwt_lib \<Rightarrow> 'dt chrono_lib \<Rightarrow> nat \<Rightarrow> unit option" where
  "validate_rejects_expired_and_returns_real_claims L C utc =
     do {
       let cfg = default_config\<lparr>secret := ''validate-test-secret'', issuer := Some ''issuer''\<rparr>;
       let expired = \<lparr>nc_sub = Some ''user-1'', nc_exp = Some (saturating_sub (now_plus_secs utc 0) 3600),
         nc_iss = Some ''issuer'', nc_aud = None\<rparr>;
       token \<leftarrow> unwrap (encode (numeric_lib L) cfg expired);
       check (\<not> is_ok (validate (standard_lib C L) cfg token));
       let fresh = \<lparr>nc_sub = Some ''user-2'', nc_exp = Some (now_plus_secs utc 3600),
         nc_iss = Some ''issuer'', nc_aud = None\<rparr>;
       token \<leftarrow> unwrap (encode (numeric_lib L) cfg fresh);
       claims \<leftarrow> unwrap (validate (standard_lib C L) cfg token);
       check (sub claims = Some ''user-2'')
     }"

text \<open>
  \<open>SharedStore\<close> forwards to the store it shares. The service with a store of its own and the shared
  store are two states.
\<close>

definition shared_ops :: "('s, 'e) store_ops \<Rightarrow> ('s, 'e) store_ops" where
  "shared_ops st = \<lparr>op_revoke = (\<lambda>j s. op_revoke st j s), op_is_revoked = (\<lambda>j s. op_is_revoked st j s)\<rparr>"

definition revoked_token_rejected_by_decode_standard ::
    "('ek, 'dk, json) jwt_lib \<Rightarrow> 'dt chrono_lib \<Rightarrow> 'dt \<Rightarrow> 'dt \<Rightarrow> string \<Rightarrow> (nat \<Rightarrow> instant) \<Rightarrow> unit option" where
  "revoked_token_rejected_by_decode_standard L C expiry utc_now uuid \<tau> =
     do {
       let cfg = default_config\<lparr>secret := ''revocation-test-secret''\<rparr>;
       let store = store_new;
       let own = store_new;
       let service = with_revocation (mem_ops (\<tau> 0) (\<tau> 0) (\<tau> 0)) (service_new cfg);
       let claims = default_claims\<lparr>sub := Some ''user-1'', iss := Some ''issuer'',
         jti := Some ''jti-to-revoke'', exp := Some expiry\<rparr>;
       r \<leftarrow> encode_standard (standard_lib C L) C utc_now uuid cfg claims;
       token \<leftarrow> unwrap r;
       let (d, own) = decode_standard (standard_lib C L) service token own;
       check (is_ok d);
       let (r, store) = store_revoke (\<tau> 1) (\<tau> 2) ''jti-to-revoke'' store;
       _ \<leftarrow> unwrap r;
       b \<leftarrow> unwrap (store_is_revoked (\<tau> 3) ''jti-to-revoke'' store);
       check b;
       let (r, store) = store_revoke (\<tau> 4) (\<tau> 5) ''jti-to-revoke'' store;
       _ \<leftarrow> unwrap r;
       let service_with_state = with_revocation (shared_ops (mem_ops (\<tau> 6) (\<tau> 6) (\<tau> 6)))
         (service_new (default_config\<lparr>secret := ''revocation-test-secret''\<rparr>));
       let (d, store) = decode_standard (standard_lib C L) service_with_state token store;
       err \<leftarrow> unwrap_err d;
       check (err = Revoked)
     }"

section \<open>Lemmas\<close>

lemma shared_ops_simps [simp]:
  "op_revoke (shared_ops st) = op_revoke st"
  "op_is_revoked (shared_ops st) = op_is_revoked st"
  by (simp_all add: shared_ops_def)

text \<open>The tests without parameters are evaluated.\<close>

lemma extract_bearer_token_valid_passes: "extract_bearer_token_valid = Some ()"
  by code_simp

lemma extract_bearer_token_with_spaces_passes: "extract_bearer_token_with_spaces = Some ()"
  by code_simp

lemma extract_bearer_token_wrong_scheme_passes: "extract_bearer_token_wrong_scheme = Some ()"
  by code_simp

lemma extract_bearer_token_empty_passes: "extract_bearer_token_empty = Some ()"
  by code_simp

lemma build_auth_cookie_format_passes: "build_auth_cookie_format = Some ()"
  by code_simp

lemma build_auth_cookie_no_secure_passes: "build_auth_cookie_no_secure = Some ()"
  by code_simp

lemma jwt_error_display_messages_passes: "jwt_error_display_messages = Some ()"
  by code_simp

lemma jwt_config_default_is_hs256_passes: "jwt_config_default_is_hs256 = Some ()"
  by code_simp

text \<open>What is documented of the printer and the parser, and of \<open>chrono\<close>, as far as the tests use it.\<close>

definition json_text_documented :: "(json \<Rightarrow> string) \<Rightarrow> (string \<Rightarrow> json option) \<Rightarrow> bool" where
  "json_text_documented print parse \<longleftrightarrow>
     (\<forall>j. plain_json j \<longrightarrow> parse (print j) = Some j) \<and> print (JObj []) = ''{}''"

definition chrono_documented :: "'dt chrono_lib \<Rightarrow> 'dt \<Rightarrow> nat \<Rightarrow> bool" where
  "chrono_documented C utc_now utc \<longleftrightarrow>
     timestamp C utc_now = int utc
   \<and> (\<exists>t. add_seconds C utc_now 3600 = Some t \<and> timestamp C t = int utc + 3600)
   \<and> (\<forall>t. \<exists>t'. from_timestamp C (timestamp C t) = Some t')
   \<and> (\<forall>n \<le> utc + 3600. \<exists>t. from_timestamp C (int n) = Some t)"

lemma standard_roundtrip:
  assumes "\<And>t. \<exists>t'. from_timestamp C (timestamp C t) = Some t'" "extra_ok c"
  shows "\<exists>e i. standard_of_json C (json_of_standard C c) = Some (c\<lparr>exp := e, iat := i\<rparr>)"
proof -
  have "from_timestamp C (timestamp C t) = Some (the (from_timestamp C (timestamp C t)))" for t
    using assms(1) [of t] by force
  from roundtrip [OF assms(2) this] show ?thesis by (auto simp: standard_of_json_def)
qed

lemma no_extra_ok [simp]: "extra c = [] \<Longrightarrow> extra_ok c"
  by (simp add: extra_ok_def)

text \<open>The payload of standard claims without further members is a plain one.\<close>

lemma plain_ser_option [simp]:
  "list_all (\<lambda>kv. plain_json (snd kv)) (ser_option n f m) \<longleftrightarrow> (\<forall>x. m = Some x \<longrightarrow> plain_json (f x))"
  by (cases m) (simp_all add: ser_option_def)

lemma plain_ser_nonempty [simp]: "list_all (\<lambda>kv. plain_json (snd kv)) (ser_nonempty n xs)"
  by (simp add: ser_nonempty_def list_all_iff)

definition times_in_range :: "'dt chrono_lib \<Rightarrow> 'dt standard_claims \<Rightarrow> bool" where
  "times_in_range C c \<longleftrightarrow>
     (\<forall>t. exp c = Some t \<longrightarrow> 0 \<le> timestamp C t \<and> timestamp C t < 2 ^ 64)
   \<and> (\<forall>t. iat c = Some t \<longrightarrow> 0 \<le> timestamp C t \<and> timestamp C t < 2 ^ 64)"

lemma standard_plain_json:
  assumes "extra_ok c" "list_all (\<lambda>kv. plain_json (snd kv)) (extra c)" "times_in_range C c"
  shows "plain_json (json_of_standard C c)"
proof -
  have "- (2 ^ 63) \<le> timestamp C t \<and> timestamp C t < 2 ^ 64" if "exp c = Some t \<or> iat c = Some t" for t
    using assms(3) that by (auto simp: times_in_range_def)
  then have "list_all (\<lambda>kv. plain_json (snd kv)) (serialize_claims C c)"
    using assms(2) by (auto simp: serialize_claims_def)
  moreover have "distinct (map fst (serialize_claims C c))"
    using assms(1) std_members_declared [of C c]
    by (force simp: serialize_split std_members_distinct extra_ok_def)
  ultimately show ?thesis by simp
qed

lemma standard_plain:
  assumes "extra c = []" "times_in_range C c"
  shows "plain_payload (json_of_standard C c)"
proof -
  have es: "serialize_claims C c = std_members C c" using assms(1) by (simp add: serialize_split)
  have "plain_json (json_of_standard C c)"
    using assms by (intro standard_plain_json) (simp_all add: extra_ok_def)
  moreover have "map_of (std_members C c) ''nbf'' = None"
    using std_members_declared [of C c] by (auto simp: map_of_eq_None_iff field_names_def)
  ultimately show ?thesis
    using assms(2)
    by (cases "sub c"; cases "iss c"; cases "aud c"; cases "exp c")
      (simp_all add: plain_payload_def es std_members_lookup times_in_range_def)
qed

lemma claims_tests_pass:
  assumes "json_text_documented print parse" "chrono_documented C utc_now utc"
  shows "standard_claims_serialization_roundtrip C print parse = Some ()"
    and "standard_claims_skips_none_fields C print = Some ()"
    and "standard_claims_with_extra_fields C print parse = Some ()"
    and "claims_serialization_roundtrip C print parse (arb_standard_claims s a r ps) = Some ()"
proof -
  have parse: "parse (print j) = Some j" if "plain_json j" for j
    using assms(1) that by (simp add: json_text_documented_def)
  have times: "\<exists>t'. from_timestamp C (timestamp C t) = Some t'" for t
    using assms(2) by (simp add: chrono_documented_def)
  have plain: "plain_json (json_of_standard C c)"
    if "exp c = None" "iat c = None" "extra_ok c" "list_all (\<lambda>kv. plain_json (snd kv)) (extra c)" for c
    using that by (intro standard_plain_json) (simp_all add: times_in_range_def)
  show "standard_claims_serialization_roundtrip C print parse = Some ()"
    using standard_roundtrip [of C "default_claims\<lparr>sub := Some ''user-100'', iss := Some ''issuer'',
        aud := Some ''audience'', role := Some ''editor'', permissions := [''edit'']\<rparr>", OF times]
    by (auto simp: standard_claims_serialization_roundtrip_def parse [OF plain] default_claims_def)
  have "serialize_claims C default_claims = []"
    by (simp add: serialize_claims_def default_claims_def ser_option_def ser_nonempty_def)
  moreover have "print (JObj []) = ''{}''" using assms(1) by (simp add: json_text_documented_def)
  moreover have "\<not> contains ''{}'' ''sub''" "\<not> contains ''{}'' ''iss''" "\<not> contains ''{}'' ''role''"
    by code_simp+
  ultimately show "standard_claims_skips_none_fields C print = Some ()"
    by (simp add: standard_claims_skips_none_fields_def)
  have "extra_ok (default_claims\<lparr>sub := Some ''user-1'', extra := [(''custom_key'', JStr ''custom_value'')]\<rparr> :: 'a standard_claims)"
    by (simp add: extra_ok_def field_names_def)
  from standard_roundtrip [OF times this]
  show "standard_claims_with_extra_fields C print parse = Some ()"
    by (auto simp: standard_claims_with_extra_fields_def parse [OF plain] default_claims_def
        extra_ok_def field_names_def)
  show "claims_serialization_roundtrip C print parse (arb_standard_claims s a r ps) = Some ()"
    using standard_roundtrip [of C "arb_standard_claims s a r ps", OF times]
    by (auto simp: claims_serialization_roundtrip_def parse [OF plain] arb_standard_claims_def)
qed

subsection \<open>Minting\<close>

text \<open>What the payload of standard claims without further members says.\<close>

lemma standard_lookup:
  assumes "extra c = []"
  shows "map_of (serialize_claims C c) ''iss'' = map_option JStr (iss c)"
    and "map_of (serialize_claims C c) ''aud'' = map_option JStr (aud c)"
    and "map_of (serialize_claims C c) ''exp'' = map_option (\<lambda>t. JInt (timestamp C t)) (exp c)"
    and "map_of (serialize_claims C c) ''nbf'' = None"
proof -
  have eq: "serialize_claims C c = std_members C c" using assms by (simp add: serialize_split)
  show "map_of (serialize_claims C c) ''iss'' = map_option JStr (iss c)"
    "map_of (serialize_claims C c) ''aud'' = map_option JStr (aud c)"
    "map_of (serialize_claims C c) ''exp'' = map_option (\<lambda>t. JInt (timestamp C t)) (exp c)"
    by (simp_all only: eq std_members_lookup)
  have "''nbf'' \<notin> set field_names" by (simp add: field_names_def)
  then have "''nbf'' \<notin> set (map fst (std_members C c))" using std_members_declared [of C c] by blast
  then show "map_of (serialize_claims C c) ''nbf'' = None"
    by (simp add: eq map_of_eq_None_iff)
qed

text \<open>Standard claims with an issuer, an expiry in the future and no audience.\<close>

lemma standard_policy_until:
  assumes "extra c = []" "exp c = Some t" "int now \<le> timestamp C t" "timestamp C t < 2 ^ 64" "iss c = Some i" "aud c = None"
    and "algorithm cfg = HS256" "required_claims cfg = [''exp'', ''iss'']" "issuer cfg \<in> {None, Some i}"
      "audience cfg = None" "audiences cfg = []" "leeway cfg = None" "\<not> validate_nbf cfg"
  shows "surely_meets_policy cfg now (json_facts LibHS256 (json_of_standard C c))"
  using assms(2-) standard_lookup [OF assms(1), of C]
  by (auto simp: surely_meets_policy_def meets_policy_def json_facts_def json_members_def json_texts_def
      json_time_def Let_def)

lemma standard_policy:
  assumes "extra c = []" "exp c = Some t" "timestamp C t = int utc + 3600" "iss c = Some i" "aud c = None"
    and "test_clock utc now"
    and "algorithm cfg = HS256" "required_claims cfg = [''exp'', ''iss'']" "issuer cfg \<in> {None, Some i}"
      "audience cfg = None" "audiences cfg = []" "leeway cfg = None" "\<not> validate_nbf cfg"
  shows "surely_meets_policy cfg now (json_facts LibHS256 (json_of_standard C c))"
proof (rule standard_policy_until)
  show "int now \<le> timestamp C t" "timestamp C t < 2 ^ 64" using assms(3,6) by (simp_all add: test_clock_def)
qed (use assms in simp_all)

lemma mint_standard:
  assumes "hmac_documented L now" "secret_config cfg" "algorithm cfg = HS256"
    and "stamped_standard C utc_now uuid cfg claims (access_token_ttl cfg) = Some c"
    and "plain_payload (json_of_standard C c)"
    and "surely_meets_policy cfg now (json_facts LibHS256 (json_of_standard C c))"
    and "standard_of_json C (json_of_standard C c) = Some d"
  shows "\<exists>tok. encode_standard (standard_lib C L) C utc_now uuid cfg claims = Some (Ok tok)
    \<and> decode (standard_lib C L) cfg tok = Ok d"
proof -
  obtain tok where tok: "encode (standard_lib C L) cfg c = Ok tok"
    "lib_encode L \<lparr>h_alg = to_lib_algorithm (algorithm cfg), h_kid = None\<rparr> (json_of_standard C c)
        (ek_from_secret L (as_bytes (secret cfg))) = Ok tok"
    using secret_encode [OF assms(1,2), of "json_of_standard C" "standard_of_json C" c] by blast
  have "lib_encode L \<lparr>h_alg = LibHS256, h_kid = None\<rparr> (json_of_standard C c)
      (ek_from_secret L (as_bytes (secret cfg))) = Ok tok"
    using tok(2) assms(3) by simp
  note enc = this
  have "decode (standard_lib C L) cfg tok = Ok d"
    by (rule secret_decode_Ok [where j = "json_of_standard C c", OF assms(1) _ _ enc assms(5,6)])
      (use assms(2,7) in \<open>simp_all add: secret_config_def\<close>)
  with tok(1) assms(4) show ?thesis by (auto simp: encode_standard_def)
qed

lemma mints_valid_passes:
  assumes "hmac_documented L now" "test_clock utc now" "chrono_documented C utc_now utc"
  shows "encode_standard_mints_a_valid_token L C utc_now uuid = Some ()"
proof -
  let ?cfg = "default_config\<lparr>secret := ''standard-mint-secret'', issuer := Some ''issuer''\<rparr>"
  let ?claims = "default_claims\<lparr>sub := Some ''user-1''\<rparr>"
  obtain t where t: "add_seconds C utc_now 3600 = Some t" "timestamp C t = int utc + 3600"
    using assms(3) by (auto simp: chrono_documented_def)
  let ?c = "?claims\<lparr>iat := Some utc_now, exp := Some t, iss := Some ''issuer'', jti := Some uuid\<rparr>"
  have ttl: "access_token_ttl ?cfg = 3600" by (simp add: default_config_def)
  have stamped: "stamped_standard C utc_now uuid ?cfg ?claims (access_token_ttl ?cfg) = Some ?c"
    unfolding ttl by (simp add: stamped_standard_alt t(1) default_claims_def merged_audiences_def)
  have policy: "surely_meets_policy ?cfg now (json_facts LibHS256 (json_of_standard C ?c))"
    by (rule standard_policy [OF _ _ t(2) _ _ assms(2)]) (simp_all add: default_claims_def)
  obtain e i where read_back: "standard_of_json C (json_of_standard C ?c) = Some (?c\<lparr>exp := e, iat := i\<rparr>)"
    using standard_roundtrip [of C ?c] assms(3) by (auto simp: chrono_documented_def default_claims_def)
  have plain: "plain_payload (json_of_standard C ?c)"
    using assms(2,3) t(2) by (intro standard_plain)
      (simp_all add: times_in_range_def chrono_documented_def test_clock_def default_claims_def)
  from mint_standard [OF assms(1) _ _ stamped plain policy read_back]
  obtain tok where "encode_standard (standard_lib C L) C utc_now uuid ?cfg ?claims = Some (Ok tok)"
    "decode (standard_lib C L) ?cfg tok = Ok (?c\<lparr>exp := e, iat := i\<rparr>)"
    by auto
  then show ?thesis by (simp add: encode_standard_mints_a_valid_token_def validate_def)
qed

lemma revoked_token_passes:
  assumes "hmac_documented L now" "test_clock utc now" "chrono_documented C utc_now utc"
    and "timestamp C expiry = int utc + 3600"
  shows "revoked_token_rejected_by_decode_standard L C expiry utc_now uuid \<tau> = Some ()"
proof -
  let ?cfg = "default_config\<lparr>secret := ''revocation-test-secret''\<rparr>"
  let ?c = "default_claims\<lparr>sub := Some ''user-1'', iss := Some ''issuer'',
         jti := Some ''jti-to-revoke'', exp := Some expiry\<rparr>"
  let ?d = "?c\<lparr>iat := Some utc_now\<rparr>"
  have stamped: "stamped_standard C utc_now uuid ?cfg ?c (access_token_ttl ?cfg) = Some ?d"
    by (simp add: stamped_standard_alt default_claims_def merged_audiences_def)
  have policy: "surely_meets_policy ?cfg now (json_facts LibHS256 (json_of_standard C ?d))"
    by (rule standard_policy [OF _ _ assms(4) _ _ assms(2)]) (simp_all add: default_claims_def)
  obtain e i where read_back: "standard_of_json C (json_of_standard C ?d) = Some (?d\<lparr>exp := e, iat := i\<rparr>)"
    using standard_roundtrip [of C ?d] assms(3) by (auto simp: chrono_documented_def default_claims_def)
  have plain: "plain_payload (json_of_standard C ?d)"
    using assms(2-4) by (intro standard_plain)
      (simp_all add: times_in_range_def chrono_documented_def test_clock_def default_claims_def)
  from mint_standard [OF assms(1) _ _ stamped plain policy read_back]
  obtain tok where tok: "encode_standard (standard_lib C L) C utc_now uuid ?cfg ?c = Some (Ok tok)"
    "decode (standard_lib C L) ?cfg tok = Ok (?d\<lparr>exp := e, iat := i\<rparr>)"
    by auto
  then show ?thesis
    by (simp add: revoked_token_rejected_by_decode_standard_def decode_standard_def store_new_def
        store_revoke_def store_is_revoked_alive run_test)
qed

lemma numeric_as_standard:
  assumes "from_timestamp C (uint e) = Some t"
  shows "standard_of_json C (serialize_numeric \<lparr>nc_sub = Some s, nc_exp = Some e, nc_iss = Some i, nc_aud = None\<rparr>)
    = Some (default_claims\<lparr>sub := Some s, exp := Some t, iss := Some i\<rparr>)"
  using assms
  by (simp add: standard_of_json_def serialize_numeric_def deserialize_claims_def json_option_def
      ser_option_def field_names_def default_claims_def collect_map_def)

lemma unat_expired:
  assumes "test_clock utc now" "3600 \<le> utc"
  shows "unat (saturating_sub (now_plus_secs utc 0) 3600) = utc - 3600"
proof -
  have u: "unat (word_of_nat utc :: u64) = utc"
    using assms(1) by (simp add: test_clock_def unsigned_of_nat take_bit_eq_mod)
  have "\<not> (word_of_nat utc :: u64) < 3600" using assms(2) u by (simp add: word_less_nat_alt)
  then show ?thesis
    using assms(2) u by (simp add: saturating_sub_def now_plus_secs_def unat_sub word_le_nat_alt)
qed

lemma validate_rejects_expired_passes:
  assumes "hmac_documented L now" "test_clock utc now" "chrono_documented C utc_now utc" "3600 \<le> utc"
  shows "validate_rejects_expired_and_returns_real_claims L C utc = Some ()"
proof -
  let ?cfg = "default_config\<lparr>secret := ''validate-test-secret'', issuer := Some ''issuer''\<rparr>"
  let ?old = "\<lparr>nc_sub = Some ''user-1'', nc_exp = Some (saturating_sub (now_plus_secs utc 0) 3600),
         nc_iss = Some ''issuer'', nc_aud = None\<rparr>"
  let ?new = "\<lparr>nc_sub = Some ''user-2'', nc_exp = Some (now_plus_secs utc 3600),
         nc_iss = Some ''issuer'', nc_aud = None\<rparr>"
  obtain tok where tok: "minted L ?cfg ?old tok" using numeric_minted [OF assms(1), of ?cfg ?old] by auto
  obtain tok2 where tok2: "minted L ?cfg ?new tok2" using numeric_minted [OF assms(1), of ?cfg ?new] by auto
  have "\<not> meets_policy ?cfg now (json_facts LibHS256 (serialize_numeric ?old))"
    using assms(2,4) unat_expired [OF assms(2,4)]
    by (simp add: meets_policy_def numeric_facts test_clock_def) arith
  then obtain m where m: "decode (standard_lib C L) ?cfg tok = Err (DecodingFailed m)"
    using secret_decode_Err [OF assms(1) _ _ conjunct2 [OF tok] numeric_plain, of ?cfg "json_of_standard C" "standard_of_json C"]
    by auto
  note exp = unat_now_plus_secs(1) [OF assms(2)]
  obtain t where "from_timestamp C (int (utc + 3600)) = Some t"
    using assms(3) unfolding chrono_documented_def by blast
  moreover have "uint (now_plus_secs utc 3600) = int (utc + 3600)" using exp by (simp only: uint_nat)
  ultimately have t: "from_timestamp C (uint (now_plus_secs utc 3600)) = Some t" by simp
  have "surely_meets_policy ?cfg now (json_facts LibHS256 (serialize_numeric ?new))"
    using assms(2) exp by (simp add: policy_defs)
  then have "decode (standard_lib C L) ?cfg tok2 = Ok (default_claims\<lparr>sub := Some ''user-2'', exp := Some t, iss := Some ''issuer''\<rparr>)"
    by (intro secret_decode_Ok [where j = "serialize_numeric ?new", OF assms(1) _ _ conjunct2 [OF tok2] numeric_plain])
      (simp_all add: numeric_as_standard [OF t])
  with m tok tok2 show ?thesis
    by (simp add: validate_rejects_expired_and_returns_real_claims_def validate_def)
qed

text \<open>
  A text that has not the shape of a token is refused by the service, which is the property test on
  malformed tokens.
\<close>

lemma malformed_passes:
  assumes "token_shape_documented L" "count_list text (CHR ''.'') \<noteq> 2"
  shows "jwt_malformed_token_fails L text = Some ()"
proof -
  have "\<not> is_ok (decode (numeric_lib L) cfg text)" for cfg
  proof
    assume "is_ok (decode (numeric_lib L) cfg text)"
    then obtain c where "decode_with_rotation (numeric_lib L) cfg text (build_validation (numeric_lib L) cfg) = Ok c"
      by (auto simp: is_ok_iff decode_def)
    then show False
      by (rule decode_with_rotation_Ok)
        (use assms in \<open>auto simp: result_iff is_ok_iff token_shape_documented_def\<close>)
  qed
  then show ?thesis by (simp add: jwt_malformed_token_fails_def)
qed

text \<open>The tests that need no library at all.\<close>

lemma plain_tests_pass:
  "extract_bearer_token_valid = Some () \<and> extract_bearer_token_with_spaces = Some ()
   \<and> extract_bearer_token_wrong_scheme = Some () \<and> extract_bearer_token_empty = Some ()
   \<and> build_auth_cookie_format = Some () \<and> build_auth_cookie_no_secure = Some ()
   \<and> jwt_error_display_messages = Some () \<and> jwt_config_default_is_hs256 = Some ()"
  by (simp only: extract_bearer_token_valid_passes extract_bearer_token_with_spaces_passes
      extract_bearer_token_wrong_scheme_passes extract_bearer_token_empty_passes
      build_auth_cookie_format_passes build_auth_cookie_no_secure_passes
      jwt_error_display_messages_passes jwt_config_default_is_hs256_passes simp_thms)

section \<open>Theorems\<close>

text \<open>
  C37. The tests of src/lib.rs pass, but for the two on the \<open>Debug\<close> text, which \<open>Debug_Text\<close> has: for
  every library that treats HMAC keys and the shape of a token as documented, every printer and
  parser of JSON that are inverse to each other on the values the crate carries, every clock within an
  hour of the test's own, every string the property tests generate, and, for the property test on
  malformed tokens, every text without exactly two dots.
\<close>

theorem service_unit_tests_pass:
  assumes "hmac_documented L now" "test_clock utc now" "chrono_documented C utc_now utc" "3600 \<le> utc"
    and "timestamp C expiry = int utc + 3600" "json_text_documented print parse"
    and "token_shape_documented L" "count_list text (CHR ''.'') \<noteq> 2"
  shows "(jwt_config_short_secret_works_for_hmac L utc = Some ()
    \<and> jwt_service_encode_decode_roundtrip L utc = Some ()
    \<and> jwt_service_encode_decode_with_issuer_audience L utc = Some ()
    \<and> jwt_roundtrip L utc subject = Some ()
    \<and> issuer_mismatch_rejected L utc = Some ()
    \<and> cross_algorithm_token_rejected L utc = Some ()
    \<and> missing_required_claims_rejected L = Some ()
    \<and> rotation_accepts_old_secret_tokens L utc = Some ()
    \<and> jwt_malformed_token_fails L text = Some ())
    \<and> (jwt_service_wrong_secret_fails L utc = Some () \<and> expired_token_rejected L utc = Some ()
    \<and> audience_mismatch_rejected L utc = Some () \<and> jwt_wrong_secret_fails L utc issuer_text = Some ())
    \<and> (encode_standard_mints_a_valid_token L C utc_now uuid = Some ()
    \<and> validate_rejects_expired_and_returns_real_claims L C utc = Some ()
    \<and> revoked_token_rejected_by_decode_standard L C expiry utc_now uuid \<tau> = Some ())
    \<and> (standard_claims_serialization_roundtrip C print parse = Some ()
    \<and> standard_claims_skips_none_fields C print = Some ()
    \<and> standard_claims_with_extra_fields C print parse = Some ()
    \<and> claims_serialization_roundtrip C print parse (arb_standard_claims s a r ps) = Some ())
    \<and> (extract_bearer_token_valid = Some () \<and> extract_bearer_token_with_spaces = Some ()
    \<and> extract_bearer_token_wrong_scheme = Some () \<and> extract_bearer_token_empty = Some ()
    \<and> build_auth_cookie_format = Some () \<and> build_auth_cookie_no_secure = Some ()
    \<and> jwt_error_display_messages = Some () \<and> jwt_config_default_is_hs256 = Some ())"
proof -
  have issuerless: "jwt_service_wrong_secret_fails L utc = Some () \<and> expired_token_rejected L utc = Some ()
      \<and> audience_mismatch_rejected L utc = Some () \<and> jwt_wrong_secret_fails L utc issuer_text = Some ()"
    by (simp add: jwt_service_wrong_secret_fails_def expired_token_rejected_def audience_mismatch_rejected_def
        jwt_wrong_secret_fails_def issuerless_tests_pass [OF assms(1)])
  show ?thesis
    by (intro conjI accepting_tests_pass [OF assms(1,2)] rejecting_tests_pass [OF assms(1,2)]
        missing_required_passes [OF assms(1)] rotation_passes [OF assms(1,2)] malformed_passes [OF assms(7,8)]
        issuerless [THEN conjunct1] issuerless [THEN conjunct2]
        mints_valid_passes [OF assms(1,2,3)] validate_rejects_expired_passes [OF assms(1,2,3,4)]
        revoked_token_passes [OF assms(1,2,3,5)] claims_tests_pass [OF assms(6,3)]
        plain_tests_pass [THEN conjunct1] plain_tests_pass [THEN conjunct2]
        issuerless [THEN conjunct2, THEN conjunct1] issuerless [THEN conjunct2, THEN conjunct2, THEN conjunct1]
        issuerless [THEN conjunct2, THEN conjunct2, THEN conjunct2])
qed

text \<open>
  The clock of the witnesses, whose seconds are themselves, and a printer of JSON values: the empty
  object as it is, every other value as its number behind a mark.
\<close>

definition second_chrono :: "int chrono_lib" where
  "second_chrono = \<lparr>add_seconds = (\<lambda>t n. Some (t + sint n)), timestamp = (\<lambda>t. t), from_timestamp = Some\<rparr>"

lemma second_chrono_documented: "chrono_documented second_chrono 5000 5000"
  by (simp add: chrono_documented_def second_chrono_def)

definition print_json :: "json \<Rightarrow> string" where
  "print_json j = (if j = JObj [] then ''{}'' else CHR ''#'' # show_nat (to_nat j))"

definition parse_json :: "string \<Rightarrow> json option" where
  "parse_json text = (if text = ''{}'' then Some (JObj []) else Some (from_nat (read_nat (tl text))))"

lemma json_text_ok: "json_text_documented print_json parse_json"
  by (auto simp: json_text_documented_def print_json_def parse_json_def read_show_nat)

theorem service_unit_tests_pass_witness:
  "rotation_accepts_old_secret_tokens (hmac_lib 5001) 5000 = Some ()
   \<and> jwt_malformed_token_fails (hmac_lib 5001) ''not-a-token'' = Some ()
   \<and> revoked_token_rejected_by_decode_standard (hmac_lib 5001) second_chrono 8600 5000 ''id'' (\<lambda>i. i) = Some ()
   \<and> standard_claims_with_extra_fields second_chrono print_json parse_json = Some ()"
proof -
  have "test_clock 5000 5001" by (simp add: test_clock_def)
  moreover have "timestamp second_chrono 8600 = int 5000 + 3600" by (simp add: second_chrono_def)
  ultimately show ?thesis
    using service_unit_tests_pass [OF hmac_lib_documented _ second_chrono_documented _ _ json_text_ok hmac_lib_shape,
        of 5001 8600 "''not-a-token''" "''u''" "''i''" "''id''" "\<lambda>i. i" None None None "[]"]
    by simp
qed

text \<open>
  Four negative tests do not test what they are named for: their claims have no issuer, which every
  default configuration requires, so they pass whatever the two secrets, the expiry and the
  audience are, the right ones included.
\<close>

theorem issuerless_tests_test_nothing_else:
  assumes "hmac_documented L now"
  shows "wrong_secret_test s1 s2 L utc = Some () \<and> expired_token_test e L = Some ()
    \<and> audience_mismatch_test a L utc = Some () \<and> wrong_secret_proptest s1 s2 L utc i = Some ()
    \<and> jwt_service_wrong_secret_fails L utc = Some () \<and> expired_token_rejected L utc = Some ()
    \<and> audience_mismatch_rejected L utc = Some () \<and> jwt_wrong_secret_fails L utc i = Some ()"
  using issuerless_tests_pass [OF assms]
  by (simp add: jwt_service_wrong_secret_fails_def expired_token_rejected_def audience_mismatch_rejected_def
      jwt_wrong_secret_fails_def)

theorem issuerless_tests_test_nothing_else_witness:
  "wrong_secret_test ''same'' ''same'' (hmac_lib 5) 0 = Some ()
   \<and> expired_token_test (2 ^ 40) (hmac_lib 5) = Some ()
   \<and> audience_mismatch_test ''expected-aud'' (hmac_lib 5) 0 = Some ()"
  using issuerless_tests_test_nothing_else [OF hmac_lib_documented [of 5], of "''same''" "''same''" 0 "2 ^ 40" "''expected-aud''"]
  by blast

end
