(* ===== verification/Jwks_Tests.thy ===== *)
theory Jwks_Tests
  imports Test_Assertions Hmac_Library Jwks_Properties
begin

section \<open>The unit tests of the JWKS cache (src/jwks.rs, mod tests)\<close>

text \<open>
  The tests of the cache, on the model of the cache. \<open>L\<close> is \<open>jsonwebtoken\<close> over JSON values, \<open>J\<close>
  the HTTP client and the JWK types, \<open>w\<close> the world that a request acts on, and \<open>\<tau>\<close> the readings of
  the clock in the order in which a test makes them.
\<close>

definition UNROUTABLE_URL :: string where
  "UNROUTABLE_URL = ''http://127.0.0.1:1/jwks.json''"

definition cache_secret :: bytes where
  "cache_secret = as_bytes ''test-secret-for-jwks-cache''"

definition insert_key ::
    "('ek, 'dk, json) jwt_lib \<Rightarrow> string \<Rightarrow> instant \<Rightarrow> ('cl, 'dk, 'ka) jwks_cache \<Rightarrow> ('cl, 'dk, 'ka) jwks_cache" where
  "insert_key L kid now cache = cache\<lparr>jc_state :=
     \<lparr>cs_keys = AList.update kid \<lparr>ck_key = dk_from_secret L cache_secret, ck_alg = None\<rparr> (cs_keys (jc_state cache)),
      cs_fetched_at = Some now\<rparr>\<rparr>"

definition cache_with_key ::
    "('cl, 'resp, 'ka, 'p, 'dk, 'w) jwks_lib \<Rightarrow> ('ek, 'dk, json) jwt_lib \<Rightarrow> instant \<Rightarrow> string
      \<Rightarrow> ('cl, 'dk, 'ka) jwks_cache" where
  "cache_with_key J L now kid =
     insert_key L kid now (with_min_refresh_interval 0 (jwks_new J UNROUTABLE_URL))"

definition is_jwks_error :: "jwt_error \<Rightarrow> bool" where
  "is_jwks_error e = (case e of Jwks _ \<Rightarrow> True | _ \<Rightarrow> False)"

definition is_decoding_failed :: "jwt_error \<Rightarrow> bool" where
  "is_decoding_failed e = (case e of DecodingFailed _ \<Rightarrow> True | _ \<Rightarrow> False)"

definition mentions_static_key_set :: "jwt_error \<Rightarrow> bool" where
  "mentions_static_key_set e = (case e of Jwks msg \<Rightarrow> contains msg ''static key set'' | _ \<Rightarrow> False)"

text \<open>Indexing a \<open>serde_json::Value\<close> with a string.\<close>

definition value_index :: "json \<Rightarrow> string \<Rightarrow> json" where
  "value_index j k = (case j of JObj es \<Rightarrow> unwrap_or JNull (map_of es k) | _ \<Rightarrow> JNull)"

text \<open>The token of the two round trips: a header with a key id, one claim, and no required claims.\<close>

definition token_with_kid :: "('ek, 'dk, json) jwt_lib \<Rightarrow> string \<Rightarrow> string \<Rightarrow> bytes \<Rightarrow> string option" where
  "token_with_kid L kid subject key =
     (let header = (header_new L LibHS256)\<lparr>h_kid := Some kid\<rparr>
      in unwrap (lib_encode L header (JObj [(''sub'', JStr subject)]) (ek_from_secret L key)))"

definition lax_validation :: "('ek, 'dk, json) jwt_lib \<Rightarrow> validation" where
  "lax_validation L = (validation_new L LibHS256)\<lparr>v_required_spec_claims := {}\<rparr>"

subsection \<open>Remote key sets\<close>

definition cache_hit_serves_without_fetch ::
    "('cl, 'resp, 'ka, 'p, 'dk, 'w) jwks_lib \<Rightarrow> ('ek, 'dk, json) jwt_lib \<Rightarrow> (nat \<Rightarrow> instant) \<Rightarrow> 'w \<Rightarrow> unit option" where
  "cache_hit_serves_without_fetch J L \<tau> w =
     do {
       let cache = cache_with_key J L (\<tau> 0) ''key-1'';
       let (r, cache, w) = jwks_decoding_key J (\<tau> 1) (\<tau> 2) (\<tau> 3) (Some ''key-1'') cache w;
       key \<leftarrow> unwrap r;
       token \<leftarrow> token_with_kid L ''key-1'' ''u1'' cache_secret;
       let (r, cache, w) = jwks_decode J L (\<tau> 4) (\<tau> 5) (\<tau> 6) token (lax_validation L) cache w;
       data \<leftarrow> unwrap r;
       check (value_index data ''sub'' = JStr ''u1'')
     }"

definition kid_miss_triggers_refresh_and_fails_closed ::
    "('cl, 'resp, 'ka, 'p, 'dk, 'w) jwks_lib \<Rightarrow> ('ek, 'dk, json) jwt_lib \<Rightarrow> (nat \<Rightarrow> instant) \<Rightarrow> 'w \<Rightarrow> unit option" where
  "kid_miss_triggers_refresh_and_fails_closed J L \<tau> w =
     do {
       let cache = cache_with_key J L (\<tau> 0) ''key-1'';
       let (r, cache, w) = jwks_decoding_key J (\<tau> 1) (\<tau> 2) (\<tau> 3) (Some ''key-2'') cache w;
       err \<leftarrow> unwrap_err r;
       check (is_jwks_error err)
     }"

definition empty_cache_fetch_failure_is_an_error ::
    "('cl, 'resp, 'ka, 'p, 'dk, 'w) jwks_lib \<Rightarrow> (nat \<Rightarrow> instant) \<Rightarrow> 'w \<Rightarrow> unit option" where
  "empty_cache_fetch_failure_is_an_error J \<tau> w =
     do {
       let cache = jwks_new J UNROUTABLE_URL;
       let (r, cache, w) = jwks_decoding_key J (\<tau> 0) (\<tau> 1) (\<tau> 2) (Some ''any'') cache w;
       err \<leftarrow> unwrap_err r;
       check (is_jwks_error err);
       let (r, cache, w) = refresh J (\<tau> 3) cache w;
       err \<leftarrow> unwrap_err r;
       check (is_jwks_error err)
     }"

definition stale_cache_triggers_refresh ::
    "('cl, 'resp, 'ka, 'p, 'dk, 'w) jwks_lib \<Rightarrow> ('ek, 'dk, json) jwt_lib \<Rightarrow> (nat \<Rightarrow> instant) \<Rightarrow> 'w \<Rightarrow> unit option" where
  "stale_cache_triggers_refresh J L \<tau> w =
     do {
       let cache = with_min_refresh_interval 0 (with_ttl 0 (jwks_new J UNROUTABLE_URL));
       let cache = insert_key L ''key-1'' (\<tau> 0) cache;
       let (r, cache, w) = jwks_decoding_key J (\<tau> 1) (\<tau> 2) (\<tau> 3) (Some ''key-1'') cache w;
       err \<leftarrow> unwrap_err r;
       check (is_jwks_error err)
     }"

definition malformed_token_fails_before_key_lookup ::
    "('cl, 'resp, 'ka, 'p, 'dk, 'w) jwks_lib \<Rightarrow> ('ek, 'dk, json) jwt_lib \<Rightarrow> (nat \<Rightarrow> instant) \<Rightarrow> 'w \<Rightarrow> unit option" where
  "malformed_token_fails_before_key_lookup J L \<tau> w =
     do {
       let cache = cache_with_key J L (\<tau> 0) ''key-1'';
       let v = validation_new L LibHS256;
       let (r, cache, w) = jwks_decode J L (\<tau> 1) (\<tau> 2) (\<tau> 3) ''not-a-jwt'' v cache w;
       err \<leftarrow> unwrap_err r;
       check (is_decoding_failed err)
     }"

subsection \<open>The document\<close>

text \<open>The parser of \<open>JwkSet\<close> is a parameter, like \<open>KeyAlgorithm::RS256\<close>.\<close>

definition empty_document :: string where
  \<open>empty_document = ''{"keys": []}''\<close>

definition two_keys_document :: string where
  \<open>two_keys_document =
     ''{"keys": ['' @ [CHR 0x0A]
     @ ''                {"kty": "oct", "k": "YWE", "kid": "k1", "alg": "RS256"},'' @ [CHR 0x0A]
     @ ''                {"kty": "oct", "k": "YWI"}'' @ [CHR 0x0A]
     @ ''            ]}''\<close>

definition build_key_map_rejects_unusable_sets ::
    "('cl, 'resp, 'ka, 'p, 'dk, 'w) jwks_lib \<Rightarrow> (string \<Rightarrow> ('ka, 'p) jwk list option) \<Rightarrow> unit option" where
  "build_key_map_rejects_unusable_sets J parse =
     do {
       set \<leftarrow> parse empty_document;
       err \<leftarrow> unwrap_err (build_key_map J set);
       check (is_jwks_error err)
     }"

definition build_key_map_captures_jwk_algorithm ::
    "('cl, 'resp, 'ka, 'p, 'dk, 'w) jwks_lib \<Rightarrow> (string \<Rightarrow> ('ka, 'p) jwk list option) \<Rightarrow> 'ka \<Rightarrow> unit option" where
  "build_key_map_captures_jwk_algorithm J parse rs256 =
     do {
       set \<leftarrow> parse two_keys_document;
       keys \<leftarrow> unwrap (build_key_map J set);
       check (length keys = 2);
       k1 \<leftarrow> map_of keys ''k1'';
       check (ck_alg k1 = Some rs256);
       k \<leftarrow> map_of keys [];
       check (ck_alg k = None)
     }"

subsection \<open>Static key sets and freshness\<close>

definition static_keys_never_fetch_and_fail_closed_on_unknown_kid ::
    "('cl, 'resp, 'ka, 'p, 'dk, 'w) jwks_lib \<Rightarrow> ('ek, 'dk, json) jwt_lib \<Rightarrow> (nat \<Rightarrow> instant) \<Rightarrow> 'w \<Rightarrow> unit option" where
  "static_keys_never_fetch_and_fail_closed_on_unknown_kid J L \<tau> w =
     do {
       let keys = AList.update ''only-key'' (dk_from_secret L (as_bytes ''static-secret'')) [];
       let cache = from_static_keys J (\<tau> 0) keys;
       let (r, cache, w) = jwks_decoding_key J (\<tau> 1) (\<tau> 2) (\<tau> 3) (Some ''only-key'') cache w;
       key \<leftarrow> unwrap r;
       let (r, cache, w) = jwks_decoding_key J (\<tau> 4) (\<tau> 5) (\<tau> 6) (Some ''other'') cache w;
       err \<leftarrow> unwrap_err r;
       check (mentions_static_key_set err);
       let (r, cache, w) = refresh J (\<tau> 7) cache w;
       err \<leftarrow> unwrap_err r;
       check (mentions_static_key_set err)
     }"

definition static_keys_decode_roundtrip ::
    "('cl, 'resp, 'ka, 'p, 'dk, 'w) jwks_lib \<Rightarrow> ('ek, 'dk, json) jwt_lib \<Rightarrow> (nat \<Rightarrow> instant) \<Rightarrow> 'w \<Rightarrow> unit option" where
  "static_keys_decode_roundtrip J L \<tau> w =
     do {
       let keys = AList.update ''hmac-1'' (dk_from_secret L (as_bytes ''static-roundtrip-secret'')) [];
       let cache = from_static_keys J (\<tau> 0) keys;
       token \<leftarrow> token_with_kid L ''hmac-1'' ''static-user'' (as_bytes ''static-roundtrip-secret'');
       let (r, cache, w) = jwks_decode J L (\<tau> 1) (\<tau> 2) (\<tau> 3) token (lax_validation L) cache w;
       claims \<leftarrow> unwrap r;
       check (value_index claims ''sub'' = JStr ''static-user'')
     }"

definition is_fresh_none_is_stale :: "(nat \<Rightarrow> instant) \<Rightarrow> unit option" where
  "is_fresh_none_is_stale \<tau> = check (\<not> is_fresh (\<tau> 0) None (from_secs 300))"

definition is_fresh_large_ttl_is_fresh :: "(nat \<Rightarrow> instant) \<Rightarrow> unit option" where
  "is_fresh_large_ttl_is_fresh \<tau> =
     (let at = Some (\<tau> 0)
      in check (is_fresh (\<tau> 1) at (from_secs 3600)))"

definition is_fresh_zero_ttl_is_stale_after_time_passes :: "(nat \<Rightarrow> instant) \<Rightarrow> unit option" where
  "is_fresh_zero_ttl_is_stale_after_time_passes \<tau> =
     (let at = Some (\<tau> 0)
      in check (\<not> is_fresh (\<tau> 1) at 0))"

section \<open>Lemmas\<close>

text \<open>Nothing listens at the URL of the tests.\<close>

definition refuses :: "('cl, 'resp, 'ka, 'p, 'dk, 'w) jwks_lib \<Rightarrow> bool" where
  "refuses J \<longleftrightarrow> (\<forall>cl w. is_ok (fst (http_get J cl UNROUTABLE_URL w)) = False)"

lemma refused:
  assumes "refuses J"
  obtains e w' where "http_get J cl UNROUTABLE_URL w = (Err e, w')"
proof -
  have "\<not> is_ok (fst (http_get J cl UNROUTABLE_URL w))" using assms by (simp add: refuses_def)
  then show ?thesis
    by (cases "http_get J cl UNROUTABLE_URL w"; cases "fst (http_get J cl UNROUTABLE_URL w)") (auto intro: that)
qed

lemma url_not_Nil [simp]: "UNROUTABLE_URL \<noteq> []"
  by (simp add: UNROUTABLE_URL_def)

lemma cache_fields [simp]:
  "jc_url (jwks_new J url) = url"
  "jc_static_keys (jwks_new J url) = False"
  "jc_ttl (jwks_new J url) = DEFAULT_TTL"
  "jc_state (jwks_new J url) = \<lparr>cs_keys = [], cs_fetched_at = None\<rparr>"
  "jc_url (with_ttl d self) = jc_url self"
  "jc_static_keys (with_ttl d self) = jc_static_keys self"
  "jc_url (with_min_refresh_interval d self) = jc_url self"
  "jc_static_keys (with_min_refresh_interval d self) = jc_static_keys self"
  "jc_url (insert_key L kid now self) = jc_url self"
  "jc_ttl (insert_key L kid now self) = jc_ttl self"
  "jc_min_refresh_interval (insert_key L kid now self) = jc_min_refresh_interval self"
  "jc_static_keys (insert_key L kid now self) = jc_static_keys self"
  "cs_fetched_at (jc_state (insert_key L kid now self)) = Some now"
  "map_of (cs_keys (jc_state (insert_key L kid now self))) k =
     (if k = kid then Some \<lparr>ck_key = dk_from_secret L cache_secret, ck_alg = None\<rparr>
      else map_of (cs_keys (jc_state self)) k)"
  by (simp_all add: jwks_new_def with_ttl_def with_min_refresh_interval_def insert_key_def update_conv')

text \<open>A lookup that goes to the endpoint ends with its error.\<close>

lemma refused_fetch:
  assumes "refuses J" "jc_url self = UNROUTABLE_URL"
  shows "\<exists>m w'. fetch J self w = (Err (Jwks m), w')"
  by (rule refused [OF assms(1), of "jc_client self" w]) (simp add: fetch_def assms(2))

lemma miss_refused:
  assumes "refuses J" "jc_url self = UNROUTABLE_URL" "\<not> jc_static_keys self"
    and "\<not> is_fresh t1 (cs_fetched_at (jc_state self)) (jc_ttl self)
      \<or> map_of (cs_keys (jc_state self)) (unwrap_or [] kid) = None"
    and "\<not> is_fresh t2 (cs_fetched_at (jc_state self)) (jc_min_refresh_interval self)"
  shows "\<exists>m w'. jwks_decoding_key J t1 t2 t3 kid self w = (Err (Jwks m), self, w')"
proof -
  obtain m w' where "fetch J self w = (Err (Jwks m), w')" using refused_fetch [OF assms(1,2)] by blast
  then show ?thesis using assms(2-) by (simp add: jwks_decoding_key_def resolve_key_miss)
qed

lemma refresh_refused:
  assumes "refuses J" "jc_url self = UNROUTABLE_URL"
  shows "\<exists>m w'. refresh J now self w = (Err (Jwks m), self, w')"
  using refused_fetch [OF assms, of w] assms(2) by (auto simp: refresh_fetch)

lemma is_jwks_error_Jwks [simp]: "is_jwks_error (Jwks m)"
  by (simp add: is_jwks_error_def)

lemma remote_tests_pass:
  assumes "refuses J"
  shows "kid_miss_triggers_refresh_and_fails_closed J L \<tau> w = Some ()"
    and "empty_cache_fetch_failure_is_an_error J \<tau> w = Some ()"
    and "stale_cache_triggers_refresh J L \<tau> w = Some ()"
proof -
  have "\<exists>m w'. jwks_decoding_key J (\<tau> 1) (\<tau> 2) (\<tau> 3) (Some ''key-2'') (cache_with_key J L (\<tau> 0) ''key-1'') w
      = (Err (Jwks m), cache_with_key J L (\<tau> 0) ''key-1'', w')"
    by (rule miss_refused [OF assms]) (simp_all add: cache_with_key_def)
  then show "kid_miss_triggers_refresh_and_fails_closed J L \<tau> w = Some ()"
    by (auto simp: kid_miss_triggers_refresh_and_fails_closed_def)
next
  have "\<exists>m w'. jwks_decoding_key J (\<tau> 0) (\<tau> 1) (\<tau> 2) (Some ''any'') (jwks_new J UNROUTABLE_URL) w
      = (Err (Jwks m), jwks_new J UNROUTABLE_URL, w')"
    by (rule miss_refused [OF assms]) simp_all
  then obtain m w' where 1: "jwks_decoding_key J (\<tau> 0) (\<tau> 1) (\<tau> 2) (Some ''any'') (jwks_new J UNROUTABLE_URL) w
      = (Err (Jwks m), jwks_new J UNROUTABLE_URL, w')"
    by blast
  have "\<exists>m w''. refresh J (\<tau> 3) (jwks_new J UNROUTABLE_URL) w' = (Err (Jwks m), jwks_new J UNROUTABLE_URL, w'')"
    by (rule refresh_refused [OF assms]) simp
  with 1 show "empty_cache_fetch_failure_is_an_error J \<tau> w = Some ()"
    by (auto simp: empty_cache_fetch_failure_is_an_error_def)
next
  let ?cache = "insert_key L ''key-1'' (\<tau> 0) (with_min_refresh_interval 0 (with_ttl 0 (jwks_new J UNROUTABLE_URL)))"
  have "\<exists>m w'. jwks_decoding_key J (\<tau> 1) (\<tau> 2) (\<tau> 3) (Some ''key-1'') ?cache w = (Err (Jwks m), ?cache, w')"
    by (rule miss_refused [OF assms]) simp_all
  then show "stale_cache_triggers_refresh J L \<tau> w = Some ()"
    by (auto simp: stale_cache_triggers_refresh_def)
qed

text \<open>The two round trips: the token is made, and decoded with the key of the cache.\<close>

lemma token_with_kid_decodes:
  assumes "hmac_documented L now"
  obtains tok where "token_with_kid L kid subject key = Some tok"
    "lib_decode_header L tok = Ok \<lparr>h_alg = LibHS256, h_kid = Some kid\<rparr>"
    "lib_decode L tok (dk_from_secret L key) (lax_validation L) = Ok (JObj [(''sub'', JStr subject)])"
proof -
  let ?j = "JObj [(''sub'', JStr subject)]"
  note doc = hmac_documentedD [OF assms]
  note new = constructors_documentedD [OF doc(1)]
  have hdr: "(header_new L LibHS256)\<lparr>h_kid := Some kid\<rparr> = \<lparr>h_alg = LibHS256, h_kid = Some kid\<rparr>"
    using new(1) [of LibHS256] by (cases "header_new L LibHS256") simp
  obtain tok where tok: "lib_encode L \<lparr>h_alg = LibHS256, h_kid = Some kid\<rparr> ?j (ek_from_secret L key) = Ok tok"
    using doc(2) [of "\<lparr>h_alg = LibHS256, h_kid = Some kid\<rparr>" ?j key] by auto
  have plain: "plain_payload ?j" by (simp add: plain_payload_def)
  have "surely_passes now (lax_validation L) (json_facts LibHS256 ?j)"
    using doc(1)
    by (simp add: constructors_documented_def surely_passes_def passes_def lax_validation_def json_facts_def json_members_def
        json_time_def json_texts_def)
  then have "lib_decode L tok (dk_from_secret L key) (lax_validation L) = Ok ?j"
    using doc(4) [OF tok plain] by simp
  moreover have "token_with_kid L kid subject key = Some tok"
    by (simp add: token_with_kid_def hdr tok)
  ultimately show ?thesis using doc(3) [OF tok] by (blast intro: that)
qed

lemma decode_hit:
  assumes "lib_decode_header L tok = Ok hdr" "is_fresh t1 (cs_fetched_at (jc_state self)) (jc_ttl self)"
    and "map_of (cs_keys (jc_state self)) (unwrap_or [] (h_kid hdr)) = Some \<lparr>ck_key = key, ck_alg = None\<rparr>"
    and "lib_decode L tok key v = Ok c"
  shows "jwks_decode J L t1 t2 t3 tok v self w = (Ok c, self, w)"
  using assms by (simp add: jwks_decode_def resolve_key_hit verify_with_def)

lemma key_hit:
  assumes "is_fresh t1 (cs_fetched_at (jc_state self)) (jc_ttl self)"
    and "map_of (cs_keys (jc_state self)) (unwrap_or [] kid) = Some c"
  shows "jwks_decoding_key J t1 t2 t3 kid self w = (Ok (ck_key c), self, w)"
  using assms by (simp add: jwks_decoding_key_def resolve_key_hit)

lemma cache_hit_passes:
  assumes "hmac_documented L now" "\<tau> 1 - \<tau> 0 < DEFAULT_TTL" "\<tau> 4 - \<tau> 0 < DEFAULT_TTL"
  shows "cache_hit_serves_without_fetch J L \<tau> w = Some ()"
proof -
  let ?cache = "cache_with_key J L (\<tau> 0) ''key-1''"
  let ?hdr = "\<lparr>h_alg = LibHS256, h_kid = Some ''key-1''\<rparr>"
  obtain tok where tok: "token_with_kid L ''key-1'' ''u1'' cache_secret = Some tok"
    "lib_decode_header L tok = Ok ?hdr"
    "lib_decode L tok (dk_from_secret L cache_secret) (lax_validation L) = Ok (JObj [(''sub'', JStr ''u1'')])"
    using token_with_kid_decodes [OF assms(1)] .
  have fresh: "is_fresh (\<tau> 1) (cs_fetched_at (jc_state ?cache)) (jc_ttl ?cache)"
    "is_fresh (\<tau> 4) (cs_fetched_at (jc_state ?cache)) (jc_ttl ?cache)"
    and found: "map_of (cs_keys (jc_state ?cache)) (unwrap_or [] (h_kid ?hdr)) =
      Some \<lparr>ck_key = dk_from_secret L cache_secret, ck_alg = None\<rparr>"
    using assms(2,3) by (simp_all add: cache_with_key_def)
  have "jwks_decoding_key J (\<tau> 1) (\<tau> 2) (\<tau> 3) (Some ''key-1'') ?cache w = (Ok (dk_from_secret L cache_secret), ?cache, w)"
    using key_hit [OF fresh(1) found] by simp
  with tok(1) decode_hit [OF tok(2) fresh(2) found tok(3), of J]
  show ?thesis by (simp add: cache_hit_serves_without_fetch_def value_index_def)
qed

lemma static_roundtrip_passes:
  assumes "hmac_documented L now" "\<tau> 1 - \<tau> 0 < DEFAULT_TTL"
  shows "static_keys_decode_roundtrip J L \<tau> w = Some ()"
proof -
  let ?key = "as_bytes ''static-roundtrip-secret''"
  let ?cache = "from_static_keys J (\<tau> 0) [(''hmac-1'', dk_from_secret L ?key)]"
  let ?hdr = "\<lparr>h_alg = LibHS256, h_kid = Some ''hmac-1''\<rparr>"
  obtain tok where tok: "token_with_kid L ''hmac-1'' ''static-user'' ?key = Some tok"
    "lib_decode_header L tok = Ok ?hdr"
    "lib_decode L tok (dk_from_secret L ?key) (lax_validation L) = Ok (JObj [(''sub'', JStr ''static-user'')])"
    using token_with_kid_decodes [OF assms(1)] .
  have fresh: "is_fresh (\<tau> 1) (cs_fetched_at (jc_state ?cache)) (jc_ttl ?cache)"
    and found: "map_of (cs_keys (jc_state ?cache)) (unwrap_or [] (h_kid ?hdr)) =
      Some \<lparr>ck_key = dk_from_secret L ?key, ck_alg = None\<rparr>"
    using assms(2) by (simp_all add: from_static_keys_def)
  from tok(1) decode_hit [OF tok(2) fresh found tok(3), of J]
  show ?thesis by (simp add: static_keys_decode_roundtrip_def value_index_def)
qed

lemma mentions_lemmas:
  "contains ''unknown key id `other` in static key set'' ''static key set''"
  "contains ''no JWKS URL configured (static key set)'' ''static key set''"
  by code_simp+

lemma static_miss:
  assumes "map_of (cs_keys (jc_state self)) want = None" "jc_static_keys self"
  shows "jwks_decoding_key J t1 t2 t3 (Some want) self w =
    (Err (Jwks (''unknown key id `'' @ want @ ''` in static key set'')), self, w)"
  using assms by (simp add: jwks_decoding_key_def resolve_key_def)

lemma static_unknown_passes:
  assumes "\<tau> 1 - \<tau> 0 < DEFAULT_TTL"
  shows "static_keys_never_fetch_and_fail_closed_on_unknown_kid
    (J :: ('cl, 'resp, 'c, 'p, 'b, 'w) jwks_lib) L \<tau> w = Some ()"
proof -
  let ?key = "dk_from_secret L (as_bytes ''static-secret'')"
  let ?cache = "from_static_keys J (\<tau> 0) [(''only-key'', ?key)]"
  have "jwks_decoding_key J (\<tau> 1) (\<tau> 2) (\<tau> 3) (Some ''only-key'') ?cache w =
      (Ok (ck_key (\<lparr>ck_key = ?key, ck_alg = None\<rparr> :: ('b, 'c) cached_key)), ?cache, w)"
    by (rule key_hit) (use assms in \<open>simp_all add: from_static_keys_def\<close>)
  moreover have "jwks_decoding_key J (\<tau> 4) (\<tau> 5) (\<tau> 6) (Some ''other'') ?cache w =
      (Err (Jwks ''unknown key id `other` in static key set''), ?cache, w)"
    using static_miss [of ?cache "''other''"] by (simp add: from_static_keys_def)
  moreover have "refresh J (\<tau> 7) ?cache w = (Err (Jwks ''no JWKS URL configured (static key set)''), ?cache, w)"
    by (simp add: refresh_def from_static_keys_def)
  ultimately show ?thesis
    by (simp add: static_keys_never_fetch_and_fail_closed_on_unknown_kid_def mentions_static_key_set_def
        mentions_lemmas)
qed

lemma malformed_token_passes:
  assumes "\<not> is_ok (lib_decode_header L ''not-a-jwt'')"
  shows "malformed_token_fails_before_key_lookup J L \<tau> w = Some ()"
  using assms
  by (cases "lib_decode_header L ''not-a-jwt''")
    (simp_all add: malformed_token_fails_before_key_lookup_def jwks_decode_def is_decoding_failed_def)

text \<open>
  The tests of \<open>build_key_map\<close>, for a parser of key sets that gives the keys written in the
  documents, both of them usable.
\<close>

definition key_sets_documented ::
    "('cl, 'resp, 'ka, 'p, 'dk, 'w) jwks_lib \<Rightarrow> (string \<Rightarrow> ('ka, 'p) jwk list option) \<Rightarrow> 'ka \<Rightarrow> bool" where
  "key_sets_documented J parse rs256 \<longleftrightarrow>
     parse empty_document = Some []
   \<and> (\<exists>p1 p2. parse two_keys_document =
          Some [\<lparr>jwk_key_id = Some ''k1'', jwk_key_algorithm = Some rs256, jwk_params = p1\<rparr>,
                \<lparr>jwk_key_id = None, jwk_key_algorithm = None, jwk_params = p2\<rparr>]
        \<and> is_ok (from_jwk J \<lparr>jwk_key_id = Some ''k1'', jwk_key_algorithm = Some rs256, jwk_params = p1\<rparr>)
        \<and> is_ok (from_jwk J \<lparr>jwk_key_id = None, jwk_key_algorithm = None, jwk_params = p2\<rparr>))"

lemma document_tests_pass:
  assumes "key_sets_documented J parse rs256"
  shows "build_key_map_rejects_unusable_sets J parse = Some ()"
    and "build_key_map_captures_jwk_algorithm J parse rs256 = Some ()"
  using assms
  by (auto simp: key_sets_documented_def build_key_map_rejects_unusable_sets_def
      build_key_map_captures_jwk_algorithm_def build_key_map_def is_ok_iff)

lemma freshness_tests_pass:
  "is_fresh_none_is_stale \<tau> = Some ()"
  "is_fresh_zero_ttl_is_stale_after_time_passes \<tau> = Some ()"
  by (simp_all add: is_fresh_none_is_stale_def is_fresh_zero_ttl_is_stale_after_time_passes_def)

lemma large_ttl_passes: "is_fresh_large_ttl_is_fresh \<tau> = Some () \<longleftrightarrow> \<tau> 1 - \<tau> 0 < from_secs 3600"
  by (simp add: is_fresh_large_ttl_is_fresh_def)

section \<open>Theorems\<close>

text \<open>
  All twelve tests of src/jwks.rs pass, for every library that treats HMAC keys as documented, an
  endpoint that refuses connections and a clock that moves less than the default lifetime during
  a test; the cached and the static key are served whatever the endpoint does, also when nothing
  listens there.
\<close>

theorem jwks_unit_tests_pass:
  assumes "hmac_documented L now" "\<not> is_ok (lib_decode_header L ''not-a-jwt'')" "refuses J"
    and "key_sets_documented J parse rs256" "\<And>i. \<tau> i - \<tau> 0 < DEFAULT_TTL"
  shows "cache_hit_serves_without_fetch any_J L \<tau> w = Some ()
    \<and> kid_miss_triggers_refresh_and_fails_closed J L \<tau> v = Some ()
    \<and> empty_cache_fetch_failure_is_an_error J \<tau> v = Some ()
    \<and> stale_cache_triggers_refresh J L \<tau> v = Some ()
    \<and> malformed_token_fails_before_key_lookup any_J L \<tau> w = Some ()
    \<and> build_key_map_rejects_unusable_sets J parse = Some ()
    \<and> build_key_map_captures_jwk_algorithm J parse rs256 = Some ()
    \<and> static_keys_never_fetch_and_fail_closed_on_unknown_kid any_J L \<tau> w = Some ()
    \<and> static_keys_decode_roundtrip any_J L \<tau> w = Some ()
    \<and> is_fresh_none_is_stale \<tau> = Some ()
    \<and> is_fresh_large_ttl_is_fresh \<tau> = Some ()
    \<and> is_fresh_zero_ttl_is_stale_after_time_passes \<tau> = Some ()"
proof -
  have "DEFAULT_TTL < from_secs 3600" by (simp add: DEFAULT_TTL_def from_secs_def)
  then have "is_fresh_large_ttl_is_fresh \<tau> = Some ()"
    using assms(5) [of 1] large_ttl_passes by (meson order.strict_trans)
  then show ?thesis
    by (intro conjI cache_hit_passes [where \<tau> = \<tau>, OF assms(1,5,5)] remote_tests_pass [OF assms(3)]
        malformed_token_passes [OF assms(2)] document_tests_pass [OF assms(4)]
        static_unknown_passes [where \<tau> = \<tau>, OF assms(5)]
        static_roundtrip_passes [where \<tau> = \<tau>, OF assms(1,5)] freshness_tests_pass)
qed

text \<open>An endpoint that refuses, keys made of bytes, and a parser that knows the two documents.\<close>

definition refusing_lib :: "(unit, unit, string, bytes, bytes, nat) jwks_lib" where
  "refusing_lib =
     \<lparr>client_new = (), http_get = (\<lambda>_ _ n. (Err ''connection refused'', Suc n)),
      error_for_status = Ok, response_json = (\<lambda>_ n. (Err ''no body'', n)),
      from_jwk = (\<lambda>j. Ok (jwk_params j)), key_algorithm_from = (\<lambda>_. ''RS256''),
      show_algorithm = (\<lambda>_. ''RS256''), show_key_algorithm = (\<lambda>k. k)\<rparr>"

definition parse_documents :: "string \<Rightarrow> (string, bytes) jwk list option" where
  "parse_documents text =
     (if text = empty_document then Some []
      else if text = two_keys_document then
        Some [\<lparr>jwk_key_id = Some ''k1'', jwk_key_algorithm = Some ''RS256'', jwk_params = [97, 97]\<rparr>,
              \<lparr>jwk_key_id = None, jwk_key_algorithm = None, jwk_params = [97, 98]\<rparr>]
      else None)"

lemma refusing_lib_ok: "refuses refusing_lib" "key_sets_documented refusing_lib parse_documents ''RS256''"
  by (simp_all add: refuses_def refusing_lib_def key_sets_documented_def parse_documents_def
      two_keys_document_def empty_document_def)

theorem jwks_unit_tests_pass_witness:
  "cache_hit_serves_without_fetch refusing_lib (hmac_lib 9) (\<lambda>i. min i 9) 0 = Some ()
   \<and> stale_cache_triggers_refresh refusing_lib (hmac_lib 9) (\<lambda>i. min i 9) 0 = Some ()
   \<and> static_keys_decode_roundtrip refusing_lib (hmac_lib 9) (\<lambda>i. min i 9) 0 = Some ()"
proof -
  have "\<not> is_ok (lib_decode_header (hmac_lib 9) ''not-a-jwt'')"
    using hmac_lib_malformed [of "''not-a-jwt''" 9] by simp
  moreover have "min i 9 - min 0 9 < DEFAULT_TTL" for i
    by (simp add: DEFAULT_TTL_def from_secs_def)
  ultimately show ?thesis
    using jwks_unit_tests_pass [OF hmac_lib_documented _ refusing_lib_ok, of 9 "\<lambda>i. min i 9" refusing_lib 0 0]
    by (simp only: simp_thms)
qed

end
