(* ===== verification/Rotation_Tests.thy ===== *)
theory Rotation_Tests
  imports Service_Tests Debug_Text
begin

section \<open>The integration tests of key rotation (tests/rotation.rs)\<close>

text \<open>
  Tokens with chosen \<open>kid\<close> headers and secrets, decoded by a service with two rotation keys.
  The claims type is that of the unit tests; \<open>utc n\<close> is the time in seconds of the \<open>n\<close>-th reading
  of the clock. The last test prints a rotation key with \<open>{:?}\<close>.
\<close>

definition user_claims :: "nat \<Rightarrow> numeric_claims" where
  "user_claims t = \<lparr>nc_sub = Some ''user-1'', nc_exp = Some (word_of_nat t + 3600),
     nc_iss = Some ''issuer'', nc_aud = None\<rparr>"

definition kid_token ::
    "('ek, 'dk, json) jwt_lib \<Rightarrow> nat \<Rightarrow> string \<Rightarrow> string option \<Rightarrow> string option" where
  "kid_token L t sec kid =
     (let h = (header_new L (to_lib_algorithm HS256))\<lparr>h_kid := kid\<rparr>
      in unwrap (lib_encode (numeric_lib L) h (user_claims t) (ek_from_secret L (as_bytes sec))))"

definition rotated_service :: jwt_config where
  "rotated_service = with_rotation_keys HS256
     [rotation_key_new ''new-secret'' (Some ''new-kid''), rotation_key_new ''old-secret'' (Some ''old-kid'')]"

definition encode_stamps_primary_key_id ::
    "('ek, 'dk, json) jwt_lib \<Rightarrow> (nat \<Rightarrow> nat) \<Rightarrow> unit option" where
  "encode_stamps_primary_key_id L utc =
     do {
       token \<leftarrow> unwrap (encode (numeric_lib L) rotated_service (user_claims (utc 0)));
       header \<leftarrow> unwrap (lib_decode_header L token);
       check (h_kid header = Some ''new-kid'')
     }"

definition kid_matching_rotation_key_verifies ::
    "('ek, 'dk, json) jwt_lib \<Rightarrow> (nat \<Rightarrow> nat) \<Rightarrow> unit option" where
  "kid_matching_rotation_key_verifies L utc =
     do {
       let service = rotated_service;
       token \<leftarrow> kid_token L (utc 0) ''old-secret'' (Some ''old-kid'');
       decoded \<leftarrow> unwrap (decode (numeric_lib L) service token);
       check (nc_sub decoded = Some ''user-1'')
     }"

definition kid_pin_prevents_key_confusion ::
    "('ek, 'dk, json) jwt_lib \<Rightarrow> (nat \<Rightarrow> nat) \<Rightarrow> unit option" where
  "kid_pin_prevents_key_confusion L utc =
     do {
       let service = rotated_service;
       forged \<leftarrow> kid_token L (utc 0) ''new-secret'' (Some ''old-kid'');
       check (\<not> is_ok (decode (numeric_lib L) service forged));
       forged_other_way \<leftarrow> kid_token L (utc 1) ''old-secret'' (Some ''new-kid'');
       check (\<not> is_ok (decode (numeric_lib L) service forged_other_way))
     }"

definition unknown_kid_rejected_without_try_all ::
    "('ek, 'dk, json) jwt_lib \<Rightarrow> (nat \<Rightarrow> nat) \<Rightarrow> unit option" where
  "unknown_kid_rejected_without_try_all L utc =
     do {
       let service = rotated_service;
       token \<leftarrow> kid_token L (utc 0) ''old-secret'' (Some ''attacker-kid'');
       err \<leftarrow> unwrap_err (decode (numeric_lib L) service token);
       check (case err of DecodingFailed msg \<Rightarrow> contains msg ''attacker-kid'' | _ \<Rightarrow> False)
     }"

definition no_kid_token_falls_back_to_try_all ::
    "('ek, 'dk, json) jwt_lib \<Rightarrow> (nat \<Rightarrow> nat) \<Rightarrow> unit option" where
  "no_kid_token_falls_back_to_try_all L utc =
     do {
       let service = rotated_service;
       legacy \<leftarrow> kid_token L (utc 0) ''old-secret'' None;
       decoded \<leftarrow> unwrap (decode (numeric_lib L) service legacy);
       check (nc_sub decoded = Some ''user-1'');
       primary \<leftarrow> kid_token L (utc 1) ''new-secret'' None;
       decoded \<leftarrow> unwrap (decode (numeric_lib L) service primary);
       check (nc_sub decoded = Some ''user-1'');
       bad \<leftarrow> kid_token L (utc 2) ''wrong-secret'' None;
       check (\<not> is_ok (decode (numeric_lib L) service bad))
     }"

definition legacy_rotation_secrets_constructor_still_works ::
    "('ek, 'dk, json) jwt_lib \<Rightarrow> (nat \<Rightarrow> nat) \<Rightarrow> unit option" where
  "legacy_rotation_secrets_constructor_still_works L utc =
     do {
       let service = with_rotation_secrets HS256 [''first'', ''second''];
       token \<leftarrow> unwrap (encode (numeric_lib L) service (user_claims (utc 0)));
       check (is_ok (decode (numeric_lib L) service token));
       old \<leftarrow> kid_token L (utc 1) ''second'' None;
       check (is_ok (decode (numeric_lib L) service old));
       header \<leftarrow> unwrap (lib_decode_header L token);
       check (h_kid header = None)
     }"

definition rotation_key_debug_redacts_secret :: "(nat \<Rightarrow> bool) \<Rightarrow> unit option" where
  "rotation_key_debug_redacts_secret P =
     do {
       let key = rotation_key_new ''rotation-hush-hush-secret'' (Some ''kid-1'');
       let rendered = debug_text P (rotation_key_fmt key);
       check (contains rendered ''kid-1'');
       check (\<not> contains rendered ''rotation-hush-hush-secret'')
     }"

section \<open>Lemmas\<close>

text \<open>A token signed with a secret and a key id.\<close>

definition signed ::
    "('ek, 'dk, json) jwt_lib \<Rightarrow> nat \<Rightarrow> string \<Rightarrow> string option \<Rightarrow> string \<Rightarrow> bool" where
  "signed L t sec kid tok \<longleftrightarrow>
     lib_encode L \<lparr>h_alg = LibHS256, h_kid = kid\<rparr> (serialize_numeric (user_claims t))
       (ek_from_secret L (as_bytes sec)) = Ok tok"

lemma header_documented:
  assumes "hmac_documented L now"
  shows "(header_new L a)\<lparr>h_kid := kid\<rparr> = \<lparr>h_alg = a, h_kid = kid\<rparr>"
  using constructors_documentedD(1) [OF hmac_documentedD(1) [OF assms]]
  by (metis header.surjective header.update_convs(2) old.unit.exhaust)

lemma kid_token_signed:
  assumes "hmac_documented L now"
  shows "\<exists>tok. kid_token L t sec kid = Some tok \<and> signed L t sec kid tok"
proof -
  obtain tok where "lib_encode L \<lparr>h_alg = LibHS256, h_kid = kid\<rparr> (serialize_numeric (user_claims t))
      (ek_from_secret L (as_bytes sec)) = Ok tok"
    using hmac_documentedD(2) [OF assms, of "\<lparr>h_alg = LibHS256, h_kid = kid\<rparr>"] by auto
  then show ?thesis
    by (simp add: kid_token_def signed_def header_documented [OF assms])
qed

lemma signed_header:
  "hmac_documented L now \<Longrightarrow> signed L t sec kid tok \<Longrightarrow> lib_decode_header L tok = Ok \<lparr>h_alg = LibHS256, h_kid = kid\<rparr>"
  unfolding signed_def by (rule hmac_documentedD(3))

text \<open>The rotation configurations of the tests check times, and no issuer or audience.\<close>

definition plain_rotation :: "jwt_config \<Rightarrow> bool" where
  "plain_rotation cfg \<longleftrightarrow> (\<exists>ks. cfg = with_rotation_keys HS256 ks)"

lemma plain_rotation_policy:
  assumes "plain_rotation cfg" "test_clock t now"
  shows "surely_meets_policy cfg now (json_facts LibHS256 (serialize_numeric (user_claims t)))"
  using assms unat_now_plus_secs [OF assms(2)]
  by (auto simp: plain_rotation_def policy_defs user_claims_def with_rotation_keys_def Let_def
      default_required_claims_def DEFAULT_REQUIRED_CLAIMS_def)

lemma signed_decodes:
  assumes "hmac_documented L now" "test_clock t now" "signed L t sec kid tok" "plain_rotation cfg"
  shows "lib_decode (numeric_lib L) tok (dk_from_secret L (as_bytes sec)) (build_validation L cfg)
    = Ok (user_claims t)"
proof -
  have "surely_passes now (build_validation L cfg) (json_facts LibHS256 (serialize_numeric (user_claims t)))"
    using surely_passes_build_validation [OF hmac_documentedD(1) [OF assms(1)]]
      plain_rotation_policy [OF assms(4,2)] by blast
  then show ?thesis
    using hmac_documentedD(4) [OF assms(1) assms(3) [unfolded signed_def] numeric_plain] by simp
qed

lemma signed_fails:
  assumes "hmac_documented L now" "signed L t sec kid tok" "other_hmac_key (as_bytes sec) (as_bytes sec')"
  shows "\<exists>e. lib_decode (numeric_lib L) tok (dk_from_secret L (as_bytes sec')) v = Err e"
proof (cases "lib_decode L tok (dk_from_secret L (as_bytes sec')) v")
  case (Inr j)
  then show ?thesis
    using hmac_documentedD(5) [OF assms(1) assms(2) [unfolded signed_def] numeric_plain Inr] assms(3) by simp
qed simp

text \<open>Decoding with the two configurations, by the key id of the token.\<close>

lemma rotated_service_decode:
  assumes "hmac_documented L now" "signed L t sec kid tok"
  shows "decode (numeric_lib L) rotated_service tok =
    (let v = build_validation L rotated_service; new = dk_from_secret L (as_bytes ''new-secret'');
         old = dk_from_secret L (as_bytes ''old-secret'')
     in case kid of
          None \<Rightarrow> try_keys (numeric_lib L) tok v (DecodingFailed ''no keys configured'')
            [(Some ''new-kid'', new), (Some ''new-kid'', new), (Some ''old-kid'', old)]
        | Some k \<Rightarrow>
            if k = ''new-kid'' then map_err DecodingFailed (lib_decode (numeric_lib L) tok new v)
            else if k = ''old-kid'' then map_err DecodingFailed (lib_decode (numeric_lib L) tok old v)
            else Err (unknown_kid_error k))"
  using signed_header [OF assms]
  by (cases kid)
    (simp_all add: decode_def decode_with_rotation_def decoding_keys_def decoding_key_for_family
      rotated_service_def with_rotation_keys_def rotation_key_new_def rotation_entry_key_def
      typed_build_validation Let_def)

lemma legacy_service_decode:
  assumes "hmac_documented L now" "signed L t sec None tok"
  shows "decode (numeric_lib L) (with_rotation_secrets HS256 [s1, s2]) tok =
    try_keys (numeric_lib L) tok (build_validation L (with_rotation_secrets HS256 [s1, s2]))
      (DecodingFailed ''no keys configured'')
      [(None, dk_from_secret L (as_bytes s1)), (None, dk_from_secret L (as_bytes s1)),
       (None, dk_from_secret L (as_bytes s2))]"
  using rotated_secrets_decode [OF assms(1) assms(2) [unfolded signed_def]] .

lemma plain_rotations [simp]: "plain_rotation rotated_service" "plain_rotation (with_rotation_secrets HS256 ss)"
  by (auto simp: plain_rotation_def rotated_service_def with_rotation_secrets_def)

text \<open>The clock readings of a test.\<close>

definition test_clocks :: "(nat \<Rightarrow> nat) \<Rightarrow> nat \<Rightarrow> bool" where
  "test_clocks utc now \<longleftrightarrow> (\<forall>n. test_clock (utc n) now)"

lemma kid_tests_pass:
  assumes "hmac_documented L now" "test_clocks utc now"
  shows "kid_matching_rotation_key_verifies L utc = Some ()"
    and "kid_pin_prevents_key_confusion L utc = Some ()"
    and "unknown_kid_rejected_without_try_all L utc = Some ()"
proof -
  have clock: "test_clock (utc n) now" for n using assms(2) by (simp add: test_clocks_def)
  obtain tok where tok: "kid_token L (utc 0) ''old-secret'' (Some ''old-kid'') = Some tok"
    "signed L (utc 0) ''old-secret'' (Some ''old-kid'') tok" using kid_token_signed [OF assms(1)] by blast
  show "kid_matching_rotation_key_verifies L utc = Some ()"
    using tok(1) signed_decodes [OF assms(1) clock tok(2) plain_rotations(1)]
    by (simp del: typed_simps add: kid_matching_rotation_key_verifies_def rotated_service_decode [OF assms(1) tok(2)] Let_def)
      (simp add: user_claims_def)
  obtain f0 where f0: "kid_token L (utc 0) ''new-secret'' (Some ''old-kid'') = Some f0"
    "signed L (utc 0) ''new-secret'' (Some ''old-kid'') f0" using kid_token_signed [OF assms(1)] by blast
  obtain f1 where f1: "kid_token L (utc 1) ''old-secret'' (Some ''new-kid'') = Some f1"
    "signed L (utc 1) ''old-secret'' (Some ''new-kid'') f1" using kid_token_signed [OF assms(1)] by blast
  have "\<exists>e. lib_decode (numeric_lib L) f0 (dk_from_secret L (as_bytes ''old-secret'')) v = Err e"
    "\<exists>e. lib_decode (numeric_lib L) f1 (dk_from_secret L (as_bytes ''new-secret'')) v = Err e" for v
    by (rule signed_fails [OF assms(1) f0(2)] signed_fails [OF assms(1) f1(2)], simp add: other_key_defs)+
  then obtain e0 e1 where "lib_decode (numeric_lib L) f0 (dk_from_secret L (as_bytes ''old-secret''))
      (build_validation L rotated_service) = Err e0"
    "lib_decode (numeric_lib L) f1 (dk_from_secret L (as_bytes ''new-secret''))
      (build_validation L rotated_service) = Err e1" by metis
  then show "kid_pin_prevents_key_confusion L utc = Some ()"
    using f0(1) f1(1)
    by (simp del: typed_simps add: kid_pin_prevents_key_confusion_def Let_def
        rotated_service_decode [OF assms(1) f0(2)] rotated_service_decode [OF assms(1) f1(2)])
  obtain u where u: "kid_token L (utc 0) ''old-secret'' (Some ''attacker-kid'') = Some u"
    "signed L (utc 0) ''old-secret'' (Some ''attacker-kid'') u" using kid_token_signed [OF assms(1)] by blast
  have "contains (''token references unknown key id `'' @ ''attacker-kid'' @ ''`'') ''attacker-kid''"
    unfolding contains_def by (rule sublist_appendI)
  then show "unknown_kid_rejected_without_try_all L utc = Some ()"
    using u(1)
    by (simp del: append.simps add: unknown_kid_rejected_without_try_all_def Let_def
        rotated_service_decode [OF assms(1) u(2)] unknown_kid_error_def)
qed

lemma try_keys_tests_pass:
  assumes "hmac_documented L now" "test_clocks utc now"
  shows "no_kid_token_falls_back_to_try_all L utc = Some ()"
proof -
  have clock: "test_clock (utc n) now" for n using assms(2) by (simp add: test_clocks_def)
  obtain l where l: "kid_token L (utc 0) ''old-secret'' None = Some l"
    "signed L (utc 0) ''old-secret'' None l" using kid_token_signed [OF assms(1)] by blast
  obtain p where p: "kid_token L (utc 1) ''new-secret'' None = Some p"
    "signed L (utc 1) ''new-secret'' None p" using kid_token_signed [OF assms(1)] by blast
  obtain b where b: "kid_token L (utc 2) ''wrong-secret'' None = Some b"
    "signed L (utc 2) ''wrong-secret'' None b" using kid_token_signed [OF assms(1)] by blast
  have "\<exists>e. lib_decode (numeric_lib L) l (dk_from_secret L (as_bytes ''new-secret'')) v = Err e"
    "\<exists>e. lib_decode (numeric_lib L) b (dk_from_secret L (as_bytes ''new-secret'')) v = Err e"
    "\<exists>e. lib_decode (numeric_lib L) b (dk_from_secret L (as_bytes ''old-secret'')) v = Err e" for v
    by (rule signed_fails [OF assms(1) l(2)] signed_fails [OF assms(1) b(2)], simp add: other_key_defs)+
  then obtain e0 e1 e2 where "lib_decode (numeric_lib L) l (dk_from_secret L (as_bytes ''new-secret''))
      (build_validation L rotated_service) = Err e0"
    "lib_decode (numeric_lib L) b (dk_from_secret L (as_bytes ''new-secret''))
      (build_validation L rotated_service) = Err e1"
    "lib_decode (numeric_lib L) b (dk_from_secret L (as_bytes ''old-secret''))
      (build_validation L rotated_service) = Err e2" by metis
  then show ?thesis
    using l(1) p(1) b(1) signed_decodes [OF assms(1) clock l(2) plain_rotations(1)]
      signed_decodes [OF assms(1) clock p(2) plain_rotations(1)]
    by (simp del: typed_simps add: no_kid_token_falls_back_to_try_all_def Let_def rotated_service_decode [OF assms(1) l(2)]
        rotated_service_decode [OF assms(1) p(2)] rotated_service_decode [OF assms(1) b(2)])
      (simp add: user_claims_def)
qed

text \<open>Encoding signs with the first key and carries its id.\<close>

lemma rotation_encode:
  assumes "hmac_documented L now"
  shows "\<exists>tok. encode (numeric_lib L) (with_rotation_keys HS256 (k # ks)) (user_claims t) = Ok tok
    \<and> signed L t (rk_secret k) (rk_key_id k) tok"
proof -
  let ?h = "\<lparr>h_alg = LibHS256, h_kid = rk_key_id k\<rparr>"
  obtain tok where "lib_encode L ?h (serialize_numeric (user_claims t)) (ek_from_secret L (as_bytes (rk_secret k))) = Ok tok"
    using hmac_documentedD(2) [OF assms, of ?h] by auto
  then show ?thesis
    by (simp add: signed_def encode_def encoding_key_def encoding_key_for_family with_rotation_keys_def Let_def
        header_documented [OF assms])
qed

lemma minting_tests_pass:
  assumes "hmac_documented L now" "test_clocks utc now"
  shows "encode_stamps_primary_key_id L utc = Some ()"
    and "legacy_rotation_secrets_constructor_still_works L utc = Some ()"
proof -
  let ?legacy = "with_rotation_secrets HS256 [''first'', ''second'']"
  have clock: "test_clock (utc n) now" for n using assms(2) by (simp add: test_clocks_def)
  obtain n where n: "encode (numeric_lib L) rotated_service (user_claims (utc 0)) = Ok n"
    "signed L (utc 0) ''new-secret'' (Some ''new-kid'') n"
    using rotation_encode [OF assms(1)] by (force simp: rotated_service_def rotation_key_new_def)
  then show "encode_stamps_primary_key_id L utc = Some ()"
    by (simp add: encode_stamps_primary_key_id_def signed_header [OF assms(1)])
  obtain tok where tok: "encode (numeric_lib L) ?legacy (user_claims (utc 0)) = Ok tok"
    "signed L (utc 0) ''first'' None tok"
    using rotation_encode [OF assms(1)] by (force simp: with_rotation_secrets_def rotation_key_new_def)
  obtain old where old: "kid_token L (utc 1) ''second'' None = Some old"
    "signed L (utc 1) ''second'' None old" using kid_token_signed [OF assms(1)] by blast
  obtain e where "lib_decode (numeric_lib L) old (dk_from_secret L (as_bytes ''first'')) (build_validation L ?legacy) = Err e"
    using signed_fails [OF assms(1) old(2), of "''first''"] by (force simp: other_key_defs)
  then show "legacy_rotation_secrets_constructor_still_works L utc = Some ()"
    using tok(1) old(1) signed_decodes [OF assms(1) clock tok(2) plain_rotations(2)]
      signed_decodes [OF assms(1) clock old(2) plain_rotations(2)] signed_header [OF assms(1) tok(2)]
    by (simp del: typed_simps add: legacy_rotation_secrets_constructor_still_works_def Let_def
        legacy_service_decode [OF assms(1) tok(2)] legacy_service_decode [OF assms(1) old(2)])
qed

lemma rotation_key_debug_test_passes: "rotation_key_debug_redacts_secret P = Some ()"
  by code_simp

text \<open>
  With a documented HMAC library and clock readings at most an hour old every test passes: a \<open>kid\<close>
  pins the key, an unknown one is refused with an error that names it, tokens without one are
  tried under every key, and Debug output hides the secret.
\<close>

lemma rotation_tests_pass:
  assumes "hmac_documented L now" "test_clocks utc now"
  shows "encode_stamps_primary_key_id L utc = Some ()
    \<and> kid_matching_rotation_key_verifies L utc = Some ()
    \<and> kid_pin_prevents_key_confusion L utc = Some ()
    \<and> unknown_kid_rejected_without_try_all L utc = Some ()
    \<and> no_kid_token_falls_back_to_try_all L utc = Some ()
    \<and> legacy_rotation_secrets_constructor_still_works L utc = Some ()
    \<and> rotation_key_debug_redacts_secret P = Some ()"
  by (intro conjI kid_tests_pass [OF assms] try_keys_tests_pass [OF assms] minting_tests_pass [OF assms]
      rotation_key_debug_test_passes)

end
