(* ===== verification/Validation_Tests.thy ===== *)
theory Validation_Tests
  imports Rotation_Tests
begin

section \<open>The integration tests of the validation options (tests/validation.rs)\<close>

text \<open>
  Every test mints tokens and decodes them under one configuration of \<open>leeway\<close>,
  \<open>required_claims\<close>, \<open>audience\<close>, \<open>audiences\<close>, \<open>validate_exp\<close> and \<open>validate_nbf\<close>. \<open>utc n\<close> is the
  time in seconds of the \<open>n\<close>-th reading of the clock.
\<close>

record timed_claims =
  tc_sub :: "string option"
  tc_exp :: "u64 option"
  tc_nbf :: "u64 option"
  tc_iss :: "string option"
  tc_aud :: "string option"

definition serialize_timed :: "timed_claims \<Rightarrow> json" where
  "serialize_timed c =
     JObj ([(''sub'', json_option JStr (tc_sub c))] @
       ser_option ''exp'' (\<lambda>n. JInt (uint n)) (tc_exp c) @
       ser_option ''nbf'' (\<lambda>n. JInt (uint n)) (tc_nbf c) @
       ser_option ''iss'' JStr (tc_iss c) @
       ser_option ''aud'' JStr (tc_aud c))"

definition timed_fields :: "string list" where
  "timed_fields = [''sub'', ''exp'', ''nbf'', ''iss'', ''aud'']"

definition deserialize_timed :: "json \<Rightarrow> timed_claims option" where
  "deserialize_timed j =
     (case j of
        JObj es \<Rightarrow>
          if distinct (filter (\<lambda>k. k \<in> set timed_fields) (map fst es)) then
            do {
              s \<leftarrow> de_string (map_of es ''sub'');
              e \<leftarrow> de_u64 (map_of es ''exp'');
              n \<leftarrow> de_u64 (map_of es ''nbf'');
              i \<leftarrow> de_string (map_of es ''iss'');
              a \<leftarrow> de_string (map_of es ''aud'');
              Some \<lparr>tc_sub = s, tc_exp = e, tc_nbf = n, tc_iss = i, tc_aud = a\<rparr>
            }
          else None
      | _ \<Rightarrow> None)"

abbreviation timed_lib where
  "timed_lib L \<equiv> typed serialize_timed deserialize_timed L"

text \<open>\<open>now(secs)\<close> casts an \<open>i64\<close> to \<open>u64\<close>.\<close>

definition now_secs :: "nat \<Rightarrow> int \<Rightarrow> u64" where
  "now_secs t secs = word_of_int (int t + secs)"

definition claims_until :: "u64 \<Rightarrow> string \<Rightarrow> string option \<Rightarrow> timed_claims" where
  "claims_until e i a = \<lparr>tc_sub = Some ''user-1'', tc_exp = Some e, tc_nbf = None, tc_iss = Some i, tc_aud = a\<rparr>"

subsection \<open>Audiences\<close>

definition multi_audience_accepts_any_configured_audience ::
    "('ek, 'dk, json) jwt_lib \<Rightarrow> (nat \<Rightarrow> nat) \<Rightarrow> unit option" where
  "multi_audience_accepts_any_configured_audience L utc =
     do {
       let config = default_config\<lparr>secret := ''multi-aud-secret'', audiences := [''aud-a'', ''aud-b'']\<rparr>;
       token \<leftarrow> unwrap (encode (timed_lib L) config (claims_until (now_secs (utc 0) 3600) ''issuer'' (Some ''aud-a'')));
       check (is_ok (decode (timed_lib L) config token));
       token \<leftarrow> unwrap (encode (timed_lib L) config (claims_until (now_secs (utc 1) 3600) ''issuer'' (Some ''aud-b'')));
       check (is_ok (decode (timed_lib L) config token))
     }"

definition multi_audience_rejects_unlisted_audience ::
    "('ek, 'dk, json) jwt_lib \<Rightarrow> (nat \<Rightarrow> nat) \<Rightarrow> unit option" where
  "multi_audience_rejects_unlisted_audience L utc =
     do {
       let config = default_config\<lparr>secret := ''multi-aud-secret'', audiences := [''aud-a'', ''aud-b'']\<rparr>;
       token \<leftarrow> unwrap (encode (timed_lib L) config (claims_until (now_secs (utc 0) 3600) ''issuer'' (Some ''aud-c'')));
       check (\<not> is_ok (decode (timed_lib L) config token))
     }"

definition single_audience_convenience_still_validates ::
    "('ek, 'dk, json) jwt_lib \<Rightarrow> (nat \<Rightarrow> nat) \<Rightarrow> unit option" where
  "single_audience_convenience_still_validates L utc =
     do {
       let config = default_config\<lparr>secret := ''aud-convenience-secret'', audience := Some ''only-aud''\<rparr>;
       token \<leftarrow> unwrap (encode (timed_lib L) config (claims_until (now_secs (utc 0) 3600) ''issuer'' (Some ''only-aud'')));
       check (is_ok (decode (timed_lib L) config token));
       token \<leftarrow> unwrap (encode (timed_lib L) config (claims_until (now_secs (utc 1) 3600) ''issuer'' (Some ''other'')));
       check (\<not> is_ok (decode (timed_lib L) config token))
     }"

definition audience_and_audiences_merge ::
    "('ek, 'dk, json) jwt_lib \<Rightarrow> (nat \<Rightarrow> nat) \<Rightarrow> unit option" where
  "audience_and_audiences_merge L utc =
     do {
       let config = default_config\<lparr>secret := ''aud-merge-secret'', audience := Some ''convenience'',
         audiences := [''list-aud'']\<rparr>;
       token \<leftarrow> unwrap (encode (timed_lib L) config (claims_until (now_secs (utc 0) 3600) ''issuer'' (Some ''convenience'')));
       check (is_ok (decode (timed_lib L) config token));
       token \<leftarrow> unwrap (encode (timed_lib L) config (claims_until (now_secs (utc 1) 3600) ''issuer'' (Some ''list-aud'')));
       check (is_ok (decode (timed_lib L) config token));
       token \<leftarrow> unwrap (encode (timed_lib L) config (claims_until (now_secs (utc 2) 3600) ''issuer'' (Some ''nope'')));
       check (\<not> is_ok (decode (timed_lib L) config token))
     }"

subsection \<open>Leeway\<close>

definition default_leeway_accepts_recently_expired ::
    "('ek, 'dk, json) jwt_lib \<Rightarrow> (nat \<Rightarrow> nat) \<Rightarrow> unit option" where
  "default_leeway_accepts_recently_expired L utc =
     do {
       let config = default_config\<lparr>secret := ''leeway-default-secret''\<rparr>;
       token \<leftarrow> unwrap (encode (timed_lib L) config (claims_until (now_secs (utc 0) (-5)) ''issuer'' None));
       check (is_ok (decode (timed_lib L) config token))
     }"

definition explicit_zero_leeway_rejects_recently_expired ::
    "('ek, 'dk, json) jwt_lib \<Rightarrow> (nat \<Rightarrow> nat) \<Rightarrow> unit option" where
  "explicit_zero_leeway_rejects_recently_expired L utc =
     do {
       let config = (with_leeway 0 default_config)\<lparr>secret := ''leeway-zero-secret'', issuer := Some ''issuer''\<rparr>;
       token \<leftarrow> unwrap (encode (timed_lib L) config (claims_until (now_secs (utc 0) (-5)) ''issuer'' None));
       check (\<not> is_ok (decode (timed_lib L) config token))
     }"

definition large_leeway_accepts_older_expiry ::
    "('ek, 'dk, json) jwt_lib \<Rightarrow> (nat \<Rightarrow> nat) \<Rightarrow> unit option" where
  "large_leeway_accepts_older_expiry L utc =
     do {
       let config = (with_leeway 3600 default_config)\<lparr>secret := ''leeway-large-secret'', issuer := Some ''issuer''\<rparr>;
       token \<leftarrow> unwrap (encode (timed_lib L) config (claims_until (now_secs (utc 0) (-1800)) ''issuer'' None));
       check (is_ok (decode (timed_lib L) config token))
     }"

subsection \<open>Required claims\<close>

definition default_required_claims_reject_missing_iss ::
    "('ek, 'dk, json) jwt_lib \<Rightarrow> (nat \<Rightarrow> nat) \<Rightarrow> unit option" where
  "default_required_claims_reject_missing_iss L utc =
     do {
       let config = default_config\<lparr>secret := ''required-default-secret''\<rparr>;
       token \<leftarrow> unwrap (encode (timed_lib L) config
         \<lparr>tc_sub = Some ''user-1'', tc_exp = Some (now_secs (utc 0) 3600), tc_nbf = None, tc_iss = None, tc_aud = None\<rparr>);
       check (\<not> is_ok (decode (timed_lib L) config token))
     }"

definition custom_required_claims_accept_missing_iss ::
    "('ek, 'dk, json) jwt_lib \<Rightarrow> (nat \<Rightarrow> nat) \<Rightarrow> unit option" where
  "custom_required_claims_accept_missing_iss L utc =
     do {
       let config = (with_required_claims [''exp''] default_config)\<lparr>secret := ''required-custom-secret''\<rparr>;
       token \<leftarrow> unwrap (encode (timed_lib L) config
         \<lparr>tc_sub = Some ''user-1'', tc_exp = Some (now_secs (utc 0) 3600), tc_nbf = None, tc_iss = None, tc_aud = None\<rparr>);
       check (is_ok (decode (timed_lib L) config token))
     }"

subsection \<open>Switching checks off and on\<close>

definition validate_exp_false_accepts_expired ::
    "('ek, 'dk, json) jwt_lib \<Rightarrow> (nat \<Rightarrow> nat) \<Rightarrow> unit option" where
  "validate_exp_false_accepts_expired L utc =
     do {
       let config = (with_validate_exp False default_config)\<lparr>secret := ''no-exp-validation-secret'',
         issuer := Some ''issuer''\<rparr>;
       token \<leftarrow> unwrap (encode (timed_lib L) config (claims_until (now_secs (utc 0) (-3600)) ''issuer'' None));
       check (is_ok (decode (timed_lib L) config token))
     }"

definition validate_nbf_true_rejects_future_token ::
    "('ek, 'dk, json) jwt_lib \<Rightarrow> (nat \<Rightarrow> nat) \<Rightarrow> unit option" where
  "validate_nbf_true_rejects_future_token L utc =
     do {
       let config = (with_leeway 0 (with_validate_nbf True default_config))\<lparr>secret := ''nbf-secret'',
         issuer := Some ''issuer''\<rparr>;
       token \<leftarrow> unwrap (encode (timed_lib L) config
         \<lparr>tc_sub = Some ''user-1'', tc_exp = Some (now_secs (utc 0) 7200), tc_nbf = Some (now_secs (utc 1) 3600),
          tc_iss = Some ''issuer'', tc_aud = None\<rparr>);
       check (\<not> is_ok (decode (timed_lib L) config token))
     }"

definition validate_nbf_default_ignores_future_nbf ::
    "('ek, 'dk, json) jwt_lib \<Rightarrow> (nat \<Rightarrow> nat) \<Rightarrow> unit option" where
  "validate_nbf_default_ignores_future_nbf L utc =
     do {
       let config = default_config\<lparr>secret := ''nbf-off-secret'', issuer := Some ''issuer''\<rparr>;
       token \<leftarrow> unwrap (encode (timed_lib L) config
         \<lparr>tc_sub = Some ''user-1'', tc_exp = Some (now_secs (utc 0) 7200), tc_nbf = Some (now_secs (utc 1) 3600),
          tc_iss = Some ''issuer'', tc_aud = None\<rparr>);
       check (is_ok (decode (timed_lib L) config token))
     }"

section \<open>Lemmas\<close>

lemma deserialize_serialize_timed [simp]: "deserialize_timed (serialize_timed c) = Some c"
  by (cases c; cases "tc_exp c"; cases "tc_nbf c"; cases "tc_iss c"; cases "tc_aud c")
    (simp_all add: deserialize_timed_def serialize_timed_def timed_fields_def map_fst_ser_option
      ser_option_def)

lemma timed_facts:
  "json_facts alg (serialize_timed c) =
     \<lparr>tf_alg = alg,
      tf_present = {k. (k = ''sub'' \<and> tc_sub c \<noteq> None) \<or> (k = ''exp'' \<and> tc_exp c \<noteq> None)
        \<or> (k = ''nbf'' \<and> tc_nbf c \<noteq> None) \<or> (k = ''iss'' \<and> tc_iss c \<noteq> None) \<or> (k = ''aud'' \<and> tc_aud c \<noteq> None)},
      tf_exp = map_option unat (tc_exp c), tf_nbf = map_option unat (tc_nbf c), 
      tf_iss = map_option (\<lambda>i. {i}) (tc_iss c), tf_aud = map_option (\<lambda>a. {a}) (tc_aud c)\<rparr>"
  by (cases "tc_sub c"; cases "tc_exp c"; cases "tc_nbf c"; cases "tc_iss c"; cases "tc_aud c")
    (auto simp: json_facts_def json_members_def serialize_timed_def ser_option_def json_option_def
      json_string_def json_texts_def json_time_def Let_def)

lemma timed_plain [simp]: "plain_payload (serialize_timed c)"
  by (cases "tc_sub c"; cases "tc_exp c"; cases "tc_nbf c"; cases "tc_iss c"; cases "tc_aud c")
    (simp_all add: plain_payload_def serialize_timed_def ser_option_def json_option_def
      order_trans [OF _ uint_ge_0])

text \<open>A step of a test: a token is minted and its decoding accepted, or rejected.\<close>

lemma step_accepted:
  assumes "hmac_documented L now" "secret_config cfg"
    and "surely_meets_policy cfg now (json_facts (to_lib_algorithm (algorithm cfg)) (serialize_timed c))"
  shows "unwrap (encode (timed_lib L) cfg c) \<bind> (\<lambda>tok. check (is_ok (decode (timed_lib L) cfg tok))) = Some ()"
    and "unwrap (encode (timed_lib L) cfg c) \<bind>
      (\<lambda>tok. check (is_ok (decode (timed_lib L) cfg tok)) \<bind> (\<lambda>_. k)) = k"
proof -
  obtain tok where tok: "encode (timed_lib L) cfg c = Ok tok"
    "lib_encode L \<lparr>h_alg = to_lib_algorithm (algorithm cfg), h_kid = None\<rparr> (serialize_timed c)
        (ek_from_secret L (as_bytes (secret cfg))) = Ok tok"
    using secret_encode [OF assms(1,2), of serialize_timed deserialize_timed c] by blast
  have "decode (timed_lib L) cfg tok = Ok c"
    by (rule secret_decode_Ok [OF assms(1) _ _ tok(2) timed_plain assms(3)])
      (use assms(2) in \<open>simp_all add: secret_config_def\<close>)
  with tok(1) show "unwrap (encode (timed_lib L) cfg c) \<bind> (\<lambda>tok. check (is_ok (decode (timed_lib L) cfg tok))) = Some ()"
    and "unwrap (encode (timed_lib L) cfg c) \<bind>
      (\<lambda>tok. check (is_ok (decode (timed_lib L) cfg tok)) \<bind> (\<lambda>_. k)) = k"
    by simp_all
qed

lemma step_rejected:
  assumes "hmac_documented L now" "secret_config cfg"
    and "\<not> meets_policy cfg now (json_facts (to_lib_algorithm (algorithm cfg)) (serialize_timed c))"
  shows "unwrap (encode (timed_lib L) cfg c) \<bind> (\<lambda>tok. check (\<not> is_ok (decode (timed_lib L) cfg tok))) = Some ()"
proof -
  obtain tok where tok: "encode (timed_lib L) cfg c = Ok tok"
    "lib_encode L \<lparr>h_alg = to_lib_algorithm (algorithm cfg), h_kid = None\<rparr> (serialize_timed c)
        (ek_from_secret L (as_bytes (secret cfg))) = Ok tok"
    using secret_encode [OF assms(1,2), of serialize_timed deserialize_timed c] by blast
  have "\<exists>m. decode (timed_lib L) cfg tok = Err (DecodingFailed m)"
    by (rule secret_decode_Err [OF assms(1) _ _ tok(2) timed_plain])
      (use assms(2,3) in \<open>simp_all add: secret_config_def\<close>)
  with tok(1) show ?thesis by auto
qed

text \<open>The test runs within half a minute, at a time after the first hour of 1970.\<close>

definition run_within :: "(nat \<Rightarrow> nat) \<Rightarrow> nat \<Rightarrow> bool" where
  "run_within utc now \<longleftrightarrow> (\<forall>n. 3600 \<le> utc n \<and> utc n \<le> now \<and> now \<le> utc n + 30 \<and> utc n < 2 ^ 62)"

lemma unat_now_secs:
  assumes "0 \<le> int t + s" "int t + s < 2 ^ 63"
  shows "unat (now_secs t s) = nat (int t + s)"
proof -
  obtain n where n: "int t + s = int n" using assms(1) by (metis nonneg_int_cases)
  then have "n < 2 ^ 63" using assms(2) by (simp add: zless_nat_eq_int_zless [symmetric])
  then show ?thesis by (simp only: now_secs_def n of_int_of_nat_eq) (simp add: unsigned_of_nat take_bit_eq_mod)
qed

lemma unat_now_readings:
  assumes "run_within utc now"
  shows "unat (now_secs (utc n) 3600) = utc n + 3600" "unat (now_secs (utc n) 7200) = utc n + 7200"
    "unat (now_secs (utc n) (-5)) = utc n - 5" "unat (now_secs (utc n) (-1800)) = utc n - 1800"
    "unat (now_secs (utc n) (-3600)) = utc n - 3600"
proof -
  have "3600 \<le> utc n" "utc n < 2 ^ 62" using assms by (simp_all add: run_within_def)
  then show "unat (now_secs (utc n) 3600) = utc n + 3600" "unat (now_secs (utc n) 7200) = utc n + 7200"
    "unat (now_secs (utc n) (-5)) = utc n - 5" "unat (now_secs (utc n) (-1800)) = utc n - 1800"
    "unat (now_secs (utc n) (-3600)) = utc n - 3600"
    by (simp_all add: unat_now_secs nat_add_distrib)
qed

lemma run_bounds:
  "run_within utc now \<Longrightarrow> 3600 \<le> utc n \<and> utc n \<le> now \<and> now \<le> utc n + 30"
  by (simp add: run_within_def)

lemma run_after_expiry: "run_within utc now \<Longrightarrow> \<not> now \<le> utc n - 5"
  using run_bounds [of utc now n] by auto

lemma secret_config_options [simp]:
  "secret_config (cfg\<lparr>audiences := as\<rparr>) = secret_config cfg"
  "secret_config (with_leeway l cfg) = secret_config cfg"
  "secret_config (with_required_claims cs cfg) = secret_config cfg"
  "secret_config (with_validate_exp b cfg) = secret_config cfg"
  "secret_config (with_validate_nbf b cfg) = secret_config cfg"
  by (simp_all add: secret_config_def with_leeway_def with_required_claims_def with_validate_exp_def
      with_validate_nbf_def)

lemmas option_defs = with_leeway_def with_required_claims_def with_validate_exp_def with_validate_nbf_def
  surely_meets_policy_def meets_policy_def timed_facts claims_until_def

lemma audience_tests_pass:
  assumes "hmac_documented L now" "run_within utc now"
  shows "multi_audience_accepts_any_configured_audience L utc = Some ()"
    and "multi_audience_rejects_unlisted_audience L utc = Some ()"
    and "single_audience_convenience_still_validates L utc = Some ()"
    and "audience_and_audiences_merge L utc = Some ()"
  unfolding multi_audience_accepts_any_configured_audience_def multi_audience_rejects_unlisted_audience_def
    single_audience_convenience_still_validates_def audience_and_audiences_merge_def Let_def
  using run_bounds [OF assms(2), of 0] run_bounds [OF assms(2), of 1] run_bounds [OF assms(2), of 2]
  by (simp_all del: check_bind add: step_accepted [OF assms(1)] step_rejected [OF assms(1)] option_defs
      unat_now_readings [OF assms(2)])

lemma time_tests_pass:
  assumes "hmac_documented L now" "run_within utc now"
  shows "default_leeway_accepts_recently_expired L utc = Some ()"
    and "explicit_zero_leeway_rejects_recently_expired L utc = Some ()"
    and "large_leeway_accepts_older_expiry L utc = Some ()"
    and "validate_exp_false_accepts_expired L utc = Some ()"
    and "validate_nbf_true_rejects_future_token L utc = Some ()"
    and "validate_nbf_default_ignores_future_nbf L utc = Some ()"
  unfolding default_leeway_accepts_recently_expired_def explicit_zero_leeway_rejects_recently_expired_def
    large_leeway_accepts_older_expiry_def validate_exp_false_accepts_expired_def
    validate_nbf_true_rejects_future_token_def validate_nbf_default_ignores_future_nbf_def Let_def
  using run_bounds [OF assms(2), of 0] run_bounds [OF assms(2), of 1] run_after_expiry [OF assms(2)]
  by (simp_all del: check_bind add: step_accepted [OF assms(1)] step_rejected [OF assms(1)] option_defs
      secret_config_def unat_now_readings [OF assms(2)])

lemma required_claims_tests_pass:
  assumes "hmac_documented L now" "run_within utc now"
  shows "default_required_claims_reject_missing_iss L utc = Some ()"
    and "custom_required_claims_accept_missing_iss L utc = Some ()"
  unfolding default_required_claims_reject_missing_iss_def custom_required_claims_accept_missing_iss_def Let_def
  using run_bounds [OF assms(2), of 0]
  by (simp_all del: check_bind add: step_accepted [OF assms(1)] step_rejected [OF assms(1)] option_defs
      secret_config_def unat_now_readings [OF assms(2)])

lemma run_within_clocks: "run_within utc now \<Longrightarrow> test_clocks utc now"
  unfolding test_clocks_def test_clock_def run_within_def
proof (rule allI)
  fix n
  assume "\<forall>n. 3600 \<le> utc n \<and> utc n \<le> now \<and> now \<le> utc n + 30 \<and> utc n < 2 ^ 62"
  from spec [OF this, of n] show "utc n \<le> now \<and> now \<le> utc n + 3600 \<and> utc n < 2 ^ 63" by simp
qed

section \<open>Properties\<close>

text \<open>
  C38. The integration tests of tests/validation.rs and tests/rotation.rs pass, with a documented
  HMAC library and when a test runs within half a minute. Audiences from both fields of the
  configuration are accepted and others refused; the leeway, the switches for \<open>exp\<close> and \<open>nbf\<close> and
  the list of required claims do what they say; a \<open>kid\<close> pins the key, an unknown one is refused
  with an error that names it, and tokens without one are tried under every key.
\<close>

theorem integration_tests_pass:
  assumes "hmac_documented L now" "run_within utc now"
  shows "(multi_audience_accepts_any_configured_audience L utc = Some ()
    \<and> multi_audience_rejects_unlisted_audience L utc = Some ()
    \<and> single_audience_convenience_still_validates L utc = Some ()
    \<and> audience_and_audiences_merge L utc = Some ()
    \<and> default_leeway_accepts_recently_expired L utc = Some ()
    \<and> explicit_zero_leeway_rejects_recently_expired L utc = Some ()
    \<and> large_leeway_accepts_older_expiry L utc = Some ()
    \<and> default_required_claims_reject_missing_iss L utc = Some ()
    \<and> custom_required_claims_accept_missing_iss L utc = Some ()
    \<and> validate_exp_false_accepts_expired L utc = Some ()
    \<and> validate_nbf_true_rejects_future_token L utc = Some ()
    \<and> validate_nbf_default_ignores_future_nbf L utc = Some ())
    \<and> encode_stamps_primary_key_id L utc = Some ()
    \<and> kid_matching_rotation_key_verifies L utc = Some ()
    \<and> kid_pin_prevents_key_confusion L utc = Some ()
    \<and> unknown_kid_rejected_without_try_all L utc = Some ()
    \<and> no_kid_token_falls_back_to_try_all L utc = Some ()
    \<and> legacy_rotation_secrets_constructor_still_works L utc = Some ()
    \<and> rotation_key_debug_redacts_secret P = Some ()"
  by (intro conjI [OF _ rotation_tests_pass [OF assms(1) run_within_clocks [OF assms(2)]]])
    (intro conjI audience_tests_pass [OF assms] time_tests_pass [OF assms] required_claims_tests_pass [OF assms])

theorem integration_tests_pass_witness:
  "audience_and_audiences_merge (hmac_lib 9000) (\<lambda>n. 8990) = Some ()
   \<and> explicit_zero_leeway_rejects_recently_expired (hmac_lib 9000) (\<lambda>n. 8990) = Some ()
   \<and> kid_pin_prevents_key_confusion (hmac_lib 9000) (\<lambda>n. 8990) = Some ()"
proof -
  have run: "run_within (\<lambda>n. 8990) 9000" by (simp add: run_within_def)
  show ?thesis
    using integration_tests_pass [OF hmac_lib_documented run] by blast
qed

end
