(* ===== verification/Jwks_Herd.thy ===== *)
theory Jwks_Herd
  imports Jwks_Concurrent
begin

section \<open>How often the endpoint is asked (src/jwks.rs; tests/jwks_hardening.rs)\<close>

text \<open>
  The protection against a thundering herd in numbers, for endpoints that answer: as long as no
  request fails and no task is dropped while it waits for an answer, the automatic fetches are
  spaced by the minimum interval, however many tasks miss and whatever they look for. What happens
  when requests fail is the theorem on failing waiters in \<open>Jwks_Concurrent\<close>.
\<close>

text \<open>The number of automatic fetches so far.\<close>

definition started :: "('cl, 'dk, 'ka) jwks_shared \<Rightarrow> nat" where
  "started s = length (filter (\<lambda>e. fst e = Started) (js_log s))"

definition fetching :: "('cl, 'dk, 'ka) jwks_shared \<Rightarrow> bool" where
  "fetching s \<longleftrightarrow> (\<exists>t want. js_phase s t = Fetching want)"

text \<open>A step in which no request is lost: a fetching task goes on fetching or stores its keys.\<close>

definition kept_step :: "nat \<Rightarrow> ('cl, 'dk, 'ka) jwks_shared \<Rightarrow> ('cl, 'dk, 'ka) jwks_shared \<Rightarrow> bool" where
  "kept_step N s s' \<longleftrightarrow> jwks_step N s s'
     \<and> (\<forall>t want. js_phase s t = Fetching want \<longrightarrow> js_phase s' t \<in> {Fetching want, Lookup want})"

abbreviation kept_reaches where
  "kept_reaches N \<equiv> (kept_step N)\<^sup>*\<^sup>*"

lemma kept_reaches_reaches: "kept_reaches N s s' \<Longrightarrow> jwks_reaches N s s'"
  by (rule rtranclp_mono [THEN predicate2D]) (auto simp: kept_step_def)

section \<open>The invariant\<close>

text \<open>
  After \<open>n\<close> fetches \<open>n - 1\<close> intervals have passed, and unless the last fetch is still running they
  had passed when the current set was stored.
\<close>

definition paced :: "duration \<Rightarrow> instant \<Rightarrow> ('cl, 'dk, 'ka) jwks_shared \<Rightarrow> bool" where
  "paced d t0 s \<longleftrightarrow>
     t0 + (started s - 1) * d \<le> js_now s
   \<and> (started s = 0 \<or> fetching s
      \<or> (case js_fetched_at s of None \<Rightarrow> False | Some f \<Rightarrow> t0 + (started s - 1) * d \<le> f))"

lemma started_simps [simp]:
  "started (goto t p s) = started s"
  "started (s\<lparr>js_holder := h\<rparr>) = started s"
  "started (s\<lparr>js_now := n\<rparr>) = started s"
  "started (s\<lparr>js_log := (Started, a) # js_log r\<rparr>) = Suc (started r)"
  "started (store_keys keys s) = started s"
  by (simp_all add: started_def)

lemma fetching_simps [simp]:
  "fetching (s\<lparr>js_holder := h\<rparr>) = fetching s"
  "fetching (s\<lparr>js_now := n\<rparr>) = fetching s"
  "fetching (s\<lparr>js_log := l\<rparr>) = fetching s"
  "fetching (store_keys keys s) = fetching s"
  "fetching (goto t (Fetching want) s)"
  by (auto simp: fetching_def)

text \<open>A task that does not fetch leaves the fetching ones alone.\<close>

lemma fetching_goto:
  assumes "\<And>want. js_phase s t \<noteq> Fetching want"
  shows "fetching s \<Longrightarrow> fetching (goto t p s)"
  using assms by (metis fetching_def fun_upd_other goto_simps(3))

lemma checking_not_fetching:
  assumes "shared_inv d s" "js_phase s t = Checking want"
  shows "\<not> fetching s"
proof
  assume "fetching s"
  then obtain u w where u: "js_phase s u = Fetching w" by (auto simp: fetching_def)
  then have "js_holder s = Some u" "js_holder s = Some t"
    using shared_inv_holder [OF assms(1)] assms(2) by (metis critical.simps(1,2))+
  with u assms(2) show False by simp
qed

lemma paced_initial: "paced d t0 (jwks_initial c t0)"
  by (simp add: paced_def started_def jwks_initial_def)

lemma paced_begin:
  assumes "paced d t0 s" "\<not> fetching s" "\<not> is_fresh (js_now s) (js_fetched_at s) d" "t0 \<le> js_now s"
  shows "t0 + started s * d \<le> js_now s"
proof (cases "started s = 0")
  case False
  then obtain f where f: "js_fetched_at s = Some f" "t0 + (started s - 1) * d \<le> f"
    using assms(1,2) by (auto simp: paced_def split: option.splits)
  then have "d \<le> js_now s - f" using assms(3) by simp
  then have "d = 0 \<or> f + d \<le> js_now s" by arith
  moreover have "started s * d = (started s - 1) * d + d" using False by (cases "started s") simp_all
  ultimately show ?thesis using f(2) assms(4) by auto
qed (use assms(4) in simp)

lemma paced_step:
  assumes "kept_step N s s'" "shared_inv d s" "paced d t0 s"
  shows "paced d t0 s'"
proof -
  have step: "jwks_step N s s'"
    and kept: "\<And>t want. js_phase s t = Fetching want \<Longrightarrow> js_phase s' t \<in> {Fetching want, Lookup want}"
    using assms(1) by (auto simp: kept_step_def)
  have t0: "t0 \<le> js_now s" using assms(3) by (simp add: paced_def)
  from step kept assms(2,3) t0 show ?thesis
  proof (induction rule: jwks_step.induct)
    case (begin_fetch s t want)
    moreover have "\<not> fetching s" using begin_fetch.prems(2) begin_fetch.hyps(1) by (rule checking_not_fetching)
    moreover have "jc_min_refresh_interval (js_cache s) = d" using begin_fetch.prems(2) by (simp add: shared_inv_def)
    ultimately have "t0 + started s * d \<le> js_now s" by (simp add: paced_begin)
    then show ?case by (simp add: paced_def)
  next
    case (failed s t want e)
    from failed.prems(1) [OF failed.hyps] show ?case by simp
  next
    case (dropped s t)
    have "js_phase s t \<noteq> Fetching want" for want
      using dropped.prems(1) [of t want] by auto
    from fetching_goto [OF this, where p = Idle] dropped.prems(3) show ?case
      by (auto simp: paced_def split: option.splits)
  next
    case (tick s t)
    then show ?case by (auto simp: paced_def split: option.splits)
  next
    case (fetched s t want keys)
    then show ?case by (auto simp: paced_def split: option.splits)
  next
    case (forced s keys)
    then show ?case by (auto simp: paced_def split: option.splits)
  qed (auto simp: paced_def intro: fetching_goto split: option.splits)
qed

lemma paced_reaches:
  assumes "kept_reaches N (jwks_initial c t0) s"
  shows "paced (jc_min_refresh_interval c) t0 s"
  using assms
proof (induction rule: rtranclp_induct)
  case base
  then show ?case by (rule paced_initial)
next
  case (step s s')
  from reached_ok(1) [OF kept_reaches_reaches [OF step.hyps(1)]]
  show ?case by (rule paced_step [OF step.hyps(2) _ step.IH])
qed

section \<open>Theorems\<close>

text \<open>
  C13. The rate limit in numbers: when no request fails or is abandoned, \<open>n\<close> automatic fetches take at
  least \<open>n - 1\<close> minimum intervals, for any number of tasks in any interleaving, with forced
  refreshes, and whatever key ids are looked for.
\<close>

theorem fetch_rate_bounded:
  assumes "kept_reaches N (jwks_initial c t0) s"
  shows "(started s - 1) * jc_min_refresh_interval c \<le> js_now s - t0"
  using paced_reaches [OF assms] unfolding paced_def by linarith

subsection \<open>The integration test: concurrent misses share one fetch\<close>

text \<open>
  \<open>concurrent_misses_trigger_single_fetch\<close> starts tasks that look for keys against a server that
  always answers with the same document: every set that is stored is \<open>keys\<close>, the keys of that
  document, and sets are stored only while a task is fetching, as nobody else calls \<open>refresh\<close>.
\<close>

definition served_step ::
    "('dk, 'ka) key_map \<Rightarrow> nat \<Rightarrow> ('cl, 'dk, 'ka) jwks_shared \<Rightarrow> ('cl, 'dk, 'ka) jwks_shared \<Rightarrow> bool" where
  "served_step keys N s s' \<longleftrightarrow> kept_step N s s'
     \<and> (js_log s' = (Succeeded, js_now s) # js_log s \<longrightarrow> js_keys s' = keys \<and> fetching s)"

abbreviation served_reaches where
  "served_reaches keys N \<equiv> (served_step keys N)\<^sup>*\<^sup>*"

lemma served_reaches_kept: "served_reaches keys N s s' \<Longrightarrow> kept_reaches N s s'"
  by (rule rtranclp_mono [THEN predicate2D]) (auto simp: served_step_def)

definition answer :: "('dk, 'ka) key_map \<Rightarrow> string \<Rightarrow> jwt_error + ('dk, 'ka) cached_key" where
  "answer keys want = ok_or (Jwks (''unknown key id `'' @ want @ ''` after JWKS refresh'')) (map_of keys want)"

text \<open>Before the first answer nothing is known, and afterwards all that is known is \<open>keys\<close>.\<close>

definition served ::
    "('dk, 'ka) key_map \<Rightarrow> ('cl, 'dk, 'ka) jwks_shared \<Rightarrow> bool" where
  "served keys s \<longleftrightarrow>
     (fetching s \<longrightarrow> started s \<noteq> 0)
   \<and> (js_fetched_at s \<noteq> None \<longrightarrow> started s \<noteq> 0 \<and> js_keys s = keys)
   \<and> (\<forall>t want. js_phase s t = Lookup want \<longrightarrow> js_fetched_at s \<noteq> None)
   \<and> (\<forall>t want r. js_phase s t = Done want r \<longrightarrow> js_fetched_at s \<noteq> None \<and> r = answer keys want)"

lemma served_initial: "served keys (jwks_initial c t0)"
  by (simp add: served_def jwks_initial_def fetching_def)

lemma served_stepI:
  assumes "served_step keys N s s'" "served keys s"
  shows "served keys s'"
proof -
  have step: "jwks_step N s s'"
    and kept: "\<And>t want. js_phase s t = Fetching want \<Longrightarrow> js_phase s' t \<in> {Fetching want, Lookup want}"
    and stored: "js_log s' = (Succeeded, js_now s) # js_log s \<Longrightarrow> js_keys s' = keys \<and> fetching s"
    using assms(1) by (auto simp: served_step_def kept_step_def)
  from step kept stored assms(2) show ?thesis
  proof (induction rule: jwks_step.induct)
    case (hit t s want c)
    then have "Ok c = answer keys want"
      by (cases "js_fetched_at s") (auto simp: served_def answer_def)
    with hit show ?case by (cases "js_fetched_at s") (auto simp: served_def fetching_def)
  next
    case (failed s t want e)
    from failed.prems(1) [OF failed.hyps] show ?case by simp
  next
    case (look_up s t want)
    then show ?case by (auto simp: served_def fetching_def answer_def)
  qed (auto simp: served_def fetching_def is_fresh_def split: option.splits if_splits)
qed

lemma served_reachesI: "served_reaches keys N (jwks_initial c t0) s \<Longrightarrow> served keys s"
  by (induction rule: rtranclp_induct) (auto intro: served_initial served_stepI)

text \<open>
  C14. Concurrent misses trigger exactly one fetch when the endpoint answers: in every interleaving of
  the calls of any number of tasks that ends within the minimum interval after the start, once a task
  has its answer there has been one fetch and no other, and the answer of each call is what the served
  document says of the key id that this call wanted.
\<close>

theorem misses_coalesce:
  assumes "served_reaches keys N (jwks_initial c t0) s" "js_phase s t = Done want r"
    and "js_now s < t0 + jc_min_refresh_interval c"
  shows "started s = 1 \<and> r = answer keys want"
proof -
  note inv = served_reachesI [OF assms(1)]
  have "started s \<noteq> 0" using inv assms(2) by (auto simp: served_def)
  moreover have "t0 + (started s - 1) * jc_min_refresh_interval c \<le> js_now s"
    using paced_reaches [OF served_reaches_kept [OF assms(1)]] by (simp add: paced_def)
  then have "(started s - 1) * jc_min_refresh_interval c < 1 * jc_min_refresh_interval c"
    using assms(3) by linarith
  then have "started s - 1 < 1" unfolding mult_less_cancel2 by blast
  ultimately show ?thesis using inv assms(2) by (auto simp: served_def)
qed

subsection \<open>A run for the witnesses\<close>

text \<open>
  A task looks for a key that the document does not have, and is answered; twenty seconds later
  another task asks again.
\<close>

definition herd_keys :: "(string, string) key_map" where
  "herd_keys = [(''k1'', \<lparr>ck_key = ''p1'', ck_alg = None\<rparr>)]"

definition herd_answered :: "(unit, string, string) jwks_shared" where
  "herd_answered =
     goto 0 (Done ''k'' (answer herd_keys ''k''))
       (goto 0 (Lookup ''k'') (store_keys herd_keys wit_fetching)\<lparr>js_holder := None\<rparr>)"

definition herd_again :: "(unit, string, string) jwks_shared" where
  "herd_again =
     (let s = goto 1 (Checking ''k'') (goto 1 (Waiting ''k'') (herd_answered\<lparr>js_now := 20000000000\<rparr>))\<lparr>js_holder := Some 1\<rparr>
      in goto 1 (Fetching ''k'') s\<lparr>js_log := (Started, js_now s) # js_log s\<rparr>)"

lemma quiet_step:
  assumes "jwks_step N s s'" "\<And>t want. js_phase s t \<noteq> Fetching want" "js_log s' \<noteq> (Succeeded, js_now s) # js_log s"
  shows "served_step keys N s s'"
  using assms by (simp add: served_step_def kept_step_def)

lemma herd_answered_reached: "served_reaches herd_keys 2 wit_start herd_answered"
proof -
  let ?s2 = "goto 0 (Checking ''k'') wit_waiting\<lparr>js_holder := Some 0\<rparr>"
  let ?s4 = "goto 0 (Lookup ''k'') (store_keys herd_keys wit_fetching)\<lparr>js_holder := None\<rparr>"
  have 1: "served_step herd_keys 2 wit_start wit_waiting"
    by (rule quiet_step, unfold wit_waiting_def, rule miss) (simp_all add: jwks_initial_def)
  have 2: "served_step herd_keys 2 wit_waiting ?s2"
    by (rule quiet_step, rule acquire) (simp_all add: wit_waiting_def jwks_initial_def)
  have 3: "served_step herd_keys 2 ?s2 wit_fetching"
    unfolding wit_fetching_def Let_def
    by (rule quiet_step, rule begin_fetch) (simp_all add: wit_waiting_def jwks_initial_def)
  have 4: "served_step herd_keys 2 wit_fetching ?s4"
    unfolding served_step_def kept_step_def
    by (intro conjI, rule fetched) (auto simp: wit_fetching_def wit_waiting_def jwks_initial_def)
  have "jwks_step 2 ?s4 (goto 0 (Done ''k'' (answer (js_keys ?s4) ''k'')) ?s4)"
    unfolding answer_def by (rule look_up) simp
  then have step: "jwks_step 2 ?s4 herd_answered" by (simp add: herd_answered_def)
  have 5: "served_step herd_keys 2 ?s4 herd_answered"
    by (rule quiet_step [OF step]) (auto simp: herd_answered_def wit_fetching_def wit_waiting_def jwks_initial_def)
  show ?thesis using 1 2 3 4 5 by (meson rtranclp.rtrancl_into_rtrancl rtranclp.rtrancl_refl)
qed

lemma herd_again_reached: "kept_reaches 2 wit_start herd_again"
proof -
  let ?s1 = "herd_answered\<lparr>js_now := 20000000000\<rparr>"
  let ?s2 = "goto 1 (Waiting ''k'') ?s1"
  let ?s3 = "goto 1 (Checking ''k'') ?s2\<lparr>js_holder := Some 1\<rparr>"
  note run = herd_answered_def wit_fetching_def wit_waiting_def jwks_initial_def store_keys_def goto_def
  have quiet: "kept_step 2 s s'" if "jwks_step 2 s s'" "\<And>t want. js_phase s t \<noteq> Fetching want"
    for s s' :: "(unit, string, string) jwks_shared" using that by (simp add: kept_step_def)
  have 1: "kept_step 2 herd_answered ?s1"
    by (rule quiet, rule tick) (simp_all add: run)
  have 2: "kept_step 2 ?s1 ?s2"
    by (rule quiet, rule miss) (simp_all add: run herd_keys_def)
  have 3: "kept_step 2 ?s2 ?s3"
    by (rule quiet, rule acquire) (simp_all add: run)
  have 4: "kept_step 2 ?s3 herd_again"
    unfolding herd_again_def Let_def by (rule quiet, rule begin_fetch) (simp_all add: run)
  show ?thesis
    using served_reaches_kept [OF herd_answered_reached] 1 2 3 4 by (meson rtranclp.rtrancl_into_rtrancl)
qed

theorem fetch_rate_bounded_witness:
  "started herd_again = 2 \<and> (2 - 1) * jc_min_refresh_interval sample_cache \<le> 20000000000 - 0"
proof
  show two: "started herd_again = 2"
    by (simp add: started_def herd_again_def herd_answered_def wit_fetching_def wit_waiting_def jwks_initial_def Let_def)
  have "js_now herd_again = 20000000000" by (simp add: herd_again_def Let_def)
  with fetch_rate_bounded [OF herd_again_reached] two
  show "(2 - 1) * jc_min_refresh_interval sample_cache \<le> 20000000000 - 0" by simp
qed

theorem misses_coalesce_witness:
  "js_phase herd_answered 0 = Done ''k'' (answer herd_keys ''k'') \<and> started herd_answered = 1"
proof
  show phase: "js_phase herd_answered 0 = Done ''k'' (answer herd_keys ''k'')" by (simp add: herd_answered_def)
  have "js_now herd_answered < 0 + jc_min_refresh_interval sample_cache"
    by (simp add: herd_answered_def wit_fetching_def wit_waiting_def jwks_initial_def Let_def)
  from misses_coalesce [OF herd_answered_reached phase this] show "started herd_answered = 1" by simp
qed

end
