(* ===== verification/Config_Matrix_Tests.thy ===== *)
theory Config_Matrix_Tests
  imports Claims_Tests Redis_Store
begin

section \<open>The integration tests of configuration options and stores\<close>

text \<open>
  The tests of \<open>tests/config_matrix.rs\<close> on lifetimes, audiences and revocation, and the test of
  \<open>tests/revocation_redis.rs\<close>. \<open>utc n\<close> is what the \<open>n\<close>-th call of \<open>Utc::now()\<close> of a test returns.
  \<open>TtlClaims\<close> has the fields and attributes of \<open>NumericClaims\<close>.
\<close>

subsection \<open>Lifetimes\<close>

definition now_u64 :: "'dt chrono_lib \<Rightarrow> 'dt \<Rightarrow> u64" where
  "now_u64 C t = word_of_int (timestamp C t)"

definition mint_service :: "string \<Rightarrow> i64 \<Rightarrow> jwt_config" where
  "mint_service ttl_field lifetime =
     (let config = default_config\<lparr>secret := ''config-matrix-'' @ ttl_field @ ''-secret'',
        issuer := Some ''config-matrix-issuer''\<rparr>
      in if ttl_field = ''access'' then config\<lparr>access_token_ttl := lifetime\<rparr>
         else config\<lparr>refresh_token_ttl := lifetime\<rparr>)"

definition fresh_claims :: "'dt standard_claims" where
  "fresh_claims = default_claims\<lparr>sub := Some ''user-1''\<rparr>"

definition access_token_ttl_controls_minted_expiry ::
    "('ek, 'dk, json) jwt_lib \<Rightarrow> 'dt chrono_lib \<Rightarrow> (nat \<Rightarrow> 'dt) \<Rightarrow> (nat \<Rightarrow> string) \<Rightarrow> unit option" where
  "access_token_ttl_controls_minted_expiry L C utc uuid =
     do {
       let service = mint_service ''access'' 120;
       r \<leftarrow> encode_standard (standard_lib C L) C (utc 0) (uuid 0) service fresh_claims;
       token \<leftarrow> unwrap r;
       decoded \<leftarrow> unwrap (decode (numeric_lib L) service token);
       e \<leftarrow> nc_exp decoded;
       let now = now_u64 C (utc 1);
       check (now + 115 \<le> e \<and> e \<le> now + 120)
     }"

text \<open>The subtraction of two \<open>u64\<close> panics when it underflows.\<close>

definition refresh_token_ttl_controls_refresh_expiry_and_differs_from_access ::
    "('ek, 'dk, json) jwt_lib \<Rightarrow> 'dt chrono_lib \<Rightarrow> (nat \<Rightarrow> 'dt) \<Rightarrow> (nat \<Rightarrow> string) \<Rightarrow> unit option" where
  "refresh_token_ttl_controls_refresh_expiry_and_differs_from_access L C utc uuid =
     do {
       let service = default_config\<lparr>secret := ''config-matrix-refresh-default-secret'',
         issuer := Some ''config-matrix-issuer''\<rparr>;
       let claims = fresh_claims;
       r \<leftarrow> encode_standard (standard_lib C L) C (utc 0) (uuid 0) service claims;
       access \<leftarrow> unwrap r;
       r \<leftarrow> encode_refresh_standard (standard_lib C L) C (utc 1) (uuid 1) service claims;
       refresh_tok \<leftarrow> unwrap r;
       decoded \<leftarrow> unwrap (decode (numeric_lib L) service access);
       access_exp \<leftarrow> nc_exp decoded;
       decoded \<leftarrow> unwrap (decode (numeric_lib L) service refresh_tok);
       refresh_exp \<leftarrow> nc_exp decoded;
       let now = now_u64 C (utc 2);
       check (now + 3540 \<le> access_exp \<and> access_exp \<le> now + 3600);
       check (now + 604780 \<le> refresh_exp \<and> refresh_exp \<le> now + 604800);
       check (access_exp \<le> refresh_exp \<and> 600000 < refresh_exp - access_exp);
       let service = mint_service ''refresh'' 90;
       r \<leftarrow> encode_refresh_standard (standard_lib C L) C (utc 3) (uuid 2) service
         (default_claims\<lparr>sub := Some ''user-2''\<rparr>);
       token \<leftarrow> unwrap r;
       decoded \<leftarrow> unwrap (decode (numeric_lib L) service token);
       e \<leftarrow> nc_exp decoded;
       let now = now_u64 C (utc 4);
       check (now + 85 \<le> e \<and> e \<le> now + 90)
     }"

definition with_audiences_accepts_listed_and_rejects_unlisted ::
    "('ek, 'dk, json) jwt_lib \<Rightarrow> 'dt chrono_lib \<Rightarrow> (nat \<Rightarrow> 'dt) \<Rightarrow> unit option" where
  "with_audiences_accepts_listed_and_rejects_unlisted L C utc =
     do {
       let claims = \<lparr>nc_sub = Some ''user-1'', nc_exp = Some (now_u64 C (utc 0) + 3600),
         nc_iss = Some ''config-matrix-issuer'', nc_aud = Some ''aud-b''\<rparr>;
       let accepting = with_audiences [''aud-a'', ''aud-b'']
         (default_config\<lparr>secret := ''config-matrix-audiences-secret'', issuer := Some ''config-matrix-issuer''\<rparr>);
       token \<leftarrow> unwrap (encode (numeric_lib L) accepting claims);
       c \<leftarrow> unwrap (decode (numeric_lib L) accepting token);
       check (nc_aud c = Some ''aud-b'');
       let rejecting = with_audiences [''aud-a'']
         (default_config\<lparr>secret := ''config-matrix-audiences-secret'', issuer := Some ''config-matrix-issuer''\<rparr>);
       token \<leftarrow> unwrap (encode (numeric_lib L) rejecting claims);
       check (\<not> is_ok (decode (numeric_lib L) rejecting token))
     }"

subsection \<open>A store of the test's own\<close>

text \<open>A set of revoked ids behind a mutex, and the handle that forwards to it.\<close>

definition set_store_revoke :: "string \<Rightarrow> string set \<Rightarrow> ('e + unit) \<times> string set" where
  "set_store_revoke j revoked = (Ok (), insert j revoked)"

definition set_store_is_revoked :: "string \<Rightarrow> string set \<Rightarrow> 'e + bool" where
  "set_store_is_revoked j revoked = Ok (j \<in> revoked)"

definition set_store_ops :: "(string set, string) store_ops" where
  "set_store_ops = \<lparr>op_revoke = set_store_revoke, op_is_revoked = (\<lambda>j s. (set_store_is_revoked j s, s))\<rparr>"

text \<open>This store keeps the laws of the interface.\<close>

interpretation set_store: revocation_store
  "\<lambda>t1 t2. set_store_revoke" "\<lambda>t. set_store_is_revoked" "\<lambda>_. None" "\<lambda>_. True"
  by unfold_locales (auto simp: set_store_revoke_def set_store_is_revoked_def)

definition service_with_revocation :: "(string set, string) jwt_service" where
  "service_with_revocation = with_revocation (shared_ops set_store_ops)
     (service_new (default_config\<lparr>secret := ''config-matrix-revocation-secret'',
        issuer := Some ''config-matrix-issuer''\<rparr>))"

text \<open>\<open>None\<close> when the addition of the duration panics.\<close>

definition claims_with_jti :: "'dt chrono_lib \<Rightarrow> 'dt \<Rightarrow> string option \<Rightarrow> 'dt standard_claims option" where
  "claims_with_jti C t j =
     map_option (\<lambda>e. default_claims\<lparr>sub := Some ''user-1'', iss := Some ''config-matrix-issuer'',
       exp := Some e, jti := j\<rparr>) (add_seconds C t 3600)"

definition with_revocation_rejects_revoked_jti_and_accepts_live_jti ::
    "('ek, 'dk, json) jwt_lib \<Rightarrow> 'dt chrono_lib \<Rightarrow> (nat \<Rightarrow> 'dt) \<Rightarrow> unit option" where
  "with_revocation_rejects_revoked_jti_and_accepts_live_jti L C utc =
     do {
       let service = service_with_revocation;
       let store = {};
       c \<leftarrow> claims_with_jti C (utc 0) (Some ''revoked-jti'');
       revoked_token \<leftarrow> unwrap (encode (standard_lib C L) (config service) c);
       c \<leftarrow> claims_with_jti C (utc 1) (Some ''live-jti'');
       live_token \<leftarrow> unwrap (encode (standard_lib C L) (config service) c);
       let (d, store) = decode_standard (standard_lib C L) service live_token store;
       _ \<leftarrow> unwrap d;
       let (d, store) = decode_standard (standard_lib C L) service revoked_token store;
       _ \<leftarrow> unwrap d;
       let store = snd (set_store_revoke ''revoked-jti'' store :: (string + unit) \<times> _);
       let (d, store) = decode_standard (standard_lib C L) service revoked_token store;
       err \<leftarrow> unwrap_err d;
       check (err = Revoked);
       let (d, store) = decode_standard (standard_lib C L) service live_token store;
       _ \<leftarrow> unwrap d;
       Some ()
     }"

definition revoked_refresh_token_is_rejected_via_decode_standard ::
    "('ek, 'dk, json) jwt_lib \<Rightarrow> 'dt chrono_lib \<Rightarrow> (nat \<Rightarrow> 'dt) \<Rightarrow> unit option" where
  "revoked_refresh_token_is_rejected_via_decode_standard L C utc =
     do {
       let service = service_with_revocation;
       let store = {};
       c \<leftarrow> claims_with_jti C (utc 0) (Some ''refresh-jti'');
       refresh_tok \<leftarrow> unwrap (encode (standard_lib C L) (config service) c);
       let (d, store) = decode_standard (standard_lib C L) service refresh_tok store;
       _ \<leftarrow> unwrap d;
       let store = snd (set_store_revoke ''refresh-jti'' store :: (string + unit) \<times> _);
       let (d, store) = decode_standard (standard_lib C L) service refresh_tok store;
       err \<leftarrow> unwrap_err d;
       check (err = Revoked)
     }"

definition token_without_jti_bypasses_the_store_by_contract ::
    "('ek, 'dk, json) jwt_lib \<Rightarrow> 'dt chrono_lib \<Rightarrow> (nat \<Rightarrow> 'dt) \<Rightarrow> unit option" where
  "token_without_jti_bypasses_the_store_by_contract L C utc =
     do {
       let service = service_with_revocation;
       let store = {};
       no_jti \<leftarrow> claims_with_jti C (utc 0) None;
       token \<leftarrow> unwrap (encode (standard_lib C L) (config service) no_jti);
       let (d, store) = decode_standard (standard_lib C L) service token store;
       claims \<leftarrow> unwrap d;
       check (jti claims = None)
     }"

subsection \<open>A Redis server that cannot be reached (\<open>tests/revocation_redis.rs\<close>)\<close>

definition redis_store_fails_closed_when_unreachable ::
    "('cl, 'conn, 'e, 'w) redis_lib \<Rightarrow> 'w \<Rightarrow> unit option" where
  "redis_store_fails_closed_when_unreachable R w =
     do {
       store \<leftarrow> unwrap (redis_new R ''redis://127.0.0.1:1/'' 60);
       let (r, store, w) = redis_revoke R ''jti-unreachable'' store w;
       check (\<not> is_ok r);
       let (r, store, w) = redis_is_revoked R ''jti-unreachable'' store w;
       check (\<not> is_ok r)
     }"

section \<open>Lemmas\<close>

text \<open>
  A test takes at most five seconds, and \<open>chrono\<close> adds the lifetimes to the readings and represents
  every time it can print.
\<close>

definition matrix_run :: "'dt chrono_lib \<Rightarrow> (nat \<Rightarrow> 'dt) \<Rightarrow> nat \<Rightarrow> bool" where
  "matrix_run C utc now \<longleftrightarrow>
     now < 2 ^ 62
   \<and> (\<forall>n. int now \<le> timestamp C (utc n) + 5 \<and> timestamp C (utc n) \<le> int now \<and> 0 \<le> timestamp C (utc n))
   \<and> (\<forall>m n. m \<le> n \<longrightarrow> timestamp C (utc m) \<le> timestamp C (utc n))
   \<and> (\<forall>n s. 5 \<le> sint s \<and> sint s \<le> 604800 \<longrightarrow>
        (\<exists>t. add_seconds C (utc n) s = Some t \<and> timestamp C t = timestamp C (utc n) + sint s))
   \<and> (\<forall>t. \<exists>t'. from_timestamp C (timestamp C t) = Some t')"

lemma matrix_runD:
  assumes "matrix_run C utc now"
  shows "0 \<le> timestamp C (utc n)" "int now \<le> timestamp C (utc n) + 5" "timestamp C (utc n) < 2 ^ 62"
    and "m \<le> n \<Longrightarrow> timestamp C (utc m) \<le> timestamp C (utc n)"
    and "5 \<le> sint s \<Longrightarrow> sint s \<le> 604800 \<Longrightarrow>
      \<exists>t. add_seconds C (utc n) s = Some t \<and> timestamp C t = timestamp C (utc n) + sint s"
    and "\<exists>t'. from_timestamp C (timestamp C t) = Some t'"
proof -
  have "timestamp C (utc n) \<le> int now" "int now < 2 ^ 62" using assms by (simp_all add: matrix_run_def)
  then show "timestamp C (utc n) < 2 ^ 62" by linarith
qed (use assms in \<open>simp_all add: matrix_run_def\<close>)

text \<open>Standard claims read as \<open>TtlClaims\<close>.\<close>

lemma numeric_of_standard:
  assumes "extra c = []" "exp c = Some t" "0 \<le> timestamp C t" "timestamp C t < 2 ^ 64"
  shows "deserialize_numeric (json_of_standard C c) =
    Some \<lparr>nc_sub = sub c, nc_exp = Some (word_of_int (timestamp C t)), nc_iss = iss c, nc_aud = aud c\<rparr>"
proof -
  have es: "serialize_claims C c = std_members C c" using assms(1) by (simp add: serialize_split)
  have "distinct (filter P (map fst (std_members C c)))" for P
    by (rule distinct_filter [OF std_members_distinct])
  then show ?thesis
    using assms(2-) by (simp add: deserialize_numeric_def es std_members_lookup)
qed

text \<open>The configurations of the tests; a token with a time to live of a few seconds is accepted.\<close>

definition matrix_config :: "jwt_config \<Rightarrow> bool" where
  "matrix_config cfg \<longleftrightarrow> secret_config cfg \<and> algorithm cfg = HS256 \<and> required_claims cfg = [''exp'', ''iss'']
     \<and> issuer cfg = Some ''config-matrix-issuer'' \<and> audience cfg = None \<and> audiences cfg = []
     \<and> leeway cfg = None \<and> \<not> validate_nbf cfg"

lemma minted_until:
  assumes "hmac_documented L now" "matrix_run C utc now" "matrix_config cfg"
    and "extra c = []" "exp c = Some t" "timestamp C t = timestamp C (utc n) + s" "5 \<le> s" "s \<le> 604800"
    and "iss c = Some ''config-matrix-issuer''" "aud c = None" "iat c \<in> {None, Some (utc n)}"
  shows "\<exists>tok. encode (standard_lib C L) cfg c = Ok tok
    \<and> decode (numeric_lib L) cfg tok = Ok \<lparr>nc_sub = sub c, nc_exp = Some (word_of_int (timestamp C (utc n) + s)),
        nc_iss = iss c, nc_aud = None\<rparr>
    \<and> (\<exists>e i. decode (standard_lib C L) cfg tok = Ok (c\<lparr>exp := e, iat := i\<rparr>))"
proof -
  have cfg: "secret_config cfg" "algorithm cfg = HS256" using assms(3) by (simp_all add: matrix_config_def)
  note run = matrix_runD [OF assms(2)]
  obtain tok where tok: "encode (standard_lib C L) cfg c = Ok tok"
    "lib_encode L \<lparr>h_alg = LibHS256, h_kid = None\<rparr> (json_of_standard C c)
        (ek_from_secret L (as_bytes (secret cfg))) = Ok tok"
    using secret_encode [OF assms(1) cfg(1), of "json_of_standard C" "standard_of_json C" c] cfg(2) by auto
  have times: "0 \<le> timestamp C t" "timestamp C t < 2 ^ 64" "timestamp C (utc n) < 2 ^ 64"
    using run(1,3) [of n] assms(6-8) by simp_all
  have plain: "plain_payload (json_of_standard C c)"
    using assms(5,11) run(1) [of n] times by (intro standard_plain [OF assms(4)]) (auto simp: times_in_range_def)
  have policy: "surely_meets_policy cfg now (json_facts LibHS256 (json_of_standard C c))"
    by (rule standard_policy_until [OF assms(4,5) _ _ assms(9,10)])
      (use assms(3,6,7) run(2) [of n] times(2) in \<open>auto simp: matrix_config_def\<close>)
  have hmac: "family (algorithm cfg) = Hmac" "rotation_keys cfg = []"
    using cfg by (simp_all add: secret_config_def)
  from secret_decode_Ok [where j = "json_of_standard C c" and de = deserialize_numeric, OF assms(1) hmac tok(2) plain policy
      numeric_of_standard [OF assms(4,5) times(1,2)]] assms(6,10)
  have "decode (numeric_lib L) cfg tok = Ok \<lparr>nc_sub = sub c, nc_exp = Some (word_of_int (timestamp C (utc n) + s)),
        nc_iss = iss c, nc_aud = None\<rparr>" by simp
  note numeric = this
  obtain e i where "standard_of_json C (json_of_standard C c) = Some (c\<lparr>exp := e, iat := i\<rparr>)"
    using standard_roundtrip [OF run(6) no_extra_ok [OF assms(4)]] by blast
  then have "decode (standard_lib C L) cfg tok = Ok (c\<lparr>exp := e, iat := i\<rparr>)"
    by (rule secret_decode_Ok [where j = "json_of_standard C c" and de = "standard_of_json C", OF assms(1) hmac tok(2) plain policy])
  with numeric show ?thesis using tok(1) by blast
qed

text \<open>Tokens whose lifetime \<open>encode_standard\<close> and \<open>encode_refresh_standard\<close> stamp.\<close>

lemma mint_fresh:
  assumes "hmac_documented L now" "matrix_run C utc now" "matrix_config cfg" "5 \<le> sint s" "sint s \<le> 604800"
  shows "\<exists>c tok. stamped_standard C (utc n) u cfg (default_claims\<lparr>sub := Some x\<rparr>) s = Some c
    \<and> encode (standard_lib C L) cfg c = Ok tok
    \<and> decode (numeric_lib L) cfg tok = Ok \<lparr>nc_sub = Some x,
        nc_exp = Some (word_of_int (timestamp C (utc n) + sint s)),
        nc_iss = Some ''config-matrix-issuer'', nc_aud = None\<rparr>"
proof -
  obtain t where t: "add_seconds C (utc n) s = Some t" "timestamp C t = timestamp C (utc n) + sint s"
    using matrix_runD(5) [OF assms(2,4,5)] by blast
  let ?c = "(default_claims\<lparr>sub := Some x\<rparr>)\<lparr>iat := Some (utc n), exp := Some t,
    iss := Some ''config-matrix-issuer'', jti := Some u\<rparr>"
  have "audience cfg = None" "audiences cfg = []" "issuer cfg = Some ''config-matrix-issuer''"
    using assms(3) by (simp_all add: matrix_config_def)
  then have stamped: "stamped_standard C (utc n) u cfg (default_claims\<lparr>sub := Some x\<rparr>) s = Some ?c"
    by (simp add: stamped_standard_alt t(1) default_claims_def merged_audiences_def)
  from minted_until [where c = ?c, OF assms(1-3) _ _ t(2) assms(4,5)] stamped
  show ?thesis by (fastforce simp: default_claims_def)
qed

lemma uint_later:
  assumes "0 \<le> a" "a < 2 ^ 62" "(numeral k :: int) < 2 ^ 62"
  shows "uint (word_of_int a + numeral k :: u64) = a + numeral k"
proof -
  have sum: "word_of_int a + numeral k = (word_of_int (a + numeral k) :: u64)" by simp
  have "0 \<le> a + numeral k" using assms(1) by (simp add: add_nonneg_nonneg)
  moreover have "a + numeral k < 2 ^ 62 + 2 ^ 62" using assms(2,3) by (rule add_strict_mono)
  then have "a + numeral k < 2 ^ LENGTH(64)" by (rule less_le_trans) simp
  ultimately show ?thesis unfolding sum by (simp only: uint_word_of_int mod_pos_pos_trivial)
qed

lemma reading_le_iff:
  assumes "matrix_run C utc now" "(numeral j :: int) < 2 ^ 62" "(numeral k :: int) < 2 ^ 62"
  shows "(word_of_int (timestamp C (utc m)) + numeral j :: u64) \<le> word_of_int (timestamp C (utc n)) + numeral k
    \<longleftrightarrow> timestamp C (utc m) + numeral j \<le> timestamp C (utc n) + numeral k"
  unfolding word_le_def
  using matrix_runD(1,3) [OF assms(1), of m] matrix_runD(1,3) [OF assms(1), of n] assms(2,3)
  by (simp only: uint_later)

lemma readings_close:
  "matrix_run C utc now \<Longrightarrow> m \<le> n \<Longrightarrow>
     timestamp C (utc m) \<le> timestamp C (utc n) \<and> timestamp C (utc n) \<le> timestamp C (utc m) + 5"
  unfolding matrix_run_def by (meson order_trans)

lemma matrix_config_mint:
  "0 < n \<Longrightarrow> matrix_config (mint_service ttl_field n)"
  "matrix_config (default_config\<lparr>secret := s, issuer := Some ''config-matrix-issuer''\<rparr>)"
  by (simp_all add: matrix_config_def mint_service_def Let_def secret_config_def)

lemma access_ttl_passes:
  assumes "hmac_documented L now" "matrix_run C utc now"
  shows "access_token_ttl_controls_minted_expiry L C utc uuid = Some ()"
proof -
  let ?svc = "mint_service ''access'' 120"
  have cfg: "matrix_config ?svc" by (simp add: matrix_config_mint)
  have ttl: "access_token_ttl ?svc = 120" by (simp add: mint_service_def Let_def)
  obtain c tok where tok: "stamped_standard C (utc 0) (uuid 0) ?svc (default_claims\<lparr>sub := Some ''user-1''\<rparr>) 120 = Some c"
    "encode (standard_lib C L) ?svc c = Ok tok"
    "decode (numeric_lib L) ?svc tok = Ok \<lparr>nc_sub = Some ''user-1'',
        nc_exp = Some (word_of_int (timestamp C (utc 0) + 120)),
        nc_iss = Some ''config-matrix-issuer'', nc_aud = None\<rparr>"
    using mint_fresh [OF assms cfg, of 120 0 "uuid 0" "''user-1''"] by auto
  have "now_u64 C (utc 1) + 115 \<le> word_of_int (timestamp C (utc 0)) + 120"
    "word_of_int (timestamp C (utc 0)) + 120 \<le> now_u64 C (utc 1) + 120"
    unfolding now_u64_def using readings_close [OF assms(2), of 0 1] by (simp_all add: reading_le_iff [OF assms(2)])
  with tok show ?thesis
    by (simp add: access_token_ttl_controls_minted_expiry_def encode_standard_def fresh_claims_def ttl)
qed

lemma reading_gap:
  assumes "matrix_run C utc now" "m \<le> n"
  shows "(word_of_int (timestamp C (utc m)) + 3600 :: u64) \<le> word_of_int (timestamp C (utc n)) + 604800
    \<and> 600000 < (word_of_int (timestamp C (utc n)) + 604800 - (word_of_int (timestamp C (utc m)) + 3600) :: u64)"
proof
  let ?a = "word_of_int (timestamp C (utc m)) + 3600 :: u64"
  let ?r = "word_of_int (timestamp C (utc n)) + 604800 :: u64"
  note close = readings_close [OF assms]
  show le: "?a \<le> ?r" using close by (simp add: reading_le_iff [OF assms(1)])
  then have "uint (?r - ?a) = uint ?r - uint ?a" by (simp only: uint_minus_simple_alt)
  also have "\<dots> = timestamp C (utc n) + 604800 - (timestamp C (utc m) + 3600)"
    using matrix_runD(1,3) [OF assms(1), of m] matrix_runD(1,3) [OF assms(1), of n]
    by (simp add: uint_later)
  finally show "600000 < ?r - ?a" using close by (simp add: word_less_def)
qed

lemma refresh_ttl_passes:
  assumes "hmac_documented L now" "matrix_run C utc now"
  shows "refresh_token_ttl_controls_refresh_expiry_and_differs_from_access L C utc uuid = Some ()"
proof -
  let ?svc = "default_config\<lparr>secret := ''config-matrix-refresh-default-secret'',
    issuer := Some ''config-matrix-issuer''\<rparr>"
  let ?svc2 = "mint_service ''refresh'' 90"
  have cfg: "matrix_config ?svc" "matrix_config ?svc2" by (simp_all add: matrix_config_mint)
  have ttl: "access_token_ttl ?svc = 3600" "refresh_token_ttl ?svc = 604800" "refresh_token_ttl ?svc2 = 90"
    by (simp_all add: mint_service_def default_config_def Let_def)
  obtain c a where a: "stamped_standard C (utc 0) (uuid 0) ?svc (default_claims\<lparr>sub := Some ''user-1''\<rparr>) 3600 = Some c"
    "encode (standard_lib C L) ?svc c = Ok a"
    "decode (numeric_lib L) ?svc a = Ok \<lparr>nc_sub = Some ''user-1'',
        nc_exp = Some (word_of_int (timestamp C (utc 0) + 3600)),
        nc_iss = Some ''config-matrix-issuer'', nc_aud = None\<rparr>"
    using mint_fresh [OF assms cfg(1), of 3600 0 "uuid 0" "''user-1''"] by auto
  obtain d r where r: "stamped_standard C (utc 1) (uuid 1) ?svc (default_claims\<lparr>sub := Some ''user-1''\<rparr>) 604800 = Some d"
    "encode (standard_lib C L) ?svc d = Ok r"
    "decode (numeric_lib L) ?svc r = Ok \<lparr>nc_sub = Some ''user-1'',
        nc_exp = Some (word_of_int (timestamp C (utc 1) + 604800)),
        nc_iss = Some ''config-matrix-issuer'', nc_aud = None\<rparr>"
    using mint_fresh [OF assms cfg(1), of 604800 1 "uuid 1" "''user-1''"] by auto
  obtain b q where q: "stamped_standard C (utc 3) (uuid 2) ?svc2 (default_claims\<lparr>sub := Some ''user-2''\<rparr>) 90 = Some b"
    "encode (standard_lib C L) ?svc2 b = Ok q"
    "decode (numeric_lib L) ?svc2 q = Ok \<lparr>nc_sub = Some ''user-2'',
        nc_exp = Some (word_of_int (timestamp C (utc 3) + 90)),
        nc_iss = Some ''config-matrix-issuer'', nc_aud = None\<rparr>"
    using mint_fresh [OF assms cfg(2), of 90 3 "uuid 2" "''user-2''"] by auto
  note le = reading_le_iff [OF assms(2)] and close = readings_close [OF assms(2)]
  have "now_u64 C (utc 2) + 3540 \<le> word_of_int (timestamp C (utc 0)) + 3600"
    "word_of_int (timestamp C (utc 0)) + 3600 \<le> now_u64 C (utc 2) + 3600"
    "now_u64 C (utc 2) + 604780 \<le> word_of_int (timestamp C (utc 1)) + 604800"
    "word_of_int (timestamp C (utc 1)) + 604800 \<le> now_u64 C (utc 2) + 604800"
    "now_u64 C (utc 4) + 85 \<le> word_of_int (timestamp C (utc 3)) + 90"
    "word_of_int (timestamp C (utc 3)) + 90 \<le> now_u64 C (utc 4) + 90"
    unfolding now_u64_def using close [of 0 2] close [of 1 2] close [of 3 4] by (simp_all add: le)
  with a r q reading_gap [OF assms(2), of 0 1] show ?thesis
    by (simp add: refresh_token_ttl_controls_refresh_expiry_and_differs_from_access_def encode_standard_def
        encode_refresh_standard_def fresh_claims_def ttl Let_def)
qed

lemma audience_option_passes:
  assumes "hmac_documented L now" "matrix_run C utc now"
  shows "with_audiences_accepts_listed_and_rejects_unlisted L C utc = Some ()"
proof -
  let ?cfg = "default_config\<lparr>secret := ''config-matrix-audiences-secret'', issuer := Some ''config-matrix-issuer''\<rparr>"
  let ?c = "\<lparr>nc_sub = Some ''user-1'', nc_exp = Some (now_u64 C (utc 0) + 3600),
         nc_iss = Some ''config-matrix-issuer'', nc_aud = Some ''aud-b''\<rparr>"
  have secret: "secret_config (with_audiences as ?cfg)" for as
    by (simp add: secret_config_def with_audiences_def)
  have "uint (now_u64 C (utc 0) + 3600) = timestamp C (utc 0) + 3600"
    unfolding now_u64_def using matrix_runD(1,3) [OF assms(2), of 0] by (simp add: uint_later)
  moreover have "int now \<le> timestamp C (utc 0) + 5" by (rule matrix_runD(2) [OF assms(2)])
  ultimately have "int now \<le> uint (now_u64 C (utc 0) + 3600)" by simp
  then have exp: "now \<le> unat (now_u64 C (utc 0) + 3600)" by (simp only: unat_eq_nat_uint)
  have "surely_meets_policy (with_audiences [''aud-a'', ''aud-b''] ?cfg) now
      (json_facts (to_lib_algorithm (algorithm (with_audiences [''aud-a'', ''aud-b''] ?cfg))) (serialize_numeric ?c))"
    using exp by (simp add: policy_defs with_audiences_def)
  note accepted = run_accepting [OF assms(1) secret this]
  have "\<not> meets_policy (with_audiences [''aud-a''] ?cfg) now
      (json_facts (to_lib_algorithm (algorithm (with_audiences [''aud-a''] ?cfg))) (serialize_numeric ?c))"
    by (simp add: policy_defs with_audiences_def)
  note rejected = run_rejecting [OF assms(1) secret secret disjI2 [OF this]]
  show ?thesis
    unfolding with_audiences_accepts_listed_and_rejects_unlisted_def Let_def accepted
    by (simp add: rejected del: check_bind)
qed

lemma retry_unreachable:
  assumes "\<And>w. \<not> is_ok (fst (get_connection R (rs_client self) w))" "rs_connection self = None"
  shows "\<exists>e w'. with_retry R q self w = (Err e, self, w')"
proof -
  obtain e w' where "get_connection R (rs_client self) w = (Err e, w')"
    using assms(1) [of w]
    by (cases "get_connection R (rs_client self) w"; cases "fst (get_connection R (rs_client self) w)") auto
  then show ?thesis using assms(2) by (simp add: with_retry_def connection_alt)
qed

lemma redis_unreachable_passes:
  assumes "client_open R ''redis://127.0.0.1:1/'' = Ok client"
    and "\<And>w. \<not> is_ok (fst (get_connection R client w))"
  shows "redis_store_fails_closed_when_unreachable R w = Some ()"
proof -
  let ?store = "\<lparr>rs_client = client, rs_connection = None, rs_ttl = 60\<rparr>"
  have "\<not> is_ok (fst (get_connection R (rs_client ?store) w))" for w using assms(2) by simp
  note fails = retry_unreachable [OF this]
  obtain e w1 where 1: "redis_revoke R ''jti-unreachable'' ?store w = (Err e, ?store, w1)"
    using fails [of "\<lambda>conn. query_unit R conn (setex_cmd ''jti-unreachable'' 60)" w] by (auto simp: redis_revoke_def)
  obtain e' w2 where 2: "redis_is_revoked R ''jti-unreachable'' ?store w1 = (Err e', ?store, w2)"
    using fails [of "\<lambda>conn. query_bool R conn (exists_cmd ''jti-unreachable'')" w1] by (auto simp: redis_is_revoked_def)
  show ?thesis
    by (simp add: redis_store_fails_closed_when_unreachable_def redis_new_def assms(1) 1 2)
qed

text \<open>The tokens of the revocation tests.\<close>

lemma jti_token:
  assumes "hmac_documented L now" "matrix_run C utc now"
  shows "\<exists>c tok. claims_with_jti C (utc n) j = Some c
    \<and> encode (standard_lib C L) (config service_with_revocation) c = Ok tok
    \<and> (\<exists>d. decode (standard_lib C L) (config service_with_revocation) tok = Ok d \<and> jti d = j)"
proof -
  have "(5 :: int) \<le> sint (3600 :: i64)" "sint (3600 :: i64) \<le> 604800" by simp_all
  from matrix_runD(5) [OF assms(2) this] obtain t where t: "add_seconds C (utc n) 3600 = Some t"
    "timestamp C t = timestamp C (utc n) + 3600" by auto
  let ?c = "default_claims\<lparr>sub := Some ''user-1'', iss := Some ''config-matrix-issuer'', exp := Some t, jti := j\<rparr>"
  have "matrix_config (config service_with_revocation)"
    by (simp add: service_with_revocation_def matrix_config_mint)
  from minted_until [where c = ?c, OF assms this _ _ t(2)] show ?thesis
    by (fastforce simp: claims_with_jti_def t(1) default_claims_def)
qed

lemma set_store_decode:
  "decode_standard L service_with_revocation tok s =
     (case decode L (config service_with_revocation) tok of
        Inl e \<Rightarrow> (Err e, s)
      | Inr c \<Rightarrow> (case jti c of Some j \<Rightarrow> (if j \<in> s then Err Revoked else Ok c, s) | None \<Rightarrow> (Ok c, s)))"
  by (simp add: decode_standard_def service_with_revocation_def set_store_ops_def set_store_is_revoked_def
      split: sum.split option.split)

lemma revocation_option_tests_pass:
  assumes "hmac_documented L now" "matrix_run C utc now"
  shows "with_revocation_rejects_revoked_jti_and_accepts_live_jti L C utc = Some ()"
    and "revoked_refresh_token_is_rejected_via_decode_standard L C utc = Some ()"
    and "token_without_jti_bypasses_the_store_by_contract L C utc = Some ()"
proof -
  note defs = set_store_decode set_store_revoke_def Let_def
  from jti_token [OF assms, of 0 "Some ''revoked-jti''"] jti_token [OF assms, of 1 "Some ''live-jti''"]
  show "with_revocation_rejects_revoked_jti_and_accepts_live_jti L C utc = Some ()"
    by (auto simp: with_revocation_rejects_revoked_jti_and_accepts_live_jti_def defs)
  from jti_token [OF assms, of 0 "Some ''refresh-jti''"]
  show "revoked_refresh_token_is_rejected_via_decode_standard L C utc = Some ()"
    by (auto simp: revoked_refresh_token_is_rejected_via_decode_standard_def defs)
  from jti_token [OF assms, of 0 None]
  show "token_without_jti_bypasses_the_store_by_contract L C utc = Some ()"
    by (auto simp: token_without_jti_bypasses_the_store_by_contract_def defs)
qed

section \<open>The tests pass\<close>

text \<open>
  The integration tests of the configuration options and of the Redis store pass, in runs of at
  most five seconds: the two lifetimes reach the \<open>exp\<close> of the minted tokens, the audience list is
  enforced, a store set with \<open>with_revocation\<close> rejects the ids that were revoked, the ids of refresh
  tokens included, and no others, a token without an id is not looked up, and a Redis server that
  cannot be reached is an error of both operations.
\<close>

theorem option_tests_pass:
  assumes "hmac_documented L now" "matrix_run C utc now"
    and "client_open R ''redis://127.0.0.1:1/'' = Ok client"
    and "\<And>w. \<not> is_ok (fst (get_connection R client w))"
  shows "access_token_ttl_controls_minted_expiry L C utc uuid = Some ()
    \<and> refresh_token_ttl_controls_refresh_expiry_and_differs_from_access L C utc uuid = Some ()
    \<and> with_audiences_accepts_listed_and_rejects_unlisted L C utc = Some ()
    \<and> with_revocation_rejects_revoked_jti_and_accepts_live_jti L C utc = Some ()
    \<and> revoked_refresh_token_is_rejected_via_decode_standard L C utc = Some ()
    \<and> token_without_jti_bypasses_the_store_by_contract L C utc = Some ()
    \<and> redis_store_fails_closed_when_unreachable R w = Some ()"
  using redis_unreachable_passes [OF assms(3,4)] revocation_option_tests_pass [OF assms(1,2)]
  by (simp add: access_ttl_passes [OF assms(1,2)] refresh_ttl_passes [OF assms(1,2)]
      audience_option_passes [OF assms(1,2)])

text \<open>A Redis server that is not there.\<close>

definition absent_redis :: "(unit, unit, unit, nat) redis_lib" where
  "absent_redis = \<lparr>client_open = (\<lambda>_. Ok ()), get_connection = (\<lambda>_ n. (Err (), Suc n)),
     query_unit = (\<lambda>_ _ n. (Err (), n)), query_bool = (\<lambda>_ _ n. (Err (), n))\<rparr>"

theorem option_tests_pass_witness:
  "refresh_token_ttl_controls_refresh_expiry_and_differs_from_access (hmac_lib 5001) second_chrono
      (\<lambda>_. 5000) (\<lambda>_. ''id'') = Some ()
   \<and> with_revocation_rejects_revoked_jti_and_accepts_live_jti (hmac_lib 5001) second_chrono (\<lambda>_. 5000) = Some ()
   \<and> redis_store_fails_closed_when_unreachable absent_redis 0 = Some ()"
proof -
  have "matrix_run second_chrono (\<lambda>_. 5000) 5001" by (simp add: matrix_run_def second_chrono_def)
  moreover have "client_open absent_redis ''redis://127.0.0.1:1/'' = Ok ()"
    "\<not> is_ok (fst (get_connection absent_redis () w))" for w
    by (simp_all add: absent_redis_def)
  ultimately show ?thesis
    using option_tests_pass [OF hmac_lib_documented, of second_chrono "\<lambda>_. 5000" 5001 absent_redis "()" "\<lambda>_. ''id''" 0]
    by simp
qed

end
