(* ===== verification/Jwks_Http_Tests.thy ===== *)
theory Jwks_Http_Tests
  imports Jwks_Tests Service_Tests
begin

section \<open>The integration tests of the JWKS cache (\<open>tests/jwks_hardening.rs\<close>, \<open>tests/config_matrix.rs\<close>)\<close>

text \<open>
  Tests against a server on the loopback interface that answers every request with one document and
  counts the requests. \<open>spawn\<close> starts a server for a document and gives its URL and its counter,
  which is read from the world; \<open>\<tau>\<close> are the readings of the monotonic clock. The test with
  concurrent tasks is a theorem about all their interleavings, in \<open>Jwks_Herd\<close>.
\<close>

record 'w spy_server =
  spy_url :: string
  spy_count :: "'w \<Rightarrow> nat"

definition HS256_DOCUMENT :: string where
  \<open>HS256_DOCUMENT = ''{"keys": [{"kty": "oct", "k": "YWE", "kid": "k1", "alg": "HS256"}]}''\<close>

definition RS256_DOCUMENT :: string where
  \<open>RS256_DOCUMENT = ''{"keys": [{"kty": "oct", "k": "YWE", "kid": "k1", "alg": "RS256"}]}''\<close>

definition NO_ALG_DOCUMENT :: string where
  \<open>NO_ALG_DOCUMENT = ''{"keys": [{"kty": "oct", "k": "YWE", "kid": "k1"}]}''\<close>

definition JWKS_BODY :: string where
  \<open>JWKS_BODY = ''{"keys":[{"kty":"oct","k":"c2VjcmV0","kid":"k1","alg":"HS256"}]}''\<close>

text \<open>The requests a server has got since it was started in the world \<open>w0\<close>.\<close>

definition hits :: "'w spy_server \<Rightarrow> 'w \<Rightarrow> 'w \<Rightarrow> nat" where
  "hits server w0 w = spy_count server w - spy_count server w0"

definition http_token ::
    "('ek, 'dk, json) jwt_lib \<Rightarrow> string \<Rightarrow> string \<Rightarrow> u64 \<Rightarrow> string option \<Rightarrow> string option" where
  "http_token L key subject e kid =
     (let header = (header_new L LibHS256)\<lparr>h_kid := kid\<rparr>
      in unwrap (lib_encode L header (JObj [(''sub'', JStr subject), (''exp'', JInt (uint e))])
           (ek_from_secret L (as_bytes key))))"

definition hs256_token :: "('ek, 'dk, json) jwt_lib \<Rightarrow> string option \<Rightarrow> string option" where
  "hs256_token L kid = http_token L ''aa'' ''user-1'' 4102444800 kid"

subsection \<open>\<open>tests/jwks_hardening.rs\<close>\<close>

definition min_refresh_interval_skips_refetch ::
    "('cl, 'resp, 'ka, 'p, 'dk, 'w) jwks_lib \<Rightarrow> (string \<Rightarrow> 'w spy_server) \<Rightarrow> (nat \<Rightarrow> instant) \<Rightarrow> 'w \<Rightarrow> unit option" where
  "min_refresh_interval_skips_refetch J spawn \<tau> w =
     do {
       let (server, w0) = (spawn HS256_DOCUMENT, w);
       let cache = with_ttl 0 (jwks_new J (spy_url server));
       let (r, cache, w) = jwks_decoding_key J (\<tau> 0) (\<tau> 1) (\<tau> 2) (Some ''k1'') cache w;
       _ \<leftarrow> unwrap r;
       check (hits server w0 w = 1);
       let (r, cache, w) = jwks_decoding_key J (\<tau> 3) (\<tau> 4) (\<tau> 5) (Some ''k1'') cache w;
       _ \<leftarrow> unwrap r;
       check (hits server w0 w = 1)
     }"

definition zero_min_refresh_interval_allows_immediate_refetch ::
    "('cl, 'resp, 'ka, 'p, 'dk, 'w) jwks_lib \<Rightarrow> (string \<Rightarrow> 'w spy_server) \<Rightarrow> (nat \<Rightarrow> instant) \<Rightarrow> 'w \<Rightarrow> unit option" where
  "zero_min_refresh_interval_allows_immediate_refetch J spawn \<tau> w =
     do {
       let (server, w0) = (spawn HS256_DOCUMENT, w);
       let cache = with_min_refresh_interval 0 (with_ttl 0 (jwks_new J (spy_url server)));
       let (r, cache, w) = jwks_decoding_key J (\<tau> 0) (\<tau> 1) (\<tau> 2) (Some ''k1'') cache w;
       _ \<leftarrow> unwrap r;
       let (r, cache, w) = jwks_decoding_key J (\<tau> 3) (\<tau> 4) (\<tau> 5) (Some ''k1'') cache w;
       _ \<leftarrow> unwrap r;
       check (hits server w0 w = 2)
     }"

definition static_keys_roundtrip_without_network ::
    "('cl, 'resp, 'ka, 'p, 'dk, 'w) jwks_lib \<Rightarrow> ('ek, 'dk, json) jwt_lib \<Rightarrow> (nat \<Rightarrow> instant) \<Rightarrow> 'w \<Rightarrow> unit option" where
  "static_keys_roundtrip_without_network J L \<tau> w =
     do {
       let keys = AList.update ''static-kid'' (dk_from_secret L (as_bytes ''static-jwks-secret'')) [];
       let cache = from_static_keys J (\<tau> 0) keys;
       token \<leftarrow> token_with_kid L ''static-kid'' ''static-user'' (as_bytes ''static-jwks-secret'');
       let (r, cache, w) = jwks_decode J L (\<tau> 1) (\<tau> 2) (\<tau> 3) token (lax_validation L) cache w;
       claims \<leftarrow> unwrap r;
       check (value_index claims ''sub'' = JStr ''static-user'')
     }"

definition jwk_alg_pinned_rejects_mismatched_token_alg ::
    "('cl, 'resp, 'ka, 'p, 'dk, 'w) jwks_lib \<Rightarrow> ('ek, 'dk, json) jwt_lib \<Rightarrow> (string \<Rightarrow> 'w spy_server)
      \<Rightarrow> (nat \<Rightarrow> instant) \<Rightarrow> 'w \<Rightarrow> unit option" where
  "jwk_alg_pinned_rejects_mismatched_token_alg J L spawn \<tau> w =
     do {
       let cache = jwks_new J (spy_url (spawn RS256_DOCUMENT));
       token \<leftarrow> hs256_token L (Some ''k1'');
       let (r, cache, w) = jwks_decode J L (\<tau> 0) (\<tau> 1) (\<tau> 2) token (lax_validation L) cache w;
       err \<leftarrow> unwrap_err r;
       check (err = AlgorithmMismatch ''HS256'' ''RS256'')
     }"

definition jwk_alg_match_accepted ::
    "('cl, 'resp, 'ka, 'p, 'dk, 'w) jwks_lib \<Rightarrow> ('ek, 'dk, json) jwt_lib \<Rightarrow> (string \<Rightarrow> 'w spy_server)
      \<Rightarrow> (nat \<Rightarrow> instant) \<Rightarrow> 'w \<Rightarrow> unit option" where
  "jwk_alg_match_accepted J L spawn \<tau> w =
     do {
       let cache = jwks_new J (spy_url (spawn HS256_DOCUMENT));
       token \<leftarrow> hs256_token L (Some ''k1'');
       let (r, cache, w) = jwks_decode J L (\<tau> 0) (\<tau> 1) (\<tau> 2) token (lax_validation L) cache w;
       claims \<leftarrow> unwrap r;
       check (value_index claims ''sub'' = JStr ''user-1'')
     }"

definition jwk_without_alg_requires_validation_algorithm ::
    "('cl, 'resp, 'ka, 'p, 'dk, 'w) jwks_lib \<Rightarrow> ('ek, 'dk, json) jwt_lib \<Rightarrow> (string \<Rightarrow> 'w spy_server)
      \<Rightarrow> (nat \<Rightarrow> instant) \<Rightarrow> 'w \<Rightarrow> unit option" where
  "jwk_without_alg_requires_validation_algorithm J L spawn \<tau> w =
     do {
       let cache = jwks_new J (spy_url (spawn NO_ALG_DOCUMENT));
       token \<leftarrow> hs256_token L (Some ''k1'');
       let es384_validation = (validation_new L LibES384)\<lparr>v_required_spec_claims := {}\<rparr>;
       let (r, cache, w) = jwks_decode J L (\<tau> 0) (\<tau> 1) (\<tau> 2) token es384_validation cache w;
       check (\<not> is_ok r);
       let (r, cache, w) = jwks_decode J L (\<tau> 3) (\<tau> 4) (\<tau> 5) token (lax_validation L) cache w;
       claims \<leftarrow> unwrap r;
       check (value_index claims ''sub'' = JStr ''user-1'')
     }"

subsection \<open>\<open>tests/config_matrix.rs\<close>\<close>

text \<open>
  The client of the first test sends a header with every request; \<open>last_request\<close> is the request that
  the server saw last. \<open>utc\<close> is the time in seconds when the tokens are made.
\<close>

definition matrix_token :: "('ek, 'dk, json) jwt_lib \<Rightarrow> nat \<Rightarrow> string option" where
  "matrix_token L utc = http_token L ''secret'' ''u1'' (word_of_nat utc + 3600) (Some ''k1'')"

definition with_client_routes_fetches_through_provided_client ::
    "('cl, 'resp, 'ka, 'p, 'dk, 'w) jwks_lib \<Rightarrow> ('ek, 'dk, json) jwt_lib \<Rightarrow> (string \<Rightarrow> 'w spy_server)
      \<Rightarrow> ('w \<Rightarrow> string) \<Rightarrow> 'cl \<Rightarrow> nat \<Rightarrow> (nat \<Rightarrow> instant) \<Rightarrow> 'w \<Rightarrow> unit option" where
  "with_client_routes_fetches_through_provided_client J L spawn last_request client utc \<tau> w =
     do {
       let (mock, w0) = (spawn JWKS_BODY, w);
       let cache = with_min_refresh_interval 0 (with_client client (jwks_new J (spy_url mock)));
       token \<leftarrow> matrix_token L utc;
       let (r, cache, w) = jwks_decode J L (\<tau> 0) (\<tau> 1) (\<tau> 2) token (lax_validation L) cache w;
       claims \<leftarrow> unwrap r;
       check (value_index claims ''sub'' = JStr ''u1'');
       check (1 \<le> hits mock w0 w);
       check (contains (last_request w) ''x-probe: config-matrix'')
     }"

definition min_refresh_interval_skips_on_miss_refreshes_within_window ::
    "('cl, 'resp, 'ka, 'p, 'dk, 'w) jwks_lib \<Rightarrow> ('ek, 'dk, json) jwt_lib \<Rightarrow> (string \<Rightarrow> 'w spy_server)
      \<Rightarrow> nat \<Rightarrow> (nat \<Rightarrow> instant) \<Rightarrow> 'w \<Rightarrow> unit option" where
  "min_refresh_interval_skips_on_miss_refreshes_within_window J L spawn utc \<tau> w =
     do {
       let (mock, w0) = (spawn JWKS_BODY, w);
       let cache = jwks_new J (spy_url mock);
       token \<leftarrow> matrix_token L utc;
       let (r, cache, w) = jwks_decode J L (\<tau> 0) (\<tau> 1) (\<tau> 2) token (lax_validation L) cache w;
       claims \<leftarrow> unwrap r;
       check (value_index claims ''sub'' = JStr ''u1'');
       check (hits mock w0 w = 1);
       let (r, cache, w) = jwks_decoding_key J (\<tau> 3) (\<tau> 4) (\<tau> 5) (Some ''k2'') cache w;
       err \<leftarrow> unwrap_err r;
       check (is_jwks_error err);
       check (hits mock w0 w = 1);
       let (mock, w0) = (spawn JWKS_BODY, w);
       let cache = with_min_refresh_interval 0 (jwks_new J (spy_url mock));
       token \<leftarrow> matrix_token L utc;
       let (r, cache, w) = jwks_decode J L (\<tau> 6) (\<tau> 7) (\<tau> 8) token (lax_validation L) cache w;
       claims \<leftarrow> unwrap r;
       check (value_index claims ''sub'' = JStr ''u1'');
       let (r, cache, w) = jwks_decoding_key J (\<tau> 9) (\<tau> 10) (\<tau> 11) (Some ''k2'') cache w;
       err \<leftarrow> unwrap_err r;
       check (is_jwks_error err);
       check (hits mock w0 w = 2)
     }"

definition zero_ttl_refetches_even_cached_kids ::
    "('cl, 'resp, 'ka, 'p, 'dk, 'w) jwks_lib \<Rightarrow> ('ek, 'dk, json) jwt_lib \<Rightarrow> (string \<Rightarrow> 'w spy_server)
      \<Rightarrow> nat \<Rightarrow> (nat \<Rightarrow> instant) \<Rightarrow> 'w \<Rightarrow> unit option" where
  "zero_ttl_refetches_even_cached_kids J L spawn utc \<tau> w =
     do {
       let (mock, w0) = (spawn JWKS_BODY, w);
       let cache = with_min_refresh_interval 0 (with_ttl 0 (jwks_new J (spy_url mock)));
       token \<leftarrow> matrix_token L utc;
       let (r, cache, w) = jwks_decode J L (\<tau> 0) (\<tau> 1) (\<tau> 2) token (lax_validation L) cache w;
       claims \<leftarrow> unwrap r;
       check (value_index claims ''sub'' = JStr ''u1'');
       token \<leftarrow> matrix_token L utc;
       let (r, cache, w) = jwks_decode J L (\<tau> 3) (\<tau> 4) (\<tau> 5) token (lax_validation L) cache w;
       claims \<leftarrow> unwrap r;
       check (value_index claims ''sub'' = JStr ''u1'');
       check (hits mock w0 w = 2)
     }"

section \<open>Lemmas\<close>

text \<open>A server that answers every request with a key set, and counts it.\<close>

definition serves ::
    "('cl, 'resp, 'ka, 'p, 'dk, 'w) jwks_lib \<Rightarrow> 'w spy_server \<Rightarrow> ('ka, 'p) jwk list \<Rightarrow> bool" where
  "serves J server jwks \<longleftrightarrow>
     spy_url server \<noteq> []
   \<and> (\<forall>cl w. \<exists>resp r w1 w2. http_get J cl (spy_url server) w = (Ok resp, w1)
        \<and> error_for_status J resp = Ok r \<and> response_json J r w1 = (Ok jwks, w2)
        \<and> spy_count server w2 = Suc (spy_count server w))"

text \<open>The set has one key, with the id \<open>k1\<close>.\<close>

definition serves_key ::
    "('cl, 'resp, 'ka, 'p, 'dk, 'w) jwks_lib \<Rightarrow> ('ek, 'dk, json) jwt_lib \<Rightarrow> 'w spy_server \<Rightarrow> string \<Rightarrow> 'ka option \<Rightarrow> bool" where
  "serves_key J L server key alg \<longleftrightarrow>
     (\<exists>p. serves J server [\<lparr>jwk_key_id = Some ''k1'', jwk_key_algorithm = alg, jwk_params = p\<rparr>]
        \<and> from_jwk J \<lparr>jwk_key_id = Some ''k1'', jwk_key_algorithm = alg, jwk_params = p\<rparr>
            = Ok (dk_from_secret L (as_bytes key)))"

definition key_cached ::
    "('ek, 'dk, json) jwt_lib \<Rightarrow> string \<Rightarrow> 'ka option \<Rightarrow> instant \<Rightarrow> ('cl, 'dk, 'ka) jwks_cache
      \<Rightarrow> ('cl, 'dk, 'ka) jwks_cache" where
  "key_cached L key alg t self = self\<lparr>jc_state :=
     \<lparr>cs_keys = [(''k1'', \<lparr>ck_key = dk_from_secret L (as_bytes key), ck_alg = alg\<rparr>)], cs_fetched_at = Some t\<rparr>\<rparr>"

lemma key_cached_simps [simp]:
  "jc_url (key_cached L key alg t self) = jc_url self"
  "jc_ttl (key_cached L key alg t self) = jc_ttl self"
  "jc_min_refresh_interval (key_cached L key alg t self) = jc_min_refresh_interval self"
  "jc_static_keys (key_cached L key alg t self) = jc_static_keys self"
  "jc_client (key_cached L key alg t self) = jc_client self"
  "cs_fetched_at (jc_state (key_cached L key alg t self)) = Some t"
  "map_of (cs_keys (jc_state (key_cached L key alg t self))) want =
     (if want = ''k1'' then Some \<lparr>ck_key = dk_from_secret L (as_bytes key), ck_alg = alg\<rparr> else None)"
  by (simp_all add: key_cached_def)

lemma fetch_served:
  assumes "serves_key J L server key alg" "jc_url self = spy_url server"
  shows "\<exists>w'. fetch J self w = (Ok [(''k1'', \<lparr>ck_key = dk_from_secret L (as_bytes key), ck_alg = alg\<rparr>)], w')
    \<and> spy_count server w' = Suc (spy_count server w)"
proof -
  let ?jwk = "\<lambda>p. \<lparr>jwk_key_id = Some ''k1'', jwk_key_algorithm = alg, jwk_params = p\<rparr>"
  obtain p where p: "serves J server [?jwk p]" "from_jwk J (?jwk p) = Ok (dk_from_secret L (as_bytes key))"
    using assms(1) unfolding serves_key_def by blast
  then obtain resp r w1 w2 where "http_get J (jc_client self) (spy_url server) w = (Ok resp, w1)"
    "error_for_status J resp = Ok r" "response_json J r w1 = (Ok [?jwk p], w2)"
    "spy_count server w2 = Suc (spy_count server w)"
    unfolding serves_def by blast
  then show ?thesis by (simp add: fetch_def assms(2) build_key_map_def p(2))
qed

lemma lookup_served:
  assumes "serves_key J L server key alg" "jc_url self = spy_url server" "\<not> jc_static_keys self"
    and "\<not> is_fresh t1 (cs_fetched_at (jc_state self)) (jc_ttl self)
      \<or> map_of (cs_keys (jc_state self)) (unwrap_or [] kid) = None"
    and "\<not> is_fresh t2 (cs_fetched_at (jc_state self)) (jc_min_refresh_interval self)"
  shows "\<exists>w'. resolve_key J t1 t2 t3 kid self w =
      (if unwrap_or [] kid = ''k1'' then Ok \<lparr>ck_key = dk_from_secret L (as_bytes key), ck_alg = alg\<rparr>
       else Err (Jwks (''unknown key id `'' @ unwrap_or [] kid @ ''` after JWKS refresh'')),
       key_cached L key alg t3 self, w')
    \<and> spy_count server w' = Suc (spy_count server w)"
proof -
  obtain w' where "fetch J self w = (Ok [(''k1'', \<lparr>ck_key = dk_from_secret L (as_bytes key), ck_alg = alg\<rparr>)], w')"
    "spy_count server w' = Suc (spy_count server w)"
    using fetch_served [OF assms(1,2)] by blast
  moreover have "jc_url self \<noteq> []"
    using assms(1,2) by (auto simp: serves_key_def serves_def)
  ultimately show ?thesis
    using assms(3-5) by (simp add: resolve_key_miss key_cached_def)
qed

text \<open>Within the minimum interval nothing is fetched.\<close>

lemma lookup_waits:
  assumes "jc_url self \<noteq> []" "\<not> jc_static_keys self"
    and "\<not> is_fresh t1 (cs_fetched_at (jc_state self)) (jc_ttl self)
      \<or> map_of (cs_keys (jc_state self)) (unwrap_or [] kid) = None"
    and "is_fresh t2 (cs_fetched_at (jc_state self)) (jc_min_refresh_interval self)"
  shows "resolve_key J t1 t2 t3 kid self w =
    (ok_or (Jwks (''unknown key id `'' @ unwrap_or [] kid @ ''` after JWKS refresh''))
       (map_of (cs_keys (jc_state self)) (unwrap_or [] kid)), self, w)"
  using assms by (simp add: resolve_key_miss)

text \<open>The tokens.\<close>

lemma http_token_decodes:
  assumes "hmac_documented L now" "now \<le> unat e"
  shows "\<exists>tok. http_token L key subject e kid = Some tok
    \<and> lib_decode_header L tok = Ok \<lparr>h_alg = LibHS256, h_kid = kid\<rparr>
    \<and> lib_decode L tok (dk_from_secret L (as_bytes key)) (lax_validation L)
        = Ok (JObj [(''sub'', JStr subject), (''exp'', JInt (uint e))])
    \<and> \<not> is_ok (lib_decode L tok (dk_from_secret L (as_bytes key))
        ((validation_new L LibES384)\<lparr>v_required_spec_claims := {}\<rparr>))"
proof -
  let ?j = "JObj [(''sub'', JStr subject), (''exp'', JInt (uint e))]"
  let ?h = "\<lparr>h_alg = LibHS256, h_kid = kid\<rparr>"
  note doc = hmac_documentedD [OF assms(1)]
  note new = constructors_documentedD [OF doc(1)]
  have hdr: "(header_new L LibHS256)\<lparr>h_kid := kid\<rparr> = ?h"
    using new(1) [of LibHS256] by (cases "header_new L LibHS256") simp
  obtain tok where tok: "lib_encode L ?h ?j (ek_from_secret L (as_bytes key)) = Ok tok"
    using doc(2) [of ?h ?j "as_bytes key"] by auto
  have plain: "plain_payload ?j"
    by (simp add: plain_payload_def order_trans [OF _ uint_ge_0])
  have "surely_passes now (lax_validation L) (json_facts LibHS256 ?j)"
    using new(3-5) assms(2)
    by (simp add: surely_passes_def passes_def lax_validation_def json_facts_def json_members_def
        json_time_def json_texts_def Let_def trans_le_add1)
  then have "lib_decode L tok (dk_from_secret L (as_bytes key)) (lax_validation L) = Ok ?j"
    using doc(4) [OF tok plain] by simp
  moreover have "\<not> is_ok (lib_decode L tok (dk_from_secret L (as_bytes key))
      ((validation_new L LibES384)\<lparr>v_required_spec_claims := {}\<rparr>))"
    using doc(5) [OF tok plain] new(3) by (fastforce simp: is_ok_iff passes_def json_facts_def Let_def)
  moreover have "http_token L key subject e kid = Some tok" by (simp add: http_token_def hdr tok)
  ultimately show ?thesis using doc(3) [OF tok] by blast
qed

lemma decode_served:
  assumes "serves_key J L server key alg" "jc_url self = spy_url server" "\<not> jc_static_keys self"
    and "\<not> is_fresh t1 (cs_fetched_at (jc_state self)) (jc_ttl self)
      \<or> map_of (cs_keys (jc_state self)) ''k1'' = None"
    and "\<not> is_fresh t2 (cs_fetched_at (jc_state self)) (jc_min_refresh_interval self)"
    and "lib_decode_header L tok = Ok \<lparr>h_alg = LibHS256, h_kid = Some ''k1''\<rparr>"
  shows "\<exists>w'. jwks_decode J L t1 t2 t3 tok v self w =
      (verify_with J L \<lparr>h_alg = LibHS256, h_kid = Some ''k1''\<rparr>
         \<lparr>ck_key = dk_from_secret L (as_bytes key), ck_alg = alg\<rparr> tok v, key_cached L key alg t3 self, w')
    \<and> spy_count server w' = Suc (spy_count server w)"
proof -
  obtain w' where "resolve_key J t1 t2 t3 (Some ''k1'') self w =
      (Ok \<lparr>ck_key = dk_from_secret L (as_bytes key), ck_alg = alg\<rparr>, key_cached L key alg t3 self, w')"
    "spy_count server w' = Suc (spy_count server w)"
    using lookup_served [OF assms(1-3), of t1 "Some ''k1''" t2 t3 w] assms(4,5) by auto
  then show ?thesis using assms(6) by (simp add: jwks_decode_def)
qed

lemma verify_unpinned:
  "alg \<in> {None, Some (key_algorithm_from J (h_alg hdr))} \<Longrightarrow>
     verify_with J L hdr \<lparr>ck_key = k, ck_alg = alg\<rparr> tok v = map_err DecodingFailed (lib_decode L tok k v)"
  by (auto simp: verify_with_def)

lemma is_ok_map_err: "is_ok (map_err f r) \<longleftrightarrow> is_ok r"
  by (cases r) simp_all

text \<open>The servers of the tests, and the names of the two algorithms.\<close>

definition http_documented ::
    "('cl, 'resp, 'ka, 'p, 'dk, 'w) jwks_lib \<Rightarrow> ('ek, 'dk, json) jwt_lib \<Rightarrow> (string \<Rightarrow> 'w spy_server) \<Rightarrow> 'ka \<Rightarrow> bool" where
  "http_documented J L spawn rs256 \<longleftrightarrow>
     serves_key J L (spawn HS256_DOCUMENT) ''aa'' (Some (key_algorithm_from J LibHS256))
   \<and> serves_key J L (spawn RS256_DOCUMENT) ''aa'' (Some rs256)
   \<and> serves_key J L (spawn NO_ALG_DOCUMENT) ''aa'' None
   \<and> serves_key J L (spawn JWKS_BODY) ''secret'' (Some (key_algorithm_from J LibHS256))
   \<and> key_algorithm_from J LibHS256 \<noteq> rs256
   \<and> show_algorithm J LibHS256 = ''HS256'' \<and> show_key_algorithm J rs256 = ''RS256''"

text \<open>A test ends before the minimum interval is over.\<close>

definition quick :: "(nat \<Rightarrow> instant) \<Rightarrow> bool" where
  "quick \<tau> \<longleftrightarrow> (\<forall>m n. \<tau> n - \<tau> m < DEFAULT_MIN_REFRESH_INTERVAL)"

lemma new_cache_simps [simp]:
  "jc_min_refresh_interval (jwks_new J url) = DEFAULT_MIN_REFRESH_INTERVAL"
  "jc_url (with_client cl self) = jc_url self"
  "jc_static_keys (with_client cl self) = jc_static_keys self"
  "jc_state (with_client cl self) = jc_state self"
  "jc_client (with_ttl d self) = jc_client self"
  "jc_client (with_min_refresh_interval d self) = jc_client self"
  by (simp_all add: jwks_new_def with_client_def with_ttl_def with_min_refresh_interval_def)

lemma served_url: "serves_key J L server key alg \<Longrightarrow> spy_url server \<noteq> []"
  by (auto simp: serves_key_def serves_def)

lemma key_lookup_served:
  assumes "serves_key J L server key alg" "jc_url self = spy_url server" "\<not> jc_static_keys self"
    and "\<not> is_fresh t1 (cs_fetched_at (jc_state self)) (jc_ttl self)
      \<or> map_of (cs_keys (jc_state self)) kid = None"
    and "\<not> is_fresh t2 (cs_fetched_at (jc_state self)) (jc_min_refresh_interval self)"
  shows "\<exists>w'. jwks_decoding_key J t1 t2 t3 (Some kid) self w =
      (if kid = ''k1'' then Ok (dk_from_secret L (as_bytes key))
       else Err (Jwks (''unknown key id `'' @ kid @ ''` after JWKS refresh'')),
       key_cached L key alg t3 self, w')
    \<and> spy_count server w' = Suc (spy_count server w)"
  using lookup_served [OF assms(1-3), of t1 "Some kid" t2 t3 w] assms(4,5)
  by (auto simp: jwks_decoding_key_def)

lemma refetch_tests_pass:
  assumes "http_documented J L spawn rs256"
  shows "quick \<tau> \<Longrightarrow> min_refresh_interval_skips_refetch J spawn \<tau> w = Some ()"
    and "zero_min_refresh_interval_allows_immediate_refetch J spawn \<tau> w = Some ()"
proof -
  let ?server = "spawn HS256_DOCUMENT"
  note served = assms [unfolded http_documented_def, THEN conjunct1]
  let ?c = "with_ttl 0 (jwks_new J (spy_url ?server))"
  let ?z = "with_min_refresh_interval 0 ?c"
  let ?alg = "Some (key_algorithm_from J LibHS256)"
  note look = key_lookup_served [OF served, where kid = "''k1''"]
  obtain w1 where w1: "jwks_decoding_key J (\<tau> 0) (\<tau> 1) (\<tau> 2) (Some ''k1'') ?c w =
      (Ok (dk_from_secret L (as_bytes ''aa'')), key_cached L ''aa'' ?alg (\<tau> 2) ?c, w1)"
    "spy_count ?server w1 = Suc (spy_count ?server w)"
    using look [of ?c "\<tau> 0" "\<tau> 1" "\<tau> 2" w] by auto
  have 2: "jwks_decoding_key J (\<tau> 3) (\<tau> 4) (\<tau> 5) (Some ''k1'') (key_cached L ''aa'' ?alg (\<tau> 2) ?c) w1 =
      (Ok (dk_from_secret L (as_bytes ''aa'')), key_cached L ''aa'' ?alg (\<tau> 2) ?c, w1)" if "quick \<tau>"
    using that served_url [OF served] by (simp add: jwks_decoding_key_def lookup_waits quick_def)
  show "min_refresh_interval_skips_refetch J spawn \<tau> w = Some ()" if "quick \<tau>"
    by (simp add: min_refresh_interval_skips_refetch_def Let_def w1 2 [OF that] hits_def del: One_nat_def)
  obtain v1 where v1: "jwks_decoding_key J (\<tau> 0) (\<tau> 1) (\<tau> 2) (Some ''k1'') ?z w =
      (Ok (dk_from_secret L (as_bytes ''aa'')), key_cached L ''aa'' ?alg (\<tau> 2) ?z, v1)"
    "spy_count ?server v1 = Suc (spy_count ?server w)"
    using look [of ?z "\<tau> 0" "\<tau> 1" "\<tau> 2" w] by auto
  obtain v2 where v2: "jwks_decoding_key J (\<tau> 3) (\<tau> 4) (\<tau> 5) (Some ''k1'') (key_cached L ''aa'' ?alg (\<tau> 2) ?z) v1 =
      (Ok (dk_from_secret L (as_bytes ''aa'')), key_cached L ''aa'' ?alg (\<tau> 5) (key_cached L ''aa'' ?alg (\<tau> 2) ?z), v2)"
    "spy_count ?server v2 = Suc (spy_count ?server v1)"
    using look [of "key_cached L ''aa'' ?alg (\<tau> 2) ?z" "\<tau> 3" "\<tau> 4" "\<tau> 5" v1] by auto
  show "zero_min_refresh_interval_allows_immediate_refetch J spawn \<tau> w = Some ()"
    by (simp add: zero_min_refresh_interval_allows_immediate_refetch_def Let_def v1 v2 hits_def del: One_nat_def)
qed

lemma pinning_tests_pass:
  assumes "hmac_documented L now" "http_documented J L spawn rs256" "now \<le> 4102444800"
  shows "jwk_alg_pinned_rejects_mismatched_token_alg J L spawn \<tau> w = Some ()"
    and "jwk_alg_match_accepted J L spawn \<tau> w = Some ()"
    and "quick \<tau> \<Longrightarrow> jwk_without_alg_requires_validation_algorithm J L spawn \<tau> w = Some ()"
proof -
  let ?hs256 = "key_algorithm_from J LibHS256" and ?hdr = "\<lparr>h_alg = LibHS256, h_kid = Some ''k1''\<rparr>"
  have served: "serves_key J L (spawn HS256_DOCUMENT) ''aa'' (Some ?hs256)"
    "serves_key J L (spawn RS256_DOCUMENT) ''aa'' (Some rs256)" "serves_key J L (spawn NO_ALG_DOCUMENT) ''aa'' None"
    and names: "?hs256 \<noteq> rs256" "show_algorithm J LibHS256 = ''HS256''" "show_key_algorithm J rs256 = ''RS256''"
    using assms(2) by (simp_all add: http_documented_def)
  have "now \<le> unat (4102444800 :: u64)" using assms(3) by simp
  from http_token_decodes [OF assms(1) this, of "''aa''" "''user-1''" "Some ''k1''"]
  obtain tok j where tok: "hs256_token L (Some ''k1'') = Some tok" "lib_decode_header L tok = Ok ?hdr"
    "lib_decode L tok (dk_from_secret L (as_bytes ''aa'')) (lax_validation L) = Ok j"
    "value_index j ''sub'' = JStr ''user-1''"
    "\<not> is_ok (lib_decode L tok (dk_from_secret L (as_bytes ''aa''))
        ((validation_new L LibES384)\<lparr>v_required_spec_claims := {}\<rparr>))"
    by (auto simp: hs256_token_def value_index_def)
  let ?new = "\<lambda>doc. jwks_new J (spy_url (spawn doc))"
  have first: "\<exists>w'. jwks_decode J L (\<tau> 0) (\<tau> 1) (\<tau> 2) tok v (?new doc) w =
      (verify_with J L ?hdr \<lparr>ck_key = dk_from_secret L (as_bytes ''aa''), ck_alg = alg\<rparr> tok v,
       key_cached L ''aa'' alg (\<tau> 2) (?new doc), w')"
    if "serves_key J L (spawn doc) ''aa'' alg" for doc alg v
    using decode_served [OF that _ _ _ _ tok(2), of "?new doc" "\<tau> 0" "\<tau> 1" "\<tau> 2" v w] by auto
  show "jwk_alg_pinned_rejects_mismatched_token_alg J L spawn \<tau> w = Some ()"
    using first [OF served(2), of "lax_validation L"] names
    by (auto simp: jwk_alg_pinned_rejects_mismatched_token_alg_def tok(1) verify_with_def Let_def)
  show "jwk_alg_match_accepted J L spawn \<tau> w = Some ()"
    using first [OF served(1), of "lax_validation L"]
    by (auto simp: jwk_alg_match_accepted_def tok verify_unpinned Let_def)
  obtain w1 where w1: "jwks_decode J L (\<tau> 0) (\<tau> 1) (\<tau> 2) tok ((validation_new L LibES384)\<lparr>v_required_spec_claims := {}\<rparr>)
      (?new NO_ALG_DOCUMENT) w = (map_err DecodingFailed (lib_decode L tok (dk_from_secret L (as_bytes ''aa''))
        ((validation_new L LibES384)\<lparr>v_required_spec_claims := {}\<rparr>)), key_cached L ''aa'' None (\<tau> 2) (?new NO_ALG_DOCUMENT), w1)"
    using first [OF served(3)] by (auto simp: verify_unpinned)
  let ?cache = "key_cached L ''aa'' None (\<tau> 2) (?new NO_ALG_DOCUMENT)"
  have hit: "jwks_decode J L (\<tau> 3) (\<tau> 4) (\<tau> 5) tok (lax_validation L) ?cache w1 = (Ok j, ?cache, w1)" if "quick \<tau>"
  proof (rule decode_hit [OF tok(2) _ _ tok(3)])
    have "\<tau> 3 - \<tau> 2 < DEFAULT_MIN_REFRESH_INTERVAL" using that by (simp add: quick_def)
    also have "\<dots> < DEFAULT_TTL" by (simp add: DEFAULT_MIN_REFRESH_INTERVAL_def DEFAULT_TTL_def from_secs_def)
    finally show "is_fresh (\<tau> 3) (cs_fetched_at (jc_state ?cache)) (jc_ttl ?cache)" by simp
  qed simp
  show "jwk_without_alg_requires_validation_algorithm J L spawn \<tau> w = Some ()" if "quick \<tau>"
    using tok(4,5)
    by (simp add: jwk_without_alg_requires_validation_algorithm_def tok(1) w1 hit [OF that] is_ok_map_err
        Let_def del: One_nat_def)
qed

lemma static_keys_test_passes:
  assumes "hmac_documented L now" "\<tau> 1 - \<tau> 0 < DEFAULT_TTL"
  shows "static_keys_roundtrip_without_network J L \<tau> w = Some ()"
proof -
  let ?key = "as_bytes ''static-jwks-secret''"
  let ?cache = "from_static_keys J (\<tau> 0) [(''static-kid'', dk_from_secret L ?key)]"
  let ?hdr = "\<lparr>h_alg = LibHS256, h_kid = Some ''static-kid''\<rparr>"
  obtain tok where tok: "token_with_kid L ''static-kid'' ''static-user'' ?key = Some tok"
    "lib_decode_header L tok = Ok ?hdr"
    "lib_decode L tok (dk_from_secret L ?key) (lax_validation L) = Ok (JObj [(''sub'', JStr ''static-user'')])"
    using token_with_kid_decodes [OF assms(1)] .
  have fresh: "is_fresh (\<tau> 1) (cs_fetched_at (jc_state ?cache)) (jc_ttl ?cache)"
    and found: "map_of (cs_keys (jc_state ?cache)) (unwrap_or [] (h_kid ?hdr)) =
      Some \<lparr>ck_key = dk_from_secret L ?key, ck_alg = None\<rparr>"
    using assms(2) by (simp_all add: from_static_keys_def)
  from tok(1) decode_hit [OF tok(2) fresh found tok(3), of J]
  show ?thesis by (simp add: static_keys_roundtrip_without_network_def value_index_def)
qed

text \<open>
  A client sends the header of the test with every request that it makes of a server, and the server
  sees it.
\<close>

definition probes ::
    "('cl, 'resp, 'ka, 'p, 'dk, 'w) jwks_lib \<Rightarrow> 'cl \<Rightarrow> string \<Rightarrow> ('w \<Rightarrow> string) \<Rightarrow> bool" where
  "probes J client url last_request \<longleftrightarrow>
     (\<forall>w resp w1 r x w2. http_get J client url w = (Ok resp, w1) \<and> error_for_status J resp = Ok r
        \<and> response_json J r w1 = (Ok x, w2) \<longrightarrow> contains (last_request w2) ''x-probe: config-matrix'')"

lemma probed_fetch:
  assumes "probes J (jc_client self) (jc_url self) last_request" "fetch J self w = (Ok keys, w')"
  shows "contains (last_request w') ''x-probe: config-matrix''"
  using assms by (auto simp: probes_def fetch_def split: prod.splits sum.splits)

lemma matrix_token_decodes:
  assumes "hmac_documented L now" "test_clock utc now"
  shows "\<exists>tok j. matrix_token L utc = Some tok
    \<and> lib_decode_header L tok = Ok \<lparr>h_alg = LibHS256, h_kid = Some ''k1''\<rparr>
    \<and> lib_decode L tok (dk_from_secret L (as_bytes ''secret'')) (lax_validation L) = Ok j
    \<and> value_index j ''sub'' = JStr ''u1''"
proof -
  have "unat (word_of_nat utc + 3600 :: u64) = utc + 3600"
    using assms(2) by (simp add: test_clock_def unat_word_ariths unsigned_of_nat take_bit_eq_mod)
  then have "now \<le> unat (word_of_nat utc + 3600 :: u64)" using assms(2) by (simp add: test_clock_def)
  from http_token_decodes [OF assms(1) this, of "''secret''" "''u1''" "Some ''k1''"]
  show ?thesis by (auto simp: matrix_token_def value_index_def)
qed

text \<open>A first decode by a cache of the matrix tests fetches, verifies, and leaves the key cached.\<close>

lemma matrix_decode:
  fixes J :: "('cl, 'resp, 'ka, 'p, 'dk, 'w) jwks_lib"
  assumes "hmac_documented L now" "test_clock utc now" "http_documented J L spawn rs256"
  obtains tok j where "matrix_token L utc = Some tok" "value_index j ''sub'' = JStr ''u1''"
    and "\<And>self t1 t2 t3 w. jc_url self = spy_url (spawn JWKS_BODY) \<Longrightarrow> \<not> jc_static_keys self \<Longrightarrow>
      \<not> is_fresh t1 (cs_fetched_at (jc_state self)) (jc_ttl self)
        \<or> map_of (cs_keys (jc_state self)) ''k1'' = None \<Longrightarrow>
      \<not> is_fresh t2 (cs_fetched_at (jc_state self)) (jc_min_refresh_interval self) \<Longrightarrow>
      \<exists>w'. jwks_decode J L t1 t2 t3 tok (lax_validation L) self w
        = (Ok j, key_cached L ''secret'' (Some (key_algorithm_from J LibHS256)) t3 self, w')
        \<and> spy_count (spawn JWKS_BODY) w' = Suc (spy_count (spawn JWKS_BODY) w)"
proof -
  have served: "serves_key J L (spawn JWKS_BODY) ''secret'' (Some (key_algorithm_from J LibHS256))"
    using assms(3) by (simp add: http_documented_def)
  obtain tok j where tok: "matrix_token L utc = Some tok"
    "lib_decode_header L tok = Ok \<lparr>h_alg = LibHS256, h_kid = Some ''k1''\<rparr>"
    "lib_decode L tok (dk_from_secret L (as_bytes ''secret'')) (lax_validation L) = Ok j"
    "value_index j ''sub'' = JStr ''u1''"
    using matrix_token_decodes [OF assms(1,2)] by blast
  show ?thesis
  proof (rule that [OF tok(1,4)])
    fix self :: "('cl, 'dk, 'ka) jwks_cache" and t1 t2 t3 w
    assume "jc_url self = spy_url (spawn JWKS_BODY)" "\<not> jc_static_keys self"
      "\<not> is_fresh t1 (cs_fetched_at (jc_state self)) (jc_ttl self)
        \<or> map_of (cs_keys (jc_state self)) ''k1'' = None"
      "\<not> is_fresh t2 (cs_fetched_at (jc_state self)) (jc_min_refresh_interval self)"
    from decode_served [OF served this tok(2), of t3 "lax_validation L" w]
    show "\<exists>w'. jwks_decode J L t1 t2 t3 tok (lax_validation L) self w
        = (Ok j, key_cached L ''secret'' (Some (key_algorithm_from J LibHS256)) t3 self, w')
        \<and> spy_count (spawn JWKS_BODY) w' = Suc (spy_count (spawn JWKS_BODY) w)"
      by (simp add: verify_unpinned tok(3))
  qed
qed

lemma zero_ttl_test_passes:
  assumes "hmac_documented L now" "test_clock utc now" "http_documented J L spawn rs256"
  shows "zero_ttl_refetches_even_cached_kids J L spawn utc \<tau> w = Some ()"
proof -
  let ?server = "spawn JWKS_BODY"
  let ?c = "with_min_refresh_interval 0 (with_ttl 0 (jwks_new J (spy_url ?server)))"
  let ?k = "key_cached L ''secret'' (Some (key_algorithm_from J LibHS256))"
  obtain tok j where tok: "matrix_token L utc = Some tok" "value_index j ''sub'' = JStr ''u1''"
    and fetches: "\<And>self t1 t2 t3 w. jc_url self = spy_url ?server \<Longrightarrow> \<not> jc_static_keys self \<Longrightarrow>
      \<not> is_fresh t1 (cs_fetched_at (jc_state self)) (jc_ttl self)
        \<or> map_of (cs_keys (jc_state self)) ''k1'' = None \<Longrightarrow>
      \<not> is_fresh t2 (cs_fetched_at (jc_state self)) (jc_min_refresh_interval self) \<Longrightarrow>
      \<exists>w'. jwks_decode J L t1 t2 t3 tok (lax_validation L) self w = (Ok j, ?k t3 self, w')
        \<and> spy_count ?server w' = Suc (spy_count ?server w)"
    by (rule matrix_decode [OF assms]) blast
  obtain w1 where w1: "jwks_decode J L (\<tau> 0) (\<tau> 1) (\<tau> 2) tok (lax_validation L) ?c w = (Ok j, ?k (\<tau> 2) ?c, w1)"
    "spy_count ?server w1 = Suc (spy_count ?server w)"
    using fetches [of ?c "\<tau> 0" "\<tau> 1" "\<tau> 2" w] by auto
  obtain w2 where w2: "jwks_decode J L (\<tau> 3) (\<tau> 4) (\<tau> 5) tok (lax_validation L) (?k (\<tau> 2) ?c) w1
      = (Ok j, ?k (\<tau> 5) (?k (\<tau> 2) ?c), w2)" "spy_count ?server w2 = Suc (spy_count ?server w1)"
    using fetches [of "?k (\<tau> 2) ?c" "\<tau> 3" "\<tau> 4" "\<tau> 5" w1] by auto
  show ?thesis
    by (simp add: zero_ttl_refetches_even_cached_kids_def Let_def tok w1 w2 hits_def del: One_nat_def)
qed

lemma min_interval_test_passes:
  assumes "hmac_documented L now" "test_clock utc now" "http_documented J L spawn rs256" "quick \<tau>"
  shows "min_refresh_interval_skips_on_miss_refreshes_within_window J L spawn utc \<tau> w = Some ()"
proof -
  let ?server = "spawn JWKS_BODY"
  let ?c = "jwks_new J (spy_url ?server)"
  let ?z = "with_min_refresh_interval 0 ?c"
  let ?k = "key_cached L ''secret'' (Some (key_algorithm_from J LibHS256))"
  let ?unknown = "Jwks (''unknown key id `'' @ ''k2'' @ ''` after JWKS refresh'')"
  have served: "serves_key J L ?server ''secret'' (Some (key_algorithm_from J LibHS256))"
    using assms(3) by (simp add: http_documented_def)
  obtain tok j where tok: "matrix_token L utc = Some tok" "value_index j ''sub'' = JStr ''u1''"
    and fetches: "\<And>self t1 t2 t3 w. jc_url self = spy_url ?server \<Longrightarrow> \<not> jc_static_keys self \<Longrightarrow>
      \<not> is_fresh t1 (cs_fetched_at (jc_state self)) (jc_ttl self)
        \<or> map_of (cs_keys (jc_state self)) ''k1'' = None \<Longrightarrow>
      \<not> is_fresh t2 (cs_fetched_at (jc_state self)) (jc_min_refresh_interval self) \<Longrightarrow>
      \<exists>w'. jwks_decode J L t1 t2 t3 tok (lax_validation L) self w = (Ok j, ?k t3 self, w')
        \<and> spy_count ?server w' = Suc (spy_count ?server w)"
    by (rule matrix_decode [OF assms(1-3)]) blast
  obtain w1 where w1: "jwks_decode J L (\<tau> 0) (\<tau> 1) (\<tau> 2) tok (lax_validation L) ?c w = (Ok j, ?k (\<tau> 2) ?c, w1)"
    "spy_count ?server w1 = Suc (spy_count ?server w)"
    using fetches [of ?c "\<tau> 0" "\<tau> 1" "\<tau> 2" w] by auto
  have miss: "jwks_decoding_key J (\<tau> 3) (\<tau> 4) (\<tau> 5) (Some ''k2'') (?k (\<tau> 2) ?c) w1 = (Err ?unknown, ?k (\<tau> 2) ?c, w1)"
    using assms(4) served_url [OF served] by (simp add: jwks_decoding_key_def lookup_waits quick_def)
  obtain w2 where w2: "jwks_decode J L (\<tau> 6) (\<tau> 7) (\<tau> 8) tok (lax_validation L) ?z w1 = (Ok j, ?k (\<tau> 8) ?z, w2)"
    "spy_count ?server w2 = Suc (spy_count ?server w1)"
    using fetches [of ?z "\<tau> 6" "\<tau> 7" "\<tau> 8" w1] by auto
  obtain w3 where w3: "jwks_decoding_key J (\<tau> 9) (\<tau> 10) (\<tau> 11) (Some ''k2'') (?k (\<tau> 8) ?z) w2
      = (Err ?unknown, ?k (\<tau> 11) (?k (\<tau> 8) ?z), w3)" "spy_count ?server w3 = Suc (spy_count ?server w2)"
    using key_lookup_served [OF served, of "?k (\<tau> 8) ?z" "\<tau> 9" "''k2''" "\<tau> 10" "\<tau> 11" w2] by auto
  show ?thesis
    by (simp add: min_refresh_interval_skips_on_miss_refreshes_within_window_def Let_def tok w1 miss w2 w3 hits_def
        del: One_nat_def)
qed

text \<open>The world that a decode leaves is the world of its request.\<close>

lemma client_test_passes:
  assumes "hmac_documented L now" "test_clock utc now" "http_documented J L spawn rs256"
    and "probes J client (spy_url (spawn JWKS_BODY)) last_request"
  shows "with_client_routes_fetches_through_provided_client J L spawn last_request client utc \<tau> w = Some ()"
proof -
  let ?server = "spawn JWKS_BODY"
  let ?c = "with_min_refresh_interval 0 (with_client client (jwks_new J (spy_url ?server)))"
  let ?k = "key_cached L ''secret'' (Some (key_algorithm_from J LibHS256))"
  obtain tok j where tok: "matrix_token L utc = Some tok" "value_index j ''sub'' = JStr ''u1''"
    "lib_decode_header L tok = Ok \<lparr>h_alg = LibHS256, h_kid = Some ''k1''\<rparr>"
    "lib_decode L tok (dk_from_secret L (as_bytes ''secret'')) (lax_validation L) = Ok j"
    using matrix_token_decodes [OF assms(1,2)] by blast
  have served: "serves_key J L ?server ''secret'' (Some (key_algorithm_from J LibHS256))"
    using assms(3) by (simp add: http_documented_def)
  obtain w1 where w1: "fetch J ?c w = (Ok [(''k1'', \<lparr>ck_key = dk_from_secret L (as_bytes ''secret''),
      ck_alg = Some (key_algorithm_from J LibHS256)\<rparr>)], w1)" "spy_count ?server w1 = Suc (spy_count ?server w)"
    using fetch_served [OF served, of ?c w] by auto
  have probed: "contains (last_request w1) ''x-probe: config-matrix''"
    using probed_fetch [OF _ w1(1), of last_request] assms(4) by (simp add: with_client_def with_min_refresh_interval_def)
  have "jwks_decode J L (\<tau> 0) (\<tau> 1) (\<tau> 2) tok (lax_validation L) ?c w = (Ok j, ?k (\<tau> 2) ?c, w1)"
    using served_url [OF served]
    by (simp add: jwks_decode_def tok(3,4) resolve_key_miss w1(1) key_cached_def verify_unpinned)
  then show ?thesis
    by (simp add: with_client_routes_fetches_through_provided_client_def Let_def tok(1,2) w1(2) hits_def probed
        del: One_nat_def)
qed

section \<open>The tests pass\<close>

text \<open>
  C39. The integration tests of the JWKS cache that run one task pass, against servers that answer
  every request with their document, in tests that are over within the minimum refresh interval
  (\<open>quick\<close>; ten seconds) and before the year 2100 that the tokens of \<open>jwks_hardening.rs\<close> name. Each counts
  requests exactly: one for a second lookup within the interval, two when the interval is zero, none
  for an unknown id within it. The two with an interval of zero pass however long they take.
\<close>

theorem jwks_integration_tests_pass:
  assumes "hmac_documented L now" "http_documented J L spawn rs256"
    and "test_clock utc now" "now \<le> 4102444800" "quick \<tau>"
    and "probes J client (spy_url (spawn JWKS_BODY)) last_request"
  shows "min_refresh_interval_skips_refetch J spawn \<tau> w = Some ()
    \<and> zero_min_refresh_interval_allows_immediate_refetch J spawn \<tau>' w = Some ()
    \<and> static_keys_roundtrip_without_network J L \<tau> w = Some ()
    \<and> jwk_alg_pinned_rejects_mismatched_token_alg J L spawn \<tau> w = Some ()
    \<and> jwk_alg_match_accepted J L spawn \<tau> w = Some ()
    \<and> jwk_without_alg_requires_validation_algorithm J L spawn \<tau> w = Some ()
    \<and> with_client_routes_fetches_through_provided_client J L spawn last_request client utc \<tau> w = Some ()
    \<and> min_refresh_interval_skips_on_miss_refreshes_within_window J L spawn utc \<tau> w = Some ()
    \<and> zero_ttl_refetches_even_cached_kids J L spawn utc \<tau>' w = Some ()"
proof -
  have "\<tau> 1 - \<tau> 0 < DEFAULT_MIN_REFRESH_INTERVAL" using assms(5) by (simp add: quick_def)
  also have "\<dots> < DEFAULT_TTL" by (simp add: DEFAULT_MIN_REFRESH_INTERVAL_def DEFAULT_TTL_def from_secs_def)
  finally have "\<tau> 1 - \<tau> 0 < DEFAULT_TTL" .
  then show ?thesis
    by (simp add: refetch_tests_pass [OF assms(2)] pinning_tests_pass [OF assms(1,2,4)] assms(5)
        static_keys_test_passes [OF assms(1)] client_test_passes [OF assms(1,3,2,6)]
        min_interval_test_passes [OF assms(1,3,2,5)] zero_ttl_test_passes [OF assms(1,3,2)])
qed

text \<open>
  Servers whose URL is their document, in a world that counts the requests and keeps the headers of
  the last one; a client is the headers that it sends.
\<close>

definition document_jwk :: "string \<Rightarrow> (string, bytes) jwk" where
  "document_jwk document =
     \<lparr>jwk_key_id = Some ''k1'',
      jwk_key_algorithm = (if document = NO_ALG_DOCUMENT then None
        else if document = RS256_DOCUMENT then Some ''RS256'' else Some ''HS256''),
      jwk_params = as_bytes (if document = JWKS_BODY then ''secret'' else ''aa'')\<rparr>"

definition loopback_lib :: "(string, string, string, bytes, bytes, nat \<times> string) jwks_lib" where
  "loopback_lib =
     \<lparr>client_new = [], http_get = (\<lambda>headers url (n, _). (Ok url, (Suc n, headers))),
      error_for_status = Ok, response_json = (\<lambda>document w. (Ok [document_jwk document], w)),
      from_jwk = (\<lambda>j. Ok (jwk_params j)),
      key_algorithm_from = (\<lambda>a. if a = LibHS256 then ''HS256'' else ''other''),
      show_algorithm = (\<lambda>a. if a = LibHS256 then ''HS256'' else ''other''), show_key_algorithm = (\<lambda>k. k)\<rparr>"

definition loopback_server :: "string \<Rightarrow> (nat \<times> string) spy_server" where
  "loopback_server document = \<lparr>spy_url = document, spy_count = fst\<rparr>"

lemma loopback_serves:
  assumes "document \<noteq> []" "jwk_params (document_jwk document) = as_bytes key"
  shows "serves_key loopback_lib (hmac_lib now) (loopback_server document) key
    (jwk_key_algorithm (document_jwk document))"
proof -
  have "serves loopback_lib (loopback_server document) [document_jwk document]"
    using assms(1) by (auto simp: serves_def loopback_lib_def loopback_server_def)
  moreover obtain alg where "jwk_key_algorithm (document_jwk document) = alg"
    "document_jwk document = \<lparr>jwk_key_id = Some ''k1'', jwk_key_algorithm = alg, jwk_params = as_bytes key\<rparr>"
    using assms(2) by (simp add: document_jwk_def)
  moreover have "from_jwk loopback_lib j = Ok (jwk_params j)" for j by (simp add: loopback_lib_def)
  ultimately show ?thesis
    unfolding serves_key_def by (auto simp: hmac_lib_def)
qed

lemma documents_differ:
  "JWKS_BODY \<noteq> NO_ALG_DOCUMENT" "JWKS_BODY \<noteq> RS256_DOCUMENT" "HS256_DOCUMENT \<noteq> JWKS_BODY"
  "HS256_DOCUMENT \<noteq> RS256_DOCUMENT" "HS256_DOCUMENT \<noteq> NO_ALG_DOCUMENT"
  "RS256_DOCUMENT \<noteq> NO_ALG_DOCUMENT" "RS256_DOCUMENT \<noteq> JWKS_BODY" "NO_ALG_DOCUMENT \<noteq> JWKS_BODY"
  "HS256_DOCUMENT \<noteq> []" "RS256_DOCUMENT \<noteq> []" "NO_ALG_DOCUMENT \<noteq> []" "JWKS_BODY \<noteq> []"
  by code_simp+

lemma loopback_ok:
  "http_documented loopback_lib (hmac_lib now) loopback_server ''RS256''"
  "probes loopback_lib ''x-probe: config-matrix'' (spy_url (loopback_server JWKS_BODY)) snd"
proof -
  have params: "jwk_params (document_jwk JWKS_BODY) = as_bytes ''secret''"
    "jwk_params (document_jwk HS256_DOCUMENT) = as_bytes ''aa''"
    "jwk_params (document_jwk RS256_DOCUMENT) = as_bytes ''aa''"
    "jwk_params (document_jwk NO_ALG_DOCUMENT) = as_bytes ''aa''"
    using documents_differ by (simp_all add: document_jwk_def)
  have algs: "jwk_key_algorithm (document_jwk JWKS_BODY) = Some ''HS256''"
    "jwk_key_algorithm (document_jwk HS256_DOCUMENT) = Some ''HS256''"
    "jwk_key_algorithm (document_jwk RS256_DOCUMENT) = Some ''RS256''"
    "jwk_key_algorithm (document_jwk NO_ALG_DOCUMENT) = None"
    using documents_differ by (simp_all add: document_jwk_def)
  have names: "key_algorithm_from loopback_lib LibHS256 = ''HS256''" "show_algorithm loopback_lib LibHS256 = ''HS256''"
    "show_key_algorithm loopback_lib ''RS256'' = ''RS256''"
    by (simp_all add: loopback_lib_def)
  show "http_documented loopback_lib (hmac_lib now) loopback_server ''RS256''"
    using loopback_serves [OF documents_differ(12) params(1), of now] loopback_serves [OF documents_differ(9) params(2), of now]
      loopback_serves [OF documents_differ(10) params(3), of now] loopback_serves [OF documents_differ(11) params(4), of now]
    by (simp add: http_documented_def algs names)
  have "contains ''x-probe: config-matrix'' ''x-probe: config-matrix''" by code_simp
  then show "probes loopback_lib ''x-probe: config-matrix'' (spy_url (loopback_server JWKS_BODY)) snd"
    by (auto simp: probes_def loopback_lib_def)
qed

theorem jwks_integration_tests_pass_witness:
  "min_refresh_interval_skips_refetch loopback_lib loopback_server (\<lambda>_. 0) (0, []) = Some ()
   \<and> jwk_alg_pinned_rejects_mismatched_token_alg loopback_lib (hmac_lib 5001) loopback_server (\<lambda>_. 0) (0, []) = Some ()
   \<and> with_client_routes_fetches_through_provided_client loopback_lib (hmac_lib 5001) loopback_server snd
       ''x-probe: config-matrix'' 5000 (\<lambda>_. 0) (0, []) = Some ()"
proof -
  have "test_clock 5000 5001" by (simp add: test_clock_def)
  moreover have "quick (\<lambda>_. 0)" by (simp add: quick_def DEFAULT_MIN_REFRESH_INTERVAL_def from_secs_def)
  ultimately show ?thesis
    using jwks_integration_tests_pass [OF hmac_lib_documented [of 5001] loopback_ok(1) _ _ _ loopback_ok(2),
        of 5000 "\<lambda>_. 0" "(0, [])" "\<lambda>_. 0"]
    by simp
qed

end
