(* ===== verification/Algorithm_Tests.thy ===== *)
theory Algorithm_Tests
  imports Service_Tests
begin

section \<open>The integration tests of the algorithms (\<open>tests/algorithms.rs\<close>, \<open>tests/mutant_kills.rs\<close>)\<close>

text \<open>
  A round trip for every algorithm with keys in every format that the configuration takes. What a
  PEM text means is the business of \<open>jsonwebtoken\<close>: the texts are a parameter, with the names of the
  source; what the library is relied on is that the two texts of a pair load as keys of which one
  verifies what the other signs. Keys in DER are written in hexadecimal and parsed by the test.
\<close>

subsection \<open>Key material\<close>

record key_pems =
  RSA_2048_PEM :: string
  EC_P256_PEM :: string
  EC_P384_PEM :: string
  ED25519_PEM :: string
  RSA_2048_PUBLIC_PEM :: string
  EC_P256_PUBLIC_PEM :: string
  EC_P384_PUBLIC_PEM :: string
  ED25519_PUBLIC_PEM :: string

definition ED25519_DER_HEX :: string where
  "ED25519_DER_HEX =
     ''302e020100300506032b657004220420e5c766afaf09c5216b08bafd10c34ad05f4f22f574000679215c139a36'' @
     ''6d0bb8''"

definition RSA_PUBLIC_PKCS1_DER_HEX :: string where
  "RSA_PUBLIC_PKCS1_DER_HEX =
     ''3082010a0282010100b8bae688a7577f1c85caebf95543448d0628bf2587e1cfbe505aa135e5dc568a7715f0cf'' @
     ''d3e237df79350d9f0a7b8ef026064074d302b42652952563bb5f9074a78802adba57448720471163f86601a872'' @
     ''3b879bdc64466267580eb36413fefeb0e58fbbbb65bfafff5a233226fe8cac32e2d6aeef1f60ffc69de411ed46'' @
     ''dc715f0215ee64fc58ea5bff24df368200e5e7bf0fb093a9d62b27af43d6375e0d705b26dd9fc712e28999cf64'' @
     ''eda0f10b99855128db238236e03c028939f05c79dc81227644d355dbfab37c38d03025b0642fbc698c15e49c9c'' @
     ''e9e637e71f721ad9b3ee935875ffb2120a84e213312dc99be071d19140485de7cf96393e4c2e3a250203010001''"

definition EC_P256_PUBLIC_SEC1_HEX :: string where
  "EC_P256_PUBLIC_SEC1_HEX =
     ''04cbe8b6f8d74518b5a038c0f9f9354f4134beab59ebc4be8752c82264b5acaa74eb9c48423c53e90418af59f6'' @
     ''7f0b4d8d2b819b94fb56db066560b6909f08de5e''"

definition ED25519_PUBLIC_RAW_HEX :: string where
  "ED25519_PUBLIC_RAW_HEX =
     ''53b903b2be69b88c8f3f4c1c9c9554fc75f95d66c5fb7db78375c08707fb39cf''"

text \<open>\<open>u8::from_str_radix\<close> in base 16 of two bytes, the first of which may be a sign.\<close>

definition hex_value :: "char \<Rightarrow> nat option" where
  "hex_value c =
     (let n = of_char c in
      if 48 \<le> n \<and> n \<le> 57 then Some (n - 48)
      else if 97 \<le> n \<and> n \<le> 102 then Some (n - 87)
      else if 65 \<le> n \<and> n \<le> 70 then Some (n - 55)
      else None)"

definition radix16 :: "char \<Rightarrow> char \<Rightarrow> nat option" where
  "radix16 c d =
     (if c = CHR ''+'' then hex_value d
      else do { m \<leftarrow> hex_value c; n \<leftarrow> hex_value d; Some (16 * m + n) })"

text \<open>An odd byte at the end is not read; what is no digit panics.\<close>

fun hex_to_bytes :: "string \<Rightarrow> bytes option" where
  "hex_to_bytes (c # d # hex) =
     do { n \<leftarrow> radix16 c d; rest \<leftarrow> hex_to_bytes hex; Some (word_of_nat n # rest) }"
| "hex_to_bytes _ = Some []"

subsection \<open>Configurations\<close>

definition with_issuer :: "jwt_config \<Rightarrow> jwt_config" where
  "with_issuer self = self\<lparr>issuer := Some ''issuer''\<rparr>"

definition issuer_claims :: "nat \<Rightarrow> numeric_claims" where
  "issuer_claims utc = \<lparr>nc_sub = Some ''user-1'', nc_exp = Some (word_of_nat utc + 3600),
     nc_iss = Some ''issuer'', nc_aud = None\<rparr>"

definition hmac_config :: "jwt_algorithm \<Rightarrow> jwt_config" where
  "hmac_config alg = default_config\<lparr>algorithm := alg, secret := ''symmetric-secret-for-roundtrip-tests'',
     issuer := Some ''issuer''\<rparr>"

definition rsa_pem_config :: "key_pems \<Rightarrow> jwt_algorithm \<Rightarrow> jwt_config" where
  "rsa_pem_config K alg = default_config\<lparr>algorithm := alg, secret := RSA_2048_PEM K,
     public_key := Some (RSA_2048_PUBLIC_PEM K), issuer := Some ''issuer''\<rparr>"

definition ec_config :: "jwt_algorithm \<Rightarrow> string \<Rightarrow> string \<Rightarrow> jwt_config" where
  "ec_config alg private_pem public_pem =
     with_issuer (with_public_key public_pem (from_ec_pem alg private_pem))"

subsection \<open>Tests\<close>

definition assert_roundtrip ::
    "('ek, 'dk, json) jwt_lib \<Rightarrow> jwt_config \<Rightarrow> jwt_algorithm \<Rightarrow> nat \<Rightarrow> unit option" where
  "assert_roundtrip L service intended_alg utc =
     do {
       let expected = issuer_claims utc;
       token \<leftarrow> unwrap (encode (numeric_lib L) service expected);
       hdr \<leftarrow> unwrap (lib_decode_header L token);
       check (h_alg hdr = to_lib_algorithm intended_alg);
       decoded \<leftarrow> unwrap (decode (numeric_lib L) service token);
       check (decoded = expected)
     }"

definition roundtrip_hs256 :: "('ek, 'dk, json) jwt_lib \<Rightarrow> nat \<Rightarrow> unit option" where
  "roundtrip_hs256 L utc = assert_roundtrip L (hmac_config HS256) HS256 utc"

definition roundtrip_hs384 :: "('ek, 'dk, json) jwt_lib \<Rightarrow> nat \<Rightarrow> unit option" where
  "roundtrip_hs384 L utc = assert_roundtrip L (hmac_config HS384) HS384 utc"

definition roundtrip_hs512 :: "('ek, 'dk, json) jwt_lib \<Rightarrow> nat \<Rightarrow> unit option" where
  "roundtrip_hs512 L utc = assert_roundtrip L (hmac_config HS512) HS512 utc"

definition roundtrip_rs256 :: "('ek, 'dk, json) jwt_lib \<Rightarrow> key_pems \<Rightarrow> nat \<Rightarrow> unit option" where
  "roundtrip_rs256 L K utc = assert_roundtrip L (rsa_pem_config K RS256) RS256 utc"

definition roundtrip_rs384 :: "('ek, 'dk, json) jwt_lib \<Rightarrow> key_pems \<Rightarrow> nat \<Rightarrow> unit option" where
  "roundtrip_rs384 L K utc = assert_roundtrip L (rsa_pem_config K RS384) RS384 utc"

definition roundtrip_rs512 :: "('ek, 'dk, json) jwt_lib \<Rightarrow> key_pems \<Rightarrow> nat \<Rightarrow> unit option" where
  "roundtrip_rs512 L K utc = assert_roundtrip L (rsa_pem_config K RS512) RS512 utc"

definition roundtrip_ps256 :: "('ek, 'dk, json) jwt_lib \<Rightarrow> key_pems \<Rightarrow> nat \<Rightarrow> unit option" where
  "roundtrip_ps256 L K utc = assert_roundtrip L (rsa_pem_config K PS256) PS256 utc"

definition roundtrip_ps384 :: "('ek, 'dk, json) jwt_lib \<Rightarrow> key_pems \<Rightarrow> nat \<Rightarrow> unit option" where
  "roundtrip_ps384 L K utc = assert_roundtrip L (rsa_pem_config K PS384) PS384 utc"

definition roundtrip_ps512 :: "('ek, 'dk, json) jwt_lib \<Rightarrow> key_pems \<Rightarrow> nat \<Rightarrow> unit option" where
  "roundtrip_ps512 L K utc = assert_roundtrip L (rsa_pem_config K PS512) PS512 utc"

definition roundtrip_es256 :: "('ek, 'dk, json) jwt_lib \<Rightarrow> key_pems \<Rightarrow> nat \<Rightarrow> unit option" where
  "roundtrip_es256 L K utc = assert_roundtrip L (ec_config ES256 (EC_P256_PEM K) (EC_P256_PUBLIC_PEM K)) ES256 utc"

definition roundtrip_es384 :: "('ek, 'dk, json) jwt_lib \<Rightarrow> key_pems \<Rightarrow> nat \<Rightarrow> unit option" where
  "roundtrip_es384 L K utc = assert_roundtrip L (ec_config ES384 (EC_P384_PEM K) (EC_P384_PUBLIC_PEM K)) ES384 utc"

definition roundtrip_eddsa_pem :: "('ek, 'dk, json) jwt_lib \<Rightarrow> key_pems \<Rightarrow> nat \<Rightarrow> unit option" where
  "roundtrip_eddsa_pem L K utc =
     assert_roundtrip L (with_issuer (with_public_key (ED25519_PUBLIC_PEM K) (from_ed_pem (ED25519_PEM K)))) EdDSA utc"

definition roundtrip_eddsa_der :: "('ek, 'dk, json) jwt_lib \<Rightarrow> nat \<Rightarrow> unit option" where
  "roundtrip_eddsa_der L utc =
     do {
       private_der \<leftarrow> hex_to_bytes ED25519_DER_HEX;
       public_der \<leftarrow> hex_to_bytes ED25519_PUBLIC_RAW_HEX;
       let config = with_issuer (with_der_public_key public_der (from_ed_der private_der));
       public_der \<leftarrow> hex_to_bytes ED25519_PUBLIC_RAW_HEX;
       check (der_public_key config = Some public_der);
       assert_roundtrip L config EdDSA utc
     }"

definition roundtrip_with_der_public_keys ::
    "('ek, 'dk, json) jwt_lib \<Rightarrow> key_pems \<Rightarrow> (nat \<Rightarrow> nat) \<Rightarrow> unit option" where
  "roundtrip_with_der_public_keys L K utc =
     do {
       public_der \<leftarrow> hex_to_bytes RSA_PUBLIC_PKCS1_DER_HEX;
       let rs256 = default_config\<lparr>algorithm := RS256, secret := RSA_2048_PEM K,
         der_public_key := Some public_der, issuer := Some ''issuer''\<rparr>;
       _ \<leftarrow> assert_roundtrip L rs256 RS256 (utc 0);
       public_der \<leftarrow> hex_to_bytes EC_P256_PUBLIC_SEC1_HEX;
       let es256 = with_issuer (with_der_public_key public_der (from_ec_pem ES256 (EC_P256_PEM K)));
       assert_roundtrip L es256 ES256 (utc 1)
     }"

definition cross_algorithm_within_ec_family_rejected ::
    "('ek, 'dk, json) jwt_lib \<Rightarrow> key_pems \<Rightarrow> nat \<Rightarrow> unit option" where
  "cross_algorithm_within_ec_family_rejected L K utc =
     do {
       token \<leftarrow> unwrap (encode (numeric_lib L) (ec_config ES384 (EC_P384_PEM K) (EC_P384_PUBLIC_PEM K)) (issuer_claims utc));
       check (\<not> is_ok (decode (numeric_lib L) (ec_config ES256 (EC_P256_PEM K) (EC_P256_PUBLIC_PEM K)) token))
     }"

definition bad_key_material_fails_cleanly :: "('ek, 'dk, json) jwt_lib \<Rightarrow> (nat \<Rightarrow> nat) \<Rightarrow> unit option" where
  "bad_key_material_fails_cleanly L utc =
     do {
       let config = default_config\<lparr>algorithm := ES256, secret := ''definitely-not-a-pem''\<rparr>;
       check (\<not> is_ok (encode (numeric_lib L) config (issuer_claims (utc 0))));
       let config = default_config\<lparr>algorithm := EdDSA, secret := ''definitely-not-a-pem''\<rparr>;
       check (\<not> is_ok (encode (numeric_lib L) config (issuer_claims (utc 1))));
       let config = default_config\<lparr>algorithm := RS256, secret := ''definitely-not-a-pem''\<rparr>;
       check (\<not> is_ok (decode (numeric_lib L) config ''h.p.s''))
     }"

subsection \<open>The claims of \<open>tests/mutant_kills.rs\<close>\<close>

text \<open>The members are written when they are \<open>None\<close>, and \<open>exp\<close> is signed.\<close>

record signed_claims =
  sc_sub :: "string option"
  sc_exp :: "i64 option"
  sc_iss :: "string option"
  sc_aud :: "string option"

definition serialize_signed :: "signed_claims \<Rightarrow> json" where
  "serialize_signed c =
     JObj [(''sub'', json_option JStr (sc_sub c)), (''exp'', json_option (\<lambda>n. JInt (sint n)) (sc_exp c)),
       (''iss'', json_option JStr (sc_iss c)), (''aud'', json_option JStr (sc_aud c))]"

fun de_i64 :: "json option \<Rightarrow> i64 option option" where
  "de_i64 None = Some None"
| "de_i64 (Some JNull) = Some None"
| "de_i64 (Some (JInt n)) = (if - (2 ^ 63) \<le> n \<and> n < 2 ^ 63 then Some (Some (word_of_int n)) else None)"
| "de_i64 (Some _) = None"

definition deserialize_signed :: "json \<Rightarrow> signed_claims option" where
  "deserialize_signed j =
     (case j of
        JObj es \<Rightarrow>
          if distinct (filter (\<lambda>k. k \<in> set numeric_fields) (map fst es)) then
            do {
              s \<leftarrow> de_string (map_of es ''sub'');
              e \<leftarrow> de_i64 (map_of es ''exp'');
              i \<leftarrow> de_string (map_of es ''iss'');
              a \<leftarrow> de_string (map_of es ''aud'');
              Some \<lparr>sc_sub = s, sc_exp = e, sc_iss = i, sc_aud = a\<rparr>
            }
          else None
      | _ \<Rightarrow> None)"

definition decode_roundtrip_proves_working_key :: "('ek, 'dk, json) jwt_lib \<Rightarrow> nat \<Rightarrow> unit option" where
  "decode_roundtrip_proves_working_key L utc =
     do {
       let service = default_config\<lparr>algorithm := HS256, secret := ''test-secret-key-for-mutant-killing'',
         issuer := Some ''test-issuer''\<rparr>;
       let claims = \<lparr>sc_sub = Some ''user-42'', sc_exp = Some (word_of_nat utc + 3600),
         sc_iss = Some ''test-issuer'', sc_aud = None\<rparr>;
       token \<leftarrow> unwrap (encode (typed serialize_signed deserialize_signed L) service claims);
       decoded \<leftarrow> unwrap (decode (typed serialize_signed deserialize_signed L) service token);
       check (sc_sub decoded = Some ''user-42'')
     }"

section \<open>Lemmas\<close>

text \<open>
  What a key signs with an algorithm, the library reads back under another: always when the payload is
  plain and the token surely passes the validation.
\<close>

definition signs_for ::
    "('ek, 'dk, json) jwt_lib \<Rightarrow> nat \<Rightarrow> lib_algorithm \<Rightarrow> 'ek \<Rightarrow> 'dk \<Rightarrow> bool" where
  "signs_for L now a ek dk \<longleftrightarrow>
     (\<forall>h j. h_alg h = a \<longrightarrow> (\<exists>tok. lib_encode L h j ek = Ok tok \<and> lib_decode_header L tok = Ok h
        \<and> (plain_payload j \<longrightarrow>
             (\<forall>v. surely_passes now v (json_facts a j) \<longrightarrow> lib_decode L tok dk v = Ok j))))"

text \<open>A token is only accepted when the validation lists the algorithm of its header.\<close>

definition header_checked :: "('ek, 'dk, json) jwt_lib \<Rightarrow> bool" where
  "header_checked L \<longleftrightarrow>
     (\<forall>tok dk v j. lib_decode L tok dk v = Ok j \<longrightarrow>
        (\<exists>h. lib_decode_header L tok = Ok h \<and> h_alg h \<in> set (v_algorithms v)))"

text \<open>Two PEM texts are the two keys of a pair.\<close>

definition pem_pair where
  "pem_pair L now load_private load_public private_pem public_pem algs \<longleftrightarrow>
     (\<exists>ek dk. load_private L (as_bytes private_pem) = Ok ek \<and> load_public L (as_bytes public_pem) = Ok dk
        \<and> (\<forall>a\<in>algs. signs_for L now a ek dk))"

definition rsa_algorithms :: "lib_algorithm set" where
  "rsa_algorithms = {LibRS256, LibRS384, LibRS512, LibPS256, LibPS384, LibPS512}"

definition key_material_documented :: "('ek, 'dk, json) jwt_lib \<Rightarrow> nat \<Rightarrow> key_pems \<Rightarrow> bool" where
  "key_material_documented L now K \<longleftrightarrow>
     pem_pair L now ek_from_rsa_pem dk_from_rsa_pem (RSA_2048_PEM K) (RSA_2048_PUBLIC_PEM K) rsa_algorithms
   \<and> pem_pair L now ek_from_ec_pem dk_from_ec_pem (EC_P256_PEM K) (EC_P256_PUBLIC_PEM K) {LibES256}
   \<and> pem_pair L now ek_from_ec_pem dk_from_ec_pem (EC_P384_PEM K) (EC_P384_PUBLIC_PEM K) {LibES384}
   \<and> pem_pair L now ek_from_ed_pem dk_from_ed_pem (ED25519_PEM K) (ED25519_PUBLIC_PEM K) {LibEdDSA}
   \<and> (\<exists>ek der. ek_from_rsa_pem L (as_bytes (RSA_2048_PEM K)) = Ok ek
        \<and> hex_to_bytes RSA_PUBLIC_PKCS1_DER_HEX = Some der \<and> signs_for L now LibRS256 ek (dk_from_rsa_der L der))
   \<and> (\<exists>ek der. ek_from_ec_pem L (as_bytes (EC_P256_PEM K)) = Ok ek
        \<and> hex_to_bytes EC_P256_PUBLIC_SEC1_HEX = Some der \<and> signs_for L now LibES256 ek (dk_from_ec_der L der))
   \<and> (\<exists>sk der. hex_to_bytes ED25519_DER_HEX = Some sk \<and> hex_to_bytes ED25519_PUBLIC_RAW_HEX = Some der
        \<and> signs_for L now LibEdDSA (ek_from_ed_der L sk) (dk_from_ed_der L der))"

text \<open>A PEM document has a line that opens it; the loaders of PEM refuse what has none.\<close>

definition pem_text :: "bytes \<Rightarrow> bool" where
  "pem_text b \<longleftrightarrow> sublist (as_bytes ''-----BEGIN '') b"

definition pem_documented :: "('ek, 'dk, json) jwt_lib \<Rightarrow> bool" where
  "pem_documented L \<longleftrightarrow>
     (\<forall>b. \<not> pem_text b \<longrightarrow>
        \<not> is_ok (ek_from_rsa_pem L b) \<and> \<not> is_ok (ek_from_ec_pem L b) \<and> \<not> is_ok (ek_from_ed_pem L b)
      \<and> \<not> is_ok (dk_from_rsa_pem L b) \<and> \<not> is_ok (dk_from_ec_pem L b) \<and> \<not> is_ok (dk_from_ed_pem L b))"

text \<open>The hexadecimal texts of the source are parsed.\<close>

lemma hex_texts_parse:
  "hex_to_bytes ED25519_DER_HEX \<noteq> None" "hex_to_bytes RSA_PUBLIC_PKCS1_DER_HEX \<noteq> None"
  "hex_to_bytes EC_P256_PUBLIC_SEC1_HEX \<noteq> None" "hex_to_bytes ED25519_PUBLIC_RAW_HEX \<noteq> None"
  by code_simp+

lemma header_for:
  "constructors_documented L \<Longrightarrow> (header_new L a)\<lparr>h_kid := None\<rparr> = \<lparr>h_alg = a, h_kid = None\<rparr>"
  using constructors_documentedD(1) [of L a] by (cases "header_new L a") simp

lemma typed_loaders:
  "ek_from_rsa_pem (typed ser de L) = ek_from_rsa_pem L" "ek_from_ec_der (typed ser de L) = ek_from_ec_der L"
  "ek_from_ec_pem (typed ser de L) = ek_from_ec_pem L" "ek_from_ed_der (typed ser de L) = ek_from_ed_der L"
  "ek_from_ed_pem (typed ser de L) = ek_from_ed_pem L" "dk_from_rsa_der (typed ser de L) = dk_from_rsa_der L"
  "dk_from_rsa_pem (typed ser de L) = dk_from_rsa_pem L" "dk_from_ec_der (typed ser de L) = dk_from_ec_der L"
  "dk_from_ec_pem (typed ser de L) = dk_from_ec_pem L" "dk_from_ed_der (typed ser de L) = dk_from_ed_der L"
  "dk_from_ed_pem (typed ser de L) = dk_from_ed_pem L"
  by (simp_all add: typed_def)

lemma typed_keys:
  "encoding_key_for (typed ser de L) = encoding_key_for L" "decoding_key_for (typed ser de L) = decoding_key_for L"
  by (simp_all only: fun_eq_iff encoding_key_for_family decoding_key_for_family typed_simps typed_loaders simp_thms)

lemma roundtrip_passes:
  assumes "constructors_documented L" "test_clock utc now"
    and "encoding_key L cfg = Ok ek" "decoding_key L cfg = Ok dk" "signs_for L now (to_lib_algorithm (algorithm cfg)) ek dk"
    and "rotation_keys cfg = []" "key_id cfg = None" "issuer cfg = Some ''issuer''" "required_claims cfg = [''exp'', ''iss'']"
    and "audience cfg = None" "audiences cfg = []" "leeway cfg = None" "\<not> validate_nbf cfg"
  shows "assert_roundtrip L cfg (algorithm cfg) utc = Some ()"
proof -
  let ?a = "to_lib_algorithm (algorithm cfg)" and ?j = "serialize_numeric (issuer_claims utc)"
  let ?h = "\<lparr>h_alg = ?a, h_kid = None\<rparr>"
  have "h_alg ?h = ?a" by simp
  then obtain tok where tok: "lib_encode L ?h ?j ek = Ok tok" "lib_decode_header L tok = Ok ?h"
    "\<And>v. surely_passes now v (json_facts ?a ?j) \<Longrightarrow> lib_decode L tok dk v = Ok ?j"
    using assms(5) numeric_plain unfolding signs_for_def by blast
  have "surely_meets_policy cfg now (json_facts ?a ?j)"
    using assms(2,8-13) unat_now_plus_secs(2) [OF assms(2)] by (simp add: policy_defs issuer_claims_def)
  then have "lib_decode L tok dk (build_validation L cfg) = Ok ?j"
    by (intro tok(3)) (simp add: surely_passes_build_validation [OF assms(1)])
  moreover have "decoding_keys (numeric_lib L) cfg = Ok [(None, dk)]"
    using assms(4,6,7) by (simp add: decoding_keys_def decoding_key_def typed_keys)
  moreover have "encode (numeric_lib L) cfg (issuer_claims utc) = Ok tok"
    using assms(3,7) by (simp add: encode_def encoding_key_def typed_keys header_for [OF assms(1)] tok(1))
  ultimately show ?thesis
    by (simp add: assert_roundtrip_def tok(2) decode_def decode_with_rotation_def typed_build_validation)
qed

text \<open>The configurations of the tests; only the key material and the algorithm differ.\<close>

definition issuer_config :: "jwt_config \<Rightarrow> bool" where
  "issuer_config cfg \<longleftrightarrow> rotation_keys cfg = [] \<and> key_id cfg = None \<and> issuer cfg = Some ''issuer''
     \<and> required_claims cfg = [''exp'', ''iss''] \<and> audience cfg = None \<and> audiences cfg = []
     \<and> leeway cfg = None \<and> \<not> validate_nbf cfg"

lemma issuer_roundtrip:
  assumes "constructors_documented L" "test_clock utc now" "issuer_config cfg" "algorithm cfg = alg"
    and "encoding_key L cfg = Ok ek" "decoding_key L cfg = Ok dk" "signs_for L now (to_lib_algorithm alg) ek dk"
  shows "assert_roundtrip L cfg alg utc = Some ()"
  using roundtrip_passes [OF assms(1,2,5,6)] assms(3,4,7) by (simp add: issuer_config_def)

lemma issuer_configs:
  "issuer_config (hmac_config alg)" "issuer_config (rsa_pem_config K alg)" "issuer_config (ec_config alg private_pem public_pem)"
  "issuer_config (with_issuer (from_ed_pem pem))" "issuer_config (with_issuer (from_ed_der der))"
  "issuer_config (with_issuer (with_public_key public cfg)) = issuer_config (with_issuer cfg)"
  "issuer_config (with_issuer (with_der_public_key der cfg)) = issuer_config (with_issuer cfg)"
  "issuer_config (with_issuer (from_ec_pem alg pem))"
  "issuer_config (default_config\<lparr>algorithm := alg, secret := s, der_public_key := d, issuer := Some ''issuer''\<rparr>)"
  by (simp_all add: issuer_config_def hmac_config_def rsa_pem_config_def ec_config_def with_issuer_def from_ed_pem_def
      from_ed_der_def from_ec_pem_def with_public_key_def with_der_public_key_def default_config_def
      default_required_claims_def DEFAULT_REQUIRED_CLAIMS_def)

lemmas key_configs = hmac_config_def rsa_pem_config_def ec_config_def with_issuer_def from_ed_pem_def from_ed_der_def
  from_ec_pem_def with_public_key_def with_der_public_key_def

lemma config_algorithms:
  "algorithm (hmac_config alg) = alg" "algorithm (rsa_pem_config K alg) = alg"
  "algorithm (ec_config alg private_pem public_pem) = alg"
  by (simp_all add: key_configs)

lemma hmac_signs:
  assumes "hmac_documented L now" "family alg = Hmac"
  shows "signs_for L now (to_lib_algorithm alg) (ek_from_secret L b) (dk_from_secret L b)"
  unfolding signs_for_def
proof (intro allI impI)
  fix h :: header and j
  assume h: "h_alg h = to_lib_algorithm alg"
  then obtain tok where tok: "lib_encode L h j (ek_from_secret L b) = Ok tok"
    using hmac_documentedD(2) [OF assms(1)] hmac_lib_algorithm [OF assms(2)] by metis
  show "\<exists>tok. lib_encode L h j (ek_from_secret L b) = Ok tok \<and> lib_decode_header L tok = Ok h
      \<and> (plain_payload j \<longrightarrow> (\<forall>v. surely_passes now v (json_facts (to_lib_algorithm alg) j) \<longrightarrow>
          lib_decode L tok (dk_from_secret L b) v = Ok j))"
    using tok hmac_documentedD(3,4) [OF assms(1) tok] h by auto
qed

lemma hmac_roundtrip:
  assumes "hmac_documented L now" "test_clock utc now" "family alg = Hmac"
  shows "assert_roundtrip L (hmac_config alg) alg utc = Some ()"
  by (rule issuer_roundtrip [OF hmac_documentedD(1) [OF assms(1)] assms(2) issuer_configs(1) config_algorithms(1)
        _ _ hmac_signs [OF assms(1,3)]])
    (simp_all add: encoding_key_def decoding_key_def encoding_key_for_family decoding_key_for_family
      config_algorithms assms(3))

text \<open>A configuration whose two PEM texts are a pair.\<close>

lemma rsa_roundtrip:
  assumes "constructors_documented L" "test_clock utc now" "key_material_documented L now K" "family alg = Rsa"
  shows "assert_roundtrip L (rsa_pem_config K alg) alg utc = Some ()"
proof -
  have "to_lib_algorithm alg \<in> rsa_algorithms" using assms(4) by (cases alg) (simp_all add: rsa_algorithms_def)
  then obtain ek dk where keys: "ek_from_rsa_pem L (as_bytes (RSA_2048_PEM K)) = Ok ek"
    "dk_from_rsa_pem L (as_bytes (RSA_2048_PUBLIC_PEM K)) = Ok dk" "signs_for L now (to_lib_algorithm alg) ek dk"
    using assms(3) unfolding key_material_documented_def pem_pair_def by blast
  show ?thesis
    by (rule issuer_roundtrip [OF assms(1,2) issuer_configs(2) config_algorithms(2) _ _ keys(3)])
      (simp_all add: encoding_key_def decoding_key_def encoding_key_for_family decoding_key_for_family
        config_algorithms assms(4) rsa_pem_config_def keys default_config_def)
qed

lemma ec_roundtrip:
  assumes "constructors_documented L" "test_clock utc now" "family alg = Ec"
    and "pem_pair L now ek_from_ec_pem dk_from_ec_pem private_pem public_pem {to_lib_algorithm alg}"
  shows "assert_roundtrip L (ec_config alg private_pem public_pem) alg utc = Some ()"
proof -
  obtain ek dk where keys: "ek_from_ec_pem L (as_bytes private_pem) = Ok ek"
    "dk_from_ec_pem L (as_bytes public_pem) = Ok dk" "signs_for L now (to_lib_algorithm alg) ek dk"
    using assms(4) unfolding pem_pair_def by blast
  show ?thesis
    by (rule issuer_roundtrip [OF assms(1,2) issuer_configs(3) config_algorithms(3) _ _ keys(3)])
      (simp_all add: encoding_key_def decoding_key_def encoding_key_for_family decoding_key_for_family
        config_algorithms assms(3) key_configs keys default_config_def)
qed

lemma ed_tests_pass:
  assumes "constructors_documented L" "test_clock utc now" "key_material_documented L now K"
  shows "roundtrip_eddsa_pem L K utc = Some ()" and "roundtrip_eddsa_der L utc = Some ()"
proof -
  note keys_defs = encoding_key_def decoding_key_def encoding_key_for_family decoding_key_for_family default_config_def
  obtain ek dk where pem: "ek_from_ed_pem L (as_bytes (ED25519_PEM K)) = Ok ek"
    "dk_from_ed_pem L (as_bytes (ED25519_PUBLIC_PEM K)) = Ok dk" "signs_for L now (to_lib_algorithm EdDSA) ek dk"
    using assms(3) unfolding key_material_documented_def pem_pair_def by auto
  have "issuer_config (with_issuer (with_public_key p (from_ed_pem q)))"
    "issuer_config (with_issuer (with_der_public_key d (from_ed_der r)))" for p q d r
    by (simp_all add: issuer_configs)
  note cfg = this
  show "roundtrip_eddsa_pem L K utc = Some ()"
    unfolding roundtrip_eddsa_pem_def
    by (rule issuer_roundtrip [OF assms(1,2) cfg(1) _ _ _ pem(3)])
      (simp_all add: pem keys_defs with_issuer_def with_public_key_def from_ed_pem_def)
  obtain sk der where raw: "hex_to_bytes ED25519_DER_HEX = Some sk" "hex_to_bytes ED25519_PUBLIC_RAW_HEX = Some der"
    "signs_for L now (to_lib_algorithm EdDSA) (ek_from_ed_der L sk) (dk_from_ed_der L der)"
    using assms(3) unfolding key_material_documented_def by auto
  have "assert_roundtrip L (with_issuer (with_der_public_key der (from_ed_der sk))) EdDSA utc = Some ()"
    by (rule issuer_roundtrip [OF assms(1,2) cfg(2) _ _ _ raw(3)])
      (simp_all add: keys_defs with_issuer_def with_der_public_key_def from_ed_der_def)
  then show "roundtrip_eddsa_der L utc = Some ()"
    by (simp add: roundtrip_eddsa_der_def raw(1,2) with_issuer_def with_der_public_key_def)
qed

lemma der_test_passes:
  assumes "constructors_documented L" "\<And>n. test_clock (utc n) now" "key_material_documented L now K"
  shows "roundtrip_with_der_public_keys L K utc = Some ()"
proof -
  note keys_defs = encoding_key_def decoding_key_def encoding_key_for_family decoding_key_for_family default_config_def
  obtain ek der where rsa: "ek_from_rsa_pem L (as_bytes (RSA_2048_PEM K)) = Ok ek"
    "hex_to_bytes RSA_PUBLIC_PKCS1_DER_HEX = Some der" "signs_for L now (to_lib_algorithm RS256) ek (dk_from_rsa_der L der)"
    using assms(3) unfolding key_material_documented_def by auto
  have 1: "assert_roundtrip L (default_config\<lparr>algorithm := RS256, secret := RSA_2048_PEM K,
      der_public_key := Some der, issuer := Some ''issuer''\<rparr>) RS256 (utc 0) = Some ()"
    by (rule issuer_roundtrip [OF assms(1,2) issuer_configs(9) _ _ _ rsa(3)]) (simp_all add: keys_defs rsa)
  obtain ek' der' where ec: "ek_from_ec_pem L (as_bytes (EC_P256_PEM K)) = Ok ek'"
    "hex_to_bytes EC_P256_PUBLIC_SEC1_HEX = Some der'" "signs_for L now (to_lib_algorithm ES256) ek' (dk_from_ec_der L der')"
    using assms(3) unfolding key_material_documented_def by auto
  have cfg: "issuer_config (with_issuer (with_der_public_key der' (from_ec_pem ES256 (EC_P256_PEM K))))"
    by (simp add: issuer_configs)
  have 2: "assert_roundtrip L (with_issuer (with_der_public_key der' (from_ec_pem ES256 (EC_P256_PEM K)))) ES256 (utc 1)
      = Some ()"
    by (rule issuer_roundtrip [OF assms(1,2) cfg _ _ _ ec(3)])
      (simp_all add: keys_defs ec(1) with_issuer_def with_der_public_key_def from_ec_pem_def)
  show ?thesis by (simp add: roundtrip_with_der_public_keys_def rsa(2) ec(2) 1 2 del: One_nat_def)
qed

lemma decode_without_key_fails:
  assumes "\<And>k. \<exists>e. lib_decode L tok k (build_validation L cfg) = Err e"
    and "lib_decode_header L tok = Ok h" "h_kid h = None" "rotation_keys cfg = []"
  shows "\<not> is_ok (decode (typed ser de L) cfg tok)"
proof (cases "decoding_key_for L (algorithm cfg) (public_key cfg) (der_public_key cfg) (secret cfg)")
  case (Inl e)
  then show ?thesis by (simp add: decode_def decode_with_rotation_def decoding_keys_def typed_keys)
next
  case (Inr key)
  moreover obtain e where "lib_decode L tok key (build_validation L cfg) = Err e" using assms(1) by blast
  ultimately show ?thesis
    using assms(2-4) by (simp add: decode_def decode_with_rotation_def decoding_keys_def typed_keys typed_build_validation)
qed

text \<open>A token of another algorithm: whatever its signature says, its header is not on the list.\<close>

lemma cross_algorithm_test_passes:
  assumes "constructors_documented L" "key_material_documented L now K" "header_checked L"
  shows "cross_algorithm_within_ec_family_rejected L K utc = Some ()"
proof -
  let ?signer = "ec_config ES384 (EC_P384_PEM K) (EC_P384_PUBLIC_PEM K)"
  let ?verifier = "ec_config ES256 (EC_P256_PEM K) (EC_P256_PUBLIC_PEM K)"
  let ?h = "\<lparr>h_alg = LibES384, h_kid = None\<rparr>"
  obtain ek dk where ek: "ek_from_ec_pem L (as_bytes (EC_P384_PEM K)) = Ok ek" "signs_for L now LibES384 ek dk"
    using assms(2) unfolding key_material_documented_def pem_pair_def by auto
  have "h_alg ?h = LibES384" by simp
  then obtain tok where tok: "lib_encode L ?h (serialize_numeric (issuer_claims utc)) ek = Ok tok"
    "lib_decode_header L tok = Ok ?h"
    using ek(2) unfolding signs_for_def by blast
  have "encode (numeric_lib L) ?signer (issuer_claims utc) = Ok tok"
    by (simp add: encode_def encoding_key_def typed_keys encoding_key_for_family key_configs default_config_def ek(1)
        header_for [OF assms(1)] tok(1))
  moreover have "v_algorithms (build_validation L ?verifier) = [LibES256]"
    by (simp add: build_validation_fields [OF assms(1)] config_algorithms)
  then have "\<not> is_ok (lib_decode L tok k (build_validation L ?verifier))" for k
    using assms(3) tok(2) by (fastforce simp: header_checked_def is_ok_iff)
  then have "\<exists>e. lib_decode L tok k (build_validation L ?verifier) = Err e" for k
    by (cases "lib_decode L tok k (build_validation L ?verifier)") (auto simp: is_ok_iff)
  from decode_without_key_fails [OF this tok(2)]
  have "\<not> is_ok (decode (numeric_lib L) ?verifier tok)" by (simp add: key_configs default_config_def)
  ultimately show ?thesis by (simp add: cross_algorithm_within_ec_family_rejected_def)
qed

lemma not_ok_iff: "\<not> is_ok r \<longleftrightarrow> (\<exists>e. r = Err e)"
  by (cases r) simp_all

lemma no_pem_text: "\<not> pem_text (as_bytes ''definitely-not-a-pem'')"
  by code_simp

lemma bad_material_test_passes:
  assumes "pem_documented L"
  shows "bad_key_material_fails_cleanly L utc = Some ()"
proof -
  obtain e1 e2 e3 where "ek_from_ec_pem L (as_bytes ''definitely-not-a-pem'') = Err e1"
    "ek_from_ed_pem L (as_bytes ''definitely-not-a-pem'') = Err e2"
    "dk_from_rsa_pem L (as_bytes ''definitely-not-a-pem'') = Err e3"
    using assms no_pem_text not_ok_iff unfolding pem_documented_def by metis
  then show ?thesis
    by (simp add: bad_key_material_fails_cleanly_def encode_def encoding_key_def typed_keys encoding_key_for_family
        decode_def decode_with_rotation_def decoding_keys_def decoding_key_for_family default_config_def Let_def)
qed

lemma sint_later:
  assumes "utc + 3600 < 2 ^ 63"
  shows "sint (word_of_nat utc + 3600 :: i64) = int utc + 3600"
proof -
  have "(word_of_nat utc + 3600 :: i64) = word_of_int (int utc + 3600)" by simp
  moreover have "sint (word_of_int (int utc + 3600) :: i64) = int utc + 3600"
    unfolding sint_sbintrunc' using assms by (simp add: signed_take_bit_int_eq_self)
  ultimately show ?thesis by simp
qed

lemma signed_roundtrip:
  "deserialize_signed (serialize_signed c) = Some c"
proof -
  have "- (2 ^ 63) \<le> sint (n :: i64) \<and> sint n < 2 ^ 63" for n
    using sint_ge [of n] sint_lt [of n] by simp
  then have "de_i64 (Some (json_option (\<lambda>n. JInt (sint n)) m)) = Some m" for m
    by (cases m) (simp_all add: json_option_def)
  then show ?thesis
    by (cases c) (simp add: deserialize_signed_def serialize_signed_def numeric_fields_def)
qed

lemma working_key_test_passes:
  assumes "hmac_documented L now" "test_clock utc now" "utc + 3600 < 2 ^ 63"
  shows "decode_roundtrip_proves_working_key L utc = Some ()"
proof -
  let ?cfg = "default_config\<lparr>algorithm := HS256, secret := ''test-secret-key-for-mutant-killing'',
         issuer := Some ''test-issuer''\<rparr>"
  let ?c = "\<lparr>sc_sub = Some ''user-42'', sc_exp = Some (word_of_nat utc + 3600),
         sc_iss = Some ''test-issuer'', sc_aud = None\<rparr>"
  have cfg: "secret_config ?cfg" by (simp add: secret_config_def default_config_def)
  obtain tok where tok: "encode (typed serialize_signed deserialize_signed L) ?cfg ?c = Ok tok"
    "lib_encode L \<lparr>h_alg = LibHS256, h_kid = None\<rparr> (serialize_signed ?c) (ek_from_secret L (as_bytes (secret ?cfg))) = Ok tok"
    using secret_encode [OF assms(1) cfg, of serialize_signed deserialize_signed ?c] by auto
  have plain: "plain_payload (serialize_signed ?c)"
    using sint_later [OF assms(3)] assms(3)
    by (simp add: plain_payload_def serialize_signed_def json_option_def)
  have "surely_meets_policy ?cfg now (json_facts LibHS256 (serialize_signed ?c))"
    using assms(2) sint_later [OF assms(3)]
    by (simp add: surely_meets_policy_def meets_policy_def json_facts_def serialize_signed_def json_members_def
        json_option_def json_time_def json_texts_def test_clock_def default_config_def default_required_claims_def
        DEFAULT_REQUIRED_CLAIMS_def nat_add_distrib)
  from secret_decode_Ok [where de = deserialize_signed and c = ?c, OF assms(1) _ _ tok(2) plain this signed_roundtrip]
  have "decode (typed serialize_signed deserialize_signed L) ?cfg tok = Ok ?c"
    using cfg by (simp add: secret_config_def)
  with tok(1) show ?thesis by (simp add: decode_roundtrip_proves_working_key_def)
qed

section \<open>The tests pass\<close>

text \<open>
  C40. The integration tests of the algorithms pass: what a service encodes with any of the twelve
  algorithms, with keys as a secret, as PEM or as DER, carries that algorithm in its header and is
  decoded to the same claims, whenever the library loads the key texts as pairs of keys that verify
  what the other signs; a token of one elliptic curve is rejected by a service of the other, and a text
  that is no PEM is an error of both directions, for a library whose loaders refuse such texts.
\<close>

theorem algorithm_tests_pass:
  assumes "hmac_documented L now" "key_material_documented L now K" "header_checked L" "pem_documented L"
    and "\<And>n. test_clock (utc n) now" "utc 0 + 3600 < 2 ^ 63"
  shows "(roundtrip_hs256 L (utc 0) = Some () \<and> roundtrip_hs384 L (utc 0) = Some ()
      \<and> roundtrip_hs512 L (utc 0) = Some ())
    \<and> (roundtrip_rs256 L K (utc 0) = Some () \<and> roundtrip_rs384 L K (utc 0) = Some ()
      \<and> roundtrip_rs512 L K (utc 0) = Some () \<and> roundtrip_ps256 L K (utc 0) = Some ()
      \<and> roundtrip_ps384 L K (utc 0) = Some () \<and> roundtrip_ps512 L K (utc 0) = Some ())
    \<and> (roundtrip_es256 L K (utc 0) = Some () \<and> roundtrip_es384 L K (utc 0) = Some ()
      \<and> roundtrip_eddsa_pem L K (utc 0) = Some () \<and> roundtrip_eddsa_der L (utc 0) = Some ()
      \<and> roundtrip_with_der_public_keys L K utc = Some ())
    \<and> cross_algorithm_within_ec_family_rejected L K (utc 0) = Some ()
    \<and> bad_key_material_fails_cleanly L utc = Some ()
    \<and> decode_roundtrip_proves_working_key L (utc 0) = Some ()"
proof -
  note lib = hmac_documentedD(1) [OF assms(1)]
  have pairs: "pem_pair L now ek_from_ec_pem dk_from_ec_pem (EC_P256_PEM K) (EC_P256_PUBLIC_PEM K) {to_lib_algorithm ES256}"
    "pem_pair L now ek_from_ec_pem dk_from_ec_pem (EC_P384_PEM K) (EC_P384_PUBLIC_PEM K) {to_lib_algorithm ES384}"
    using assms(2) by (simp_all add: key_material_documented_def)
  note ec = ec_roundtrip [OF lib assms(5) _ pairs(1)] ec_roundtrip [OF lib assms(5) _ pairs(2)]
  show ?thesis
    by (simp add: roundtrip_hs256_def roundtrip_hs384_def roundtrip_hs512_def hmac_roundtrip [OF assms(1,5)]
        roundtrip_rs256_def roundtrip_rs384_def roundtrip_rs512_def roundtrip_ps256_def roundtrip_ps384_def
        roundtrip_ps512_def rsa_roundtrip [OF lib assms(5,2)] roundtrip_es256_def roundtrip_es384_def ec
        ed_tests_pass [OF lib assms(5,2)] der_test_passes [OF lib assms(5,2)]
        cross_algorithm_test_passes [OF lib assms(2,3)] bad_material_test_passes [OF assms(4)]
        working_key_test_passes [OF assms(1,5,6)])
qed

text \<open>
  The library of the other tests, whose keys are bytes, with loaders that take what has the opening line
  of a PEM document; the PEM texts of a pair are equal, and the keys in DER are those of the texts.
\<close>

definition load_pem :: "bytes \<Rightarrow> string + bytes" where
  "load_pem b = (if pem_text b then Ok b else Err ''bad PEM'')"

definition sample_pem :: "string \<Rightarrow> string" where
  "sample_pem s = ''-----BEGIN '' @ s"

definition pem_lib :: "nat \<Rightarrow> (bytes, bytes, json) jwt_lib" where
  "pem_lib now =
     (hmac_lib now)\<lparr>ek_from_rsa_pem := load_pem, ek_from_ec_pem := load_pem, ek_from_ed_pem := load_pem,
       dk_from_rsa_pem := load_pem, dk_from_ec_pem := load_pem, dk_from_ed_pem := load_pem,
       dk_from_rsa_der := (\<lambda>_. as_bytes (sample_pem ''rsa'')), dk_from_ec_der := (\<lambda>_. as_bytes (sample_pem ''p256'')),
       ek_from_ed_der := (\<lambda>_. as_bytes (sample_pem ''ed'')), dk_from_ed_der := (\<lambda>_. as_bytes (sample_pem ''ed''))\<rparr>"

definition sample_pems :: key_pems where
  "sample_pems = \<lparr>RSA_2048_PEM = sample_pem ''rsa'', EC_P256_PEM = sample_pem ''p256'',
     EC_P384_PEM = sample_pem ''p384'', ED25519_PEM = sample_pem ''ed'',
     RSA_2048_PUBLIC_PEM = sample_pem ''rsa'', EC_P256_PUBLIC_PEM = sample_pem ''p256'',
     EC_P384_PUBLIC_PEM = sample_pem ''p384'', ED25519_PUBLIC_PEM = sample_pem ''ed''\<rparr>"

lemma load_sample_pem: "load_pem (as_bytes (sample_pem s)) = Ok (as_bytes (sample_pem s))"
  by (simp add: load_pem_def pem_text_def sample_pem_def as_bytes_def sublist_def del: append.simps)
    (metis append_Nil)

lemma pem_lib_hmac: "hmac_documented (pem_lib now) now"
  using hmac_lib_documented [of now] unfolding hmac_documented_def constructors_documented_def
  by (simp add: pem_lib_def)

lemma pem_lib_signs: "signs_for (pem_lib now) now a k k"
  by (simp add: signs_for_def pem_lib_def hmac_lib_def)

lemma pem_lib_checks: "header_checked (pem_lib now)"
  by (auto simp: header_checked_def pem_lib_def hmac_lib_def surely_passes_def passes_def json_facts_def Let_def
      split: prod.splits if_splits)

lemma pem_lib_loaders: "pem_documented (pem_lib now)"
  by (simp add: pem_documented_def pem_lib_def load_pem_def)

lemma pem_lib_material: "key_material_documented (pem_lib now) now sample_pems"
proof -
  obtain a b c d where "hex_to_bytes ED25519_DER_HEX = Some a" "hex_to_bytes RSA_PUBLIC_PKCS1_DER_HEX = Some b"
    "hex_to_bytes EC_P256_PUBLIC_SEC1_HEX = Some c" "hex_to_bytes ED25519_PUBLIC_RAW_HEX = Some d"
    using hex_texts_parse by blast
  moreover have "dk_from_rsa_der (pem_lib now) x = as_bytes (sample_pem ''rsa'')"
    "dk_from_ec_der (pem_lib now) x = as_bytes (sample_pem ''p256'')"
    "ek_from_ed_der (pem_lib now) x = as_bytes (sample_pem ''ed'')"
    "dk_from_ed_der (pem_lib now) x = as_bytes (sample_pem ''ed'')" for x
    by (simp_all add: pem_lib_def)
  moreover have "ek_from_rsa_pem (pem_lib now) = load_pem" "ek_from_ec_pem (pem_lib now) = load_pem"
    "ek_from_ed_pem (pem_lib now) = load_pem" "dk_from_rsa_pem (pem_lib now) = load_pem"
    "dk_from_ec_pem (pem_lib now) = load_pem" "dk_from_ed_pem (pem_lib now) = load_pem"
    by (simp_all add: pem_lib_def)
  ultimately show ?thesis
    by (simp add: key_material_documented_def pem_pair_def sample_pems_def load_sample_pem pem_lib_signs)
qed

theorem algorithm_tests_pass_witness:
  "roundtrip_ps384 (pem_lib 5001) sample_pems 5000 = Some ()
   \<and> roundtrip_with_der_public_keys (pem_lib 5001) sample_pems (\<lambda>_. 5000) = Some ()
   \<and> cross_algorithm_within_ec_family_rejected (pem_lib 5001) sample_pems 5000 = Some ()
   \<and> bad_key_material_fails_cleanly (pem_lib 5001) (\<lambda>_. 5000) = Some ()"
proof -
  have "test_clock 5000 5001" by (simp add: test_clock_def)
  then show ?thesis
    using algorithm_tests_pass [OF pem_lib_hmac [of 5001] pem_lib_material pem_lib_checks pem_lib_loaders,
        where utc = "\<lambda>_. 5000"] by simp
qed

end
