(* ===== verification/Spec2Isabelle.thy ===== *)
theory Spec2Isabelle
  imports Service_Properties Rotation_Properties Store_Properties Concurrent_Revocation
    Decode_Standard Token_Lifecycle Store_Termination Redis_Store Redis_Concurrent
    Jwks_Properties Jwks_Well_Formed Jwks_Concurrent Jwks_Termination
    Jwks_Withdrawal Revocation_Lifetime Refresh_Tokens Debug_Text
    Extractors Fuzz_Targets Revocation_Tests Claims_Tests Jwks_Tests Validation_Tests
    Jwks_Herd Config_Matrix_Tests Jwks_Http_Tests Algorithm_Tests
begin

text \<open>
  A verification development for the Rust crate tokenkit, which mints, verifies, rotates and
  revokes JSON Web Tokens on top of the crates jsonwebtoken, chrono, uuid, redis and reqwest.

  The program and its parts.

  src/service.rs holds the configuration (JwtConfig, RotationKey, JwtAlgorithm) and JwtService,
  which encodes claims into a signed token and decodes a token after checking it against a
  validation built from the configuration; with the feature rotation it verifies under the
  configured key that the kid header of a token names, or under any of them when the header has
  none. src/claims.rs is the claims type StandardClaims with its serialization. src/revocation.rs
  is the trait TokenRevocationStore with an in-memory and a Redis store; JwtService::decode_standard
  asks the attached store whether the jti of a token is revoked. src/jwks.rs is a cache of a remote
  JSON Web Key Set with a single-flight, rate-limited refresh. src/extractors.rs reads a bearer
  token from a header and writes a cookie. src/error.rs is the error type. fuzz/fuzz_targets holds four
  fuzz targets that feed arbitrary bytes to these parts; src/lib.rs, src/revocation.rs and
  src/jwks.rs end with unit tests, and tests holds integration tests.

  How the model corresponds to the code.

  Types: a Rust string is its list of UTF-8 bytes, u64 and i64 are 64-bit words, a vector is a list,
  a HashMap is a list of entries with distinct keys of which only lookups, insertions, removals,
  filters and the length are used. Result is a sum, Ok and Err being its injections, and the
  operators on it are those of Token_Prelude. Clock readings, fresh identifiers and the answers of
  the outside world are arguments, in the order in which the source asks for them. Code outside the
  repository is a record of functions that every definition using it takes as an argument
  (jwt_lib, chrono_lib, redis_lib, jwks_lib); what the theorems rely on is a named predicate about
  such a record (constructors_documented, decode_enforces, encode_decodes, standard_payload,
  other_names_ignored, hmac_documented, token_shape_documented, pem_documented, redis_documented),
  and each theorem with one has a witness that instantiates the record. Functions of the Rust
  standard library that the source calls (str::trim, from_utf8_lossy, the Debug output of strings)
  are definitions of the theories that need them.

  Theories, in the order of their imports:

  Token_Prelude: shared types, operators on results and options, the collection result_iff.
  Jwt_Error, Jwt_Algorithm, Jwt_Config: src/error.rs and the configuration part of src/service.rs;
    the contract of a builder method is the locale config_knob, interpreted for each of the seven;
    Debug output is a tree that does not depend on any secret.
  Debug_Text: the text of that tree, by the Debug implementations of the standard library; it is one
    line, and no string it shows can get out of its quotes. The unit tests of Debug output pass.
  Jwt_Library: jsonwebtoken and chrono as parameters, and their documented behaviour: the checks of a
    Validation, of whose required claims only exp, nbf, aud, iss and sub count.
  Jwt_Keys: encoding_key_for, decoding_key_for and the candidate list decoding_keys.
  Jwt_Claims: serialization and deserialization of StandardClaims, the round trip and its exception.
  Jwt_Service: encode, build_validation, decode, decode_with_rotation, the standard encoders.
  Service_Properties: the policy of a configuration is what decode enforces, and the validation built
    from it passes exactly the tokens that meet it; required claims outside the five names are not
    required; which errors occur; what is stamped; a service without issuer rejects its own tokens.
  Rotation_Properties: the key a kid selects, legacy tokens, HMAC tokens that outlive a rotation, the
    refinement of the candidate list to an abstract key ring with one key more in front, keys that
    are lost or cannot be loaded.
  Revocation_Store: the trait as the locale revocation_store with the laws the decoder needs, and
    its extension bounded_revocation_store for a store with a capacity.
  In_Memory_Store: the in-memory store one call after the other, its invariant (distinct keys, all
    of them queued), and the interpretation of both locales on it.
  Store_Properties: for every history of calls the capacity bound and the visibility of revocations;
    for histories without repeated ids the refinement to a bounded queue; what repeated ids do.
  Concurrent_Revocation: the two lock sections of revoke, and len, as steps of N tasks that may be
    dropped in between; the exact bound of the store is max_entries - 1 + N; visibility.
  Decode_Standard: JwtService with its store, decode_standard, and the lemmas that hold for every
    store that keeps the laws of the locale.
  Token_Lifecycle: theorems across the components: minted tokens, failing closed, and the revocation
    that is forgotten after max_entries others.
  Redis_Store: the Redis store with its cached connection and its single retry; every call of the
    two libraries acts on an explicit world, in which the server has a clock and its keys expire; a
    successful revocation is effective, for the lifetime of the store, for every service that shares
    the server.
  Key_Resolver: the locale key_resolver, what JwksCache::decode needs of resolve_key; Jwks_Cache
    interprets it.
  Jwks_Cache, Jwks_Properties: the cache for one caller at a time: key map, refresh, resolution,
    pinning of the algorithm, rate limit, static key sets.
  Jwks_Concurrent: resolve_key of N tasks around the mutex as a step relation, with forced refreshes,
    a clock, and tasks dropped at any point; single flight, spacing of fetches, progress, the failure
    that waiters do not share, and the refinement that an undisturbed task does what the sequential
    resolve_key does.
  Extractors: trim as stripping of the encodings of the white space characters, extract_bearer_token
    and build_auth_cookie.
  Task_Calls: the locale task_calls for step relations in which a task only moves forward through
    its phases: a run of N calls is bounded. Interpreted for the JWKS cache and the Redis store.
  Store_Termination: the eviction loop with the loop combinator; it returns from every state.
  Redis_Concurrent: revoke and is_revoked of N tasks around the read-write lock of the cached
    connection, in the world of a server that other clients use; one connection attempt at a time,
    revocations that are effective in every interleaving until their lifetime is over, the refinement
    to the sequential store, the bound on the steps, and the connections that resets throw away.
  Jwks_Termination: every run of N lookups is bounded and no reachable state is a deadlock.
  Jwks_Herd: the rate limit in numbers, for endpoints that answer: n fetches take n - 1 minimum
    intervals, and concurrent misses share one fetch (the test with concurrent tasks of
    tests/jwks_hardening.rs, over all interleavings).
  Jwks_Withdrawal: a key that the issuer has withdrawn is not served for longer than the lifetime of
    the cache, in any interleaving.
  Revocation_Lifetime: a token from minting to revocation; the monotonic clock of the store against
    the wall clock of the tokens; which lifetime of the store makes a revocation final, and what a
    shorter one does.
  Refresh_Tokens: refresh tokens are access tokens with another lifetime.
  Jwks_Well_Formed: what the fields of a cache promise each other, for all caches the API can build.
  Utf8, Json_Fields: the strict and the lenient decoder of UTF-8, and derived serialization of plain
    fields, which the fuzz targets and tests use.
  Fuzz_Records, Fuzz_Targets: split_records with its two loops and every index and slice of them, its
    length and its round trip, and the four targets as functions of the input; no index is out of
    range, how each target ends, and what the configuration they build can be.
  Test_Assertions, Revocation_Tests, Hmac_Library, Service_Tests, Claims_Tests, Jwks_Tests: the unit
    tests as computations that end normally or panic. Hmac_Library is what is documented of
    jsonwebtoken with HMAC keys for tokens of plain payloads (objects without repeated members or
    fractions, whose registered claims have their form), and a library that keeps it; the theorems say
    for which libraries, clocks and generated strings the tests pass, and which of them would also
    pass if what they are named for were broken.

  Rotation_Tests, Validation_Tests: the integration tests of tests/rotation.rs and
    tests/validation.rs over the same library; the theorem is that they pass.

  Config_Matrix_Tests, Jwks_Http_Tests: the integration tests of tests/config_matrix.rs,
    tests/jwks_hardening.rs and tests/revocation_redis.rs that run one task, against a Redis server
    that cannot be reached and HTTP servers that answer with their document.
  Algorithm_Tests: tests/algorithms.rs and tests/mutant_kills.rs. What the PEM texts of the key pairs
    mean is a hypothesis about jsonwebtoken, as is that a text without the line that opens a PEM
    document is refused; the keys in hexadecimal DER are parsed by the model.

  Bounds and termination. The loops of the source run over lists and are structural recursions, but
  for the two of split_records, which count up to a bound; the
  eviction loop runs over the queue, where it stops when the queue is empty as the source does, and
  the invariant shows that it stops because there is room; Store_Termination has it as a loop that
  might not return, and proves that it does. trim and the UTF-8 decoders terminate because every
  step shortens the bytes. A call of the JWKS cache takes at most 5 steps and one of the Redis
  store at most 10, whatever the other tasks do. No fuel is used.

  What is not modelled. The synchronization primitives themselves (a lock section is one step, and
  futures are dropped only between steps); allocation failure; which characters beyond ASCII Debug
  prints as they are (a table of Unicode and a parameter of Debug_Text);
  printing and parsing of JSON text and of key sets
  (values are serialized to and from a JSON value type, and the tests take a printer and a parser
  as parameters); panics inside the libraries, whose functions are total here; the generators of the property tests (their strings are arguments);
  cryptography and the token format, which are those of jsonwebtoken. All tests are
  modelled; the servers that they start, and what the PEM texts of their keys mean, are parameters.
  The benchmarks and the build files are not modelled.
\<close>

end
